(* ===== verification/Prelude.thy ===== *)
theory Prelude
  imports Main
begin

text \<open>
  Shared vocabulary of the development.

  A Rust \<open>str\<close> is the list of its UTF-8 bytes, so a \<^typ>\<open>string\<close> here is a byte string:
  \<open>length\<close> is Rust's \<open>len\<close>, and the Unicode-aware methods of the standard library
  (\<open>trim\<close>, \<open>char::is_whitespace\<close>, \<open>char::is_control\<close>) work on the byte sequences of the
  characters they look for.  A \<open>Result\<close> is a sum, \<open>Inl\<close> for \<open>Err\<close> and \<open>Inr\<close> for \<open>Ok\<close>.
\<close>

named_theorems text_simps "characteristic equations of the byte-string functions"

section \<open>Results\<close>

type_synonym ('e, 'a) result = "'e + 'a"

definition bind_result :: "('e, 'a) result \<Rightarrow> ('a \<Rightarrow> ('e, 'b) result) \<Rightarrow> ('e, 'b) result" where
  "bind_result r f = (case r of Inl e \<Rightarrow> Inl e | Inr x \<Rightarrow> f x)"

definition ok_or :: "'e \<Rightarrow> 'a option \<Rightarrow> ('e, 'a) result" where
  "ok_or e x = (case x of None \<Rightarrow> Inl e | Some y \<Rightarrow> Inr y)"

definition ok_of :: "('e, 'a) result \<Rightarrow> 'a option" where
  "ok_of r = (case r of Inl e \<Rightarrow> None | Inr x \<Rightarrow> Some x)"

definition is_ok :: "('e, 'a) result \<Rightarrow> bool" where
  "is_ok r = (case r of Inl e \<Rightarrow> False | Inr x \<Rightarrow> True)"

lemma bind_result_simps [simp]:
  "bind_result (Inl e) f = Inl e"
  "bind_result (Inr x) f = f x"
  by (simp_all add: bind_result_def)

lemma bind_result_Inr_iff:
  "bind_result r f = Inr y \<longleftrightarrow> (\<exists>x. r = Inr x \<and> f x = Inr y)"
  by (cases r) auto

lemma is_ok_simps [simp]: "is_ok (Inl e) = False" "is_ok (Inr x) = True"
  by (simp_all add: is_ok_def)

lemma ok_of_simps [simp]: "ok_of (Inl e) = None" "ok_of (Inr x) = Some x"
  by (simp_all add: ok_of_def)

lemma ok_or_simps [simp]: "ok_or e None = Inl e" "ok_or e (Some x) = Inr x"
  by (simp_all add: ok_or_def)

lemma ok_or_Inr_iff: "ok_or e x = Inr y \<longleftrightarrow> x = Some y"
  by (cases x) auto

section \<open>Bytes\<close>

abbreviation code :: "char \<Rightarrow> nat" where
  "code c \<equiv> of_char c"

definition is_ascii_digit :: "char \<Rightarrow> bool" where
  "is_ascii_digit c \<longleftrightarrow> 48 \<le> code c \<and> code c \<le> 57"

definition is_ascii_upper :: "char \<Rightarrow> bool" where
  "is_ascii_upper c \<longleftrightarrow> 65 \<le> code c \<and> code c \<le> 90"

definition is_ascii_lower :: "char \<Rightarrow> bool" where
  "is_ascii_lower c \<longleftrightarrow> 97 \<le> code c \<and> code c \<le> 122"

definition is_ascii_alphanumeric :: "char \<Rightarrow> bool" where
  "is_ascii_alphanumeric c \<longleftrightarrow> is_ascii_digit c \<or> is_ascii_upper c \<or> is_ascii_lower c"

definition is_ascii_hexdigit :: "char \<Rightarrow> bool" where
  "is_ascii_hexdigit c \<longleftrightarrow> is_ascii_digit c \<or> (65 \<le> code c \<and> code c \<le> 70) \<or>
     (97 \<le> code c \<and> code c \<le> 102)"

definition is_ascii_graphic :: "char \<Rightarrow> bool" where
  "is_ascii_graphic c \<longleftrightarrow> 33 \<le> code c \<and> code c \<le> 126"

definition ascii_lower :: "char \<Rightarrow> char" where
  "ascii_lower c = (if is_ascii_upper c then char_of (code c + 32) else c)"

definition ascii_upper :: "char \<Rightarrow> char" where
  "ascii_upper c = (if is_ascii_lower c then char_of (code c - 32) else c)"

definition to_ascii_lowercase :: "string \<Rightarrow> string" where
  "to_ascii_lowercase s = map ascii_lower s"

definition to_ascii_uppercase :: "string \<Rightarrow> string" where
  "to_ascii_uppercase s = map ascii_upper s"

definition eq_ignore_ascii_case :: "string \<Rightarrow> string \<Rightarrow> bool" where
  "eq_ignore_ascii_case a b \<longleftrightarrow> to_ascii_lowercase a = to_ascii_lowercase b"

lemma code_less [simp]: "code c < 256"
  using of_char_of [of "code c"] by (metis char_of_char mod_less_divisor of_char_of zero_less_numeral)

lemma code_inject: "code c = code d \<longleftrightarrow> c = d"
  by simp

lemma code_ascii_lower:
  "code (ascii_lower c) = (if is_ascii_upper c then code c + 32 else code c)"
  by (simp add: ascii_lower_def is_ascii_upper_def)

lemma code_ascii_upper:
  "code (ascii_upper c) = (if is_ascii_lower c then code c - 32 else code c)"
  by (auto simp: ascii_upper_def is_ascii_lower_def)

lemma ascii_lower_idem [simp]: "ascii_lower (ascii_lower c) = ascii_lower c"
  by (auto simp: code_inject [symmetric] code_ascii_lower is_ascii_upper_def simp del: of_char_eq_iff)

lemma to_ascii_lowercase_idem [simp]:
  "to_ascii_lowercase (to_ascii_lowercase s) = to_ascii_lowercase s"
  by (simp add: to_ascii_lowercase_def)

lemma to_ascii_lowercase_append [simp]:
  "to_ascii_lowercase (a @ b) = to_ascii_lowercase a @ to_ascii_lowercase b"
  by (simp add: to_ascii_lowercase_def)

lemma length_to_ascii_lowercase [simp]: "length (to_ascii_lowercase s) = length s"
  by (simp add: to_ascii_lowercase_def)

lemma eq_ignore_ascii_case_refl [simp]: "eq_ignore_ascii_case a a"
  by (simp add: eq_ignore_ascii_case_def)

lemma eq_ignore_ascii_case_sym: "eq_ignore_ascii_case a b \<longleftrightarrow> eq_ignore_ascii_case b a"
  by (auto simp: eq_ignore_ascii_case_def)

section \<open>Prefixes, suffixes, searching\<close>

definition starts_with :: "'a list \<Rightarrow> 'a list \<Rightarrow> bool" where
  "starts_with s p \<longleftrightarrow> take (length p) s = p"

definition ends_with :: "'a list \<Rightarrow> 'a list \<Rightarrow> bool" where
  "ends_with s p \<longleftrightarrow> starts_with (rev s) (rev p)"

definition strip_prefix :: "'a list \<Rightarrow> 'a list \<Rightarrow> 'a list option" where
  "strip_prefix p s = (if starts_with s p then Some (drop (length p) s) else None)"

definition strip_suffix :: "'a list \<Rightarrow> 'a list \<Rightarrow> 'a list option" where
  "strip_suffix p s = (if ends_with s p then Some (take (length s - length p) s) else None)"

fun contains_text :: "'a list \<Rightarrow> 'a list \<Rightarrow> bool" where
  "contains_text [] p = starts_with [] p"
| "contains_text (c # s) p = (starts_with (c # s) p \<or> contains_text s p)"

lemma starts_with_iff: "starts_with s p \<longleftrightarrow> (\<exists>r. s = p @ r)"
  by (metis append_take_drop_id append_eq_conv_conj starts_with_def)

lemma starts_with_append [simp]: "starts_with (p @ r) p"
  by (simp add: starts_with_def)

lemma starts_with_refl [simp]: "starts_with s s"
  by (simp add: starts_with_def)

lemma starts_with_Nil [simp]: "starts_with s []"
  by (simp add: starts_with_def)

lemma starts_with_trans: "starts_with a b \<Longrightarrow> starts_with b c \<Longrightarrow> starts_with a c"
  by (auto simp: starts_with_iff)

lemma ends_with_iff: "ends_with s p \<longleftrightarrow> (\<exists>r. s = r @ p)"
  by (metis ends_with_def rev_append rev_rev_ident starts_with_iff)

lemma strip_prefix_Some_iff: "strip_prefix p s = Some r \<longleftrightarrow> s = p @ r"
  by (auto simp: strip_prefix_def starts_with_iff)

lemma strip_prefix_append [simp]: "strip_prefix p (p @ r) = Some r"
  by (simp add: strip_prefix_Some_iff)

lemma strip_suffix_Some_iff: "strip_suffix p s = Some r \<longleftrightarrow> s = r @ p"
  by (auto simp: strip_suffix_def ends_with_iff)

lemma strip_suffix_append [simp]: "strip_suffix p (r @ p) = Some r"
  by (simp add: strip_suffix_Some_iff)

lemma contains_text_iff: "contains_text s p \<longleftrightarrow> (\<exists>a b. s = a @ p @ b)"
proof (induction s)
  case Nil
  then show ?case by (auto simp: starts_with_def)
next
  case (Cons c s)
  show ?case
  proof
    assume "contains_text (c # s) p"
    then consider "starts_with (c # s) p" | "contains_text s p" by auto
    then show "\<exists>a b. c # s = a @ p @ b"
    proof cases
      case 1
      then show ?thesis by (metis append_Nil starts_with_iff)
    next
      case 2
      then show ?thesis using Cons.IH by (metis append_Cons)
    qed
  next
    assume "\<exists>a b. c # s = a @ p @ b"
    then obtain a b where ab: "c # s = a @ p @ b" by blast
    show "contains_text (c # s) p"
    proof (cases a)
      case Nil
      then show ?thesis using ab by (metis append_Nil contains_text.simps(2) starts_with_append)
    next
      case (Cons d a')
      then show ?thesis using ab Cons.IH by auto
    qed
  qed
qed
section \<open>Trimming\<close>

text \<open>
  The characters with the Unicode \<open>White_Space\<close> property, as UTF-8 byte sequences.
\<close>

definition whitespace_units :: "string list" where
  "whitespace_units =
     [[CHR 0x09], [CHR 0x0A], [CHR 0x0B], [CHR 0x0C], [CHR 0x0D], [CHR 0x20],
      [CHR 0xC2, CHR 0x85], [CHR 0xC2, CHR 0xA0],
      [CHR 0xE1, CHR 0x9A, CHR 0x80],
      [CHR 0xE2, CHR 0x80, CHR 0x80], [CHR 0xE2, CHR 0x80, CHR 0x81],
      [CHR 0xE2, CHR 0x80, CHR 0x82], [CHR 0xE2, CHR 0x80, CHR 0x83],
      [CHR 0xE2, CHR 0x80, CHR 0x84], [CHR 0xE2, CHR 0x80, CHR 0x85],
      [CHR 0xE2, CHR 0x80, CHR 0x86], [CHR 0xE2, CHR 0x80, CHR 0x87],
      [CHR 0xE2, CHR 0x80, CHR 0x88], [CHR 0xE2, CHR 0x80, CHR 0x89],
      [CHR 0xE2, CHR 0x80, CHR 0x8A], [CHR 0xE2, CHR 0x80, CHR 0xA8],
      [CHR 0xE2, CHR 0x80, CHR 0xA9], [CHR 0xE2, CHR 0x80, CHR 0xAF],
      [CHR 0xE2, CHR 0x81, CHR 0x9F], [CHR 0xE3, CHR 0x80, CHR 0x80]]"

text \<open>Remove units of \<open>us\<close> from the front as long as one matches.\<close>

function strip_units :: "'a list list \<Rightarrow> 'a list \<Rightarrow> 'a list" where
  "strip_units us s =
     (case find (\<lambda>u. u \<noteq> [] \<and> starts_with s u) us of
        None \<Rightarrow> s
      | Some u \<Rightarrow> strip_units us (drop (length u) s))"
  by pat_completeness auto
termination
proof (relation "measure (\<lambda>(us, s). length s)", simp)
  fix us and s u :: "'a list"
  assume "find (\<lambda>u. u \<noteq> [] \<and> starts_with s u) us = Some u"
  then have "u \<noteq> []" and "starts_with s u"
    by (auto simp: find_Some_iff)
  then have "0 < length u" and "length u \<le> length s"
    by (auto simp: starts_with_iff)
  then have "length s - length u < length s" by linarith
  then show "((us, drop (length u) s), (us, s)) \<in> measure (\<lambda>(us, s). length s)"
    by simp
qed

declare strip_units.simps [simp del]

definition trim_start :: "string \<Rightarrow> string" where
  "trim_start s = strip_units whitespace_units s"

definition trim_end :: "string \<Rightarrow> string" where
  "trim_end s = rev (strip_units (map rev whitespace_units) (rev s))"

definition trim :: "string \<Rightarrow> string" where
  "trim s = trim_end (trim_start s)"

definition has_whitespace :: "string \<Rightarrow> bool" where
  "has_whitespace s \<longleftrightarrow> (\<exists>u \<in> set whitespace_units. contains_text s u)"

text \<open>\<open>char::is_control\<close>: the general category Cc, U+0000 to U+001F and U+007F to U+009F.\<close>

fun has_control :: "string \<Rightarrow> bool" where
  "has_control [] = False"
| "has_control (c # s) =
     (code c < 32 \<or> code c = 127 \<or>
      (code c = 194 \<and> s \<noteq> [] \<and> 128 \<le> code (hd s) \<and> code (hd s) \<le> 159) \<or> has_control s)"

lemma strip_units_suffix: "\<exists>p. s = p @ strip_units us s"
proof (induction us s rule: strip_units.induct)
  case (1 us s)
  show ?case
  proof (cases "find (\<lambda>u. u \<noteq> [] \<and> starts_with s u) us")
    case None
    then show ?thesis by (simp add: strip_units.simps)
  next
    case (Some u)
    obtain p where p: "drop (length u) s = p @ strip_units us (drop (length u) s)"
      using "1.IH" [OF Some] by blast
    have "s = take (length u) s @ drop (length u) s" by simp
    then have "s = (take (length u) s @ p) @ strip_units us (drop (length u) s)"
      using p by (metis append.assoc)
    moreover have "strip_units us s = strip_units us (drop (length u) s)"
      using Some by (subst strip_units.simps) simp
    ultimately show ?thesis by metis
  qed
qed

lemma strip_units_no_unit:
  "u \<in> set us \<Longrightarrow> u \<noteq> [] \<Longrightarrow> \<not> starts_with (strip_units us s) u"
proof (induction us s rule: strip_units.induct)
  case (1 us s)
  show ?case
  proof (cases "find (\<lambda>u. u \<noteq> [] \<and> starts_with s u) us")
    case None
    then have "strip_units us s = s" by (simp add: strip_units.simps)
    moreover have "\<not> (u \<noteq> [] \<and> starts_with s u)"
      using None "1.prems"(1) by (simp add: find_None_iff)
    ultimately show ?thesis using "1.prems"(2) by simp
  next
    case (Some v)
    then have "strip_units us s = strip_units us (drop (length v) s)"
      by (subst strip_units.simps) simp
    then show ?thesis using "1.IH" [OF Some "1.prems"] by simp
  qed
qed

lemma strip_units_fixed:
  "(\<And>u. u \<in> set us \<Longrightarrow> u \<noteq> [] \<Longrightarrow> \<not> starts_with s u) \<Longrightarrow> strip_units us s = s"
  by (subst strip_units.simps) (auto simp: find_None_iff [THEN iffD2] split: option.split
      dest!: find_Some_iff [THEN iffD1])

lemma strip_units_idem [simp]: "strip_units us (strip_units us s) = strip_units us s"
  by (rule strip_units_fixed) (rule strip_units_no_unit)

lemma trim_start_suffix: "\<exists>p. s = p @ trim_start s"
  unfolding trim_start_def by (rule strip_units_suffix)

lemma trim_end_prefix: "\<exists>q. s = trim_end s @ q"
proof -
  obtain p where "rev s = p @ strip_units (map rev whitespace_units) (rev s)"
    using strip_units_suffix by blast
  then have "s = rev (strip_units (map rev whitespace_units) (rev s)) @ rev p"
    by (metis rev_append rev_rev_ident)
  then show ?thesis unfolding trim_end_def by blast
qed

lemma trim_start_idem [simp]: "trim_start (trim_start s) = trim_start s"
  by (simp add: trim_start_def)

lemma trim_end_idem [simp]: "trim_end (trim_end s) = trim_end s"
  by (simp add: trim_end_def)

lemma trim_start_trim_end: "trim_start s = s \<Longrightarrow> trim_start (trim_end s) = trim_end s"
proof -
  assume s: "trim_start s = s"
  obtain q where q: "s = trim_end s @ q" using trim_end_prefix by blast
  show ?thesis unfolding trim_start_def
  proof (rule strip_units_fixed)
    fix u assume u: "u \<in> set whitespace_units" "u \<noteq> []"
    have "\<not> starts_with s u"
      using strip_units_no_unit [OF u, of s] s by (simp add: trim_start_def)
    then show "\<not> starts_with (trim_end s) u"
      using q by (metis append.assoc starts_with_iff)
  qed
qed

lemma trim_idem [simp]: "trim (trim s) = trim s"
  by (simp add: trim_def trim_start_trim_end)

lemma trim_Nil [simp]: "trim_start [] = []" "trim_end [] = []" "trim [] = []"
  by (simp_all add: trim_def trim_start_def trim_end_def strip_units_fixed starts_with_def)

section \<open>Splitting and joining\<close>

text \<open>\<open>str::split\<close> with a set of separator bytes: never empty.\<close>

fun split_on :: "('a \<Rightarrow> bool) \<Rightarrow> 'a list \<Rightarrow> 'a list list" where
  "split_on p [] = [[]]"
| "split_on p (c # s) =
     (if p c then [] # split_on p s
      else (case split_on p s of [] \<Rightarrow> [[c]] | x # xs \<Rightarrow> (c # x) # xs))"

fun split_once :: "'a \<Rightarrow> 'a list \<Rightarrow> ('a list \<times> 'a list) option" where
  "split_once d [] = None"
| "split_once d (c # s) =
     (if c = d then Some ([], s) else map_option (\<lambda>(a, b). (c # a, b)) (split_once d s))"

definition rsplit_once :: "'a \<Rightarrow> 'a list \<Rightarrow> ('a list \<times> 'a list) option" where
  "rsplit_once d s = map_option (\<lambda>(a, b). (rev b, rev a)) (split_once d (rev s))"

fun join :: "'a list \<Rightarrow> 'a list list \<Rightarrow> 'a list" where
  "join sep [] = []"
| "join sep [x] = x"
| "join sep (x # y # xs) = x @ sep @ join sep (y # xs)"

lemma split_on_nonempty [simp]: "split_on p s \<noteq> []"
  by (induction s) (auto split: list.splits)

lemma split_on_no_sep: "x \<in> set (split_on p s) \<Longrightarrow> c \<in> set x \<Longrightarrow> \<not> p c"
  by (induction s arbitrary: x) (fastforce split: if_splits list.splits)+

lemma split_on_single: "(\<forall>c \<in> set s. \<not> p c) \<Longrightarrow> split_on p s = [s]"
  by (induction s) auto

lemma join_Cons: "xs \<noteq> [] \<Longrightarrow> join sep (x # xs) = x @ sep @ join sep xs"
  by (cases xs) auto

lemma join_split_on: "join [c] (split_on ((=) c) s) = s"
  by (induction s) (auto simp: join_Cons split: list.splits, metis append_Cons join.simps(2) join_Cons)

lemma split_once_Some_iff: "split_once d s = Some (a, b) \<longleftrightarrow> s = a @ d # b \<and> d \<notin> set a"
proof (induction s arbitrary: a)
  case (Cons c s)
  then show ?case by (cases a) auto
qed simp

lemma split_once_None_iff: "split_once d s = None \<longleftrightarrow> d \<notin> set s"
  by (induction s) auto

lemma rsplit_once_Some_iff: "rsplit_once d s = Some (a, b) \<longleftrightarrow> s = a @ d # b \<and> d \<notin> set b"
proof -
  have "rsplit_once d s = Some (a, b) \<longleftrightarrow> split_once d (rev s) = Some (rev b, rev a)"
    by (auto simp: rsplit_once_def)
  also have "\<dots> \<longleftrightarrow> s = a @ d # b \<and> d \<notin> set b"
    by (simp add: split_once_Some_iff rev_swap)
  finally show ?thesis .
qed

lemma rsplit_once_None_iff: "rsplit_once d s = None \<longleftrightarrow> d \<notin> set s"
  by (simp add: rsplit_once_def split_once_None_iff)

section \<open>Numbers\<close>

definition digit_value :: "char \<Rightarrow> nat option" where
  "digit_value c = (if is_ascii_digit c then Some (code c - 48) else None)"

fun digits_value :: "nat \<Rightarrow> string \<Rightarrow> nat option" where
  "digits_value n [] = Some n"
| "digits_value n (c # s) =
     (case digit_value c of None \<Rightarrow> None | Some d \<Rightarrow> digits_value (10 * n + d) s)"

text \<open>
  \<open>str::parse\<close> at an unsigned type whose largest value is \<open>m\<close>: an optional plus sign, then at
  least one digit; overflow is an error.
\<close>

definition parse_unsigned :: "nat \<Rightarrow> string \<Rightarrow> nat option" where
  "parse_unsigned m s =
     (let ds = (case s of [] \<Rightarrow> [] | c # r \<Rightarrow> if c = CHR ''+'' then r else s)
      in if ds = [] then None
         else (case digits_value 0 ds of None \<Rightarrow> None
               | Some n \<Rightarrow> if n \<le> m then Some n else None))"

lemma parse_unsigned_bound: "parse_unsigned m s = Some n \<Longrightarrow> n \<le> m"
  by (auto simp: parse_unsigned_def Let_def split: if_splits option.splits list.splits)

fun decimal :: "nat \<Rightarrow> string" where
  "decimal n = (if n < 10 then [char_of (48 + n)] else decimal (n div 10) @ [char_of (48 + n mod 10)])"

declare decimal.simps [simp del]

lemma digit_value_char_of: "d < 10 \<Longrightarrow> digit_value (char_of (48 + d)) = Some d"
  by (simp add: digit_value_def is_ascii_digit_def)

lemma digits_value_append:
  "digits_value n (a @ b) = (case digits_value n a of None \<Rightarrow> None | Some m \<Rightarrow> digits_value m b)"
  by (induction a arbitrary: n) (auto split: option.splits)

lemma digits_value_decimal: "digits_value 0 (decimal n) = Some n"
proof (induction n rule: decimal.induct)
  case (1 n)
  show ?case
  proof (cases "n < 10")
    case True
    then show ?thesis by (simp add: decimal.simps [of n] digit_value_char_of)
  next
    case False
    with "1.IH" have "digits_value 0 (decimal (n div 10)) = Some (n div 10)" by simp
    with False show ?thesis
      by (simp add: decimal.simps [of n] digits_value_append digit_value_char_of)
  qed
qed

lemma decimal_digits: "c \<in> set (decimal n) \<Longrightarrow> is_ascii_digit c"
proof (induction n rule: decimal.induct)
  case (1 n)
  then show ?case
    by (cases "n < 10") (auto simp: decimal.simps [of n] is_ascii_digit_def)
qed

lemma decimal_nonempty [simp]: "decimal n \<noteq> []"
  by (subst decimal.simps) simp

lemma parse_unsigned_decimal: "n \<le> m \<Longrightarrow> parse_unsigned m (decimal n) = Some n"
proof -
  assume n: "n \<le> m"
  obtain c r where cr: "decimal n = c # r" by (cases "decimal n") auto
  have "is_ascii_digit c" using decimal_digits [of c n] cr by simp
  then have "c \<noteq> CHR ''+''" by (auto simp: is_ascii_digit_def)
  then show ?thesis using n digits_value_decimal [of n]
    by (auto simp: parse_unsigned_def cr Let_def)
qed

section \<open>Keyed stores\<close>

text \<open>
  The contract several components offer under different names: look up, store and delete a value by
  key.  Clients prove their lemmas here once; each component interprets the locale on its own operations.
\<close>

locale keyed_store =
  fixes lookup :: "'s \<Rightarrow> 'k \<Rightarrow> 'v option"
    and store :: "'k \<Rightarrow> 'v \<Rightarrow> 's \<Rightarrow> 's"
    and delete :: "'k \<Rightarrow> 's \<Rightarrow> 's"
  assumes lookup_store: "lookup (store k v s) = (lookup s)(k \<mapsto> v)"
    and lookup_delete: "lookup (delete k s) = (lookup s)(k := None)"
begin

lemma lookup_store_same [simp]: "lookup (store k v s) k = Some v"
  by (simp add: lookup_store)

lemma lookup_store_other: "j \<noteq> k \<Longrightarrow> lookup (store k v s) j = lookup s j"
  by (simp add: lookup_store)

lemma lookup_delete_same [simp]: "lookup (delete k s) k = None"
  by (simp add: lookup_delete)

lemma lookup_delete_other: "j \<noteq> k \<Longrightarrow> lookup (delete k s) j = lookup s j"
  by (simp add: lookup_delete)

lemma lookup_replace: "lookup (store k v (store k u s)) = lookup (store k v s)"
  by (simp add: lookup_store)

lemma lookup_undo: "lookup s k = None \<Longrightarrow> lookup (delete k (store k v s)) = lookup s"
  by (auto simp: lookup_store lookup_delete)

lemma lookup_restore: "lookup s k = Some v \<Longrightarrow> lookup (store k v (delete k s)) = lookup s"
  by (auto simp: lookup_store lookup_delete)

lemma lookup_fold_delete: "lookup (fold delete ks s) j = (if j \<in> set ks then None else lookup s j)"
  by (induction ks arbitrary: s) (auto simp: lookup_delete)

end

section \<open>UTF-8\<close>

text \<open>\<open>String::from_utf8\<close> accepts exactly the well-formed sequences: no overlong forms, no surrogates, nothing
  above U+10FFFF.\<close>

definition continuation :: "nat \<Rightarrow> bool" where
  "continuation b \<longleftrightarrow> 128 \<le> b \<and> b < 192"

fun utf8_bytes :: "nat list \<Rightarrow> bool" where
  "utf8_bytes [] = True"
| "utf8_bytes (a # bs) =
     (if a < 128 then utf8_bytes bs
      else case bs of [] \<Rightarrow> False
      | b # cs \<Rightarrow>
         if 194 \<le> a \<and> a < 224 then continuation b \<and> utf8_bytes cs
         else case cs of [] \<Rightarrow> False
         | c # ds \<Rightarrow>
            if 224 \<le> a \<and> a < 240 then
              continuation b \<and> (a = 224 \<longrightarrow> 160 \<le> b) \<and> (a = 237 \<longrightarrow> b < 160) \<and> continuation c \<and> utf8_bytes ds
            else case ds of [] \<Rightarrow> False
            | d # es \<Rightarrow>
               240 \<le> a \<and> a < 245 \<and> continuation b \<and> (a = 240 \<longrightarrow> 144 \<le> b) \<and> (a = 244 \<longrightarrow> b < 144) \<and>
               continuation c \<and> continuation d \<and> utf8_bytes es)"

definition valid_utf8 :: "string \<Rightarrow> bool" where
  "valid_utf8 s = utf8_bytes (map of_char s)"

lemma ascii_utf8: "list_all (\<lambda>c. (of_char c :: nat) < 128) s \<Longrightarrow> valid_utf8 s"
  by (induction s) (simp_all add: valid_utf8_def)

end
