(* ===== verification/Core_Model.thy ===== *)
theory Core_Model
  imports Prelude
begin

text \<open>
  The data model of \<open>tools/saiai-core\<close>: products, statuses and reports of \<open>model.rs\<close>, the error
  type of \<open>error.rs\<close>.  Types that carry the configuration are declared with it.

  A \<open>PathBuf\<close> of the running program is an absolute normalised path and modelled by the list of its
  component names; \<open>raw_path\<close> is what \<open>Path::components\<close> yields before normalisation.
\<close>

section \<open>Products\<close>

datatype product = Claude | Codex

definition all_products :: "product list" where
  "all_products = [Claude, Codex]"

fun directory_name :: "product \<Rightarrow> string" where
  "directory_name Claude = ''claude''"
| "directory_name Codex = ''codex''"

lemma set_all_products [simp]: "set all_products = UNIV"
proof -
  have "p \<in> set all_products" for p by (cases p) (simp_all add: all_products_def)
  then show ?thesis by auto
qed

lemma directory_name_inject [simp]: "directory_name p = directory_name q \<longleftrightarrow> p = q"
  by (cases p; cases q) simp_all

section \<open>Paths\<close>

type_synonym path = "string list"

datatype component = RootDir | CurDir | ParentDir | Normal string

type_synonym raw_path = "component list"

definition raw_of :: "path \<Rightarrow> raw_path" where
  "raw_of p = RootDir # map Normal p"

definition parent :: "path \<Rightarrow> path option" where
  "parent p = (if p = [] then None else Some (butlast p))"

definition file_name :: "path \<Rightarrow> string option" where
  "file_name p = (if p = [] then None else Some (last p))"

definition show_path :: "path \<Rightarrow> string" where
  "show_path p = ''/'' @ join ''/'' p"

lemma parent_snoc [simp]: "parent (p @ [n]) = Some p"
  by (simp add: parent_def)

lemma file_name_snoc [simp]: "file_name (p @ [n]) = Some n"
  by (simp add: file_name_def)

lemma parent_Some_iff: "parent p = Some d \<longleftrightarrow> (\<exists>n. p = d @ [n])"
  by (auto simp: parent_def) (metis append_butlast_last_id)

section \<open>Errors\<close>

datatype io_kind =
    NotFound | AlreadyExists | InvalidData | PermissionDenied | WouldBlock
  | NotADirectory | IsADirectory | DirectoryNotEmpty | OtherKind

datatype io_error = IoError (io_kind: io_kind) (io_message: string)

datatype error =
    PathDiscovery string
  | InvalidAppPath string raw_path string
  | InvalidGatewayUrl string
  | InvalidCredentialRef string
  | InvalidCredential string
  | InvalidConfig string
  | ProductNotConfigured product
  | SharedGatewayMismatch product product
  | ProductBusy product
  | InstallationBusy
  | InvalidArtifact string string
  | BootstrapClient
  | BootstrapTransport
  | BootstrapHttp nat string
  | BootstrapResponseTooLarge
  | InvalidBootstrapResponse string
  | IncompatibleGateway string
  | Io string path io_error

fun is_not_found :: "error \<Rightarrow> bool" where
  "is_not_found (Io _ _ source) = (io_kind source = NotFound)"
| "is_not_found _ = False"

section \<open>Setup states and issues\<close>

datatype setup_state = Uninitialized | SetupReady | SetupBroken

datatype product_setup_state = Unconfigured | ProductReady | ProductBroken

datatype setup_issue_code =
    ConfigMissing | ConfigInvalid | CredentialMissing | CredentialInvalid
  | GenerationMissing | UnsafeManagedPath | ProductInvalid

record setup_issue =
  issue_code :: setup_issue_code
  issue_message :: string

record product_setup_status =
  status_product :: product
  status_state :: product_setup_state
  status_home :: "path option"
  credential_present :: bool
  status_issues :: "setup_issue list"

section \<open>Permission audit report\<close>

datatype private_permission_issue_code =
    InspectFailed | SymbolicLink | UnexpectedObjectType | InsecurePermissions

record private_permission_issue =
  perm_code :: private_permission_issue_code
  perm_path :: path
  perm_message :: string

record private_permissions_audit =
  supported :: bool
  checked_paths :: nat
  perm_issues :: "private_permission_issue list"

definition is_secure :: "private_permissions_audit \<Rightarrow> bool" where
  "is_secure a \<longleftrightarrow> supported a \<and> perm_issues a = []"

datatype revoke_target = RevokeProduct product | RevokeAll

end
