(* ===== verification/References.thy ===== *)
theory References
  imports Core_Model
begin

text \<open>
  Path-safe references: \<open>GenerationRef\<close> (\<open>config.rs\<close>), \<open>CredentialRef\<close> and \<open>SecretString\<close>
  (\<open>credentials.rs\<close>), the portability check of \<open>fsutil.rs\<close>, and the recognisers of generated
  names of \<open>setup.rs\<close>.  The lemmas show that a reference is always one harmless path component and
  that generated names are accepted and attributed to exactly one product.
\<close>

section \<open>Portable components\<close>

definition reserved_device_names :: "string list" where
  "reserved_device_names =
     [''CON'', ''PRN'', ''AUX'', ''NUL'', ''CLOCK$'',
      ''COM1'', ''COM2'', ''COM3'', ''COM4'', ''COM5'', ''COM6'', ''COM7'', ''COM8'', ''COM9'',
      ''LPT1'', ''LPT2'', ''LPT3'', ''LPT4'', ''LPT5'', ''LPT6'', ''LPT7'', ''LPT8'', ''LPT9'']"

definition is_portable_reference_component :: "string \<Rightarrow> bool" where
  "is_portable_reference_component value \<longleftrightarrow>
     (if ends_with value ''.'' \<or> ends_with value '' '' then False
      else to_ascii_uppercase (hd (split_on ((=) CHR ''.'') value)) \<notin> set reserved_device_names)"

definition reference_char :: "char \<Rightarrow> bool" where
  "reference_char c \<longleftrightarrow> is_ascii_alphanumeric c \<or> c \<in> {CHR ''-'', CHR ''_'', CHR ''.''}"

section \<open>The two reference types\<close>

datatype generation_ref = GenerationRef (generation_str: string)

datatype credential_ref = CredentialRef (credential_str: string)

definition generation_ref_new :: "string \<Rightarrow> (error, generation_ref) result" where
  "generation_ref_new value =
     (let valid_length = value \<noteq> [] \<and> length value \<le> 64;
          valid_start = (case value of [] \<Rightarrow> False | c # _ \<Rightarrow> is_ascii_alphanumeric c);
          valid_rest = list_all reference_char (drop 1 value)
      in if \<not> valid_length \<or> \<not> valid_start \<or> \<not> valid_rest
            \<or> value \<in> {''.'', ''..''}
            \<or> \<not> is_portable_reference_component value
         then Inl (InvalidConfig ''generation must use 1-64 portable path-safe ASCII characters'')
         else Inr (GenerationRef value))"

definition credential_ref_new :: "string \<Rightarrow> (error, credential_ref) result" where
  "credential_ref_new value =
     (let valid_length = value \<noteq> [] \<and> length value \<le> 64;
          valid_start = (case value of [] \<Rightarrow> False | c # _ \<Rightarrow> is_ascii_alphanumeric c);
          valid_rest = list_all reference_char (drop 1 value)
      in if \<not> valid_length \<or> \<not> valid_start \<or> \<not> valid_rest
            \<or> \<not> is_portable_reference_component value
         then Inl (InvalidCredentialRef
           ''use 1-64 portable ASCII letters, digits, dots, dashes, or underscores, starting with a letter or digit'')
         else Inr (CredentialRef value))"

text \<open>
  What both constructors promise, without reference to how they check it: one non-empty component,
  no separator of any platform, not a dot name, no trailing dot, no device name before the first dot.
\<close>

definition safe_component :: "string \<Rightarrow> bool" where
  "safe_component v \<longleftrightarrow>
     v \<noteq> [] \<and> length v \<le> 64 \<and> v \<noteq> ''.'' \<and> v \<noteq> ''..'' \<and> last v \<noteq> CHR ''.'' \<and>
     (\<forall>c \<in> set v. reference_char c) \<and> is_ascii_alphanumeric (hd v) \<and>
     (\<forall>b r. v = b @ r \<and> CHR ''.'' \<notin> set b \<and> (r = [] \<or> hd r = CHR ''.'') \<longrightarrow>
        to_ascii_uppercase b \<notin> set reserved_device_names)"

lemma reference_char_not_separator:
  "reference_char c \<Longrightarrow> c \<noteq> CHR ''/'' \<and> c \<noteq> CHR 0x5C \<and> c \<noteq> CHR '':'' \<and> c \<noteq> CHR '' '' \<and> is_ascii_graphic c"
  by (auto simp: reference_char_def is_ascii_alphanumeric_def is_ascii_digit_def is_ascii_upper_def
      is_ascii_lower_def is_ascii_graphic_def)

lemma hd_split_on_append:
  "d \<notin> set b \<Longrightarrow> r = [] \<or> hd r = d \<Longrightarrow> hd (split_on ((=) d) (b @ r)) = b"
proof (induction b)
  case Nil
  then show ?case by (cases r) auto
next
  case (Cons c b)
  then show ?case by (cases "split_on ((=) d) (b @ r)") auto
qed

lemma hd_split_on_decompose:
  "\<exists>r. s = hd (split_on ((=) d) s) @ r \<and> d \<notin> set (hd (split_on ((=) d) s)) \<and> (r = [] \<or> hd r = d)"
proof (induction s)
  case (Cons c s)
  then show ?case by (cases "split_on ((=) d) s") auto
qed simp

lemma ends_with_single: "ends_with v [c] \<longleftrightarrow> v \<noteq> [] \<and> last v = c"
  by (auto simp: ends_with_iff) (metis append_butlast_last_id)

lemma portable_component_iff:
  "is_portable_reference_component v \<longleftrightarrow>
     \<not> (v \<noteq> [] \<and> last v = CHR ''.'') \<and> \<not> (v \<noteq> [] \<and> last v = CHR '' '') \<and>
     (\<forall>b r. v = b @ r \<and> CHR ''.'' \<notin> set b \<and> (r = [] \<or> hd r = CHR ''.'') \<longrightarrow>
        to_ascii_uppercase b \<notin> set reserved_device_names)"
  (is "_ = (?A \<and> ?B \<and> ?C)")
proof -
  have "?C \<longleftrightarrow> to_ascii_uppercase (hd (split_on ((=) CHR ''.'') v)) \<notin> set reserved_device_names"
    using hd_split_on_append [of "CHR ''.''"] hd_split_on_decompose [of v "CHR ''.''"] by metis
  then show ?thesis
    by (auto simp: is_portable_reference_component_def ends_with_single)
qed

lemma ref_checks_iff_safe:
  "(v \<noteq> [] \<and> length v \<le> 64) \<and> (case v of [] \<Rightarrow> False | c # _ \<Rightarrow> is_ascii_alphanumeric c) \<and>
   list_all reference_char (drop 1 v) \<and> is_portable_reference_component v \<longleftrightarrow> safe_component v"
proof (cases v)
  case Nil
  then show ?thesis by (simp add: safe_component_def)
next
  case (Cons c r)
  have alnum: "is_ascii_alphanumeric c \<Longrightarrow> reference_char c" "is_ascii_alphanumeric c \<Longrightarrow> c \<noteq> CHR ''.''"
    by (auto simp: reference_char_def is_ascii_alphanumeric_def is_ascii_digit_def
        is_ascii_upper_def is_ascii_lower_def)
  have space: "\<forall>c \<in> set v. reference_char c \<Longrightarrow> last v \<noteq> CHR '' ''"
    using Cons reference_char_not_separator last_in_set by blast
  show ?thesis
    unfolding portable_component_iff safe_component_def
    using Cons alnum space by (auto simp: list_all_iff)
qed

lemma generation_ref_new_iff:
  "generation_ref_new v = Inr r \<longleftrightarrow> safe_component v \<and> r = GenerationRef v"
  unfolding ref_checks_iff_safe [symmetric]
  by (auto simp: generation_ref_new_def Let_def is_ascii_alphanumeric_def is_ascii_digit_def
      is_ascii_upper_def is_ascii_lower_def split: if_splits list.splits)

lemma credential_ref_new_iff:
  "credential_ref_new v = Inr r \<longleftrightarrow> safe_component v \<and> r = CredentialRef v"
  unfolding ref_checks_iff_safe [symmetric]
  by (auto simp: credential_ref_new_def Let_def split: if_splits list.splits)

section \<open>Secrets\<close>

datatype secret = SecretString (expose_secret: string)

definition max_secret_bytes :: nat where
  "max_secret_bytes = 16 * 1024"

definition secret_new :: "string \<Rightarrow> (error, secret) result" where
  "secret_new value =
     (if value = [] then Inl (InvalidCredential ''credential is empty'')
      else if length value > max_secret_bytes
        then Inl (InvalidCredential ''credential exceeds the 16384-byte limit'')
      else if trim value \<noteq> value
        then Inl (InvalidCredential ''leading or trailing whitespace is not allowed'')
      else if has_control value
        then Inl (InvalidCredential ''control characters are not allowed'')
      else Inr (SecretString value))"

lemma secret_new_Inr_iff:
  "secret_new v = Inr s \<longleftrightarrow>
     s = SecretString v \<and> v \<noteq> [] \<and> length v \<le> max_secret_bytes \<and> trim v = v \<and> \<not> has_control v"
  by (auto simp: secret_new_def)

section \<open>Generated names\<close>

datatype generated_entry_kind = GenerationDirectory | LeaseFile

definition generated_identifier_suffix :: "string \<Rightarrow> string \<Rightarrow> bool" where
  "generated_identifier_suffix value pre =
     (case strip_prefix pre value of None \<Rightarrow> False
      | Some suffix \<Rightarrow> length suffix = 32 \<and> list_all is_ascii_hexdigit suffix)"

definition generated_credential_reference :: "product \<Rightarrow> string \<Rightarrow> credential_ref option" where
  "generated_credential_reference p filename =
     (case strip_suffix ''.key'' filename of None \<Rightarrow> None
      | Some reference \<Rightarrow>
          if generated_identifier_suffix reference (directory_name p @ ''-'')
          then ok_of (credential_ref_new reference) else None)"

definition generated_generation_reference ::
  "product \<Rightarrow> string \<Rightarrow> generated_entry_kind \<Rightarrow> generation_ref option" where
  "generated_generation_reference p filename kind =
     (case (case kind of GenerationDirectory \<Rightarrow> Some filename
            | LeaseFile \<Rightarrow> strip_suffix ''.lock'' filename) of None \<Rightarrow> None
      | Some reference \<Rightarrow>
          if generated_identifier_suffix reference (''gen-'' @ directory_name p @ ''-'')
          then ok_of (generation_ref_new reference) else None)"

definition generated_revoke_quarantine_name :: "product \<Rightarrow> string \<Rightarrow> bool" where
  "generated_revoke_quarantine_name p filename =
     generated_identifier_suffix filename (''.saiai-revoke-'' @ directory_name p @ ''-'')"

text \<open>The names a transaction generates from the 32 hexadecimal digits of a version 4 UUID.\<close>

definition generation_name :: "product \<Rightarrow> string \<Rightarrow> string" where
  "generation_name p identifier = ''gen-'' @ directory_name p @ ''-'' @ identifier"

definition credential_name :: "product \<Rightarrow> string \<Rightarrow> string" where
  "credential_name p identifier = directory_name p @ ''-'' @ identifier"

definition uuid_simple :: "string \<Rightarrow> bool" where
  "uuid_simple s \<longleftrightarrow> length s = 32 \<and> list_all is_ascii_hexdigit s"

lemma generated_identifier_suffix_iff:
  "generated_identifier_suffix v pre \<longleftrightarrow> (\<exists>s. v = pre @ s \<and> uuid_simple s)"
proof (cases "strip_prefix pre v")
  case None
  then have "v \<noteq> pre @ s" for s by auto
  with None show ?thesis by (simp add: generated_identifier_suffix_def)
next
  case (Some r)
  then have "v = pre @ r" by (simp add: strip_prefix_Some_iff)
  with Some show ?thesis by (simp add: generated_identifier_suffix_def uuid_simple_def)
qed

lemma hexdigit_alphanumeric:
  "is_ascii_hexdigit c \<Longrightarrow> reference_char c \<and> c \<noteq> CHR ''.'' \<and> c \<noteq> CHR ''-''"
  by (auto simp: is_ascii_hexdigit_def reference_char_def is_ascii_alphanumeric_def
      is_ascii_digit_def is_ascii_upper_def is_ascii_lower_def)

lemma uuid_simple_facts:
  assumes "uuid_simple s"
  shows "s \<noteq> []" "\<forall>c \<in> set s. reference_char c" "CHR ''.'' \<notin> set s" "length s = 32" "CHR ''-'' \<notin> set s"
  using assms hexdigit_alphanumeric by (auto simp: uuid_simple_def list_all_iff)

lemma reserved_device_name_length: "n \<in> set reserved_device_names \<Longrightarrow> length n \<le> 6"
  by (auto simp: reserved_device_names_def)

lemma safe_componentI:
  assumes "v \<noteq> []" "length v \<le> 64" "\<forall>c \<in> set v. reference_char c" "is_ascii_alphanumeric (hd v)"
    and "CHR ''.'' \<notin> set v" "6 < length v"
  shows "safe_component v"
proof -
  have dot: "last v \<noteq> CHR ''.''" "v \<noteq> ''.''" "v \<noteq> ''..''"
    using assms(1,5) by (metis last_in_set) (use assms(5) in auto)
  have "to_ascii_uppercase b \<notin> set reserved_device_names"
    if "v = b @ r" "CHR ''.'' \<notin> set b" "r = [] \<or> hd r = CHR ''.''" for b r
  proof -
    have "r = []" using that assms(5) by (cases r) auto
    then have "6 < length (to_ascii_uppercase b)"
      using that(1) assms(6) by (simp add: to_ascii_uppercase_def)
    then show ?thesis using reserved_device_name_length by fastforce
  qed
  then show ?thesis using assms dot by (auto simp: safe_component_def)
qed

lemmas ascii_class_defs =
  reference_char_def is_ascii_alphanumeric_def is_ascii_digit_def is_ascii_upper_def is_ascii_lower_def

lemma safe_generation_name: "uuid_simple s \<Longrightarrow> safe_component (generation_name p s)"
  by (rule safe_componentI; cases p)
    (auto simp: generation_name_def uuid_simple_facts ascii_class_defs
      dest: uuid_simple_facts(2) [THEN bspec])

lemma safe_credential_name: "uuid_simple s \<Longrightarrow> safe_component (credential_name p s)"
  by (rule safe_componentI; cases p)
    (auto simp: credential_name_def uuid_simple_facts ascii_class_defs
      dest: uuid_simple_facts(2) [THEN bspec])

lemma generation_name_inject [simp]: "generation_name p s = generation_name q t \<longleftrightarrow> p = q \<and> s = t"
  by (cases p; cases q) (auto simp: generation_name_def)

lemma credential_name_inject [simp]: "credential_name p s = credential_name q t \<longleftrightarrow> p = q \<and> s = t"
  by (cases p; cases q) (auto simp: credential_name_def)

lemma generation_suffix_iff:
  "generated_identifier_suffix v (''gen-'' @ directory_name p @ ''-'') \<longleftrightarrow>
     (\<exists>s. v = generation_name p s \<and> uuid_simple s)"
  by (auto simp: generated_identifier_suffix_iff generation_name_def)

lemma credential_suffix_iff:
  "generated_identifier_suffix v (directory_name p @ ''-'') \<longleftrightarrow>
     (\<exists>s. v = credential_name p s \<and> uuid_simple s)"
  by (auto simp: generated_identifier_suffix_iff credential_name_def)

lemma ok_of_generation_ref_new: "ok_of (generation_ref_new v) = Some r \<longleftrightarrow> safe_component v \<and> r = GenerationRef v"
  by (cases "generation_ref_new v") (auto simp: generation_ref_new_iff [symmetric])

lemma ok_of_credential_ref_new: "ok_of (credential_ref_new v) = Some r \<longleftrightarrow> safe_component v \<and> r = CredentialRef v"
  by (cases "credential_ref_new v") (auto simp: credential_ref_new_iff [symmetric])

definition entry_suffix :: "generated_entry_kind \<Rightarrow> string" where
  "entry_suffix kind = (case kind of GenerationDirectory \<Rightarrow> [] | LeaseFile \<Rightarrow> ''.lock'')"

lemma strip_suffix_cases:
  "(case strip_suffix x s of None \<Rightarrow> None | Some r \<Rightarrow> f r) = Some y \<longleftrightarrow> (\<exists>r. s = r @ x \<and> f r = Some y)"
  by (auto simp: strip_suffix_Some_iff split: option.splits)

lemma generated_generation_reference_iff:
  "generated_generation_reference p f kind = Some r \<longleftrightarrow>
     (\<exists>s. uuid_simple s \<and> r = GenerationRef (generation_name p s) \<and>
        f = generation_name p s @ entry_suffix kind)"
  by (cases kind)
    (auto simp: generated_generation_reference_def strip_suffix_cases
      generation_suffix_iff [simplified]
      ok_of_generation_ref_new safe_generation_name entry_suffix_def)

lemma generated_credential_reference_iff:
  "generated_credential_reference p f = Some r \<longleftrightarrow>
     (\<exists>s. uuid_simple s \<and> r = CredentialRef (credential_name p s) \<and> f = credential_name p s @ ''.key'')"
  by (auto simp: generated_credential_reference_def strip_suffix_cases
      credential_suffix_iff [simplified]
      ok_of_credential_ref_new safe_credential_name)

section \<open>What the references guarantee\<close>

text \<open>
  A generation or credential reference is accepted exactly when it is a single path component that
  every supported platform takes literally: 1 to 64 characters of the portable set, starting with a
  letter or digit, no dot entry and no trailing dot, and no reserved device name before the first dot.
  The accepted reference is the given text.
\<close>

theorem references_are_portable_names:
  "(generation_ref_new v = Inr g \<longleftrightarrow> safe_component v \<and> generation_str g = v) \<and>
   (credential_ref_new v = Inr c \<longleftrightarrow> safe_component v \<and> credential_str c = v)"
  by (cases g; cases c) (auto simp: generation_ref_new_iff credential_ref_new_iff)

text \<open>
  The names a transaction generates for a product are recognised, as a directory, a lease, a
  credential file or a quarantine, for that product and for no other, whatever the UUID was.
\<close>

theorem generated_names_have_one_owner:
  assumes "uuid_simple s"
  shows "generated_generation_reference q (generation_name p s) GenerationDirectory =
           (if q = p then Some (GenerationRef (generation_name p s)) else None) \<and>
         generated_generation_reference q (generation_name p s @ ''.lock'') LeaseFile =
           (if q = p then Some (GenerationRef (generation_name p s)) else None) \<and>
         generated_credential_reference q (credential_name p s @ ''.key'') =
           (if q = p then Some (CredentialRef (credential_name p s)) else None) \<and>
         generated_revoke_quarantine_name q (''.saiai-revoke-'' @ directory_name p @ ''-'' @ s) = (q = p)"
proof (intro conjI)
  have g: "generated_generation_reference q (generation_name p s @ entry_suffix k) k =
      (if q = p then Some (GenerationRef (generation_name p s)) else None)" for k
  proof (cases "q = p")
    case True
    then show ?thesis using assms generated_generation_reference_iff
        [of p "generation_name p s @ entry_suffix k" k "GenerationRef (generation_name p s)"] by auto
  next
    case False
    then have "generated_generation_reference q (generation_name p s @ entry_suffix k) k \<noteq> Some r" for r
      using generated_generation_reference_iff [of q _ k r] by auto
    with False show ?thesis by (cases "generated_generation_reference q (generation_name p s @ entry_suffix k) k") auto
  qed
  show "generated_generation_reference q (generation_name p s) GenerationDirectory =
      (if q = p then Some (GenerationRef (generation_name p s)) else None)"
    using g [of GenerationDirectory] by (simp add: entry_suffix_def)
  show "generated_generation_reference q (generation_name p s @ ''.lock'') LeaseFile =
      (if q = p then Some (GenerationRef (generation_name p s)) else None)"
    using g [of LeaseFile] by (simp add: entry_suffix_def)
  show "generated_credential_reference q (credential_name p s @ ''.key'') =
      (if q = p then Some (CredentialRef (credential_name p s)) else None)"
  proof (cases "q = p")
    case True
    then show ?thesis using assms generated_credential_reference_iff
        [of p "credential_name p s @ ''.key''" "CredentialRef (credential_name p s)"] by auto
  next
    case False
    then have "generated_credential_reference q (credential_name p s @ ''.key'') \<noteq> Some r" for r
      using generated_credential_reference_iff [of q _ r] by auto
    with False show ?thesis by (cases "generated_credential_reference q (credential_name p s @ ''.key'')") auto
  qed
  show "generated_revoke_quarantine_name q (''.saiai-revoke-'' @ directory_name p @ ''-'' @ s) = (q = p)"
    using assms by (cases p; cases q) (auto simp: generated_revoke_quarantine_name_def generated_identifier_suffix_iff)
qed

theorem generated_names_have_one_owner_witness:
  "generated_credential_reference Claude (''codex-0123456789abcdef0123456789abcdef.key'') = None"
proof -
  have "uuid_simple ''0123456789abcdef0123456789abcdef''" by code_simp
  from generated_names_have_one_owner [OF this, of Claude Codex]
  show ?thesis by (simp add: credential_name_def)
qed

end
