(* ===== verification/Gateway.thy ===== *)
theory Gateway
  imports References
begin

text \<open>
  The gateway base URL of \<open>config.rs\<close>.  The \<open>url\<close> crate is a parameter: \<open>parse_url\<close> is
  \<open>Url::parse\<close> and \<open>set_path\<close> is \<open>Url::set_path\<close>; the record \<open>url\<close> holds the components the code
  reads.  The comparison of URL parts with the API key is translated index by index.
\<close>

section \<open>URLs\<close>

record url =
  url_scheme :: string
  url_username :: string
  url_password :: "string option"
  url_host :: "string option"
  url_port :: "nat option"
  url_path :: string
  url_query :: "string option"
  url_fragment :: "string option"

text \<open>
  What the code relies on of \<open>Url::set_path\<close> (for the http and https URLs it is called on): the path
  is replaced, an empty path being written as a slash, and no other component changes.
\<close>

definition set_path_law :: "(string \<Rightarrow> url \<Rightarrow> url) \<Rightarrow> bool" where
  "set_path_law set_path \<longleftrightarrow>
     (\<forall>p u. set_path p u = u\<lparr>url_path := (if p = [] then ''/'' else p)\<rparr>)"

definition path_segments :: "url \<Rightarrow> string list option" where
  "path_segments u = map_option (split_on ((=) CHR ''/'')) (strip_prefix ''/'' (url_path u))"

definition trim_end_char :: "'a \<Rightarrow> 'a list \<Rightarrow> 'a list" where
  "trim_end_char c s = rev (dropWhile ((=) c) (rev s))"

definition trim_start_char :: "'a \<Rightarrow> 'a list \<Rightarrow> 'a list" where
  "trim_start_char c s = dropWhile ((=) c) s"

lemma trim_end_char_last: "trim_end_char c s \<noteq> [] \<Longrightarrow> last (trim_end_char c s) \<noteq> c"
  using hd_dropWhile [of "(=) c" "rev s"] by (auto simp: trim_end_char_def last_rev)

lemma trim_end_char_prefix: "\<exists>q. s = trim_end_char c s @ q \<and> set q \<subseteq> {c}"
proof -
  have "s = rev (dropWhile ((=) c) (rev s)) @ rev (takeWhile ((=) c) (rev s))"
    by (metis rev_append rev_rev_ident takeWhile_dropWhile_id)
  moreover have "set (rev (takeWhile ((=) c) (rev s))) \<subseteq> {c}"
    by (auto dest: set_takeWhileD)
  ultimately show ?thesis unfolding trim_end_char_def by blast
qed

section \<open>Parsing the gateway URL\<close>

datatype gateway_url = GatewayUrl (gateway_as_url: url)

definition max_gateway_url_bytes :: nat where
  "max_gateway_url_bytes = 4096"

definition gateway_parse ::
  "(string \<Rightarrow> (string, url) result) \<Rightarrow> (string \<Rightarrow> url \<Rightarrow> url) \<Rightarrow> string \<Rightarrow> (error, gateway_url) result" where
  "gateway_parse parse_url set_path input =
     (if input = [] then Inl (InvalidGatewayUrl ''URL is empty'')
      else if length input > max_gateway_url_bytes
        then Inl (InvalidGatewayUrl ''URL exceeds the 4096-byte limit'')
      else if trim input \<noteq> input
        then Inl (InvalidGatewayUrl ''leading or trailing whitespace is not allowed'')
      else if has_whitespace input
        then Inl (InvalidGatewayUrl ''whitespace is not allowed'')
      else case parse_url input of
          Inl e \<Rightarrow> Inl (InvalidGatewayUrl (''could not parse URL: '' @ e))
        | Inr u \<Rightarrow>
           (if url_scheme u \<notin> {''http'', ''https''}
              then Inl (InvalidGatewayUrl ''scheme must be http or https'')
            else if url_host u = None then Inl (InvalidGatewayUrl ''host is required'')
            else if url_username u \<noteq> [] \<or> url_password u \<noteq> None
              then Inl (InvalidGatewayUrl ''embedded credentials are not allowed'')
            else if url_query u \<noteq> None
              then Inl (InvalidGatewayUrl ''query parameters are not allowed'')
            else if url_fragment u \<noteq> None
              then Inl (InvalidGatewayUrl ''fragments are not allowed'')
            else
              let normalized_path =
                    (if url_path u = ''/'' then ''/'' else trim_end_char CHR ''/'' (url_path u))
              in Inr (GatewayUrl (set_path normalized_path u))))"

section \<open>Comparing URL parts with the API key\<close>

definition hex_value :: "char \<Rightarrow> nat option" where
  "hex_value c =
     (if 48 \<le> code c \<and> code c \<le> 57 then Some (code c - 48)
      else if 97 \<le> code c \<and> code c \<le> 102 then Some (code c - 97 + 10)
      else if 65 \<le> code c \<and> code c \<le> 70 then Some (code c - 65 + 10)
      else None)"

definition decode_at :: "string \<Rightarrow> nat \<Rightarrow> char \<times> nat" where
  "decode_at bytes i =
     (if bytes ! i = CHR ''%'' \<and> i + 2 < length bytes then
        (case (hex_value (bytes ! (i + 1)), hex_value (bytes ! (i + 2))) of
           (Some high, Some low) \<Rightarrow> (char_of (16 * high + low), 3)
         | _ \<Rightarrow> (bytes ! i, 1))
      else (bytes ! i, 1))"

lemma decode_at_consumed: "0 < snd (decode_at bytes i)"
  by (simp add: decode_at_def split: option.splits)

function percent_decoded_eq_from :: "string \<Rightarrow> string \<Rightarrow> nat \<Rightarrow> nat \<Rightarrow> bool" where
  "percent_decoded_eq_from bytes expected value_index expected_index =
     (if value_index < length bytes then
        (let (decoded, consumed) = decode_at bytes value_index
         in if (if expected_index < length expected then Some (expected ! expected_index) else None)
               \<noteq> Some decoded then False
            else percent_decoded_eq_from bytes expected (value_index + consumed) (expected_index + 1))
      else expected_index = length expected)"
  by pat_completeness auto
termination
proof (relation "measure (\<lambda>(bytes, _, i, _). length bytes - i)", goal_cases)
  case (2 bytes expected i j x c d)
  then have "0 < d" using decode_at_consumed [of bytes i] by (metis snd_conv)
  with 2 show ?case by auto
qed simp

declare percent_decoded_eq_from.simps [simp del]

definition percent_decoded_eq :: "string \<Rightarrow> string \<Rightarrow> bool" where
  "percent_decoded_eq value expected = percent_decoded_eq_from value expected 0 0"

definition path_value_eq :: "string \<Rightarrow> string \<Rightarrow> bool" where
  "path_value_eq value expected \<longleftrightarrow> value = expected \<or> percent_decoded_eq value expected"

definition reject_credential_url_component :: "gateway_url \<Rightarrow> secret \<Rightarrow> (error, unit) result" where
  "reject_credential_url_component g credential =
     (let u = gateway_as_url g; text = expose_secret credential; path = url_path u;
          matches_host_label =
            (case url_host u of None \<Rightarrow> False
             | Some host \<Rightarrow> list_ex (\<lambda>label. eq_ignore_ascii_case label text) (split_on ((=) CHR ''.'') host));
          matches_segment =
            (case path_segments u of None \<Rightarrow> False
             | Some segments \<Rightarrow> list_ex (\<lambda>segment. path_value_eq segment text) segments);
          matches_whole_path =
            path_value_eq path text \<or>
            path_value_eq (case strip_prefix ''/'' path of None \<Rightarrow> path | Some r \<Rightarrow> r) text
      in if matches_host_label \<or> matches_segment \<or> matches_whole_path
         then Inl (InvalidGatewayUrl ''Gateway URL must not contain the API key as a host label or path segment'')
         else Inr ())"

section \<open>The index loop decodes and compares\<close>

text \<open>The reference: decode first, compare afterwards.\<close>

fun percent_decode_lenient :: "string \<Rightarrow> string" where
  "percent_decode_lenient (c # a # b # s) =
     (if c = CHR ''%'' then
        (case (hex_value a, hex_value b) of
           (Some high, Some low) \<Rightarrow> char_of (16 * high + low) # percent_decode_lenient s
         | _ \<Rightarrow> c # percent_decode_lenient (a # b # s))
      else c # percent_decode_lenient (a # b # s))"
| "percent_decode_lenient [c, a] = [c, a]"
| "percent_decode_lenient [c] = [c]"
| "percent_decode_lenient [] = []"

lemma percent_decode_step:
  assumes "i < length bytes"
  shows "percent_decode_lenient (drop i bytes) =
    fst (decode_at bytes i) # percent_decode_lenient (drop (i + snd (decode_at bytes i)) bytes)"
proof -
  obtain c s where cs: "drop i bytes = c # s"
    using assms by (metis Cons_nth_drop_Suc)
  have c: "bytes ! i = c" using cs assms by (metis hd_drop_conv_nth list.sel(1))
  have s: "s = drop (Suc i) bytes" using cs by (metis drop_Suc list.sel(3) tl_drop)
  show ?thesis
  proof (cases "i + 2 < length bytes")
    case True
    have "s = bytes ! (i + 1) # bytes ! (i + 2) # drop (i + 3) bytes"
      using True s by (simp add: Cons_nth_drop_Suc numeral_eq_Suc)
    then show ?thesis using cs c s True
      by (auto simp: decode_at_def split: option.splits)
  next
    case False
    then have "length s < 2" using s by simp
    then consider "s = []" | a where "s = [a]"
      by (cases s) (auto simp: less_Suc_eq)
    then have "percent_decode_lenient (c # s) = c # percent_decode_lenient s"
      by cases simp_all
    moreover have "decode_at bytes i = (c, 1)" using False c by (simp add: decode_at_def)
    ultimately show ?thesis using cs s by simp
  qed
qed

lemma percent_decoded_eq_from_iff:
  "j \<le> length e \<Longrightarrow>
     percent_decoded_eq_from bytes e i j \<longleftrightarrow> percent_decode_lenient (drop i bytes) = drop j e"
proof (induction bytes e i j rule: percent_decoded_eq_from.induct)
  case (1 bytes e i j)
  show ?case
  proof (cases "i < length bytes")
    case False
    then show ?thesis using "1.prems" by (auto simp: percent_decoded_eq_from.simps [of bytes e i j])
  next
    case True
    obtain d k where dk: "decode_at bytes i = (d, k)" by (cases "decode_at bytes i")
    show ?thesis
    proof (cases "j < length e \<and> e ! j = d")
      case False
      then show ?thesis using True dk "1.prems" percent_decode_step [OF True]
        by (auto simp: percent_decoded_eq_from.simps [of bytes e i j] Cons_nth_drop_Suc [symmetric])
    next
      case J: True
      then have "percent_decoded_eq_from bytes e (i + k) (j + 1) \<longleftrightarrow>
          percent_decode_lenient (drop (i + k) bytes) = drop (j + 1) e"
        using "1.IH" [OF True dk [symmetric]] by simp
      then show ?thesis using J True dk percent_decode_step [OF True]
        by (auto simp: percent_decoded_eq_from.simps [of bytes e i j] Cons_nth_drop_Suc [symmetric])
    qed
  qed
qed

lemma percent_decoded_eq_iff: "percent_decoded_eq v e \<longleftrightarrow> percent_decode_lenient v = e"
  using percent_decoded_eq_from_iff [of 0 e v 0] by (simp add: percent_decoded_eq_def)

section \<open>Properties\<close>

text \<open>
  C24: the index loop that compares a URL part with the API key without allocating accepts exactly
  when the leniently percent-decoded part is the key: malformed escapes stand for themselves, an
  escape cut off by the end of the part too.
\<close>

theorem percent_decoded_eq_correct:
  "percent_decoded_eq value expected = (percent_decode_lenient value = expected)"
  by (rule percent_decoded_eq_iff)



lemma append_same_char: "set xs \<subseteq> {c} \<Longrightarrow> xs @ [c] = [c] @ xs"
  by (induction xs) auto


text \<open>A concrete URL library, for witnesses.\<close>

definition example_set_path :: "string \<Rightarrow> url \<Rightarrow> url" where
  "example_set_path p u = u\<lparr>url_path := (if p = [] then ''/'' else p)\<rparr>"

definition example_url :: "string \<Rightarrow> url" where
  "example_url p = \<lparr>url_scheme = ''https'', url_username = [], url_password = None,
     url_host = Some ''api.example.test'', url_port = None, url_path = p, url_query = None,
     url_fragment = None\<rparr>"

lemma example_set_path_law: "set_path_law example_set_path"
  by (simp add: set_path_law_def example_set_path_def)


end
