(* ===== verification/Configuration.thy ===== *)
theory Configuration
  imports Gateway
begin

text \<open>
  The installation configuration of \<open>config.rs\<close>: \<open>ProductConfig\<close>, \<open>ProductEntries\<close>,
  \<open>ConfigV2\<close>, its validation on deserialisation and the checks of \<open>setup.rs\<close> on a loaded
  configuration.  \<open>serde_json\<close> is a parameter: it maps bytes to the fields of the document, which
  are the records \<open>raw_product\<close> and \<open>raw_config\<close>; unknown fields are its errors.
\<close>

section \<open>Product entries\<close>

record product_config =
  credential_ref :: credential_ref
  active_generation :: generation_ref

record product_entries =
  entry_claude :: "product_config option"
  entry_codex :: "product_config option"

definition no_entries :: product_entries where
  "no_entries = \<lparr>entry_claude = None, entry_codex = None\<rparr>"

fun entries_get :: "product_entries \<Rightarrow> product \<Rightarrow> product_config option" where
  "entries_get e Claude = entry_claude e"
| "entries_get e Codex = entry_codex e"

definition entries_contains :: "product_entries \<Rightarrow> product \<Rightarrow> bool" where
  "entries_contains e p \<longleftrightarrow> entries_get e p \<noteq> None"

definition entries_is_empty :: "product_entries \<Rightarrow> bool" where
  "entries_is_empty e \<longleftrightarrow> entry_claude e = None \<and> entry_codex e = None"

definition configured_products :: "product_entries \<Rightarrow> product list" where
  "configured_products e = filter (entries_contains e) all_products"

fun entries_insert :: "product \<Rightarrow> product_config \<Rightarrow> product_entries \<Rightarrow> product_entries" where
  "entries_insert Claude c e = e\<lparr>entry_claude := Some c\<rparr>"
| "entries_insert Codex c e = e\<lparr>entry_codex := Some c\<rparr>"

text \<open>\<open>remove\<close> takes the entry out and returns it.\<close>

fun entries_remove :: "product \<Rightarrow> product_entries \<Rightarrow> product_config option \<times> product_entries" where
  "entries_remove Claude e = (entry_claude e, e\<lparr>entry_claude := None\<rparr>)"
| "entries_remove Codex e = (entry_codex e, e\<lparr>entry_codex := None\<rparr>)"

interpretation entries: keyed_store entries_get entries_insert "\<lambda>p e. snd (entries_remove p e)"
proof
  fix k v s
  show "entries_get (entries_insert k v s) = (entries_get s)(k \<mapsto> v)"
  proof
    fix q show "entries_get (entries_insert k v s) q = ((entries_get s)(k \<mapsto> v)) q"
      by (cases k; cases q) simp_all
  qed
  show "entries_get (snd (entries_remove k s)) = (entries_get s)(k := None)"
  proof
    fix q show "entries_get (snd (entries_remove k s)) q = ((entries_get s)(k := None)) q"
      by (cases k; cases q) simp_all
  qed
qed

lemma fst_entries_remove [simp]: "fst (entries_remove p e) = entries_get e p"
  by (cases p) simp_all

lemma entries_eqI: "entries_get e = entries_get f \<Longrightarrow> e = f"
  by (metis (full_types) entries_get.simps product_entries.equality old.unit.exhaust)

lemma entries_eta [simp]: "\<lparr>entry_claude = entry_claude e, entry_codex = entry_codex e\<rparr> = e"
  by (rule product_entries.equality) simp_all

lemma entries_is_empty_iff: "entries_is_empty e \<longleftrightarrow> (\<forall>p. entries_get e p = None)"
  by (metis entries_get.simps entries_is_empty_def product.exhaust)

section \<open>The configuration\<close>

definition config_schema_version :: nat where
  "config_schema_version = 2"

record config_v2 =
  schema_version :: nat
  base_url :: gateway_url
  products :: product_entries

definition config_new :: "gateway_url \<Rightarrow> product \<Rightarrow> product_config \<Rightarrow> config_v2" where
  "config_new url p pc =
     \<lparr>schema_version = config_schema_version, base_url = url, products = entries_insert p pc no_entries\<rparr>"

definition config_product :: "config_v2 \<Rightarrow> product \<Rightarrow> product_config option" where
  "config_product c p = entries_get (products c) p"

definition insert_product :: "product \<Rightarrow> product_config \<Rightarrow> config_v2 \<Rightarrow> config_v2" where
  "insert_product p pc c = c\<lparr>products := entries_insert p pc (products c)\<rparr>"

definition replace_base_url :: "gateway_url \<Rightarrow> config_v2 \<Rightarrow> config_v2" where
  "replace_base_url url c = c\<lparr>base_url := url\<rparr>"

definition remove_product :: "product \<Rightarrow> config_v2 \<Rightarrow> product_config option \<times> config_v2" where
  "remove_product p c =
     (let (removed, rest) = entries_remove p (products c) in (removed, c\<lparr>products := rest\<rparr>))"

section \<open>Deserialisation\<close>

record raw_product =
  raw_credential_ref :: string
  raw_active_generation :: string

record raw_config =
  raw_schema_version :: nat
  raw_base_url :: string
  raw_claude :: "raw_product option"
  raw_codex :: "raw_product option"

definition product_config_of_raw :: "raw_product \<Rightarrow> (error, product_config) result" where
  "product_config_of_raw r =
     bind_result (credential_ref_new (raw_credential_ref r)) (\<lambda>cr.
     bind_result (generation_ref_new (raw_active_generation r)) (\<lambda>gr.
     Inr \<lparr>credential_ref = cr, active_generation = gr\<rparr>))"

fun optional_result :: "('a \<Rightarrow> ('e, 'b) result) \<Rightarrow> 'a option \<Rightarrow> ('e, 'b option) result" where
  "optional_result f None = Inr None"
| "optional_result f (Some x) = bind_result (f x) (\<lambda>y. Inr (Some y))"

definition shares_reference :: "(product_config \<Rightarrow> string) \<Rightarrow> product_entries \<Rightarrow> bool" where
  "shares_reference field e =
     (case (entries_get e Claude, entries_get e Codex) of
        (Some claude, Some codex) \<Rightarrow> eq_ignore_ascii_case (field claude) (field codex)
      | _ \<Rightarrow> False)"

abbreviation credential_text :: "product_config \<Rightarrow> string" where
  "credential_text c \<equiv> credential_str (credential_ref c)"

abbreviation generation_text :: "product_config \<Rightarrow> string" where
  "generation_text c \<equiv> generation_str (active_generation c)"

definition config_of_wire :: "nat \<Rightarrow> gateway_url \<Rightarrow> product_entries \<Rightarrow> (error, config_v2) result" where
  "config_of_wire version url e =
     (if version \<noteq> config_schema_version
        then Inl (InvalidConfig ''unsupported schema_version'')
      else if entries_is_empty e
        then Inl (InvalidConfig ''products must contain at least one configured product'')
      else if shares_reference credential_text e
        then Inl (InvalidConfig ''Claude and Codex must not share a credential_ref'')
      else if shares_reference generation_text e
        then Inl (InvalidConfig ''Claude and Codex must not share an active_generation'')
      else Inr \<lparr>schema_version = config_schema_version, base_url = url, products = e\<rparr>)"

definition config_deserialize ::
  "(string \<Rightarrow> (error, gateway_url) result) \<Rightarrow> raw_config \<Rightarrow> (error, config_v2) result" where
  "config_deserialize parse_gateway raw =
     bind_result (parse_gateway (raw_base_url raw)) (\<lambda>url.
     bind_result (optional_result product_config_of_raw (raw_claude raw)) (\<lambda>claude.
     bind_result (optional_result product_config_of_raw (raw_codex raw)) (\<lambda>codex.
     config_of_wire (raw_schema_version raw) url \<lparr>entry_claude = claude, entry_codex = codex\<rparr>)))"

text \<open>
  \<open>parse_config\<close>: every failure of the JSON parser or of a validator becomes \<open>InvalidConfig\<close>; the
  validator's text reaches it through \<open>serde_json\<close>, which is the parameter \<open>error_text\<close>.
\<close>

definition parse_config ::
  "(string \<Rightarrow> (string, raw_config) result) \<Rightarrow> (error \<Rightarrow> string) \<Rightarrow>
   (string \<Rightarrow> (error, gateway_url) result) \<Rightarrow> string \<Rightarrow> (error, config_v2) result" where
  "parse_config decode_json error_text parse_gateway bytes =
     (case decode_json bytes of
        Inl e \<Rightarrow> Inl (InvalidConfig e)
      | Inr raw \<Rightarrow>
          (case config_deserialize parse_gateway raw of
             Inl e \<Rightarrow> Inl (InvalidConfig (error_text e))
           | Inr c \<Rightarrow> Inr c))"

definition raw_of_product :: "product_config \<Rightarrow> raw_product" where
  "raw_of_product c = \<lparr>raw_credential_ref = credential_text c, raw_active_generation = generation_text c\<rparr>"

definition raw_of_config :: "(gateway_url \<Rightarrow> string) \<Rightarrow> config_v2 \<Rightarrow> raw_config" where
  "raw_of_config render c =
     \<lparr>raw_schema_version = schema_version c, raw_base_url = render (base_url c),
      raw_claude = map_option raw_of_product (entries_get (products c) Claude),
      raw_codex = map_option raw_of_product (entries_get (products c) Codex)\<rparr>"

definition serialize_config ::
  "(raw_config \<Rightarrow> string) \<Rightarrow> (gateway_url \<Rightarrow> string) \<Rightarrow> config_v2 \<Rightarrow> string" where
  "serialize_config encode_json render c = encode_json (raw_of_config render c)"

section \<open>Checks on a loaded configuration\<close>

definition configured_product :: "config_v2 \<Rightarrow> product \<Rightarrow> (error, product_config) result" where
  "configured_product c p = ok_or (ProductNotConfigured p) (config_product c p)"

fun shared_base_url_check ::
  "config_v2 \<Rightarrow> product \<Rightarrow> gateway_url \<Rightarrow> product list \<Rightarrow> (error, unit) result" where
  "shared_base_url_check c p url [] = Inr ()"
| "shared_base_url_check c p url (other # rest) =
     (if config_product c other \<noteq> None \<and> base_url c \<noteq> url
      then Inl (SharedGatewayMismatch p other)
      else shared_base_url_check c p url rest)"

definition validate_shared_base_url :: "config_v2 \<Rightarrow> product \<Rightarrow> gateway_url \<Rightarrow> (error, unit) result" where
  "validate_shared_base_url c p url =
     shared_base_url_check c p url (filter (\<lambda>other. other \<noteq> p) all_products)"

section \<open>Well-formedness\<close>

definition wf_product :: "product_config \<Rightarrow> bool" where
  "wf_product c \<longleftrightarrow> safe_component (credential_text c) \<and> safe_component (generation_text c)"

definition wf_config :: "config_v2 \<Rightarrow> bool" where
  "wf_config c \<longleftrightarrow>
     schema_version c = config_schema_version \<and> \<not> entries_is_empty (products c) \<and>
     (\<forall>p pc. config_product c p = Some pc \<longrightarrow> wf_product pc) \<and>
     (\<forall>p q pc qc. config_product c p = Some pc \<and> config_product c q = Some qc \<and> p \<noteq> q \<longrightarrow>
        \<not> eq_ignore_ascii_case (credential_text pc) (credential_text qc) \<and>
        \<not> eq_ignore_ascii_case (generation_text pc) (generation_text qc))"

lemma product_config_of_raw_iff:
  "product_config_of_raw r = Inr c \<longleftrightarrow> r = raw_of_product c \<and> wf_product c"
proof -
  have "product_config_of_raw r = Inr c \<longleftrightarrow>
     safe_component (raw_credential_ref r) \<and> safe_component (raw_active_generation r) \<and>
     c = \<lparr>credential_ref = CredentialRef (raw_credential_ref r),
          active_generation = GenerationRef (raw_active_generation r)\<rparr>"
    by (auto simp: product_config_of_raw_def bind_result_Inr_iff credential_ref_new_iff generation_ref_new_iff)
  then show ?thesis
    by (cases r; cases c) (auto simp: raw_of_product_def wf_product_def)
qed

lemma optional_result_iff:
  "optional_result f x = Inr y \<longleftrightarrow>
     (case x of None \<Rightarrow> y = None | Some a \<Rightarrow> \<exists>b. f a = Inr b \<and> y = Some b)"
  by (cases x) (auto simp: bind_result_Inr_iff)

lemma shares_reference_iff:
  "shares_reference f e \<longleftrightarrow>
     (\<exists>p q pc qc. entries_get e p = Some pc \<and> entries_get e q = Some qc \<and> p \<noteq> q \<and>
        eq_ignore_ascii_case (f pc) (f qc))"
proof
  assume "shares_reference f e"
  then obtain a b where "entries_get e Claude = Some a" "entries_get e Codex = Some b"
      "eq_ignore_ascii_case (f a) (f b)"
    by (auto simp: shares_reference_def split: option.splits)
  then show "\<exists>p q pc qc. entries_get e p = Some pc \<and> entries_get e q = Some qc \<and> p \<noteq> q \<and>
        eq_ignore_ascii_case (f pc) (f qc)" by blast
next
  assume "\<exists>p q pc qc. entries_get e p = Some pc \<and> entries_get e q = Some qc \<and> p \<noteq> q \<and>
        eq_ignore_ascii_case (f pc) (f qc)"
  then obtain p q a b where *: "entries_get e p = Some a" "entries_get e q = Some b" "p \<noteq> q"
      "eq_ignore_ascii_case (f a) (f b)" by blast
  then show "shares_reference f e"
    by (cases p; cases q) (simp_all add: shares_reference_def eq_ignore_ascii_case_sym)
qed

lemma wf_config_alt:
  "wf_config c \<longleftrightarrow>
     schema_version c = config_schema_version \<and> \<not> entries_is_empty (products c) \<and>
     (\<forall>p pc. entries_get (products c) p = Some pc \<longrightarrow> wf_product pc) \<and>
     \<not> shares_reference credential_text (products c) \<and> \<not> shares_reference generation_text (products c)"
  unfolding wf_config_def shares_reference_iff config_product_def by blast

lemma config_of_wire_iff:
  assumes "\<forall>p pc. entries_get e p = Some pc \<longrightarrow> wf_product pc"
  shows "config_of_wire v url e = Inr c \<longleftrightarrow>
     v = config_schema_version \<and> base_url c = url \<and> products c = e \<and> wf_config c"
  using assms by (cases c) (auto simp: config_of_wire_def wf_config_alt)

lemma config_deserialize_iff:
  "config_deserialize parse_gateway raw = Inr c \<longleftrightarrow>
     parse_gateway (raw_base_url raw) = Inr (base_url c) \<and>
     raw = raw_of_config (\<lambda>_. raw_base_url raw) c \<and> wf_config c"
  (is "?L \<longleftrightarrow> ?R")
proof
  assume ?L
  then obtain url claude codex where url: "parse_gateway (raw_base_url raw) = Inr url"
    and cl0: "optional_result product_config_of_raw (raw_claude raw) = Inr claude"
    and co0: "optional_result product_config_of_raw (raw_codex raw) = Inr codex"
    and w0: "config_of_wire (raw_schema_version raw) url
      \<lparr>entry_claude = claude, entry_codex = codex\<rparr> = Inr c"
    by (auto simp: config_deserialize_def bind_result_Inr_iff)
  define e where "e = \<lparr>entry_claude = claude, entry_codex = codex\<rparr>"
  have cl: "optional_result product_config_of_raw (raw_claude raw) = Inr (entries_get e Claude)"
    and co: "optional_result product_config_of_raw (raw_codex raw) = Inr (entries_get e Codex)"
    and w: "config_of_wire (raw_schema_version raw) url e = Inr c"
    using cl0 co0 w0 by (simp_all add: e_def)
  have raws: "raw_claude raw = map_option raw_of_product (entries_get e Claude)"
    "raw_codex raw = map_option raw_of_product (entries_get e Codex)"
    using cl co by (auto simp: optional_result_iff product_config_of_raw_iff split: option.splits)
  have "wf_product pc" if "entries_get e p = Some pc" for p pc
    using that cl co
    by (cases p) (auto simp: optional_result_iff product_config_of_raw_iff split: option.splits)
  with w config_of_wire_iff have "raw_schema_version raw = config_schema_version \<and>
     base_url c = url \<and> products c = e \<and> wf_config c" by blast
  then show ?R using url raws
    by (auto simp: raw_of_config_def wf_config_def intro!: raw_config.equality)
next
  assume R: ?R
  then have eq: "raw = raw_of_config (\<lambda>_. raw_base_url raw) c" by blast
  have wf: "wf_product pc" if "entries_get (products c) p = Some pc" for p pc
    using R that by (auto simp: wf_config_def config_product_def)
  have opt: "optional_result product_config_of_raw (map_option raw_of_product (entries_get (products c) p))
      = Inr (entries_get (products c) p)" for p
    using wf [of p] by (cases "entries_get (products c) p")
      (auto simp: product_config_of_raw_iff [THEN iffD2])
  have "raw_claude raw = map_option raw_of_product (entries_get (products c) Claude)"
    "raw_codex raw = map_option raw_of_product (entries_get (products c) Codex)"
    "raw_schema_version raw = schema_version c"
    by (subst eq, simp add: raw_of_config_def)+
  moreover have "config_of_wire (schema_version c) (base_url c) (products c) = Inr c"
    using R wf by (subst config_of_wire_iff) (auto simp: wf_config_def)
  ultimately show ?L using R opt [of Claude] opt [of Codex]
    by (simp add: config_deserialize_def)
qed

section \<open>Generated configurations\<close>

text \<open>
  A configuration written by this client: well-formed, and every reference of a product was generated
  for that product.
\<close>

definition generated_product :: "product \<Rightarrow> product_config \<Rightarrow> bool" where
  "generated_product p c \<longleftrightarrow>
     (\<exists>s. uuid_simple s \<and> credential_text c = credential_name p s) \<and>
     (\<exists>s. uuid_simple s \<and> generation_text c = generation_name p s)"

definition managed_config :: "config_v2 \<Rightarrow> bool" where
  "managed_config c \<longleftrightarrow>
     schema_version c = config_schema_version \<and> \<not> entries_is_empty (products c) \<and>
     (\<forall>p pc. config_product c p = Some pc \<longrightarrow> generated_product p pc)"

lemma generated_names_distinct:
  "p \<noteq> q \<Longrightarrow> \<not> eq_ignore_ascii_case (credential_name p s) (credential_name q t)"
  "p \<noteq> q \<Longrightarrow> \<not> eq_ignore_ascii_case (generation_name p s) (generation_name q t)"
  by (cases p; cases q; simp add: eq_ignore_ascii_case_def to_ascii_lowercase_def credential_name_def
      generation_name_def ascii_lower_def is_ascii_upper_def)+

lemma generated_product_wf: "generated_product p c \<Longrightarrow> wf_product c"
  by (auto simp: generated_product_def wf_product_def safe_credential_name safe_generation_name)

lemma managed_config_wf:
  assumes "managed_config c"
  shows "wf_config c"
proof -
  have gen: "generated_product p pc" if "config_product c p = Some pc" for p pc
    using assms that by (simp add: managed_config_def)
  have "\<not> eq_ignore_ascii_case (credential_text pc) (credential_text qc) \<and>
      \<not> eq_ignore_ascii_case (generation_text pc) (generation_text qc)"
    if "config_product c p = Some pc" "config_product c q = Some qc" "p \<noteq> q" for p q pc qc
    using gen [OF that(1)] gen [OF that(2)] that(3) generated_names_distinct
    by (auto simp: generated_product_def)
  then show ?thesis
    using assms generated_product_wf [OF gen] by (auto simp: wf_config_def managed_config_def)
qed

definition fresh_product_config :: "product \<Rightarrow> string \<Rightarrow> product_config" where
  "fresh_product_config p identifier =
     \<lparr>credential_ref = CredentialRef (credential_name p identifier),
      active_generation = GenerationRef (generation_name p identifier)\<rparr>"

lemma generated_fresh: "uuid_simple s \<Longrightarrow> generated_product p (fresh_product_config p s)"
  by (auto simp: generated_product_def fresh_product_config_def)

lemma config_product_insert [simp]:
  "config_product (insert_product p pc c) q = (if q = p then Some pc else config_product c q)"
  by (simp add: config_product_def insert_product_def entries.lookup_store)

lemma config_product_new [simp]:
  "config_product (config_new url p pc) q = (if q = p then Some pc else None)"
  by (cases q) (auto simp: config_product_def config_new_def entries.lookup_store no_entries_def)

lemma config_product_replace [simp]: "config_product (replace_base_url url c) q = config_product c q"
  by (simp add: config_product_def replace_base_url_def)

lemma config_product_remove [simp]:
  "config_product (snd (remove_product p c)) q = (if q = p then None else config_product c q)"
  by (simp add: config_product_def remove_product_def entries.lookup_delete split: prod.split)
    (metis entries.lookup_delete_other entries.lookup_delete_same snd_conv)

lemma fst_remove_product [simp]: "fst (remove_product p c) = config_product c p"
  by (cases p) (simp_all add: remove_product_def config_product_def)

lemma products_empty_iff: "entries_is_empty (products c) \<longleftrightarrow> (\<forall>p. config_product c p = None)"
  by (simp add: entries_is_empty_iff config_product_def)

lemma schema_version_ops [simp]:
  "schema_version (insert_product p pc c) = schema_version c"
  "schema_version (replace_base_url url c) = schema_version c"
  "schema_version (snd (remove_product p c)) = schema_version c"
  "schema_version (config_new url p pc) = config_schema_version"
  by (simp_all add: insert_product_def replace_base_url_def remove_product_def config_new_def split: prod.split)

lemma shared_base_url_check_iff:
  "shared_base_url_check c p url qs = Inr () \<longleftrightarrow>
     (\<forall>q \<in> set qs. config_product c q = None) \<or> base_url c = url"
  by (induction qs) auto

lemma validate_shared_base_url_iff:
  "validate_shared_base_url c p url = Inr () \<longleftrightarrow>
     (\<forall>q. q \<noteq> p \<longrightarrow> config_product c q = None) \<or> base_url c = url"
  by (auto simp: validate_shared_base_url_def shared_base_url_check_iff)

section \<open>Properties\<close>

text \<open>
  C21: whatever bytes are accepted as a configuration, the result has schema version 2, at least one
  product, only path-safe references, and no credential or generation shared between the products
  even up to ASCII case.
\<close>

theorem parse_config_wf:
  assumes "parse_config decode_json error_text parse_gateway bytes = Inr c"
  shows "wf_config c"
  using assms by (auto simp: parse_config_def config_deserialize_iff split: sum.splits)


text \<open>
  The configurations this client writes stay well-formed and generated: a first setup creates
  one, setting a product up again with the names of any UUID keeps one whatever the base URL, and
  revoking a product keeps one as long as a product remains.
\<close>

theorem managed_config_preserved:
  assumes "uuid_simple identifier"
  shows "managed_config (config_new url p (fresh_product_config p identifier)) \<and>
    (managed_config c \<longrightarrow>
       managed_config (insert_product p (fresh_product_config p identifier) (replace_base_url url c)) \<and>
       (entries_is_empty (products (snd (remove_product p c))) \<or> managed_config (snd (remove_product p c)))) \<and>
    (managed_config c \<longrightarrow> wf_config c)"
proof -
  have "managed_config c \<longrightarrow> wf_config c" by (simp add: managed_config_wf)
  moreover have "managed_config (config_new url p (fresh_product_config p identifier))"
    using assms by (auto simp: managed_config_def products_empty_iff generated_fresh)
  moreover have "managed_config c \<longrightarrow>
      managed_config (insert_product p (fresh_product_config p identifier) (replace_base_url url c)) \<and>
      (entries_is_empty (products (snd (remove_product p c))) \<or> managed_config (snd (remove_product p c)))"
    using assms by (auto simp: managed_config_def products_empty_iff generated_fresh)
  ultimately show ?thesis by blast
qed


definition example_config :: config_v2 where
  "example_config = config_new (GatewayUrl (example_url ''/gw'')) Codex
     (fresh_product_config Codex (replicate 32 CHR ''a''))"

lemma example_uuid: "uuid_simple (replicate 32 CHR ''a'')"
  by (simp add: uuid_simple_def list_all_iff is_ascii_hexdigit_def is_ascii_digit_def)

lemma example_config_managed: "managed_config example_config"
  by (auto simp: example_config_def managed_config_def products_empty_iff generated_fresh example_uuid)


theorem parse_config_wf_witness:
  "wf_config example_config"
proof -
  have "parse_config (\<lambda>_. Inr (raw_of_config (\<lambda>_. ''https://api.example.test/gw'') example_config)) (\<lambda>_. [])
     (\<lambda>_. Inr (GatewayUrl (example_url ''/gw''))) ''{}'' = Inr example_config"
    by code_simp
  then show ?thesis by (rule parse_config_wf)
qed

theorem managed_config_preserved_witness:
  "managed_config (insert_product Claude (fresh_product_config Claude (replicate 32 CHR ''a''))
     (replace_base_url (GatewayUrl (example_url ''/'')) example_config))"
  using managed_config_preserved [OF example_uuid, of "GatewayUrl (example_url ''/'')" Claude example_config]
    example_config_managed by blast


end
