(* ===== verification/App_Paths.thy ===== *)
theory App_Paths
  imports Configuration
begin

text \<open>
  The application directories of \<open>paths.rs\<close> as built for Unix: discovery from the environment
  (the Linux branch), lexical normalisation, the overlap check, and the paths derived from the three
  roots.  \<open>Path::components\<close> is \<open>components_of\<close>.
\<close>

section \<open>Normalisation\<close>

record app_paths =
  config_dir :: path
  data_dir :: path
  state_dir :: path

definition is_absolute :: "raw_path \<Rightarrow> bool" where
  "is_absolute p = (case p of RootDir # _ \<Rightarrow> True | _ \<Rightarrow> False)"

definition component_of :: "string \<Rightarrow> component list" where
  "component_of s =
     (if s = [] \<or> s = ''.'' then [] else if s = ''..'' then [ParentDir] else [Normal s])"

definition components_of :: "string \<Rightarrow> raw_path" where
  "components_of s =
     (let parts = split_on ((=) CHR ''/'') s
      in (if starts_with s ''/'' then [RootDir] else if hd parts = ''.'' then [CurDir] else [])
         @ List.maps component_of parts)"

fun normalize_components ::
  "string \<Rightarrow> raw_path \<Rightarrow> path \<Rightarrow> bool \<Rightarrow> component list \<Rightarrow> (error, path) result" where
  "normalize_components field original normalized has_application_component [] =
     (if \<not> has_application_component
      then Inl (InvalidAppPath field original ''path must not be a filesystem root'')
      else Inr normalized)"
| "normalize_components field original normalized has (ParentDir # cs) =
     Inl (InvalidAppPath field original ''path must not contain parent-directory components'')"
| "normalize_components field original normalized has (CurDir # cs) =
     normalize_components field original normalized has cs"
| "normalize_components field original normalized has (Normal v # cs) =
     normalize_components field original (normalized @ [v]) True cs"
| "normalize_components field original normalized has (RootDir # cs) =
     normalize_components field original [] has cs"

definition normalize_app_dir :: "string \<Rightarrow> raw_path \<Rightarrow> (error, path) result" where
  "normalize_app_dir field p =
     (if \<not> is_absolute p then Inl (InvalidAppPath field p ''path must be absolute'')
      else normalize_components field p [] False p)"

definition app_dirs_overlap :: "path \<Rightarrow> path \<Rightarrow> bool" where
  "app_dirs_overlap left right \<longleftrightarrow> starts_with left right \<or> starts_with right left"

fun overlap_check :: "(string \<times> path) list \<Rightarrow> (error, unit) result" where
  "overlap_check [] = Inr ()"
| "overlap_check ((field, p) # rest) =
     (if list_ex (\<lambda>(_, other). app_dirs_overlap p other) rest
      then Inl (InvalidAppPath field (raw_of p)
        ''config, data, and state paths must not be equal or nested'')
      else overlap_check rest)"

definition from_app_dirs :: "raw_path \<Rightarrow> raw_path \<Rightarrow> raw_path \<Rightarrow> (error, app_paths) result" where
  "from_app_dirs config data state =
     bind_result (normalize_app_dir ''config_dir'' config) (\<lambda>c.
     bind_result (normalize_app_dir ''data_dir'' data) (\<lambda>d.
     bind_result (normalize_app_dir ''state_dir'' state) (\<lambda>s.
     bind_result (overlap_check [(''config_dir'', c), (''data_dir'', d), (''state_dir'', s)]) (\<lambda>_.
     Inr \<lparr>config_dir = c, data_dir = d, state_dir = s\<rparr>))))"

section \<open>Discovery\<close>

definition absolute_env_path :: "(string \<Rightarrow> string option) \<Rightarrow> string \<Rightarrow> raw_path option" where
  "absolute_env_path get name =
     (case get name of None \<Rightarrow> None
      | Some v \<Rightarrow> if v = [] then None
          else if is_absolute (components_of v) then Some (components_of v) else None)"

definition discover_with :: "(string \<Rightarrow> string option) \<Rightarrow> (error, app_paths) result" where
  "discover_with get =
     (case absolute_env_path get ''HOME'' of
        None \<Rightarrow> Inl (PathDiscovery ''HOME for SAIAI application directories'')
      | Some home \<Rightarrow>
         (let config_root = (case absolute_env_path get ''XDG_CONFIG_HOME'' of
                None \<Rightarrow> home @ [Normal ''.config''] | Some p \<Rightarrow> p);
              data_root = (case absolute_env_path get ''XDG_DATA_HOME'' of
                None \<Rightarrow> home @ [Normal ''.local'', Normal ''share''] | Some p \<Rightarrow> p);
              state_root = (case absolute_env_path get ''XDG_STATE_HOME'' of
                None \<Rightarrow> home @ [Normal ''.local'', Normal ''state''] | Some p \<Rightarrow> p)
          in from_app_dirs (config_root @ [Normal ''saiai'']) (data_root @ [Normal ''saiai''])
               (state_root @ [Normal ''saiai''])))"

section \<open>Derived paths\<close>

definition config_file :: "app_paths \<Rightarrow> path" where
  "config_file P = config_dir P @ [''config.json'']"

definition credentials_dir :: "app_paths \<Rightarrow> path" where
  "credentials_dir P = data_dir P @ [''credentials'']"

definition generations_dir :: "app_paths \<Rightarrow> path" where
  "generations_dir P = data_dir P @ [''generations'']"

definition generation_dir :: "app_paths \<Rightarrow> generation_ref \<Rightarrow> path" where
  "generation_dir P g = generations_dir P @ [generation_str g]"

definition generation_clients_dir :: "app_paths \<Rightarrow> generation_ref \<Rightarrow> path" where
  "generation_clients_dir P g = generation_dir P g @ [''clients'']"

definition generation_client_home :: "app_paths \<Rightarrow> generation_ref \<Rightarrow> product \<Rightarrow> path" where
  "generation_client_home P g p = generation_clients_dir P g @ [directory_name p]"

definition generation_product_marker :: "app_paths \<Rightarrow> generation_ref \<Rightarrow> product \<Rightarrow> path" where
  "generation_product_marker P g p = generation_client_home P g p @ [''.saiai-managed-v2'']"

definition runtime_dir :: "app_paths \<Rightarrow> path" where
  "runtime_dir P = state_dir P @ [''runtime'']"

definition generation_runtime_dir :: "app_paths \<Rightarrow> generation_ref \<Rightarrow> path" where
  "generation_runtime_dir P g = runtime_dir P @ [generation_str g]"

definition generation_product_runtime_dir :: "app_paths \<Rightarrow> generation_ref \<Rightarrow> product \<Rightarrow> path" where
  "generation_product_runtime_dir P g p = generation_runtime_dir P g @ [directory_name p]"

definition logs_dir :: "app_paths \<Rightarrow> path" where
  "logs_dir P = state_dir P @ [''logs'']"

definition leases_dir :: "app_paths \<Rightarrow> path" where
  "leases_dir P = state_dir P @ [''leases'']"

definition generation_lease_file :: "app_paths \<Rightarrow> generation_ref \<Rightarrow> path" where
  "generation_lease_file P g = leases_dir P @ [generation_str g @ ''.lock'']"

definition generation_logs_dir :: "app_paths \<Rightarrow> generation_ref \<Rightarrow> path" where
  "generation_logs_dir P g = logs_dir P @ [generation_str g]"

definition generation_product_logs_dir :: "app_paths \<Rightarrow> generation_ref \<Rightarrow> product \<Rightarrow> path" where
  "generation_product_logs_dir P g p = generation_logs_dir P g @ [directory_name p]"

definition generation_staging_dir :: "app_paths \<Rightarrow> path" where
  "generation_staging_dir P = generations_dir P @ [''.staging'']"

definition transaction_lock_file :: "app_paths \<Rightarrow> path" where
  "transaction_lock_file P = state_dir P @ [''transaction.lock'']"

lemmas path_defs = config_file_def credentials_dir_def generations_dir_def generation_dir_def
  generation_clients_dir_def generation_client_home_def generation_product_marker_def runtime_dir_def
  generation_runtime_dir_def generation_product_runtime_dir_def logs_dir_def leases_dir_def
  generation_lease_file_def generation_logs_dir_def generation_product_logs_dir_def
  generation_staging_dir_def transaction_lock_file_def

section \<open>Separated roots\<close>

definition wf_paths :: "app_paths \<Rightarrow> bool" where
  "wf_paths P \<longleftrightarrow>
     config_dir P \<noteq> [] \<and> data_dir P \<noteq> [] \<and> state_dir P \<noteq> [] \<and>
     \<not> app_dirs_overlap (config_dir P) (data_dir P) \<and>
     \<not> app_dirs_overlap (config_dir P) (state_dir P) \<and>
     \<not> app_dirs_overlap (data_dir P) (state_dir P)"

lemma app_dirs_overlap_sym: "app_dirs_overlap a b \<longleftrightarrow> app_dirs_overlap b a"
  by (auto simp: app_dirs_overlap_def)

lemma disjoint_subtrees: "\<not> app_dirs_overlap a b \<Longrightarrow> starts_with p a \<Longrightarrow> \<not> starts_with p b"
  unfolding app_dirs_overlap_def starts_with_iff by (metis append_eq_append_conv2)

fun normal_names :: "raw_path \<Rightarrow> path" where
  "normal_names [] = []"
| "normal_names (Normal v # cs) = v # normal_names cs"
| "normal_names (_ # cs) = normal_names cs"

lemma normal_names_append [simp]: "normal_names (a @ b) = normal_names a @ normal_names b"
  by (induction a rule: normal_names.induct) simp_all

lemma normalize_components_iff:
  "RootDir \<notin> set cs \<Longrightarrow> normalize_components field orig n b cs = Inr p \<longleftrightarrow>
     ParentDir \<notin> set cs \<and> p = n @ normal_names cs \<and> (b \<or> normal_names cs \<noteq> [])"
  by (induction field orig n b cs rule: normalize_components.induct) auto

text \<open>
  \<open>Path::components\<close> yields the root only in front.
\<close>

definition root_in_front :: "raw_path \<Rightarrow> bool" where
  "root_in_front p \<longleftrightarrow> RootDir \<notin> set (drop 1 p)"

lemma normalize_app_dir_iff:
  assumes "root_in_front raw"
  shows "normalize_app_dir field raw = Inr p \<longleftrightarrow>
     is_absolute raw \<and> ParentDir \<notin> set raw \<and> p = normal_names raw \<and> p \<noteq> []"
proof (cases "is_absolute raw")
  case True
  then obtain cs where cs: "raw = RootDir # cs"
    by (auto simp: is_absolute_def split: list.splits component.splits)
  with assms have "RootDir \<notin> set cs" by (simp add: root_in_front_def)
  with cs True show ?thesis
    by (auto simp: normalize_app_dir_def normalize_components_iff)
qed (simp add: normalize_app_dir_def)

lemma component_of_no_root: "RootDir \<notin> set (List.maps component_of parts)"
  by (induction parts) (auto simp: component_of_def)

lemma components_of_root_in_front: "root_in_front (components_of s)"
  using component_of_no_root by (auto simp: root_in_front_def components_of_def Let_def dest: in_set_dropD)

lemma root_in_front_snoc: "root_in_front p \<Longrightarrow> p \<noteq> [] \<Longrightarrow> RootDir \<notin> set q \<Longrightarrow> root_in_front (p @ q)"
  by (cases p) (auto simp: root_in_front_def)

lemma overlap_check_iff:
  "overlap_check [(f, c), (g, d), (h, s)] = Inr () \<longleftrightarrow>
     \<not> app_dirs_overlap c d \<and> \<not> app_dirs_overlap c s \<and> \<not> app_dirs_overlap d s"
  by auto

lemma from_app_dirs_iff:
  assumes "root_in_front c" "root_in_front d" "root_in_front s"
  shows "from_app_dirs c d s = Inr P \<longleftrightarrow>
     (\<forall>raw \<in> {c, d, s}. is_absolute raw \<and> ParentDir \<notin> set raw) \<and>
     config_dir P = normal_names c \<and> data_dir P = normal_names d \<and> state_dir P = normal_names s \<and>
     wf_paths P"
proof -
  have "from_app_dirs c d s = Inr P \<longleftrightarrow>
     (\<exists>c' d' s'. normalize_app_dir ''config_dir'' c = Inr c' \<and> normalize_app_dir ''data_dir'' d = Inr d' \<and>
        normalize_app_dir ''state_dir'' s = Inr s' \<and>
        overlap_check [(''config_dir'', c'), (''data_dir'', d'), (''state_dir'', s')] = Inr () \<and>
        P = \<lparr>config_dir = c', data_dir = d', state_dir = s'\<rparr>)"
    unfolding from_app_dirs_def bind_result_Inr_iff by auto
  also have "\<dots> \<longleftrightarrow> (\<forall>raw \<in> {c, d, s}. is_absolute raw \<and> ParentDir \<notin> set raw) \<and>
     config_dir P = normal_names c \<and> data_dir P = normal_names d \<and> state_dir P = normal_names s \<and>
     wf_paths P"
    using assms by (cases P) (auto simp: normalize_app_dir_iff wf_paths_def simp del: overlap_check.simps
        simp add: overlap_check_iff)
  finally show ?thesis .
qed

section \<open>Properties\<close>

text \<open>
  The three application directories are accepted exactly when each is an absolute path without
  parent components and below the file system root and none equals or contains another; the result
  is their normal form, so no managed path of one root is ever a managed path of another.
\<close>

theorem app_dirs_separated:
  assumes "root_in_front c" and "root_in_front d" and "root_in_front s"
  shows "(is_ok (from_app_dirs c d s) \<longleftrightarrow>
     (\<forall>raw \<in> {c, d, s}. is_absolute raw \<and> ParentDir \<notin> set raw \<and> normal_names raw \<noteq> []) \<and>
     (\<forall>a b. (a, b) \<in> {(c, d), (c, s), (d, s)} \<longrightarrow>
        \<not> app_dirs_overlap (normal_names a) (normal_names b))) \<and>
   (\<forall>P p. from_app_dirs c d s = Inr P \<longrightarrow>
      \<not> (starts_with p (config_dir P) \<and> starts_with p (data_dir P)) \<and>
      \<not> (starts_with p (config_dir P) \<and> starts_with p (state_dir P)) \<and>
      \<not> (starts_with p (data_dir P) \<and> starts_with p (state_dir P)))"
proof -
  have "is_ok r \<longleftrightarrow> (\<exists>P. r = Inr P)" for r :: "(error, app_paths) result" by (cases r) auto
  moreover have "(\<exists>P. from_app_dirs c d s = Inr P) \<longleftrightarrow>
      (\<forall>raw \<in> {c, d, s}. is_absolute raw \<and> ParentDir \<notin> set raw) \<and>
      wf_paths \<lparr>config_dir = normal_names c, data_dir = normal_names d, state_dir = normal_names s\<rparr>"
    unfolding from_app_dirs_iff [OF assms] by (auto simp: wf_paths_def) (metis app_paths.select_convs)
  moreover have "\<not> (starts_with p (config_dir P) \<and> starts_with p (data_dir P)) \<and>
      \<not> (starts_with p (config_dir P) \<and> starts_with p (state_dir P)) \<and>
      \<not> (starts_with p (data_dir P) \<and> starts_with p (state_dir P))"
    if "from_app_dirs c d s = Inr P" for P p
    using that disjoint_subtrees unfolding from_app_dirs_iff [OF assms] wf_paths_def by metis
  ultimately show ?thesis by (auto simp: wf_paths_def)
qed

text \<open>
  With only an absolute HOME in the environment, Linux discovery yields the XDG default
  directories of the normalised home, which never overlap.
\<close>

theorem discover_defaults:
  assumes "get ''HOME'' = Some home" and "is_absolute (components_of home)"
    and "ParentDir \<notin> set (components_of home)"
    and "\<And>name. name \<noteq> ''HOME'' \<Longrightarrow> get name = None"
  shows "discover_with get = Inr
     \<lparr>config_dir = normal_names (components_of home) @ [''.config'', ''saiai''],
      data_dir = normal_names (components_of home) @ [''.local'', ''share'', ''saiai''],
      state_dir = normal_names (components_of home) @ [''.local'', ''state'', ''saiai'']\<rparr>"
proof -
  let ?h = "components_of home"
  have ne: "?h \<noteq> []" "home \<noteq> []" using assms(2)
    by (auto simp: is_absolute_def components_of_def component_of_def starts_with_def)
  have abs: "is_absolute (?h @ x)" for x using assms(2)
    by (auto simp: is_absolute_def split: list.splits component.splits)
  have root: "root_in_front (?h @ map Normal x)" for x
    by (rule root_in_front_snoc [OF components_of_root_in_front ne(1)]) auto
  have "absolute_env_path get ''HOME'' = Some ?h"
    using assms(1,2) ne by (simp add: absolute_env_path_def)
  moreover have "absolute_env_path get name = None" if "name \<noteq> ''HOME''" for name
    using assms(4) [OF that] by (simp add: absolute_env_path_def)
  ultimately have "discover_with get = from_app_dirs (?h @ map Normal [''.config'', ''saiai''])
      (?h @ map Normal [''.local'', ''share'', ''saiai'']) (?h @ map Normal [''.local'', ''state'', ''saiai''])"
    by (simp add: discover_with_def)
  moreover have "from_app_dirs (?h @ map Normal [''.config'', ''saiai''])
      (?h @ map Normal [''.local'', ''share'', ''saiai'']) (?h @ map Normal [''.local'', ''state'', ''saiai''])
      = Inr \<lparr>config_dir = normal_names ?h @ [''.config'', ''saiai''],
      data_dir = normal_names ?h @ [''.local'', ''share'', ''saiai''],
      state_dir = normal_names ?h @ [''.local'', ''state'', ''saiai'']\<rparr>"
    unfolding from_app_dirs_iff [OF root root root]
    using abs assms(3) by (auto simp: wf_paths_def app_dirs_overlap_def starts_with_iff)
  ultimately show ?thesis by simp
qed

definition example_raw :: "string \<Rightarrow> raw_path" where
  "example_raw name = [RootDir, Normal ''home'', CurDir, Normal name]"

theorem app_dirs_separated_witness:
  "is_ok (from_app_dirs (example_raw ''config'') (example_raw ''data'') (example_raw ''state'')) \<and>
   \<not> is_ok (from_app_dirs (example_raw ''config'') (example_raw ''config'') (example_raw ''state''))"
proof -
  have r: "root_in_front (example_raw n)" for n by (simp add: root_in_front_def example_raw_def)
  show ?thesis
    using app_dirs_separated [OF r r r, of "''config''" "''data''" "''state''"]
      app_dirs_separated [OF r r r, of "''config''" "''config''" "''state''"]
    by (auto simp: example_raw_def is_absolute_def app_dirs_overlap_def starts_with_def)
qed

theorem discover_defaults_witness:
  "discover_with (\<lambda>name. if name = ''HOME'' then Some ''/home/u'' else None) = Inr
     \<lparr>config_dir = [''home'', ''u'', ''.config'', ''saiai''],
      data_dir = [''home'', ''u'', ''.local'', ''share'', ''saiai''],
      state_dir = [''home'', ''u'', ''.local'', ''state'', ''saiai'']\<rparr>"
proof -
  have c: "components_of ''/home/u'' = [RootDir, Normal ''home'', Normal ''u'']" by code_simp
  show ?thesis
    using discover_defaults [of "\<lambda>name. if name = ''HOME'' then Some ''/home/u'' else None" "''/home/u''"]
    by (simp add: c is_absolute_def)
qed

end
