(* ===== verification/Artifacts.thy ===== *)
theory Artifacts
  imports Core_Model Prelude
begin

text \<open>
  The client files a setup installs (\<open>artifacts.rs\<close>).  JSON, TOML and X.509 are read by other crates:
  what they answer about a document is a parameter, the record \<open>document_libraries\<close>.
\<close>

section \<open>The libraries\<close>

record certificate =
  cert_subject :: string
  cert_issuer :: string
  cert_valid_now :: bool
  cert_signature :: "(string, unit) result"
  cert_public_key :: string

record document_libraries =
  json_is_object :: "string \<Rightarrow> (string, bool) result"
  toml_document :: "string \<Rightarrow> (string, unit) result"
  ca_cert_params :: "string \<Rightarrow> (string, bool) result"
  key_pair_public :: "string \<Rightarrow> (string, string) result"
  x509_pem :: "string \<Rightarrow> (string, string \<times> string \<times> string) result"
  x509_certificate :: "string \<Rightarrow> (string, certificate) result"
  self_signed_issuer :: "string \<Rightarrow> string \<Rightarrow> (string, unit) result"
  leaf_key :: "(string, unit) result"
  leaf_params :: "(string, unit) result"
  signed_leaf :: "string \<Rightarrow> string \<Rightarrow> (string, unit) result"

section \<open>The artifacts\<close>

definition claude_settings_filename :: string where "claude_settings_filename = ''settings.json''"
definition claude_state_filename :: string where "claude_state_filename = ''.claude.json''"
definition claude_ca_cert_filename :: string where "claude_ca_cert_filename = ''saiai-ca.crt''"
definition claude_ca_key_filename :: string where "claude_ca_key_filename = ''saiai-ca.key''"
definition codex_config_filename :: string where "codex_config_filename = ''config.toml''"

lemmas filename_defs = claude_settings_filename_def claude_state_filename_def
  claude_ca_cert_filename_def claude_ca_key_filename_def codex_config_filename_def

record claude_artifacts =
  settings_json :: string
  state_json :: string
  ca_certificate_pem :: string
  ca_private_key_pem :: string

record codex_artifacts =
  config_toml :: string

datatype product_artifacts = ClaudeArtifacts claude_artifacts | CodexArtifacts codex_artifacts

definition invalid_artifact :: "string \<Rightarrow> (string, 'a) result \<Rightarrow> (error, 'a) result" where
  "invalid_artifact name r = (case r of Inl reason \<Rightarrow> Inl (InvalidArtifact name reason) | Inr x \<Rightarrow> Inr x)"

definition validate_json_object :: "document_libraries \<Rightarrow> string \<Rightarrow> string \<Rightarrow> (error, unit) result" where
  "validate_json_object L name contents =
     bind_result (invalid_artifact name (json_is_object L contents)) (\<lambda>is_object.
       if \<not> is_object then Inl (InvalidArtifact name ''top-level value must be an object'') else Inr ())"

definition is_ascii_whitespace :: "char \<Rightarrow> bool" where
  "is_ascii_whitespace c \<longleftrightarrow> code c \<in> {9, 10, 12, 13, 32}"

definition validate_ca_pair :: "document_libraries \<Rightarrow> string \<Rightarrow> string \<Rightarrow> (error, unit) result" where
  "validate_ca_pair L certificate_pem private_key_pem =
     (let cert = claude_ca_cert_filename; key = claude_ca_key_filename in
      bind_result (invalid_artifact cert (ca_cert_params L certificate_pem)) (\<lambda>is_ca.
      if \<not> is_ca then Inl (InvalidArtifact cert ''certificate is not a CA'') else
      bind_result (invalid_artifact key (key_pair_public L private_key_pem)) (\<lambda>public_key_der.
      bind_result (invalid_artifact cert (x509_pem L certificate_pem)) (\<lambda>(remainder, label, der).
      if \<not> list_all is_ascii_whitespace remainder \<or> label \<noteq> ''CERTIFICATE''
      then Inl (InvalidArtifact cert ''expected exactly one CERTIFICATE PEM block'') else
      bind_result (invalid_artifact cert (x509_certificate L der)) (\<lambda>parsed.
      if cert_subject parsed \<noteq> cert_issuer parsed
      then Inl (InvalidArtifact cert ''installation CA must be self-issued'') else
      if \<not> cert_valid_now parsed
      then Inl (InvalidArtifact cert ''certificate is not currently valid'') else
      bind_result (invalid_artifact cert (cert_signature parsed)) (\<lambda>_.
      if cert_public_key parsed \<noteq> public_key_der
      then Inl (InvalidArtifact key ''private key does not match the CA certificate'') else
      bind_result (invalid_artifact key (self_signed_issuer L certificate_pem private_key_pem)) (\<lambda>_.
      bind_result (invalid_artifact key (leaf_key L)) (\<lambda>_.
      bind_result (invalid_artifact cert (leaf_params L)) (\<lambda>_.
      invalid_artifact key (signed_leaf L certificate_pem private_key_pem))))))))))"

definition validate_claude :: "document_libraries \<Rightarrow> claude_artifacts \<Rightarrow> (error, unit) result" where
  "validate_claude L a =
     bind_result (validate_json_object L claude_settings_filename (settings_json a)) (\<lambda>_.
     bind_result (validate_json_object L claude_state_filename (state_json a)) (\<lambda>_.
     validate_ca_pair L (ca_certificate_pem a) (ca_private_key_pem a)))"

definition validate_codex :: "document_libraries \<Rightarrow> codex_artifacts \<Rightarrow> (error, unit) result" where
  "validate_codex L a =
     (if trim (config_toml a) = [] then Inl (InvalidArtifact codex_config_filename ''document is empty'')
      else invalid_artifact codex_config_filename (toml_document L (config_toml a)))"

definition claude_artifacts_new ::
  "document_libraries \<Rightarrow> string \<Rightarrow> string \<Rightarrow> string \<Rightarrow> string \<Rightarrow> (error, claude_artifacts) result" where
  "claude_artifacts_new L settings state cert key =
     (let a = \<lparr>settings_json = settings, state_json = state,
               ca_certificate_pem = cert, ca_private_key_pem = key\<rparr>
      in bind_result (validate_claude L a) (\<lambda>_. Inr a))"

definition codex_artifacts_new :: "document_libraries \<Rightarrow> string \<Rightarrow> (error, codex_artifacts) result" where
  "codex_artifacts_new L config =
     (let a = \<lparr>config_toml = config\<rparr> in bind_result (validate_codex L a) (\<lambda>_. Inr a))"

definition claude_files :: "claude_artifacts \<Rightarrow> (string \<times> string) list" where
  "claude_files a =
     [(claude_settings_filename, settings_json a), (claude_state_filename, state_json a),
      (claude_ca_cert_filename, ca_certificate_pem a), (claude_ca_key_filename, ca_private_key_pem a)]"

definition codex_files :: "codex_artifacts \<Rightarrow> (string \<times> string) list" where
  "codex_files a = [(codex_config_filename, config_toml a)]"

fun artifacts_product :: "product_artifacts \<Rightarrow> product" where
  "artifacts_product (ClaudeArtifacts _) = Claude"
| "artifacts_product (CodexArtifacts _) = Codex"

fun validate_artifacts :: "document_libraries \<Rightarrow> product_artifacts \<Rightarrow> (error, unit) result" where
  "validate_artifacts L (ClaudeArtifacts a) = validate_claude L a"
| "validate_artifacts L (CodexArtifacts a) = validate_codex L a"

fun artifact_files :: "product_artifacts \<Rightarrow> (string \<times> string) list" where
  "artifact_files (ClaudeArtifacts a) = claude_files a"
| "artifact_files (CodexArtifacts a) = codex_files a"

section \<open>Facts\<close>

lemma invalid_artifact_Inr [simp]: "invalid_artifact n r = Inr x \<longleftrightarrow> r = Inr x"
  by (cases r) (simp_all add: invalid_artifact_def)

lemma distinct_artifact_files: "distinct (map fst (artifact_files a))"
  by (cases a) (simp_all add: claude_files_def codex_files_def filename_defs)

text \<open>
  C26: A Claude CA pair is accepted only when the certificate is exactly one PEM block holding a currently
  valid self-issued CA certificate whose signature verifies, whose public key is that of the private
  key, and which can issue a leaf certificate with that key.
\<close>

theorem accepted_ca_pair:
  assumes "validate_ca_pair L cert key = Inr ()"
  shows "\<exists>remainder der parsed. ca_cert_params L cert = Inr True \<and>
     x509_pem L cert = Inr (remainder, ''CERTIFICATE'', der) \<and> list_all is_ascii_whitespace remainder \<and>
     x509_certificate L der = Inr parsed \<and> cert_subject parsed = cert_issuer parsed \<and>
     cert_valid_now parsed \<and> cert_signature parsed = Inr () \<and>
     key_pair_public L key = Inr (cert_public_key parsed) \<and>
     self_signed_issuer L cert key = Inr () \<and> signed_leaf L cert key = Inr ()"
proof -
  from assms obtain pub remainder label der parsed where
    1: "ca_cert_params L cert = Inr True" "key_pair_public L key = Inr pub"
       "x509_pem L cert = Inr (remainder, label, der)" and
    2: "list_all is_ascii_whitespace remainder" "label = ''CERTIFICATE''" and
    3: "x509_certificate L der = Inr parsed" "cert_subject parsed = cert_issuer parsed"
       "cert_valid_now parsed" "cert_signature parsed = Inr ()" "cert_public_key parsed = pub" and
    4: "self_signed_issuer L cert key = Inr ()" "signed_leaf L cert key = Inr ()"
    by (auto simp: validate_ca_pair_def Let_def bind_result_Inr_iff split: if_splits)
  then show ?thesis by blast
qed

definition example_libraries :: document_libraries where
  "example_libraries =
     \<lparr>json_is_object = (\<lambda>s. if s = [] then Inl ''EOF while parsing a value'' else Inr (hd s = CHR ''{'')),
      toml_document = (\<lambda>s. if hd s = CHR ''='' then Inl ''invalid key'' else Inr ()),
      ca_cert_params = (\<lambda>_. Inr True), key_pair_public = (\<lambda>k. Inr (''pub-'' @ k)),
      x509_pem = (\<lambda>c. Inr ([], ''CERTIFICATE'', c)),
      x509_certificate = (\<lambda>c. Inr \<lparr>cert_subject = ''ca'', cert_issuer = ''ca'', cert_valid_now = True,
        cert_signature = Inr (), cert_public_key = ''pub-'' @ c\<rparr>),
      self_signed_issuer = (\<lambda>_ _. Inr ()), leaf_key = Inr (), leaf_params = Inr (),
      signed_leaf = (\<lambda>_ _. Inr ())\<rparr>"

theorem accepted_ca_pair_witness:
  "key_pair_public example_libraries ''k1'' = Inr ''pub-k1'' \<and>
   validate_ca_pair example_libraries ''k1'' ''k1'' = Inr () \<and>
   validate_ca_pair example_libraries ''k1'' ''k2'' \<noteq> Inr ()"
proof -
  have "validate_ca_pair example_libraries ''k1'' ''k1'' = Inr ()" by code_simp
  from accepted_ca_pair [OF this]
  have "key_pair_public example_libraries ''k1'' = Inr ''pub-k1''"
    by (auto simp: example_libraries_def)
  moreover have "validate_ca_pair example_libraries ''k1'' ''k2'' \<noteq> Inr ()" by code_simp
  ultimately show ?thesis using \<open>validate_ca_pair example_libraries ''k1'' ''k1'' = Inr ()\<close> by simp
qed

end
