(* ===== verification/Filesystem.thy ===== *)
theory Filesystem
  imports Core_Model "HOL-Library.AList"
begin

text \<open>
  The part of \<open>std::fs\<close> and of the operating system the core uses, as a state-and-error monad.

  The state \<open>world\<close> holds a tree of nodes keyed by absolute normalised paths, the inode counter, the
  advisory locks by inode, and two counters: of system calls and of UUIDs drawn.  The environment
  \<open>env\<close> decides which system call fails and how, and supplies the UUIDs.  Every system call can fail
  in every state; a failing call changes nothing, except that a failing write may have written a
  prefix.  Recursive deletion is a sequence of single deletions, each of which can fail.  A path is
  followed component by component through directories; a symbolic link is followed only as the last
  component (by the calls that do so on Unix), a link in the middle of a path is not traversed.
\<close>

section \<open>The monad\<close>

record meta =
  mode :: nat
  uid :: nat
  ino :: nat

datatype node = File string meta | Dir meta | Symlink path meta

record world =
  nodes :: "(path \<times> node) list"
  next_ino :: nat
  steps :: nat
  drawn :: nat
  shared_locks :: "nat list"
  exclusive_locks :: "nat list"

record env =
  fault :: "nat \<Rightarrow> (io_error \<times> nat) option"
  uuid :: "nat \<Rightarrow> string"
  euid :: nat

type_synonym ('e, 'a) io = "world \<Rightarrow> ('e, 'a) result \<times> world"

definition ret :: "'a \<Rightarrow> ('e, 'a) io" where
  "ret x w = (Inr x, w)"

definition throw :: "'e \<Rightarrow> ('e, 'a) io" where
  "throw e w = (Inl e, w)"

definition lift_io :: "('e, 'a) result \<Rightarrow> ('e, 'a) io" where
  "lift_io r w = (r, w)"

definition bind_io :: "('e, 'a) io \<Rightarrow> ('a \<Rightarrow> ('e, 'b) io) \<Rightarrow> ('e, 'b) io" where
  "bind_io m f w = (case m w of (Inl e, w') \<Rightarrow> (Inl e, w') | (Inr x, w') \<Rightarrow> f x w')"

definition then_io :: "('e, 'a) io \<Rightarrow> ('e, 'b) io \<Rightarrow> ('e, 'b) io" where
  "then_io m n = bind_io m (\<lambda>_. n)"

definition map_err :: "('e \<Rightarrow> 'f) \<Rightarrow> ('e, 'a) io \<Rightarrow> ('f, 'a) io" where
  "map_err f m w = (case m w of (Inl e, w') \<Rightarrow> (Inl (f e), w') | (Inr x, w') \<Rightarrow> (Inr x, w'))"

text \<open>A \<open>match\<close> on a result, or a result that is dropped with \<open>let _ =\<close>.\<close>

definition try_io :: "('e, 'a) io \<Rightarrow> ('f, ('e, 'a) result) io" where
  "try_io m w = (case m w of (r, w') \<Rightarrow> (Inr r, w'))"

definition ignore_io :: "('e, 'a) io \<Rightarrow> ('f, unit) io" where
  "ignore_io m w = (Inr (), snd (m w))"

text \<open>A \<open>Drop\<close> guard that is disarmed on success: its clean-up runs when the rest fails.\<close>

definition on_error :: "('e, 'a) io \<Rightarrow> ('e, unit) io \<Rightarrow> ('e, 'a) io" where
  "on_error m c w = (case m w of (Inl e, w') \<Rightarrow> (Inl e, snd (c w')) | (Inr x, w') \<Rightarrow> (Inr x, w'))"

text \<open>A guard released in every case.\<close>

definition finally_io :: "('e, 'a) io \<Rightarrow> ('e, unit) io \<Rightarrow> ('e, 'a) io" where
  "finally_io m c w = (case m w of (r, w') \<Rightarrow> (r, snd (c w')))"

primrec iter_io :: "('a \<Rightarrow> ('e, unit) io) \<Rightarrow> 'a list \<Rightarrow> ('e, unit) io" where
  "iter_io f [] = ret ()"
| "iter_io f (x # xs) = then_io (f x) (iter_io f xs)"

definition get_world :: "('e, world) io" where
  "get_world w = (Inr w, w)"

section \<open>The tree\<close>

definition node_at :: "world \<Rightarrow> path \<Rightarrow> node option" where
  "node_at w p = map_of (nodes w) p"

definition put_node :: "path \<Rightarrow> node \<Rightarrow> world \<Rightarrow> world" where
  "put_node p n w = w\<lparr>nodes := AList.update p n (nodes w)\<rparr>"

definition del_node :: "path \<Rightarrow> world \<Rightarrow> world" where
  "del_node p w = w\<lparr>nodes := AList.delete p (nodes w)\<rparr>"

interpretation tree: keyed_store node_at put_node del_node
  by unfold_locales (simp_all add: node_at_def put_node_def del_node_def update_conv' delete_conv' fun_eq_iff restrict_map_def)

definition move_tree :: "path \<Rightarrow> path \<Rightarrow> world \<Rightarrow> world" where
  "move_tree src dst w = w\<lparr>nodes :=
     map (\<lambda>(q, n). (dst @ drop (length src) q, n)) (filter (\<lambda>(q, n). starts_with q src) (nodes w)) @
     filter (\<lambda>(q, n). \<not> starts_with q src \<and> \<not> starts_with q dst) (nodes w)\<rparr>"

definition child_names :: "world \<Rightarrow> path \<Rightarrow> string list" where
  "child_names w p =
     map (\<lambda>(q, _). last q) (filter (\<lambda>(q, _). q \<noteq> [] \<and> butlast q = p) (nodes w))"

definition is_dir_node :: "node \<Rightarrow> bool" where
  "is_dir_node n = (case n of Dir _ \<Rightarrow> True | _ \<Rightarrow> False)"

definition is_file_node :: "node \<Rightarrow> bool" where
  "is_file_node n = (case n of File _ _ \<Rightarrow> True | _ \<Rightarrow> False)"

definition is_symlink_node :: "node \<Rightarrow> bool" where
  "is_symlink_node n = (case n of Symlink _ _ \<Rightarrow> True | _ \<Rightarrow> False)"

fun node_meta :: "node \<Rightarrow> meta" where
  "node_meta (File _ m) = m"
| "node_meta (Dir m) = m"
| "node_meta (Symlink _ m) = m"

fun set_mode :: "nat \<Rightarrow> node \<Rightarrow> node" where
  "set_mode k (File c m) = File c (m\<lparr>mode := k\<rparr>)"
| "set_mode k (Dir m) = Dir (m\<lparr>mode := k\<rparr>)"
| "set_mode k (Symlink t m) = Symlink t (m\<lparr>mode := k\<rparr>)"

definition is_dir_at :: "world \<Rightarrow> path \<Rightarrow> bool" where
  "is_dir_at w p \<longleftrightarrow> p = [] \<or> (case node_at w p of Some (Dir _) \<Rightarrow> True | _ \<Rightarrow> False)"

fun proper_prefixes :: "path \<Rightarrow> path list" where
  "proper_prefixes [] = []"
| "proper_prefixes (c # cs) = [] # map ((#) c) (proper_prefixes cs)"

text \<open>The kind of a lookup that finds nothing.\<close>

definition missing_kind :: "world \<Rightarrow> path \<Rightarrow> io_kind" where
  "missing_kind w p =
     (if list_ex (\<lambda>q. node_at w q \<noteq> None \<and> \<not> is_dir_at w q) (proper_prefixes p)
      then NotADirectory else NotFound)"

abbreviation os_error :: "io_kind \<Rightarrow> io_error" where
  "os_error k \<equiv> IoError k []"

section \<open>System calls\<close>

definition tick :: "world \<Rightarrow> world" where
  "tick w = w\<lparr>steps := Suc (steps w)\<rparr>"

text \<open>A call that fails for its own reasons never reports that a path is missing: that is the tree's to say.\<close>

definition genuine :: "io_error \<Rightarrow> io_error" where
  "genuine e = (if io_kind e = NotFound then os_error OtherKind else e)"

lemma genuine_kind [simp]: "io_kind (genuine e) \<noteq> NotFound"
  by (simp add: genuine_def)

definition syscall :: "env \<Rightarrow> (world \<Rightarrow> (io_error, 'a) result \<times> world) \<Rightarrow> (io_error, 'a) io" where
  "syscall E act w =
     (case fault E (steps w) of
        Some (e, _) \<Rightarrow> (Inl (genuine e), tick w)
      | None \<Rightarrow> act (tick w))"

definition symlink_metadata :: "env \<Rightarrow> path \<Rightarrow> (io_error, node) io" where
  "symlink_metadata E p = syscall E (\<lambda>w.
     (case node_at w p of Some n \<Rightarrow> (Inr n, w) | None \<Rightarrow> (Inl (os_error (missing_kind w p)), w)))"

fun follow :: "nat \<Rightarrow> world \<Rightarrow> path \<Rightarrow> path option" where
  "follow 0 w p = None"
| "follow (Suc n) w p =
     (case node_at w p of Some (Symlink t _) \<Rightarrow> follow n w t | Some _ \<Rightarrow> Some p | None \<Rightarrow> None)"

text \<open>\<open>fs::metadata\<close> and \<open>fs::read\<close> follow links in the last component, at most 40 of them.\<close>

definition metadata :: "env \<Rightarrow> path \<Rightarrow> (io_error, node) io" where
  "metadata E p = syscall E (\<lambda>w.
     (case follow 41 w p of Some q \<Rightarrow> (case node_at w q of Some n \<Rightarrow> (Inr n, w)
          | None \<Rightarrow> (Inl (os_error (missing_kind w p)), w))
      | None \<Rightarrow> (Inl (os_error (missing_kind w p)), w)))"

definition is_dir_path :: "env \<Rightarrow> path \<Rightarrow> ('e, bool) io" where
  "is_dir_path E p = bind_io (try_io (metadata E p))
     (\<lambda>r. ret (case r of Inr n \<Rightarrow> is_dir_node n | Inl _ \<Rightarrow> False))"

definition read_file :: "env \<Rightarrow> path \<Rightarrow> (io_error, string) io" where
  "read_file E p = syscall E (\<lambda>w.
     (case follow 41 w p of
        None \<Rightarrow> (Inl (os_error (missing_kind w p)), w)
      | Some q \<Rightarrow> (case node_at w q of
            Some (File c _) \<Rightarrow> (Inr c, w)
          | Some (Dir _) \<Rightarrow> (Inl (os_error IsADirectory), w)
          | _ \<Rightarrow> (Inl (os_error (missing_kind w p)), w))))"

definition read_dir :: "env \<Rightarrow> path \<Rightarrow> (io_error, string list) io" where
  "read_dir E p = syscall E (\<lambda>w.
     (if p = [] then (Inr (child_names w p), w)
      else case follow 41 w p of
          None \<Rightarrow> (Inl (os_error (missing_kind w p)), w)
        | Some q \<Rightarrow> if is_dir_at w q then (Inr (child_names w q), w)
                    else (Inl (os_error NotADirectory), w)))"

definition new_meta :: "env \<Rightarrow> nat \<Rightarrow> world \<Rightarrow> meta" where
  "new_meta E m w = \<lparr>mode = m, uid = euid E, ino = next_ino w\<rparr>"

definition parent_is_dir :: "world \<Rightarrow> path \<Rightarrow> bool" where
  "parent_is_dir w p \<longleftrightarrow> p \<noteq> [] \<and> is_dir_at w (butlast p)"

definition create_node :: "path \<Rightarrow> node \<Rightarrow> world \<Rightarrow> world" where
  "create_node p n w = (put_node p n w)\<lparr>next_ino := Suc (next_ino w)\<rparr>"

definition create_dir :: "env \<Rightarrow> path \<Rightarrow> (io_error, unit) io" where
  "create_dir E p = syscall E (\<lambda>w.
     (if node_at w p \<noteq> None then (Inl (os_error AlreadyExists), w)
      else if \<not> parent_is_dir w p then (Inl (os_error (missing_kind w p)), w)
      else (Inr (), create_node p (Dir (new_meta E 493 w)) w)))"

primrec create_dirs :: "env \<Rightarrow> path \<Rightarrow> path \<Rightarrow> (io_error, unit) io" where
  "create_dirs E base [] = ret ()"
| "create_dirs E base (c # cs) =
     then_io (bind_io (is_dir_path E (base @ [c]))
               (\<lambda>present. if present then ret () else create_dir E (base @ [c])))
       (create_dirs E (base @ [c]) cs)"

definition create_dir_all :: "env \<Rightarrow> path \<Rightarrow> (io_error, unit) io" where
  "create_dir_all E p = create_dirs E [] p"

text \<open>Open with \<open>create_new\<close>: the file must not exist; a link in its place counts as existing.\<close>

definition create_new_file :: "env \<Rightarrow> path \<Rightarrow> nat \<Rightarrow> (io_error, unit) io" where
  "create_new_file E p m = syscall E (\<lambda>w.
     (if node_at w p \<noteq> None then (Inl (os_error AlreadyExists), w)
      else if \<not> parent_is_dir w p then (Inl (os_error (missing_kind w p)), w)
      else (Inr (), create_node p (File [] (new_meta E m w)) w)))"

text \<open>\<open>write_all\<close> on a file just created; when it fails, a prefix may have been written.\<close>

definition write_all :: "env \<Rightarrow> path \<Rightarrow> string \<Rightarrow> (io_error, unit) io" where
  "write_all E p contents w =
     (case node_at w p of
        Some (File c m) \<Rightarrow>
          (case fault E (steps w) of
             None \<Rightarrow> (Inr (), put_node p (File (c @ contents) m) (tick w))
           | Some (e, n) \<Rightarrow> (Inl (genuine e), put_node p (File (c @ take n contents) m) (tick w)))
      | _ \<Rightarrow> (Inl (os_error OtherKind), tick w))"

definition sync_all :: "env \<Rightarrow> path \<Rightarrow> (io_error, unit) io" where
  "sync_all E p = syscall E (\<lambda>w. (Inr (), w))"

definition set_permissions :: "env \<Rightarrow> path \<Rightarrow> nat \<Rightarrow> (io_error, unit) io" where
  "set_permissions E p m = syscall E (\<lambda>w.
     (case follow 41 w p of
        None \<Rightarrow> (Inl (os_error (missing_kind w p)), w)
      | Some q \<Rightarrow> (case node_at w q of
            None \<Rightarrow> (Inl (os_error (missing_kind w p)), w)
          | Some n \<Rightarrow> (Inr (), put_node q (set_mode m n) w))))"

definition rename :: "env \<Rightarrow> path \<Rightarrow> path \<Rightarrow> (io_error, unit) io" where
  "rename E src dst = syscall E (\<lambda>w.
     (case node_at w src of
        None \<Rightarrow> (Inl (os_error (missing_kind w src)), w)
      | Some n \<Rightarrow>
          if starts_with dst src \<or> starts_with src dst then (Inl (os_error OtherKind), w)
          else if \<not> parent_is_dir w dst then (Inl (os_error (missing_kind w dst)), w)
          else (case node_at w dst of
              None \<Rightarrow> (Inr (), move_tree src dst w)
            | Some (Dir _) \<Rightarrow>
                if \<not> is_dir_node n then (Inl (os_error IsADirectory), w)
                else if child_names w dst \<noteq> [] then (Inl (os_error DirectoryNotEmpty), w)
                else (Inr (), move_tree src dst w)
            | Some _ \<Rightarrow>
                if is_dir_node n then (Inl (os_error NotADirectory), w)
                else (Inr (), move_tree src dst w))))"

definition remove_file :: "env \<Rightarrow> path \<Rightarrow> (io_error, unit) io" where
  "remove_file E p = syscall E (\<lambda>w.
     (case node_at w p of
        None \<Rightarrow> (Inl (os_error (missing_kind w p)), w)
      | Some (Dir _) \<Rightarrow> (Inl (os_error IsADirectory), w)
      | Some _ \<Rightarrow> (Inr (), del_node p w)))"

definition remove_dir :: "env \<Rightarrow> path \<Rightarrow> (io_error, unit) io" where
  "remove_dir E p = syscall E (\<lambda>w.
     (case node_at w p of
        None \<Rightarrow> (Inl (os_error (missing_kind w p)), w)
      | Some (Dir _) \<Rightarrow>
          if child_names w p \<noteq> [] then (Inl (os_error DirectoryNotEmpty), w)
          else (Inr (), del_node p w)
      | Some _ \<Rightarrow> (Inl (os_error NotADirectory), w)))"

text \<open>
  \<open>fs::remove_dir_all\<close>: the entries of the tree one at a time, deepest first.  The order of the
  entries of one directory is the operating system's; the model takes that of the node list.
\<close>

definition tree_entries :: "world \<Rightarrow> path \<Rightarrow> path list" where
  "tree_entries w p = rev (sort_key length (filter (\<lambda>q. starts_with q p) (map fst (nodes w))))"

definition unlink_entry :: "env \<Rightarrow> path \<Rightarrow> (io_error, unit) io" where
  "unlink_entry E p = bind_io (symlink_metadata E p)
     (\<lambda>n. if is_dir_node n then remove_dir E p else remove_file E p)"

definition remove_dir_all :: "env \<Rightarrow> path \<Rightarrow> (io_error, unit) io" where
  "remove_dir_all E p = bind_io (symlink_metadata E p)
     (\<lambda>n. if is_dir_node n then bind_io get_world (\<lambda>w. iter_io (unlink_entry E) (tree_entries w p))
          else if is_symlink_node n then remove_file E p
          else throw (os_error NotADirectory))"

definition new_uuid :: "env \<Rightarrow> ('e, string) io" where
  "new_uuid E w = (Inr (uuid E (drawn w)), w\<lparr>drawn := Suc (drawn w)\<rparr>)"

section \<open>Reasoning: triples\<close>

text \<open>
  \<open>triple P m Q R\<close>: from a state with \<open>P\<close>, a success of \<open>m\<close> ends in \<open>Q\<close> and a failure in \<open>R\<close>.
\<close>

definition triple ::
  "(world \<Rightarrow> bool) \<Rightarrow> ('e, 'a) io \<Rightarrow> ('a \<Rightarrow> world \<Rightarrow> bool) \<Rightarrow> ('e \<Rightarrow> world \<Rightarrow> bool) \<Rightarrow> bool" where
  "triple P m Q R \<longleftrightarrow>
     (\<forall>w. P w \<longrightarrow> (\<forall>e w'. m w = (Inl e, w') \<longrightarrow> R e w') \<and> (\<forall>x w'. m w = (Inr x, w') \<longrightarrow> Q x w'))"

lemma triple_Inr: "triple P m Q R \<Longrightarrow> P w \<Longrightarrow> m w = (Inr x, w') \<Longrightarrow> Q x w'"
  by (simp add: triple_def)

lemma triple_Inl: "triple P m Q R \<Longrightarrow> P w \<Longrightarrow> m w = (Inl e, w') \<Longrightarrow> R e w'"
  by (simp add: triple_def)

lemma tripleI:
  "(\<And>w e w'. P w \<Longrightarrow> m w = (Inl e, w') \<Longrightarrow> R e w') \<Longrightarrow>
   (\<And>w x w'. P w \<Longrightarrow> m w = (Inr x, w') \<Longrightarrow> Q x w') \<Longrightarrow> triple P m Q R"
  by (simp add: triple_def)

lemma triple_weaken:
  "triple P' m Q' R' \<Longrightarrow> (\<And>w. P w \<Longrightarrow> P' w) \<Longrightarrow> (\<And>x w. Q' x w \<Longrightarrow> Q x w) \<Longrightarrow>
     (\<And>e w. R' e w \<Longrightarrow> R e w) \<Longrightarrow> triple P m Q R"
  unfolding triple_def by blast

text \<open>What a combined operation returned, in terms of its parts.\<close>

lemma ret_eq: "ret x w = (r, w') \<longleftrightarrow> r = Inr x \<and> w' = w"
  by (auto simp: ret_def)

lemma throw_eq: "throw e w = (r, w') \<longleftrightarrow> r = Inl e \<and> w' = w"
  by (auto simp: throw_def)

lemma bind_io_Inr: "bind_io m f w = (Inr y, w'') \<longleftrightarrow> (\<exists>x w'. m w = (Inr x, w') \<and> f x w' = (Inr y, w''))"
  by (cases "m w"; cases "fst (m w)") (auto simp: bind_io_def)

lemma bind_io_Inl: "bind_io m f w = (Inl e, w'') \<longleftrightarrow>
    m w = (Inl e, w'') \<or> (\<exists>x w'. m w = (Inr x, w') \<and> f x w' = (Inl e, w''))"
  by (cases "m w"; cases "fst (m w)") (auto simp: bind_io_def)

lemma map_err_Inr: "map_err f m w = (Inr y, w') \<longleftrightarrow> m w = (Inr y, w')"
  by (cases "m w"; cases "fst (m w)") (auto simp: map_err_def)

lemma map_err_Inl: "map_err f m w = (Inl e, w') \<longleftrightarrow> (\<exists>e'. e = f e' \<and> m w = (Inl e', w'))"
  by (cases "m w"; cases "fst (m w)") (auto simp: map_err_def)

lemma try_io_eq: "try_io m w = (r, w') \<longleftrightarrow> (\<exists>x. r = Inr x \<and> m w = (x, w'))"
  by (cases "m w") (auto simp: try_io_def)

text \<open>A \<open>match\<close> on the outcome of a call; not a simp rule, the outcome is then split by cases.\<close>

lemma bind_try: "bind_io (try_io m) f w = (x, w'') \<longleftrightarrow> (\<exists>y w'. m w = (y, w') \<and> f y w' = (x, w''))"
  by (cases "m w") (auto simp: bind_io_def try_io_def)

lemma ignore_io_eq: "ignore_io m w = (r, w') \<longleftrightarrow> r = Inr () \<and> w' = snd (m w)"
  by (auto simp: ignore_io_def)

lemma on_error_Inr: "on_error m c w = (Inr y, w') \<longleftrightarrow> m w = (Inr y, w')"
  by (cases "m w"; cases "fst (m w)") (auto simp: on_error_def)

lemma on_error_Inl: "on_error m c w = (Inl e, w'') \<longleftrightarrow> (\<exists>w'. m w = (Inl e, w') \<and> w'' = snd (c w'))"
  by (cases "m w"; cases "fst (m w)") (auto simp: on_error_def)

lemma finally_io_eq: "finally_io m c w = (r, w'') \<longleftrightarrow> (\<exists>w'. m w = (r, w') \<and> w'' = snd (c w'))"
  by (cases "m w") (auto simp: finally_io_def)

lemmas io_eqs = ret_eq throw_eq bind_io_Inr bind_io_Inl map_err_Inr map_err_Inl try_io_eq ignore_io_eq
  on_error_Inr on_error_Inl finally_io_eq then_io_def

lemma triple_ret: "(\<And>w. P w \<Longrightarrow> Q x w) \<Longrightarrow> triple P (ret x) Q R"
  by (simp add: triple_def ret_eq)

lemma triple_throw: "(\<And>w. P w \<Longrightarrow> R e w) \<Longrightarrow> triple P (throw e) Q R"
  by (simp add: triple_def throw_eq)

lemma triple_lift:
  "(\<And>w x. P w \<Longrightarrow> r = Inr x \<Longrightarrow> Q x w) \<Longrightarrow> (\<And>w e. P w \<Longrightarrow> r = Inl e \<Longrightarrow> R e w) \<Longrightarrow> triple P (lift_io r) Q R"
  by (auto simp: triple_def lift_io_def)

lemma triple_bind:
  "triple P m S R \<Longrightarrow> (\<And>x. triple (S x) (f x) Q R) \<Longrightarrow> triple P (bind_io m f) Q R"
  unfolding triple_def bind_io_Inr bind_io_Inl by blast

lemma triple_then:
  "triple P m (\<lambda>_. S) R \<Longrightarrow> triple S n Q R \<Longrightarrow> triple P (then_io m n) Q R"
  unfolding then_io_def by (rule triple_bind)

lemma triple_map_err: "triple P m Q (\<lambda>e. R (f e)) \<Longrightarrow> triple P (map_err f m) Q R"
  unfolding triple_def map_err_Inr map_err_Inl by blast

lemma triple_try:
  "triple P m (\<lambda>x. Q (Inr x)) (\<lambda>e. Q (Inl e)) \<Longrightarrow> triple P (try_io m) Q R"
  unfolding triple_def try_io_eq by (metis sum.exhaust sum.distinct(1) sum.inject(2))

lemma triple_ignore:
  assumes "triple P m (\<lambda>_. Q ()) (\<lambda>_. Q ())"
  shows "triple P (ignore_io m) Q R"
proof (rule tripleI)
  fix w x w' assume "P w" "ignore_io m w = (Inr x, w')"
  then show "Q x w'" using assms
    by (cases "m w"; cases "fst (m w)") (auto simp: ignore_io_eq triple_def)
qed (simp add: ignore_io_eq)

lemma triple_on_error:
  assumes m: "triple P m Q S" and c: "\<And>e. triple (S e) c (\<lambda>_. R e) (\<lambda>_. R e)"
  shows "triple P (on_error m c) Q R"
proof (rule tripleI)
  fix w e w'' assume "P w" "on_error m c w = (Inl e, w'')"
  then obtain w' where w': "m w = (Inl e, w')" "w'' = snd (c w')" by (auto simp: on_error_Inl)
  then have "S e w'" using m \<open>P w\<close> by (simp add: triple_def)
  then show "R e w''" using c [of e] w'(2)
    by (cases "c w'"; cases "fst (c w')") (auto simp: triple_def)
next
  fix w x w' assume "P w" "on_error m c w = (Inr x, w')"
  then show "Q x w'" using m by (simp add: on_error_Inr triple_def)
qed

lemma triple_iter:
  "(\<And>x. x \<in> set xs \<Longrightarrow> triple I (f x) (\<lambda>_. I) R) \<Longrightarrow> triple I (iter_io f xs) (\<lambda>_. I) R"
  by (induction xs) (auto intro!: triple_ret triple_then)

lemma triple_pre: "(P \<Longrightarrow> triple (\<lambda>w. A w) m Q R) \<Longrightarrow> triple (\<lambda>w. P \<and> A w) m Q R"
  by (auto simp: triple_def)

section \<open>Reasoning: frames\<close>

text \<open>
  \<open>frame V S m\<close>: whatever fails, \<open>m\<close> changes the view \<open>V\<close> of the world at most at the paths in \<open>S\<close>.
  The views are the nodes, the contents of the regular files, and the links.
\<close>

named_theorems frame_intros "which paths an operation can change"

definition frame :: "(world \<Rightarrow> path \<Rightarrow> 'v) \<Rightarrow> (path \<Rightarrow> bool) \<Rightarrow> ('e, 'a) io \<Rightarrow> bool" where
  "frame V S m \<longleftrightarrow> (\<forall>w p. \<not> S p \<longrightarrow> V (snd (m w)) p = V w p)"

definition contents_of :: "node option \<Rightarrow> string option" where
  "contents_of n = (case n of Some (File c _) \<Rightarrow> Some c | _ \<Rightarrow> None)"

definition contents_at :: "world \<Rightarrow> path \<Rightarrow> string option" where
  "contents_at w p = contents_of (node_at w p)"

abbreviation touches :: "(path \<Rightarrow> bool) \<Rightarrow> ('e, 'a) io \<Rightarrow> bool" where
  "touches \<equiv> frame node_at"

abbreviation keeps :: "(path \<Rightarrow> bool) \<Rightarrow> ('e, 'a) io \<Rightarrow> bool" where
  "keeps \<equiv> frame contents_at"

definition nowhere :: "path \<Rightarrow> bool" where
  "nowhere p = False"

definition same_outside :: "(world \<Rightarrow> path \<Rightarrow> 'v) \<Rightarrow> (path \<Rightarrow> bool) \<Rightarrow> world \<Rightarrow> world \<Rightarrow> bool" where
  "same_outside V S w0 w \<longleftrightarrow> (\<forall>p. \<not> S p \<longrightarrow> V w p = V w0 p)"

lemma frameI: "(\<And>w p. \<not> S p \<Longrightarrow> V (snd (m w)) p = V w p) \<Longrightarrow> frame V S m"
  by (simp add: frame_def)

lemma frameD: "frame V S m \<Longrightarrow> \<not> S p \<Longrightarrow> V (snd (m w)) p = V w p"
  by (simp add: frame_def)

lemma frame_result: "frame V S m \<Longrightarrow> m w = (r, w') \<Longrightarrow> \<not> S p \<Longrightarrow> V w' p = V w p"
  by (metis snd_conv frameD)

lemma frame_mono: "frame V S m \<Longrightarrow> (\<And>p. S p \<Longrightarrow> T p) \<Longrightarrow> frame V T m"
  by (auto simp: frame_def)

lemma frame_nowhere: "frame V nowhere m \<Longrightarrow> frame V T m"
  by (simp add: frame_def nowhere_def)

lemma keeps_touches: "touches S m \<Longrightarrow> keeps S m"
  by (simp add: frame_def contents_at_def)

lemma same_outside_refl [simp]: "same_outside V S w w"
  by (simp add: same_outside_def)

lemma triple_frame:
  "frame V S m \<Longrightarrow> triple (same_outside V S w0) m (\<lambda>_. same_outside V S w0) (\<lambda>_. same_outside V S w0)"
  by (auto simp: triple_def same_outside_def dest: frame_result)

lemma frame_same: "frame V S m \<Longrightarrow> same_outside V S w (snd (m w))"
  by (simp add: same_outside_def frame_def)

lemma frame_ret [frame_intros]: "frame V S (ret x)"
  by (simp add: frame_def ret_def)

lemma frame_throw [frame_intros]: "frame V S (throw e)"
  by (simp add: frame_def throw_def)

lemma frame_lift [frame_intros]: "frame V S (lift_io r)"
  by (simp add: frame_def lift_io_def)

lemma frame_get_world [frame_intros]: "frame V S get_world"
  by (simp add: frame_def get_world_def)

lemma snd_bind_io:
  "snd (bind_io m f w) = (case m w of (Inl e, w') \<Rightarrow> w' | (Inr x, w') \<Rightarrow> snd (f x w'))"
  by (cases "m w"; cases "fst (m w)") (auto simp: bind_io_def)

lemma frame_bind [frame_intros]:
  assumes m: "frame V S m" and f: "\<And>x. frame V S (f x)"
  shows "frame V S (bind_io m f)"
proof (rule frameI)
  fix w p assume p: "\<not> S p"
  obtain r w1 where mw: "m w = (r, w1)" by (cases "m w")
  have "V w1 p = V w p" using frame_result [OF m mw p] .
  then show "V (snd (bind_io m f w)) p = V w p"
    using mw frameD [OF f p] by (cases r) (simp_all add: snd_bind_io)
qed

lemma frame_bind_result:
  assumes m: "frame V S m" and f: "\<And>x w w'. m w = (Inr x, w') \<Longrightarrow> frame V S (f x)"
  shows "frame V S (bind_io m f)"
proof (rule frameI)
  fix w p assume p: "\<not> S p"
  obtain r w1 where mw: "m w = (r, w1)" by (cases "m w")
  have "V w1 p = V w p" using frame_result [OF m mw p] .
  then show "V (snd (bind_io m f w)) p = V w p"
    using mw frameD [OF f p] by (cases r) (simp_all add: snd_bind_io)
qed

lemma frame_then [frame_intros]: "frame V S m \<Longrightarrow> frame V S n \<Longrightarrow> frame V S (then_io m n)"
  unfolding then_io_def by (rule frame_bind)

lemma snd_wrappers:
  "snd (map_err f m w) = snd (m w)"
  "snd (try_io m w) = snd (m w)"
  "snd (ignore_io m w) = snd (m w)"
  "snd (finally_io m c w) = snd (c (snd (m w)))"
  "snd (on_error m c w) = (if is_ok (fst (m w)) then snd (m w) else snd (c (snd (m w))))"
  by (cases "m w"; cases "fst (m w)"; simp add: map_err_def try_io_def ignore_io_def finally_io_def on_error_def)+

lemma frame_map_err [frame_intros]: "frame V S m \<Longrightarrow> frame V S (map_err f m)"
  by (simp add: frame_def snd_wrappers)

lemma frame_try [frame_intros]: "frame V S m \<Longrightarrow> frame V S (try_io m)"
  by (simp add: frame_def snd_wrappers)

lemma frame_ignore [frame_intros]: "frame V S m \<Longrightarrow> frame V S (ignore_io m)"
  by (simp add: frame_def snd_wrappers)

lemma frame_on_error [frame_intros]: "frame V S m \<Longrightarrow> frame V S c \<Longrightarrow> frame V S (on_error m c)"
  by (simp add: frame_def snd_wrappers)

lemma frame_finally [frame_intros]: "frame V S m \<Longrightarrow> frame V S c \<Longrightarrow> frame V S (finally_io m c)"
  by (simp add: frame_def snd_wrappers)

lemma frame_iter [frame_intros]:
  "(\<And>x. x \<in> set xs \<Longrightarrow> frame V S (f x)) \<Longrightarrow> frame V S (iter_io f xs)"
  by (induction xs) (auto intro: frame_intros)

lemma frame_if [frame_intros]:
  "(b \<Longrightarrow> frame V S m) \<Longrightarrow> (\<not> b \<Longrightarrow> frame V S n) \<Longrightarrow> frame V S (if b then m else n)"
  by simp

lemma frame_case_sum [frame_intros]:
  "(\<And>x. r = Inl x \<Longrightarrow> frame V S (f x)) \<Longrightarrow> (\<And>y. r = Inr y \<Longrightarrow> frame V S (g y)) \<Longrightarrow>
     frame V S (case r of Inl x \<Rightarrow> f x | Inr y \<Rightarrow> g y)"
  by (cases r) auto

lemma frame_case_option [frame_intros]:
  "(r = None \<Longrightarrow> frame V S f) \<Longrightarrow> (\<And>y. r = Some y \<Longrightarrow> frame V S (g y)) \<Longrightarrow>
     frame V S (case r of None \<Rightarrow> f | Some y \<Rightarrow> g y)"
  by (cases r) auto

lemma frame_case_prod [frame_intros]:
  "(\<And>x y. z = (x, y) \<Longrightarrow> frame V S (f x y)) \<Longrightarrow> frame V S (case z of (x, y) \<Rightarrow> f x y)"
  by (cases z) auto

lemma frame_let [frame_intros]: "frame V S (f x) \<Longrightarrow> frame V S (let y = x in f y)"
  by simp

text \<open>What a failure leaves: \<open>m\<close> may change more when it succeeds.\<close>

definition failure_frame :: "(world \<Rightarrow> path \<Rightarrow> 'v) \<Rightarrow> (path \<Rightarrow> bool) \<Rightarrow> ('e, 'a) io \<Rightarrow> bool" where
  "failure_frame V S m \<longleftrightarrow> (\<forall>w e w' p. m w = (Inl e, w') \<longrightarrow> \<not> S p \<longrightarrow> V w' p = V w p)"

definition never_fails :: "('e, 'a) io \<Rightarrow> bool" where
  "never_fails m \<longleftrightarrow> (\<forall>w. is_ok (fst (m w)))"

lemma failure_frameD: "failure_frame V S m \<Longrightarrow> m w = (Inl e, w') \<Longrightarrow> \<not> S p \<Longrightarrow> V w' p = V w p"
  by (simp add: failure_frame_def)

lemma failure_frame_frame: "frame V S m \<Longrightarrow> failure_frame V S m"
  by (auto simp: failure_frame_def dest: frame_result)

lemma failure_frame_bind:
  assumes m: "frame V S m" and f: "\<And>x w w'. m w = (Inr x, w') \<Longrightarrow> failure_frame V S (f x)"
  shows "failure_frame V S (bind_io m f)"
  unfolding failure_frame_def bind_io_Inl
proof (intro allI impI, elim disjE exE conjE)
  fix w e w' p assume "\<not> S p" "m w = (Inl e, w')"
  then show "V w' p = V w p" using frame_result [OF m] by blast
next
  fix w e w'' p x w' assume p: "\<not> S p" and mw: "m w = (Inr x, w')" and "f x w' = (Inl e, w'')"
  from failure_frameD [OF f [OF mw] this(3) p] frame_result [OF m mw p] show "V w'' p = V w p" by simp
qed

lemma failure_frame_then: "frame V S m \<Longrightarrow> failure_frame V S n \<Longrightarrow> failure_frame V S (then_io m n)"
  unfolding then_io_def by (rule failure_frame_bind)

lemma failure_frame_committed:
  "failure_frame V S m \<Longrightarrow> (\<And>x. never_fails (f x)) \<Longrightarrow> failure_frame V S (bind_io m f)"
  unfolding failure_frame_def never_fails_def bind_io_Inl by (metis fst_conv is_ok_simps(1))

lemma failure_frame_on_error:
  "failure_frame V S m \<Longrightarrow> frame V S c \<Longrightarrow> failure_frame V S (on_error m c)"
  unfolding failure_frame_def on_error_Inl by (metis frameD)

lemma never_fails_intros:
  "never_fails (ret x)" "never_fails (ignore_io m)" "never_fails (try_io m)"
  "(\<And>x. never_fails (f x)) \<Longrightarrow> never_fails n \<Longrightarrow> never_fails (bind_io n f)"
  "never_fails m \<Longrightarrow> never_fails n \<Longrightarrow> never_fails (then_io m n)"
  by (auto simp: never_fails_def ret_def ignore_io_def try_io_def then_io_def bind_io_def is_ok_def
      split: prod.split sum.split) (metis Inl_Inr_False fst_conv sum.case(1))+

text \<open>The system calls.\<close>

lemma node_at_simps [simp]:
  "node_at (tick w) = node_at w"
  "node_at (w\<lparr>next_ino := i\<rparr>) = node_at w"
  "node_at (w\<lparr>drawn := i\<rparr>) = node_at w"
  "node_at (w\<lparr>steps := i\<rparr>) = node_at w"
  "node_at (w\<lparr>shared_locks := l\<rparr>) = node_at w"
  "node_at (w\<lparr>exclusive_locks := l\<rparr>) = node_at w"
  by (simp_all add: node_at_def tick_def fun_eq_iff)

lemma node_at_put [simp]: "node_at (put_node p n w) = (node_at w)(p \<mapsto> n)"
  by (rule tree.lookup_store)

lemma node_at_del [simp]: "node_at (del_node p w) = (node_at w)(p := None)"
  by (rule tree.lookup_delete)

lemma node_at_create [simp]: "node_at (create_node p n w) = (node_at w)(p \<mapsto> n)"
  by (simp add: create_node_def)

lemma map_of_move:
  "map_of (map (\<lambda>(q, n). (d @ drop (length s) q, n)) (filter (\<lambda>(q, n). starts_with q s) xs)) p =
     (case strip_prefix d p of None \<Rightarrow> None | Some r \<Rightarrow> map_of xs (s @ r))"
proof (induction xs)
  case Nil
  show ?case by (simp split: option.split)
next
  case (Cons x xs)
  obtain q n where x: "x = (q, n)" by (cases x)
  show ?case
  proof (cases "starts_with q s")
    case False
    then have "q \<noteq> s @ r" for r by (auto simp: starts_with_iff)
    with False Cons.IH x show ?thesis by (auto split: option.split)
  next
    case True
    then obtain t where q: "q = s @ t" by (auto simp: starts_with_iff)
    have "strip_prefix d p = Some t \<longleftrightarrow> p = d @ t" by (rule strip_prefix_Some_iff)
    then show ?thesis using Cons.IH x q by (auto split: option.split)
  qed
qed

lemma map_of_filter_key: "map_of (filter (\<lambda>(q, n). P q) xs) p = (if P p then map_of xs p else None)"
  by (induction xs) auto

lemma node_at_move:
  "node_at (move_tree src dst w) p =
     (case strip_prefix dst p of
        Some r \<Rightarrow> node_at w (src @ r)
      | None \<Rightarrow> if starts_with p src then None else node_at w p)"
proof -
  have "node_at (move_tree src dst w) p =
    (case (case strip_prefix dst p of None \<Rightarrow> None | Some r \<Rightarrow> node_at w (src @ r)) of
        None \<Rightarrow> (if \<not> starts_with p src \<and> \<not> starts_with p dst then node_at w p else None)
      | Some n \<Rightarrow> Some n)"
    unfolding node_at_def move_tree_def
    by (simp add: map_add_def map_of_move
        map_of_filter_key [where P = "\<lambda>q. \<not> starts_with q src \<and> \<not> starts_with q dst"]
        split: option.split)
  moreover have "strip_prefix dst p = None \<longleftrightarrow> \<not> starts_with p dst" by (simp add: strip_prefix_def)
  ultimately show ?thesis by (auto split: option.splits)
qed

lemma touches_syscall:
  "(\<And>w p. \<not> S p \<Longrightarrow> node_at (snd (act w)) p = node_at w p) \<Longrightarrow> touches S (syscall E act)"
  by (simp add: frame_def syscall_def split: option.split prod.split)

lemma keeps_syscall:
  "(\<And>w p. \<not> S p \<Longrightarrow> contents_at (snd (act w)) p = contents_at w p) \<Longrightarrow> keeps S (syscall E act)"
  by (simp add: frame_def syscall_def contents_at_def split: option.split prod.split)

lemma touches_reads [frame_intros]:
  "touches S (symlink_metadata E p)" "touches S (metadata E p)" "touches S (read_file E p)"
  "touches S (read_dir E p)" "touches S (sync_all E p)" "touches S (new_uuid E)"
  unfolding symlink_metadata_def metadata_def read_file_def read_dir_def sync_all_def
  by (rule touches_syscall; simp split: option.split node.split)+ (simp add: frame_def new_uuid_def)

lemmas keeps_reads [frame_intros] = touches_reads [THEN keeps_touches]

lemma touches_is_dir_path [frame_intros]: "touches S (is_dir_path E p)"
  unfolding is_dir_path_def by (intro frame_intros)

lemmas keeps_is_dir_path [frame_intros] = touches_is_dir_path [THEN keeps_touches]

lemma touches_create_dir: "S p \<Longrightarrow> touches S (create_dir E p)"
  unfolding create_dir_def by (rule touches_syscall) auto

lemma touches_create_new_file: "S p \<Longrightarrow> touches S (create_new_file E p m)"
  unfolding create_new_file_def by (rule touches_syscall) auto

lemma touches_remove_file: "S p \<Longrightarrow> touches S (remove_file E p)"
  unfolding remove_file_def by (rule touches_syscall) (auto split: option.split node.split)

lemma touches_remove_dir: "S p \<Longrightarrow> touches S (remove_dir E p)"
  unfolding remove_dir_def by (rule touches_syscall) (auto split: option.split node.split)

lemma touches_write_all: "S p \<Longrightarrow> touches S (write_all E p c)"
  by (auto simp: frame_def write_all_def split: option.split node.split)

text \<open>A rename moves the trees under its two ends and nothing else.\<close>

lemma touches_rename:
  assumes "\<And>r. S (src @ r)" "\<And>r. S (dst @ r)"
  shows "touches S (rename E src dst)"
proof -
  have *: "node_at (move_tree src dst w) p = node_at w p" if "\<not> S p" for w p
  proof -
    from that assms have "\<not> starts_with p src" "\<not> starts_with p dst" by (auto simp: starts_with_iff)
    then show ?thesis by (simp add: node_at_move strip_prefix_def)
  qed
  show ?thesis unfolding rename_def
    by (rule touches_syscall) (auto simp: * split: option.split node.split)
qed

text \<open>Creating directories and setting modes leave the contents of every regular file.\<close>

lemma contents_of_set_mode [simp]: "contents_of (Some (set_mode m n)) = contents_of (Some n)"
  by (cases n) (simp_all add: contents_of_def)

lemma keeps_create_dir [frame_intros]: "keeps S (create_dir E p)"
  unfolding create_dir_def by (rule keeps_syscall) (auto simp: contents_at_def contents_of_def)

lemma keeps_create_dir_all [frame_intros]: "keeps S (create_dir_all E p)"
proof -
  have "keeps S (create_dirs E base cs)" for base cs
    by (induction cs arbitrary: base) (simp_all, (intro frame_intros; assumption)+)
  then show ?thesis by (simp add: create_dir_all_def)
qed

lemma keeps_set_permissions [frame_intros]: "keeps S (set_permissions E p m)"
  unfolding set_permissions_def
proof (rule keeps_syscall)
  fix w q
  show "contents_at (snd (case follow 41 w p of None \<Rightarrow> (Inl (os_error (missing_kind w p)), w)
      | Some q \<Rightarrow> (case node_at w q of None \<Rightarrow> (Inl (os_error (missing_kind w p)), w)
          | Some n \<Rightarrow> (Inr (), put_node q (set_mode m n) w)))) q = contents_at w q"
    by (cases "follow 41 w p") (auto simp: contents_at_def split: option.split)
qed

text \<open>Recursive removal unlinks entries of the tree it is given; links are unlinked, not entered.\<close>

lemma touches_unlink_entry: "S p \<Longrightarrow> touches S (unlink_entry E p)"
  unfolding unlink_entry_def
  by (intro frame_intros touches_remove_dir touches_remove_file) simp_all

lemma tree_entries_under: "q \<in> set (tree_entries w p) \<Longrightarrow> starts_with q p"
  by (auto simp: tree_entries_def)

lemma touches_remove_dir_all:
  assumes "\<And>r. S (p @ r)"
  shows "touches S (remove_dir_all E p)"
proof -
  have "S p" using assms [of "[]"] by simp
  moreover have "S q" if "q \<in> set (tree_entries w p)" for q w
    using tree_entries_under [OF that] assms by (auto simp: starts_with_iff)
  ultimately show ?thesis unfolding remove_dir_all_def
    by (intro frame_intros touches_unlink_entry touches_remove_file) simp_all
qed

lemma symlink_metadata_result:
  assumes "symlink_metadata E p w = (r, w')"
  shows "node_at w' = node_at w \<and>
    (case r of Inr n \<Rightarrow> node_at w p = Some n
     | Inl e \<Rightarrow> io_kind e = NotFound \<longrightarrow> node_at w p = None)"
  using assms by (auto simp: symlink_metadata_def syscall_def split: option.splits prod.splits)

section \<open>A concrete environment\<close>

text \<open>No call fails, and UUIDs are numbered; or the calls in a given list of positions fail.\<close>

definition calm_env :: env where
  "calm_env = \<lparr>fault = (\<lambda>_. None), uuid = (\<lambda>k. ''u'' @ decimal k), euid = 1000\<rparr>"

definition faulty_env :: "nat list \<Rightarrow> env" where
  "faulty_env ks = \<lparr>fault = (\<lambda>n. if List.member ks n then Some (IoError PermissionDenied [], 2) else None),
     uuid = (\<lambda>k. ''u'' @ decimal k), euid = 1000\<rparr>"

definition world_of :: "(path \<times> node) list \<Rightarrow> world" where
  "world_of ns = \<lparr>nodes = ns, next_ino = 100, steps = 0, drawn = 0, shared_locks = [], exclusive_locks = []\<rparr>"

definition private_dir :: "nat \<Rightarrow> node" where
  "private_dir i = Dir \<lparr>mode = 448, uid = 1000, ino = i\<rparr>"

definition private_file :: "string \<Rightarrow> nat \<Rightarrow> node" where
  "private_file c i = File c \<lparr>mode = 384, uid = 1000, ino = i\<rparr>"

section \<open>Locks\<close>

text \<open>
  Advisory locks belong to opened files, known by their inode.  A blocking request that another
  process holds up does not return; the model lets it fail with \<open>WouldBlock\<close> instead.
\<close>

definition lock_shared :: "env \<Rightarrow> nat \<Rightarrow> (io_error, unit) io" where
  "lock_shared E h = syscall E (\<lambda>w.
     (if h \<in> set (exclusive_locks w) then (Inl (os_error WouldBlock), w)
      else (Inr (), w\<lparr>shared_locks := h # shared_locks w\<rparr>)))"

definition try_lock_exclusive :: "env \<Rightarrow> nat \<Rightarrow> (io_error, unit) io" where
  "try_lock_exclusive E h = syscall E (\<lambda>w.
     (if h \<in> set (exclusive_locks w) \<or> h \<in> set (shared_locks w) then (Inl (os_error WouldBlock), w)
      else (Inr (), w\<lparr>exclusive_locks := h # exclusive_locks w\<rparr>)))"

definition unlock_shared :: "nat \<Rightarrow> ('e, unit) io" where
  "unlock_shared h w = (Inr (), w\<lparr>shared_locks := remove1 h (shared_locks w)\<rparr>)"

definition unlock_exclusive :: "nat \<Rightarrow> ('e, unit) io" where
  "unlock_exclusive h w = (Inr (), w\<lparr>exclusive_locks := remove1 h (exclusive_locks w)\<rparr>)"

lemma touches_locks [frame_intros]:
  "touches S (lock_shared E h)" "touches S (try_lock_exclusive E h)"
  "touches S (unlock_shared h)" "touches S (unlock_exclusive h)"
  unfolding lock_shared_def try_lock_exclusive_def
  by (rule touches_syscall; simp)+ (simp_all add: frame_def unlock_shared_def unlock_exclusive_def)

lemmas keeps_locks [frame_intros] = touches_locks [THEN keeps_touches]

text \<open>The locks as a view: the file operations do not change them.\<close>

definition lock_view :: "world \<Rightarrow> path \<Rightarrow> nat list \<times> nat list" where
  "lock_view w p = (shared_locks w, exclusive_locks w)"

lemma lock_view_syscall:
  "(\<And>w. shared_locks (snd (act w)) = shared_locks w) \<Longrightarrow> (\<And>w. exclusive_locks (snd (act w)) = exclusive_locks w) \<Longrightarrow>
     frame lock_view S (syscall E act)"
  by (simp add: frame_def syscall_def lock_view_def tick_def split: option.split prod.split)

lemma lock_fields [simp]:
  "shared_locks (put_node p n w) = shared_locks w" "exclusive_locks (put_node p n w) = exclusive_locks w"
  "shared_locks (create_node p n w) = shared_locks w" "exclusive_locks (create_node p n w) = exclusive_locks w"
  "shared_locks (del_node p w) = shared_locks w" "exclusive_locks (del_node p w) = exclusive_locks w"
  "shared_locks (tick w) = shared_locks w" "exclusive_locks (tick w) = exclusive_locks w"
  by (simp_all add: put_node_def create_node_def del_node_def tick_def)

lemma lock_view_calls [frame_intros]:
  "frame lock_view S (symlink_metadata E p)" "frame lock_view S (metadata E p)"
  "frame lock_view S (create_dir E p)" "frame lock_view S (set_permissions E p m)"
  "frame lock_view S (remove_file E p)"
  unfolding symlink_metadata_def metadata_def create_dir_def set_permissions_def remove_file_def
  by (rule lock_view_syscall; auto split: option.split node.split)+

lemma lock_view_create_dir_all [frame_intros]: "frame lock_view S (create_dir_all E p)"
proof -
  have "frame lock_view S (create_dirs E base cs)" for base cs
    by (induction cs arbitrary: base) (simp_all add: is_dir_path_def, (intro frame_intros; assumption)+)
  then show ?thesis by (simp add: create_dir_all_def)
qed

end
