(* ===== verification/Fs_Util.thy ===== *)
theory Fs_Util
  imports Filesystem
begin

text \<open>
  The file system helpers of \<open>fsutil.rs\<close> (Unix build) and the small readers and removers of
  \<open>setup.rs\<close>, followed by the frame rules that say which paths each of them can change.
\<close>

section \<open>Symbolic links and directories\<close>

definition symlink_error :: "path \<Rightarrow> error" where
  "symlink_error p = Io ''validate managed path'' p
     (IoError InvalidData ''symbolic links are not allowed in V2-owned paths'')"

definition is_symlink_or_reparse :: "node \<Rightarrow> bool" where
  "is_symlink_or_reparse n = is_symlink_node n"

definition reject_symlink_if_present :: "env \<Rightarrow> path \<Rightarrow> (error, unit) io" where
  "reject_symlink_if_present E p = bind_io (try_io (symlink_metadata E p)) (\<lambda>r.
     case r of
       Inr n \<Rightarrow> if is_symlink_or_reparse n then throw (symlink_error p) else ret ()
     | Inl e \<Rightarrow> if io_kind e = NotFound then ret () else throw (Io ''inspect managed path'' p e))"

definition path_present_no_follow :: "env \<Rightarrow> path \<Rightarrow> (error, bool) io" where
  "path_present_no_follow E p = bind_io (try_io (symlink_metadata E p)) (\<lambda>r.
     case r of
       Inr _ \<Rightarrow> ret True
     | Inl e \<Rightarrow> if io_kind e = NotFound then ret False
                else throw (Io ''inspect managed path presence'' p e))"

definition validate_directory_if_present :: "env \<Rightarrow> path \<Rightarrow> (error, unit) io" where
  "validate_directory_if_present E p = bind_io (try_io (symlink_metadata E p)) (\<lambda>r.
     case r of
       Inr n \<Rightarrow>
         if is_symlink_or_reparse n then throw (symlink_error p)
         else if is_dir_node n then ret ()
         else throw (Io ''validate managed directory'' p
                (IoError InvalidData ''V2-owned directory path is not a directory''))
     | Inl e \<Rightarrow> if io_kind e = NotFound then ret () else throw (Io ''inspect managed directory'' p e))"

definition inspect_managed_component :: "env \<Rightarrow> path \<Rightarrow> bool \<Rightarrow> (error, bool) io" where
  "inspect_managed_component E p must_be_directory = bind_io (try_io (symlink_metadata E p)) (\<lambda>r.
     case r of
       Inr n \<Rightarrow>
         if is_symlink_or_reparse n then throw (symlink_error p)
         else if must_be_directory \<and> \<not> is_dir_node n
           then throw (Io ''validate managed path'' p
                  (IoError InvalidData ''V2-owned path component is not a directory''))
         else ret True
     | Inl e \<Rightarrow> if io_kind e = NotFound then ret False else throw (Io ''inspect managed path'' p e))"

primrec inspect_components :: "env \<Rightarrow> path \<Rightarrow> path \<Rightarrow> (error, unit) io" where
  "inspect_components E current [] = ret ()"
| "inspect_components E current (c # cs) =
     bind_io (inspect_managed_component E (current @ [c]) (cs \<noteq> [])) (\<lambda>present.
       if \<not> present then ret () else inspect_components E (current @ [c]) cs)"

definition ensure_no_managed_symlinks :: "env \<Rightarrow> path \<Rightarrow> path \<Rightarrow> (error, unit) io" where
  "ensure_no_managed_symlinks E managed_root target =
     (case strip_prefix managed_root target of
        None \<Rightarrow> throw (InvalidAppPath ''managed path'' (raw_of target) ''path is outside its V2-owned root'')
      | Some components \<Rightarrow>
          bind_io (inspect_managed_component E managed_root (components \<noteq> [])) (\<lambda>_.
            inspect_components E managed_root components))"

definition set_private_dir_permissions :: "env \<Rightarrow> path \<Rightarrow> (error, unit) io" where
  "set_private_dir_permissions E p = map_err (Io ''set directory permissions'' p) (set_permissions E p 448)"

definition set_private_file_permissions :: "env \<Rightarrow> path \<Rightarrow> (error, unit) io" where
  "set_private_file_permissions E p = map_err (Io ''set file permissions'' p) (set_permissions E p 384)"

definition ensure_private_dir :: "env \<Rightarrow> path \<Rightarrow> (error, unit) io" where
  "ensure_private_dir E p =
     then_io (validate_directory_if_present E p)
    (then_io (map_err (Io ''create directory'' p) (create_dir_all E p))
    (then_io (validate_directory_if_present E p)
             (set_private_dir_permissions E p)))"

section \<open>Removal\<close>

datatype removal_kind = FileOrFileLink | DirectoryLink | DirectoryTree

fun removal_kind_of :: "bool \<Rightarrow> bool \<Rightarrow> removal_kind" where
  "removal_kind_of True True = DirectoryLink"
| "removal_kind_of True False = FileOrFileLink"
| "removal_kind_of False False = FileOrFileLink"
| "removal_kind_of False True = DirectoryTree"

definition remove_dir_if_exists :: "env \<Rightarrow> path \<Rightarrow> (error, bool) io" where
  "remove_dir_if_exists E p = bind_io (try_io (symlink_metadata E p)) (\<lambda>r.
     case r of
       Inr n \<Rightarrow>
         let is_link = is_symlink_or_reparse n;
             is_directory = is_dir_node n
         in then_io (case removal_kind_of is_link is_directory of
                FileOrFileLink \<Rightarrow> map_err (Io ''remove path'' p) (remove_file E p)
              | DirectoryLink \<Rightarrow> map_err (Io ''remove directory link'' p) (remove_dir E p)
              | DirectoryTree \<Rightarrow> map_err (Io ''remove directory'' p) (remove_dir_all E p))
            (ret True)
     | Inl e \<Rightarrow> if io_kind e = NotFound then ret False else throw (Io ''inspect path'' p e))"

definition remove_regular_file_best_effort :: "env \<Rightarrow> path \<Rightarrow> ('e, bool) io" where
  "remove_regular_file_best_effort E p = bind_io (try_io (symlink_metadata E p)) (\<lambda>r.
     case r of Inl _ \<Rightarrow> ret False
     | Inr n \<Rightarrow>
         if \<not> is_file_node n \<or> is_symlink_or_reparse n then ret False
         else bind_io (try_io (remove_file E p)) (\<lambda>r. ret (is_ok r)))"

definition remove_empty_real_directory_best_effort :: "env \<Rightarrow> path \<Rightarrow> ('e, bool) io" where
  "remove_empty_real_directory_best_effort E p = bind_io (try_io (symlink_metadata E p)) (\<lambda>r.
     case r of Inl _ \<Rightarrow> ret False
     | Inr n \<Rightarrow>
         if \<not> is_dir_node n \<or> is_symlink_or_reparse n then ret False
         else bind_io (try_io (read_dir E p)) (\<lambda>r.
           case r of Inl _ \<Rightarrow> ret False
           | Inr entries \<Rightarrow>
               if entries \<noteq> [] then ret False
               else bind_io (try_io (remove_dir E p)) (\<lambda>r. ret (is_ok r))))"

definition remove_config_file_for_product_commit :: "env \<Rightarrow> path \<Rightarrow> (error, bool) io" where
  "remove_config_file_for_product_commit E p =
     then_io (reject_symlink_if_present E p)
       (bind_io (try_io (remove_file E p)) (\<lambda>r.
          case r of Inr _ \<Rightarrow> ret True
          | Inl e \<Rightarrow> if io_kind e = NotFound then ret False
                     else throw (Io ''remove final product config'' p e)))"

section \<open>Atomic replacement and promotion\<close>

definition open_directory :: "env \<Rightarrow> path \<Rightarrow> (io_error, unit) io" where
  "open_directory E p = syscall E (\<lambda>w.
     (if is_dir_at w p \<or> node_at w p \<noteq> None then (Inr (), w) else (Inl (os_error (missing_kind w p)), w)))"

definition sync_directory :: "env \<Rightarrow> path \<Rightarrow> (error, unit) io" where
  "sync_directory E p = map_err (Io ''sync directory'' p) (then_io (open_directory E p) (sync_all E p))"

definition replace_file :: "env \<Rightarrow> path \<Rightarrow> path \<Rightarrow> (error, unit) io" where
  "replace_file E source destination =
     map_err (Io ''atomically replace file'' destination) (rename E source destination)"

definition temporary_name :: "string \<Rightarrow> string \<Rightarrow> string" where
  "temporary_name name identifier = ''.'' @ name @ ''.tmp-'' @ identifier"

definition atomic_write_private_with_directory_sync ::
  "env \<Rightarrow> path \<Rightarrow> string \<Rightarrow> (path \<Rightarrow> (error, unit) io) \<Rightarrow> (error, unit) io" where
  "atomic_write_private_with_directory_sync E p contents sync_parent =
     (case (parent p, file_name p) of
        (Some dir, Some name) \<Rightarrow>
          then_io (ensure_private_dir E dir)
         (bind_io (new_uuid E) (\<lambda>identifier.
            let temporary = dir @ [temporary_name name identifier]
            in then_io
              (on_error
                (then_io (map_err (Io ''create temporary file'' temporary) (create_new_file E temporary 384))
                (then_io (map_err (Io ''write temporary file'' temporary) (write_all E temporary contents))
                (then_io (map_err (Io ''sync temporary file'' temporary) (sync_all E temporary))
                (then_io (set_private_file_permissions E temporary)
                         (replace_file E temporary p)))))
                (ignore_io (remove_file E temporary)))
              (ignore_io (sync_parent dir))))
      | _ \<Rightarrow> throw (InvalidAppPath ''file'' (raw_of p) ''path has no parent directory''))"

definition atomic_write_private :: "env \<Rightarrow> path \<Rightarrow> string \<Rightarrow> (error, unit) io" where
  "atomic_write_private E p contents =
     atomic_write_private_with_directory_sync E p contents (sync_directory E)"

definition promote_new_directory_with_directory_sync ::
  "env \<Rightarrow> path \<Rightarrow> path \<Rightarrow> (path \<Rightarrow> (error, unit) io) \<Rightarrow> (error, unit) io" where
  "promote_new_directory_with_directory_sync E source destination sync_parent =
     bind_io (path_present_no_follow E destination) (\<lambda>present.
       if present then throw (Io ''promote staged directory'' destination
              (IoError AlreadyExists ''destination generation already exists''))
       else case parent destination of
          None \<Rightarrow> throw (InvalidAppPath ''directory'' (raw_of destination) ''path has no parent directory'')
        | Some dir \<Rightarrow>
            then_io (ensure_private_dir E dir)
           (then_io (map_err (Io ''promote staged directory'' destination) (rename E source destination))
                    (ignore_io (sync_parent dir))))"

definition promote_new_directory :: "env \<Rightarrow> path \<Rightarrow> path \<Rightarrow> (error, unit) io" where
  "promote_new_directory E source destination =
     promote_new_directory_with_directory_sync E source destination (sync_directory E)"

section \<open>Reading\<close>

definition read_managed :: "env \<Rightarrow> path \<Rightarrow> (error, string) io" where
  "read_managed E p = then_io (reject_symlink_if_present E p)
     (map_err (Io ''read file'' p) (read_file E p))"

definition read_optional :: "env \<Rightarrow> path \<Rightarrow> (error, string option) io" where
  "read_optional E p = then_io (reject_symlink_if_present E p)
     (bind_io (try_io (read_file E p)) (\<lambda>r.
        case r of Inr bytes \<Rightarrow> ret (Some bytes)
        | Inl e \<Rightarrow> if io_kind e = NotFound then ret None else throw (Io ''read file'' p e)))"

section \<open>Lock files\<close>

text \<open>An opened file is known by its inode.\<close>

definition open_nofollow :: "env \<Rightarrow> bool \<Rightarrow> path \<Rightarrow> (io_error, nat) io" where
  "open_nofollow E create p = syscall E (\<lambda>w.
     (case node_at w p of
        Some (File _ m) \<Rightarrow> (Inr (ino m), w)
      | Some (Dir _) \<Rightarrow> (Inl (os_error IsADirectory), w)
      | Some (Symlink _ _) \<Rightarrow> (Inl (os_error OtherKind), w)
      | None \<Rightarrow>
          if \<not> create \<or> \<not> parent_is_dir w p then (Inl (os_error (missing_kind w p)), w)
          else (Inr (next_ino w), create_node p (File [] (new_meta E 384 w)) w)))"

definition file_metadata :: "env \<Rightarrow> nat \<Rightarrow> (io_error, nat) io" where
  "file_metadata E h = syscall E (\<lambda>w. (Inr h, w))"

definition invalid_opened_lock :: "path \<Rightarrow> error" where
  "invalid_opened_lock p = Io ''inspect opened lock'' p
     (IoError InvalidData ''lock path is not the current regular filesystem object'')"

definition opened_lock_is_current :: "env \<Rightarrow> nat \<Rightarrow> path \<Rightarrow> (error, bool) io" where
  "opened_lock_is_current E h p =
     bind_io (map_err (Io ''inspect opened lock'' p) (file_metadata E h)) (\<lambda>opened.
     bind_io (try_io (symlink_metadata E p)) (\<lambda>r.
       case r of
         Inr current \<Rightarrow> ret (is_file_node current \<and> \<not> is_symlink_node current \<and>
                             ino (node_meta current) = opened)
       | Inl e \<Rightarrow> if io_kind e = NotFound then ret False
                  else throw (Io ''inspect current lock path'' p e)))"

definition validate_opened_lock_file :: "env \<Rightarrow> nat \<Rightarrow> path \<Rightarrow> (error, unit) io" where
  "validate_opened_lock_file E h p =
     then_io (map_err (Io ''inspect opened lock'' p) (file_metadata E h))
       (bind_io (opened_lock_is_current E h p) (\<lambda>current.
          if \<not> current then throw (invalid_opened_lock p) else ret ()))"

definition set_private_lock_permissions :: "env \<Rightarrow> nat \<Rightarrow> path \<Rightarrow> (error, unit) io" where
  "set_private_lock_permissions E h p = map_err (Io ''set lock permissions'' p) (syscall E (\<lambda>w.
     (case node_at w p of
        Some (File c m) \<Rightarrow> if ino m = h then (Inr (), put_node p (File c (m\<lparr>mode := 384\<rparr>)) w) else (Inr (), w)
      | _ \<Rightarrow> (Inr (), w))))"

definition open_private_lock_file :: "env \<Rightarrow> path \<Rightarrow> (error, nat) io" where
  "open_private_lock_file E p =
     (case parent p of
        None \<Rightarrow> throw (InvalidAppPath ''lock file'' (raw_of p) ''path has no parent directory'')
      | Some dir \<Rightarrow>
          then_io (ensure_private_dir E dir)
         (then_io (reject_symlink_if_present E p)
         (bind_io (map_err (Io ''open transaction lock'' p) (open_nofollow E True p)) (\<lambda>h.
          then_io (validate_opened_lock_file E h p)
         (then_io (set_private_lock_permissions E h p)
         (then_io (validate_opened_lock_file E h p)
                  (ret h)))))))"

section \<open>Frames\<close>

text \<open>The checks and the readers change nothing.\<close>

lemma touches_checks [frame_intros]:
  "touches S (reject_symlink_if_present E p)" "touches S (path_present_no_follow E p)"
  "touches S (validate_directory_if_present E p)" "touches S (inspect_managed_component E p b)"
  "touches S (read_managed E p)" "touches S (read_optional E p)"
  unfolding reject_symlink_if_present_def path_present_no_follow_def validate_directory_if_present_def
    inspect_managed_component_def read_managed_def read_optional_def
  by (intro frame_intros)+

lemma touches_inspect_components [frame_intros]: "touches S (inspect_components E current cs)"
  by (induction cs arbitrary: current) (simp_all, (intro frame_intros; assumption)+)

lemma touches_ensure_no_managed_symlinks [frame_intros]: "touches S (ensure_no_managed_symlinks E root p)"
  unfolding ensure_no_managed_symlinks_def by (intro frame_intros)

lemma touches_sync_directory [frame_intros]: "touches S (sync_directory E p)"
proof -
  have "touches S (open_directory E p)" unfolding open_directory_def by (rule touches_syscall) auto
  then show ?thesis unfolding sync_directory_def by (intro frame_intros)
qed

lemma touches_lock_checks [frame_intros]:
  "touches S (file_metadata E h)" "touches S (opened_lock_is_current E h p)"
  "touches S (validate_opened_lock_file E h p)"
proof -
  have m: "touches S (file_metadata E h)" for S h unfolding file_metadata_def by (rule touches_syscall) simp
  then show "touches S (file_metadata E h)" .
  have c: "touches S (opened_lock_is_current E h p)"
    unfolding opened_lock_is_current_def by (intro frame_intros m)
  then show "touches S (opened_lock_is_current E h p)" .
  show "touches S (validate_opened_lock_file E h p)"
    unfolding validate_opened_lock_file_def by (intro frame_intros m c)
qed

lemmas keeps_checks [frame_intros] = touches_checks [THEN keeps_touches]
  touches_ensure_no_managed_symlinks [THEN keeps_touches] touches_sync_directory [THEN keeps_touches]
  touches_lock_checks [THEN keeps_touches]

text \<open>Private directories and modes change no contents.\<close>

lemma keeps_permissions [frame_intros]:
  "keeps S (set_private_dir_permissions E p)" "keeps S (set_private_file_permissions E p)"
  unfolding set_private_dir_permissions_def set_private_file_permissions_def by (intro frame_intros)+

lemma keeps_ensure_private_dir [frame_intros]: "keeps S (ensure_private_dir E p)"
  unfolding ensure_private_dir_def by (intro frame_intros)

text \<open>Removal changes the tree it is given and nothing else.\<close>

lemma touches_remove_dir_if_exists:
  assumes "\<And>r. S (p @ r)"
  shows "touches S (remove_dir_if_exists E p)"
proof -
  have "S p" using assms [of "[]"] by simp
  then have "touches S (case removal_kind_of a b of
        FileOrFileLink \<Rightarrow> map_err (Io ''remove path'' p) (remove_file E p)
      | DirectoryLink \<Rightarrow> map_err (Io ''remove directory link'' p) (remove_dir E p)
      | DirectoryTree \<Rightarrow> map_err (Io ''remove directory'' p) (remove_dir_all E p))" for a b
    using assms by (cases "removal_kind_of a b")
      (auto intro!: frame_map_err touches_remove_file touches_remove_dir touches_remove_dir_all)
  then show ?thesis unfolding remove_dir_if_exists_def Let_def by (intro frame_intros)
qed

lemma touches_best_effort:
  assumes "S p"
  shows "touches S (remove_regular_file_best_effort E p)"
    and "touches S (remove_empty_real_directory_best_effort E p)"
    and "touches S (remove_config_file_for_product_commit E p)"
  unfolding remove_regular_file_best_effort_def remove_empty_real_directory_best_effort_def
    remove_config_file_for_product_commit_def
  by (intro frame_intros touches_remove_file touches_remove_dir; rule assms)+

lemma keeps_open_private_lock_file: "S p \<Longrightarrow> keeps S (open_private_lock_file E p)"
proof -
  assume S: "S p"
  have o: "keeps S (open_nofollow E True p)" unfolding open_nofollow_def
    by (rule keeps_syscall) (auto simp: contents_at_def S split: option.split node.split)
  have l: "keeps S (set_private_lock_permissions E h p)" for h unfolding set_private_lock_permissions_def
    by (intro frame_intros keeps_syscall) (auto simp: contents_at_def contents_of_def S split: option.split node.split)
  show ?thesis unfolding open_private_lock_file_def by (intro frame_intros o l)
qed

text \<open>
  A directory removal never leaves through a link: a link that was a directory to the caller is
  unlinked, its target is untouched (the frame of \<open>remove_dir_if_exists\<close> holds its own tree only).
\<close>

section \<open>Links in managed paths\<close>

definition not_link :: "node option \<Rightarrow> bool" where
  "not_link n = (case n of Some (Symlink _ _) \<Rightarrow> False | _ \<Rightarrow> True)"

definition dir_or_missing :: "node option \<Rightarrow> bool" where
  "dir_or_missing n = (case n of Some (Dir _) \<Rightarrow> True | None \<Rightarrow> True | _ \<Rightarrow> False)"

lemma inspect_managed_component_Inr:
  assumes i: "inspect_managed_component E p b w = (Inr present, w')"
  shows "node_at w' = node_at w" and "not_link (node_at w p)" and "b \<longrightarrow> dir_or_missing (node_at w p)"
    and "\<not> present \<Longrightarrow> node_at w p = None"
proof -
  from i obtain r where s: "symlink_metadata E p w = (r, w')"
    and r: "case r of Inr n \<Rightarrow> \<not> is_symlink_or_reparse n \<and> (b \<longrightarrow> is_dir_node n) \<and> present
            | Inl e \<Rightarrow> io_kind e = NotFound \<and> \<not> present"
    unfolding inspect_managed_component_def bind_io_Inr try_io_eq
    by (elim exE conjE, rename_tac x w1 y, case_tac y) (auto simp: ret_eq throw_eq split: if_splits)
  note c = symlink_metadata_result [OF s]
  from c show "node_at w' = node_at w" by simp
  have n: "(\<exists>n. node_at w p = Some n \<and> \<not> is_symlink_node n \<and> (b \<longrightarrow> is_dir_node n) \<and> present) \<or>
           (node_at w p = None \<and> \<not> present)"
    using c r by (cases r) (auto simp: is_symlink_or_reparse_def)
  then show "not_link (node_at w p)" "b \<longrightarrow> dir_or_missing (node_at w p)" "\<not> present \<Longrightarrow> node_at w p = None"
    by (auto simp: not_link_def dir_or_missing_def is_symlink_node_def is_dir_node_def split: node.splits)
qed

text \<open>The components below \<open>current\<close> have been looked at until the first one that is missing.\<close>

primrec checked_path :: "world \<Rightarrow> path \<Rightarrow> path \<Rightarrow> bool" where
  "checked_path w current [] = True"
| "checked_path w current (c # cs) =
     (not_link (node_at w (current @ [c])) \<and> (cs \<noteq> [] \<longrightarrow> dir_or_missing (node_at w (current @ [c]))) \<and>
      (node_at w (current @ [c]) \<noteq> None \<longrightarrow> checked_path w (current @ [c]) cs))"

lemma checked_path_cong: "node_at w' = node_at w \<Longrightarrow> checked_path w' p cs = checked_path w p cs"
  by (induction cs arbitrary: p) simp_all

lemma inspect_components_Inr:
  assumes "inspect_components E current cs w = (Inr (), w')"
  shows "checked_path w current cs"
  using assms
proof (induction cs arbitrary: current w)
  case (Cons c cs)
  from Cons.prems obtain present w1 where
    i: "inspect_managed_component E (current @ [c]) (cs \<noteq> []) w = (Inr present, w1)" and
    rest: "(if \<not> present then ret () else inspect_components E (current @ [c]) cs) w1 = (Inr (), w')"
    by (auto simp: bind_io_Inr)
  note c = inspect_managed_component_Inr [OF i]
  have "checked_path w (current @ [c]) cs" if "node_at w (current @ [c]) \<noteq> None"
  proof -
    have "present" using c(4) that by auto
    then have "checked_path w1 (current @ [c]) cs" using Cons.IH [of "current @ [c]" w1] rest by simp
    then show ?thesis by (simp only: checked_path_cong [OF c(1)])
  qed
  with c show ?case by simp
qed simp

definition tree_closed :: "world \<Rightarrow> bool" where
  "tree_closed w \<longleftrightarrow> list_all (\<lambda>(p, _). parent_is_dir w p) (nodes w)"

lemma tree_closed_parent: "tree_closed w \<Longrightarrow> node_at w p = Some n \<Longrightarrow> parent_is_dir w p"
  by (auto simp: tree_closed_def list_all_iff node_at_def dest: map_of_SomeD)

definition rooted :: "world \<Rightarrow> bool" where
  "rooted w \<longleftrightarrow> (\<forall>p. node_at w p \<noteq> None \<longrightarrow> parent_is_dir w p)"

lemma rooted_tree_closed: "tree_closed w \<Longrightarrow> rooted w"
  by (auto simp: rooted_def tree_closed_parent)

lemma rooted_below:
  assumes "rooted w" "node_at w p = None" "p \<noteq> []"
  shows "node_at w (p @ r) = None"
proof (induction r rule: rev_induct)
  case (snoc c r)
  then have "\<not> is_dir_at w (p @ r)" using assms(3) by (simp add: is_dir_at_def)
  then show ?case
    using assms(1) unfolding rooted_def
    by (auto simp: parent_is_dir_def butlast_append dest!: spec [of _ "p @ r @ [c]"])
qed (simp add: assms)

lemmas tree_closed_below = rooted_below [OF rooted_tree_closed]

lemma checked_path_take:
  assumes "tree_closed w" "checked_path w p cs" "k \<le> length cs" "0 < k"
  shows "not_link (node_at w (p @ take k cs)) \<and> (k < length cs \<longrightarrow> dir_or_missing (node_at w (p @ take k cs)))"
  using assms(2-)
proof (induction cs arbitrary: p k)
  case (Cons c cs)
  from Cons.prems obtain j where k: "k = Suc j" by (cases k) auto
  show ?case
  proof (cases "j = 0")
    case True then show ?thesis using Cons.prems k by auto
  next
    case False
    show ?thesis
    proof (cases "node_at w (p @ [c])")
      case None
      then have "node_at w (p @ [c] @ take j cs) = None"
        using tree_closed_below [OF assms(1) None] by simp
      then show ?thesis using k by (simp add: not_link_def dir_or_missing_def)
    next
      case (Some n)
      then show ?thesis using Cons.IH [of "p @ [c]" j] Cons.prems k False by simp
    qed
  qed
qed simp

text \<open>
  C23: When \<open>ensure_no_managed_symlinks\<close> accepts a target, no component of the path from the owned
  root down to the target, the root and the target included, is a symbolic link, and every one above
  the target is a directory or does not exist yet; and it changed nothing.  (A link above the owned
  root is not looked at.)
\<close>

theorem managed_path_has_no_links:
  assumes "tree_closed w" "ensure_no_managed_symlinks E root target w = (Inr (), w')"
  shows "\<exists>cs. target = root @ cs \<and> node_at w' = node_at w \<and>
    (\<forall>k \<le> length cs. not_link (node_at w (root @ take k cs)) \<and>
        (k < length cs \<longrightarrow> dir_or_missing (node_at w (root @ take k cs))))"
proof -
  obtain cs where cs: "strip_prefix root target = Some cs"
    using assms(2) by (cases "strip_prefix root target") (simp_all add: ensure_no_managed_symlinks_def throw_eq)
  then obtain present w1 where
    i: "inspect_managed_component E root (cs \<noteq> []) w = (Inr present, w1)" and
    r: "inspect_components E root cs w1 = (Inr (), w')"
    using assms(2) by (auto simp: ensure_no_managed_symlinks_def bind_io_Inr)
  note c = inspect_managed_component_Inr [OF i]
  have "checked_path w root cs"
    using inspect_components_Inr [OF r] by (simp only: checked_path_cong [OF c(1)])
  moreover have "node_at w' = node_at w"
    using frame_result [OF touches_ensure_no_managed_symlinks [of nowhere] assms(2)]
    by (simp add: nowhere_def fun_eq_iff)
  moreover have "not_link (node_at w (root @ take k cs)) \<and>
      (k < length cs \<longrightarrow> dir_or_missing (node_at w (root @ take k cs)))" if "k \<le> length cs" for k
    using checked_path_take [OF assms(1) \<open>checked_path w root cs\<close> that] c(2,3)
    by (cases "k = 0") auto
  ultimately show ?thesis using cs by (auto simp: strip_prefix_Some_iff)
qed

section \<open>What an atomic write does\<close>

lemma rename_Inl: "rename E s d w = (Inl e, w') \<Longrightarrow> node_at w' = node_at w"
  by (auto simp: rename_def syscall_def split: option.splits node.splits if_splits prod.splits)

lemma rename_Inr:
  "rename E s d w = (Inr (), w') \<Longrightarrow>
     node_at w' = node_at (move_tree s d w) \<and> node_at w s \<noteq> None \<and>
     \<not> starts_with d s \<and> \<not> starts_with s d"
proof -
  have "node_at (move_tree s d (tick w)) = node_at (move_tree s d w)" by (simp add: node_at_move fun_eq_iff cong: option.case_cong)
  then show "rename E s d w = (Inr (), w') \<Longrightarrow> ?thesis"
    by (auto simp: rename_def syscall_def split: option.splits node.splits if_splits prod.splits)
qed

lemma create_new_file_Inr:
  "create_new_file E p m w = (Inr (), w') \<Longrightarrow>
     (\<exists>a. node_at w' = (node_at w)(p \<mapsto> File [] a) \<and> mode a = m) \<and> node_at w p = None"
  by (auto simp: create_new_file_def syscall_def new_meta_def split: option.splits if_splits prod.splits)

lemma write_all_Inr:
  "write_all E p c w = (Inr (), w') \<Longrightarrow> node_at w p = Some (File [] a) \<Longrightarrow>
     node_at w' = (node_at w)(p \<mapsto> File c a)"
  by (auto simp: write_all_def split: option.splits prod.splits)

lemma sync_all_result: "sync_all E p w = (r, w') \<Longrightarrow> node_at w' = node_at w"
  by (auto simp: sync_all_def syscall_def split: option.splits prod.splits)

lemma set_permissions_file:
  "set_permissions E p m w = (r, w') \<Longrightarrow> node_at w p = Some (File c a) \<Longrightarrow>
     node_at w' = (case r of Inr _ \<Rightarrow> (node_at w)(p \<mapsto> File c (a\<lparr>mode := m\<rparr>)) | Inl _ \<Rightarrow> node_at w)"
  by (auto simp: set_permissions_def syscall_def eval_nat_numeral split: option.splits prod.splits)

definition temporary_of :: "env \<Rightarrow> path \<Rightarrow> path \<Rightarrow> bool" where
  "temporary_of E p q \<longleftrightarrow> (\<exists>k. starts_with q (butlast p @ [temporary_name (last p) (uuid E k)]))"

definition replaced_file :: "path \<Rightarrow> string \<Rightarrow> world \<Rightarrow> bool" where
  "replaced_file p c w \<longleftrightarrow> (\<exists>a. node_at w p = Some (File c a) \<and> mode a = 384)"

lemma then_io_assoc: "then_io (then_io a b) c = then_io a (then_io b c)"
  by (rule ext) (simp add: then_io_def bind_io_def split: prod.split sum.split)

definition write_temporary :: "env \<Rightarrow> path \<Rightarrow> string \<Rightarrow> (error, unit) io" where
  "write_temporary E t c =
     then_io (map_err (Io ''create temporary file'' t) (create_new_file E t 384))
    (then_io (map_err (Io ''write temporary file'' t) (write_all E t c))
    (then_io (map_err (Io ''sync temporary file'' t) (sync_all E t))
             (set_private_file_permissions E t)))"

lemma keeps_write_temporary: "keeps (\<lambda>q. starts_with q t) (write_temporary E t c)"
proof -
  have "starts_with t t" by (simp add: starts_with_iff)
  then show ?thesis unfolding write_temporary_def
    by (intro frame_intros touches_create_new_file [THEN keeps_touches] touches_write_all [THEN keeps_touches]) simp_all
qed

lemma write_temporary_Inr:
  assumes "write_temporary E t c w = (Inr (), w')"
  shows "replaced_file t c w'"
proof -
  from assms obtain w1 w2 w3 where
    c: "create_new_file E t 384 w = (Inr (), w1)" and wr: "write_all E t c w1 = (Inr (), w2)" and
    sy: "sync_all E t w2 = (Inr (), w3)" and pe: "set_permissions E t 384 w3 = (Inr (), w')"
    by (auto simp: write_temporary_def io_eqs set_private_file_permissions_def)
  from create_new_file_Inr [OF c] obtain a where "node_at w1 t = Some (File [] a)" by auto
  from write_all_Inr [OF wr this] sync_all_result [OF sy] have "node_at w3 t = Some (File c a)" by simp
  from set_permissions_file [OF pe this] show ?thesis by (simp add: replaced_file_def)
qed

lemma keeps_rename_file:
  assumes "replaced_file s c w" "rename E s d w = (Inr (), w')"
  shows "replaced_file d c w' \<and> (\<forall>q. contents_at w' q = contents_at w q \<or> starts_with q s \<or> starts_with q d)"
proof -
  note r = rename_Inr [OF assms(2)]
  have "node_at w' d = node_at w s"
    using r strip_prefix_Some_iff [of d d "[]"] by (simp add: node_at_move)
  moreover have "contents_at w' q = contents_at w q" if "\<not> starts_with q s" "\<not> starts_with q d" for q
    using r that by (simp add: node_at_move contents_at_def strip_prefix_def)
  ultimately show ?thesis using assms(1) by (auto simp: replaced_file_def)
qed

lemma write_and_rename:
  assumes "then_io (write_temporary E t c) (replace_file E t p) w = (r, w')"
  shows "(\<forall>q. contents_at w' q = contents_at w q \<or> starts_with q t \<or> (starts_with q p \<and> is_ok r)) \<and>
         (is_ok r \<longrightarrow> replaced_file p c w')"
proof -
  note frame = frame_result [OF keeps_write_temporary]
  show ?thesis
  proof (cases r)
    case (Inl e)
    with assms consider "write_temporary E t c w = (Inl e, w')"
      | w1 e' where "write_temporary E t c w = (Inr (), w1)" "rename E t p w1 = (Inl e', w')"
      by (auto simp: io_eqs replace_file_def)
    then show ?thesis
    proof cases
      case 1 then show ?thesis using Inl frame [OF 1] by auto
    next
      case 2 then show ?thesis using Inl frame [OF 2(1)] rename_Inl [OF 2(2)] by (auto simp: contents_at_def)
    qed
  next
    case (Inr u)
    with assms obtain w1 where 1: "write_temporary E t c w = (Inr (), w1)" "rename E t p w1 = (Inr (), w')"
      by (auto simp: io_eqs replace_file_def)
    then show ?thesis
      using Inr frame [OF 1(1)] keeps_rename_file [OF write_temporary_Inr [OF 1(1)] 1(2)] by (metis is_ok_simps(2))
  qed
qed

lemma atomic_write_private_alt:
  "atomic_write_private E (d @ [n]) c =
     then_io (ensure_private_dir E d) (bind_io (new_uuid E) (\<lambda>identifier.
       let t = d @ [temporary_name n identifier] in
       then_io (on_error (then_io (write_temporary E t c) (replace_file E t (d @ [n])))
                         (ignore_io (remove_file E t)))
               (ignore_io (sync_directory E d))))"
  by (simp add: atomic_write_private_def atomic_write_private_with_directory_sync_def Let_def
      write_temporary_def then_io_assoc)

lemma atomic_write_effect:
  assumes "p \<noteq> []" and "atomic_write_private E p c w = (r, w')"
  shows "(\<forall>q. contents_at w' q = contents_at w q \<or> temporary_of E p q \<or> (starts_with q p \<and> is_ok r)) \<and>
         (is_ok r \<longrightarrow> replaced_file p c w')"
proof -
  from assms(1) obtain d n where p: "p = d @ [n]" by (metis append_butlast_last_id)
  define t where "t k = d @ [temporary_name n (uuid E k)]" for k
  define body where "body k = on_error (then_io (write_temporary E (t k) c) (replace_file E (t k) p))
     (ignore_io (remove_file E (t k)))" for k
  have b: "(\<forall>q. contents_at w' q = contents_at w q \<or> temporary_of E p q \<or> (starts_with q p \<and> is_ok r)) \<and>
      (is_ok r \<longrightarrow> replaced_file p c w')" if "body k w = (r, w')" for k w r w'
  proof -
    have t: "temporary_of E p q" if "starts_with q (t k)" for q
      using that by (auto simp: temporary_of_def t_def p)
    have rm: "keeps (\<lambda>q. starts_with q (t k)) (remove_file E (t k))"
      by (rule keeps_touches, rule touches_remove_file) (simp add: starts_with_iff)
    show ?thesis
    proof (cases r)
      case (Inr u)
      with that have "then_io (write_temporary E (t k) c) (replace_file E (t k) p) w = (Inr u, w')"
        by (simp add: body_def on_error_Inr)
      from write_and_rename [OF this] Inr t show ?thesis by blast
    next
      case (Inl e)
      with that obtain w1 where
        1: "then_io (write_temporary E (t k) c) (replace_file E (t k) p) w = (Inl e, w1)" and
        2: "w' = snd (remove_file E (t k) w1)"
        by (auto simp: body_def on_error_Inl snd_wrappers)
      from write_and_rename [OF 1] Inl t frameD [OF rm, of _ w1] show ?thesis unfolding 2
        by (metis is_ok_simps(1))
    qed
  qed
  have e: "contents_at w' q = contents_at w q" if "ensure_private_dir E d w = (r, w')" for r w w' q
    using frame_result [OF keeps_ensure_private_dir [of nowhere] that] by (simp add: nowhere_def)
  have s: "node_at (snd (sync_directory E d w)) = node_at w" for w
    using frameD [OF touches_sync_directory [of nowhere]] by (simp add: nowhere_def fun_eq_iff)
  have u: "node_at w' = node_at w \<and> (\<exists>k. r = Inr (uuid E k))" if "new_uuid E w = (r, w')" for r :: "(error, string) result" and w w'
    using that by (auto simp: new_uuid_def)
  define full where "full k = then_io (body k) (ignore_io (sync_directory E d) :: (error, unit) io)" for k
  have f: "(\<forall>q. contents_at w' q = contents_at w q \<or> temporary_of E p q \<or> (starts_with q p \<and> is_ok r)) \<and>
      (is_ok r \<longrightarrow> replaced_file p c w')" if f: "full k w = (r, w')" for k w r w'
  proof (cases r)
    case (Inl e)
    with f have "body k w = (Inl e, w')" by (auto simp: full_def io_eqs)
    from b [OF this] Inl show ?thesis by blast
  next
    case (Inr x)
    with f obtain w1 where 1: "body k w = (Inr (), w1)" and 2: "w' = snd (sync_directory E d w1)"
      by (auto simp: full_def io_eqs)
    have "node_at w' = node_at w1" by (simp add: 2 s)
    with b [OF 1] Inr show ?thesis by (simp add: replaced_file_def contents_at_def)
  qed
  define g where "g i = then_io (on_error (then_io (write_temporary E (d @ [temporary_name n i]) c)
      (replace_file E (d @ [temporary_name n i]) p)) (ignore_io (remove_file E (d @ [temporary_name n i]))))
    (ignore_io (sync_directory E d))" for i
  have a: "atomic_write_private E p c = then_io (ensure_private_dir E d) (bind_io (new_uuid E) g)"
    unfolding p atomic_write_private_alt Let_def g_def ..
  have g: "g (uuid E k) = full k" for k by (simp add: g_def full_def body_def t_def)
  from assms(2) consider e where "r = Inl e" "ensure_private_dir E d w = (Inl e, w')"
    | w1 k w2 where "ensure_private_dir E d w = (Inr (), w1)" "node_at w2 = node_at w1" "g (uuid E k) w2 = (r, w')"
    by (cases r) (auto simp: a io_eqs dest!: u)
  then show ?thesis
  proof cases
    case 1 then show ?thesis using e [OF 1(2)] by simp
  next
    case 2
    have "contents_at w2 q = contents_at w q" for q using e [OF 2(1)] 2(2) by (simp add: contents_at_def)
    with f [of k w2 r w'] 2(3) g show ?thesis by simp
  qed
qed

text \<open>
  C15: An atomic write of a private file is all or nothing.  On success the path is a regular file
  with exactly the new contents and mode 0600; on failure, whichever call failed, every regular file
  other than the temporary one keeps its contents, the old contents of the path included.  In both
  cases no other path is written, apart from the temporary file beside the destination.
\<close>

theorem atomic_write_private_all_or_nothing:
  assumes "p \<noteq> []" and "atomic_write_private E p c w = (r, w')"
  shows "(\<forall>q. contents_at w' q = contents_at w q \<or> temporary_of E p q \<or> (starts_with q p \<and> is_ok r)) \<and>
         (is_ok r \<longrightarrow> replaced_file p c w')"
  using assms by (rule atomic_write_effect)

definition example_tree :: world where
  "example_tree = world_of [([''app''], private_dir 1), ([''app'', ''state''], private_dir 2),
     ([''app'', ''state'', ''config.json''], private_file ''old'' 3)]"

theorem atomic_write_private_all_or_nothing_witness:
  "let p = [''app'', ''state'', ''config.json''];
       done = atomic_write_private calm_env p ''new'' example_tree;
       failed = atomic_write_private (faulty_env [9]) p ''new'' example_tree
   in is_ok (fst done) \<and> replaced_file p ''new'' (snd done) \<and>
      \<not> is_ok (fst failed) \<and> contents_at (snd failed) p = Some ''old''"
proof -
  let ?p = "[''app'', ''state'', ''config.json'']"
  have d: "is_ok (fst (atomic_write_private calm_env ?p ''new'' example_tree))"
    and f: "\<not> is_ok (fst (atomic_write_private (faulty_env [9]) ?p ''new'' example_tree))"
    and o: "contents_at example_tree ?p = Some ''old''"
    by code_simp+
  have t: "\<not> temporary_of E ?p ?p" for E
    by (auto simp: temporary_of_def temporary_name_def starts_with_iff)
  have w: "atomic_write_private E ?p ''new'' w =
      (fst (atomic_write_private E ?p ''new'' w), snd (atomic_write_private E ?p ''new'' w))" for E w
    by simp
  have "contents_at (snd (atomic_write_private (faulty_env [9]) ?p ''new'' example_tree)) ?p =
      contents_at example_tree ?p"
    using atomic_write_private_all_or_nothing [OF _ w, of "faulty_env [9]" example_tree] f t by blast
  moreover have "replaced_file ?p ''new'' (snd (atomic_write_private calm_env ?p ''new'' example_tree))"
    using atomic_write_private_all_or_nothing [OF _ w, of calm_env example_tree] d by blast
  ultimately show ?thesis using d f o by (simp add: Let_def)
qed

theorem managed_path_has_no_links_witness:
  "\<exists>cs. [''app'', ''state'', ''config.json''] = [''app''] @ cs \<and>
     (\<forall>k \<le> length cs. not_link (node_at example_tree ([''app''] @ take k cs)))"
proof -
  have r: "fst (ensure_no_managed_symlinks calm_env [''app''] [''app'', ''state'', ''config.json''] example_tree) = Inr ()"
    and t: "tree_closed example_tree" by code_simp+
  then show ?thesis
    using managed_path_has_no_links [of example_tree calm_env "[''app'']" "[''app'', ''state'', ''config.json'']"]
    by (metis prod.collapse)
qed

section \<open>Reading what is stored\<close>

lemma reject_symlink_Inr:
  assumes "reject_symlink_if_present E p w = (Inr (), w')"
  shows "node_at w' = node_at w \<and> not_link (node_at w p)"
proof -
  from assms obtain r where s: "symlink_metadata E p w = (r, w')"
    and r: "case r of Inr n \<Rightarrow> \<not> is_symlink_or_reparse n | Inl e \<Rightarrow> io_kind e = NotFound"
    unfolding reject_symlink_if_present_def bind_io_Inr try_io_eq
    by (elim exE conjE, rename_tac x w1 y, case_tac y) (auto simp: ret_eq throw_eq split: if_splits)
  from symlink_metadata_result [OF s] r show ?thesis
    by (cases r) (auto simp: not_link_def is_symlink_or_reparse_def is_symlink_node_def split: node.splits)
qed

lemma follow_not_link: "not_link (node_at w p) \<Longrightarrow> follow 41 w p = (if node_at w p = None then None else Some p)"
  using follow.simps(2) [of 40 w p] by (auto simp: not_link_def split: option.splits node.splits)

lemma follow_tick [simp]: "follow n (tick w) p = follow n w p"
  by (induction n arbitrary: p) (auto split: option.splits node.splits)

lemma read_file_Inr:
  assumes "read_file E p w = (Inr c, w')" "not_link (node_at w p)"
  shows "contents_at w p = Some c"
  using assms follow_not_link [OF assms(2)]
  by (auto simp: read_file_def syscall_def contents_at_def contents_of_def split: option.splits node.splits prod.splits if_splits)

lemma read_file_calm:
  assumes "fault E = (\<lambda>_. None)" "contents_at w p = Some c"
  shows "\<exists>w'. read_file E p w = (Inr c, w') \<and> node_at w' = node_at w"
proof -
  from assms(2) obtain m where n: "node_at w p = Some (File c m)"
    by (auto simp: contents_at_def contents_of_def split: option.splits node.splits)
  then have "follow 41 w p = Some p" by (simp add: follow_not_link not_link_def)
  with n assms(1) show ?thesis by (simp add: read_file_def syscall_def)
qed

lemma missing_kind_tick [simp]: "missing_kind (tick w) p = missing_kind w p"
  by (simp add: missing_kind_def is_dir_at_def)

lemma reject_symlink_calm:
  assumes "fault E = (\<lambda>_. None)" "not_link (node_at w p)" "missing_kind w p = NotFound \<or> node_at w p \<noteq> None"
  shows "\<exists>w'. reject_symlink_if_present E p w = (Inr (), w') \<and> node_at w' = node_at w"
proof -
  obtain r w1 where s: "symlink_metadata E p w = (r, w1)" by (cases "symlink_metadata E p w")
  then have "node_at w1 = node_at w" "case r of Inr n \<Rightarrow> \<not> is_symlink_node n | Inl e \<Rightarrow> io_kind e = NotFound"
    using assms by (auto simp: symlink_metadata_def syscall_def not_link_def is_symlink_node_def
        split: option.splits node.splits)
  with s show ?thesis
    by (cases r) (simp_all add: reject_symlink_if_present_def bind_io_def try_io_def ret_def is_symlink_or_reparse_def)
qed

section \<open>Composite frames\<close>

lemma starts_with_extend: "starts_with q p \<longleftrightarrow> (\<exists>r. q = p @ r)"
  by (rule starts_with_iff)

lemma keeps_atomic_write:
  assumes "p \<noteq> []" "\<And>q. temporary_of E p q \<Longrightarrow> S q" "\<And>r. S (p @ r)"
  shows "keeps S (atomic_write_private E p c)"
proof (rule frameI)
  fix w q assume "\<not> S q"
  moreover obtain r w' where "atomic_write_private E p c w = (r, w')" by (cases "atomic_write_private E p c w")
  ultimately show "contents_at (snd (atomic_write_private E p c w)) q = contents_at w q"
    using atomic_write_effect [OF assms(1)] assms(2,3) by (metis starts_with_extend snd_conv)
qed

lemma failure_frame_atomic_write:
  assumes "p \<noteq> []" "\<And>q. temporary_of E p q \<Longrightarrow> S q"
  shows "failure_frame contents_at S (atomic_write_private E p c)"
  unfolding failure_frame_def using atomic_write_effect [OF assms(1)] assms(2) by fastforce

lemma keeps_promote:
  assumes "\<And>r. S (source @ r)" "\<And>r. S (destination @ r)"
  shows "keeps S (promote_new_directory E source destination)"
proof -
  have "keeps S (rename E source destination)"
    using assms by (intro keeps_touches touches_rename)
  then show ?thesis
    unfolding promote_new_directory_def promote_new_directory_with_directory_sync_def
    by (intro frame_intros)
qed

lemma keeps_remove_dir_all: "(\<And>r. S (p @ r)) \<Longrightarrow> keeps S (remove_dir_all E p)"
  by (intro keeps_touches touches_remove_dir_all)

lemma keeps_remove_dir_if_exists: "(\<And>r. S (p @ r)) \<Longrightarrow> keeps S (remove_dir_if_exists E p)"
  by (intro keeps_touches touches_remove_dir_if_exists)

text \<open>Removing a tree that had no files in an earlier state brings back that state.\<close>

definition absent_or :: "(path \<Rightarrow> bool) \<Rightarrow> world \<Rightarrow> path \<Rightarrow> bool" where
  "absent_or S w0 p \<longleftrightarrow> (\<forall>r. S (p @ r) \<or> contents_at w0 (p @ r) = None)"

lemma absent_or_self: "absent_or S w0 p \<Longrightarrow> S p \<or> contents_at w0 p = None"
  unfolding absent_or_def by (metis append_Nil2)

lemma absent_or_below: "absent_or S w0 p \<Longrightarrow> starts_with q p \<Longrightarrow> absent_or S w0 q"
  unfolding absent_or_def by (metis append.assoc starts_with_extend)

abbreviation as_before :: "(path \<Rightarrow> bool) \<Rightarrow> world \<Rightarrow> world \<Rightarrow> bool" where
  "as_before S w0 \<equiv> same_outside contents_at S w0"

lemma as_before_removal:
  assumes "as_before S w0 w" "S p \<or> contents_at w0 p = None" "\<forall>q. q \<noteq> p \<longrightarrow> node_at w' q = node_at w q"
    "node_at w' p = None \<or> node_at w' p = node_at w p"
  shows "as_before S w0 w'"
  unfolding same_outside_def
proof (intro allI impI)
  fix q assume q: "\<not> S q"
  then have "contents_at w q = contents_at w0 q" using assms(1) by (simp add: same_outside_def)
  then show "contents_at w' q = contents_at w0 q"
    using assms(2-4) q by (cases "q = p") (auto simp: contents_at_def contents_of_def)
qed

lemma triple_frameI:
  "keeps S m \<Longrightarrow> triple (as_before S w0) m (\<lambda>_. as_before S w0) (\<lambda>_. as_before S w0)"
  by (rule triple_frame)

lemma triple_remove_file_absent:
  assumes "absent_or S w0 p"
  shows "triple (as_before S w0) (remove_file E p) (\<lambda>_. as_before S w0) (\<lambda>_. as_before S w0)"
proof (rule tripleI)
  fix w e w' assume "as_before S w0 w" "remove_file E p w = (Inl e, w')"
  moreover from this(2) have "node_at w' = node_at w"
    by (auto simp: remove_file_def syscall_def split: option.splits node.splits prod.splits)
  ultimately show "as_before S w0 w'" by (simp add: same_outside_def contents_at_def)
next
  fix w x w' assume "as_before S w0 w" "remove_file E p w = (Inr x, w')"
  moreover from this(2) have "node_at w' = (node_at w)(p := None)"
    by (auto simp: remove_file_def syscall_def split: option.splits node.splits prod.splits)
  ultimately show "as_before S w0 w'"
    using as_before_removal [of S w0 w p w'] absent_or_self [OF assms] by simp
qed

lemma triple_remove_dir_absent:
  assumes "absent_or S w0 p"
  shows "triple (as_before S w0) (remove_dir E p) (\<lambda>_. as_before S w0) (\<lambda>_. as_before S w0)"
proof (rule tripleI)
  fix w e w' assume "as_before S w0 w" "remove_dir E p w = (Inl e, w')"
  moreover from this(2) have "node_at w' = node_at w"
    by (auto simp: remove_dir_def syscall_def split: option.splits node.splits prod.splits if_splits)
  ultimately show "as_before S w0 w'" by (simp add: same_outside_def contents_at_def)
next
  fix w x w' assume "as_before S w0 w" "remove_dir E p w = (Inr x, w')"
  moreover from this(2) have "node_at w' = (node_at w)(p := None)"
    by (auto simp: remove_dir_def syscall_def split: option.splits node.splits prod.splits if_splits)
  ultimately show "as_before S w0 w'"
    using as_before_removal [of S w0 w p w'] absent_or_self [OF assms] by simp
qed

lemma triple_unlink_absent:
  assumes "absent_or S w0 p"
  shows "triple (as_before S w0) (unlink_entry E p) (\<lambda>_. as_before S w0) (\<lambda>_. as_before S w0)"
proof -
  note rm = triple_remove_file_absent [OF assms, of E] triple_remove_dir_absent [OF assms, of E]
  have "triple (as_before S w0) (if is_dir_node n then remove_dir E p else remove_file E p)
      (\<lambda>_. as_before S w0) (\<lambda>_. as_before S w0)" for n
    using rm by simp
  then show ?thesis unfolding unlink_entry_def
    by (intro triple_bind [OF triple_frameI [OF keeps_reads(1)]])
qed

lemma triple_remove_all_absent:
  assumes "absent_or S w0 p"
  shows "triple (as_before S w0) (remove_dir_all E p) (\<lambda>_. as_before S w0) (\<lambda>_. as_before S w0)"
proof -
  have it: "triple (as_before S w0) (iter_io (unlink_entry E) (tree_entries w p)) (\<lambda>_. as_before S w0) (\<lambda>_. as_before S w0)" for w
    by (intro triple_iter triple_unlink_absent absent_or_below [OF assms] tree_entries_under)
  have "triple (as_before S w0) (bind_io get_world (\<lambda>w. iter_io (unlink_entry E) (tree_entries w p)))
      (\<lambda>_. as_before S w0) (\<lambda>_. as_before S w0)"
    by (intro triple_bind [OF triple_frameI [OF frame_get_world]] it)
  then have "triple (as_before S w0)
      (if is_dir_node n then bind_io get_world (\<lambda>w. iter_io (unlink_entry E) (tree_entries w p))
       else if is_symlink_node n then remove_file E p else throw (os_error NotADirectory))
      (\<lambda>_. as_before S w0) (\<lambda>_. as_before S w0)" for n
    using triple_remove_file_absent [OF assms] by (auto intro: triple_throw)
  then show ?thesis unfolding remove_dir_all_def
    by (intro triple_bind [OF triple_frameI [OF keeps_reads(1)]])
qed

lemma triple_remove_dir_if_exists_absent:
  assumes "absent_or S w0 p"
  shows "triple (as_before S w0) (remove_dir_if_exists E p) (\<lambda>_. as_before S w0) (\<lambda>_. as_before S w0)"
proof -
  note rm = triple_remove_file_absent [OF assms, of E] triple_remove_dir_absent [OF assms, of E]
    triple_remove_all_absent [OF assms, of E]
  have k: "triple (as_before S w0) (case removal_kind_of a b of
        FileOrFileLink \<Rightarrow> map_err (Io ''remove path'' p) (remove_file E p)
      | DirectoryLink \<Rightarrow> map_err (Io ''remove directory link'' p) (remove_dir E p)
      | DirectoryTree \<Rightarrow> map_err (Io ''remove directory'' p) (remove_dir_all E p))
      (\<lambda>_. as_before S w0) (\<lambda>_. as_before S w0)" for a b
    using rm by (cases "removal_kind_of a b") (auto intro!: triple_map_err)
  have "triple (as_before S w0) (case r of
       Inr n \<Rightarrow>
         let is_link = is_symlink_or_reparse n;
             is_directory = is_dir_node n
         in then_io (case removal_kind_of is_link is_directory of
                FileOrFileLink \<Rightarrow> map_err (Io ''remove path'' p) (remove_file E p)
              | DirectoryLink \<Rightarrow> map_err (Io ''remove directory link'' p) (remove_dir E p)
              | DirectoryTree \<Rightarrow> map_err (Io ''remove directory'' p) (remove_dir_all E p))
            (ret True)
     | Inl e \<Rightarrow> if io_kind e = NotFound then ret False else throw (Io ''inspect path'' p e))
      (\<lambda>_. as_before S w0) (\<lambda>_. as_before S w0)" for r
    by (cases r) (auto simp: Let_def intro!: triple_then [OF k] triple_ret triple_throw)
  then show ?thesis unfolding remove_dir_if_exists_def
    by (intro triple_bind [OF triple_frameI [OF frame_try [OF keeps_reads(1)]]])
qed

end
