(* ===== verification/Credential_Store.thy ===== *)
theory Credential_Store
  imports References Fs_Util
begin

text \<open>
  The file credential store of \<open>credentials.rs\<close>, and the contract of a credential store that
  \<open>setup.rs\<close> relies on, as a locale: every operation acts on one reference and is all or nothing.
\<close>

section \<open>The contract\<close>

datatype ('r, 's) store_operation = SaveSecret 'r 's | DeleteSecret 'r

locale credential_storage =
  fixes save :: "'r \<Rightarrow> 's \<Rightarrow> (error, unit) io"
    and load :: "'r \<Rightarrow> (error, 's) io"
    and delete :: "'r \<Rightarrow> (error, unit) io"
    and stored :: "world \<Rightarrow> 'r \<Rightarrow> string option"
    and value_of :: "'s \<Rightarrow> string"
    and valid :: "'r \<Rightarrow> bool"
  assumes save_stores: "save r s w = (Inr (), w') \<Longrightarrow> stored w' r = Some (value_of s)"
    and save_other: "save r s w = (x, w') \<Longrightarrow> valid q \<Longrightarrow> q \<noteq> r \<Longrightarrow> stored w' q = stored w q"
    and save_failed: "save r s w = (Inl e, w') \<Longrightarrow> valid r \<Longrightarrow> stored w' r = stored w r"
    and load_value: "load r w = (Inr s, w') \<Longrightarrow> stored w r = Some (value_of s)"
    and load_pure: "load r w = (y, w') \<Longrightarrow> stored w' q = stored w q"
    and delete_removes: "delete r w = (Inr (), w') \<Longrightarrow> stored w' r = None"
    and delete_other: "delete r w = (x, w') \<Longrightarrow> q \<noteq> r \<Longrightarrow> stored w' q = stored w q"
    and delete_failed: "delete r w = (Inl e, w') \<Longrightarrow> stored w' r = stored w r"
begin

primrec perform :: "('r, 's) store_operation \<Rightarrow> (error, unit) io" where
  "perform (SaveSecret r s) = save r s"
| "perform (DeleteSecret r) = delete r"

primrec meaning :: "('r, 's) store_operation \<Rightarrow> ('r \<Rightarrow> string option) \<Rightarrow> 'r \<Rightarrow> string option" where
  "meaning (SaveSecret r s) m = m(r \<mapsto> value_of s)"
| "meaning (DeleteSecret r) m = m(r := None)"

lemma perform_Inr: "perform op w = (Inr (), w') \<Longrightarrow> valid q \<Longrightarrow> stored w' q = meaning op (stored w) q"
proof (cases op)
  case (SaveSecret r s)
  assume "perform op w = (Inr (), w')" "valid q"
  with SaveSecret show ?thesis using save_stores save_other by (cases "q = r") simp_all
next
  case (DeleteSecret r)
  assume "perform op w = (Inr (), w')"
  with DeleteSecret show ?thesis using delete_removes delete_other by (cases "q = r") simp_all
qed

lemma perform_Inl: "perform op w = (Inl e, w') \<Longrightarrow> valid q \<Longrightarrow> stored w' q = stored w q"
proof (cases op)
  case (SaveSecret r s)
  assume "perform op w = (Inl e, w')" "valid q"
  with SaveSecret show ?thesis using save_failed save_other by (cases "q = r") simp_all
next
  case (DeleteSecret r)
  assume "perform op w = (Inl e, w')"
  with DeleteSecret show ?thesis using delete_failed delete_other by (cases "q = r") simp_all
qed

lemma meaning_cong: "m q = n q \<Longrightarrow> meaning op m q = meaning op n q"
  by (cases op) simp_all

lemma fold_meaning_cong: "m q = n q \<Longrightarrow> fold meaning ops m q = fold meaning ops n q"
proof (induction ops arbitrary: m n)
  case (Cons op ops)
  have "meaning op m q = meaning op n q" using Cons.prems by (rule meaning_cong)
  then have "fold meaning ops (meaning op m) q = fold meaning ops (meaning op n) q" by (rule Cons.IH)
  then show ?case by simp
qed simp

text \<open>A sequence that stops at the first failure leaves the effect of the operations before it.\<close>

lemma sequence_refines:
  assumes "iter_io perform ops w = (r, w')" "valid q"
  shows "\<exists>k \<le> length ops. stored w' q = fold meaning (take k ops) (stored w) q \<and> (is_ok r \<longrightarrow> k = length ops)"
  using assms
proof (induction ops arbitrary: w)
  case (Cons op ops)
  show ?case
  proof (cases "perform op w")
    case (Pair x w1)
    show ?thesis
    proof (cases x)
      case (Inl e)
      with Cons.prems Pair have "r = Inl e" "w' = w1" by (auto simp: then_io_def bind_io_def)
      with Inl Pair Cons.prems(2) show ?thesis by (auto simp: perform_Inl intro: exI [of _ 0])
    next
      case (Inr u)
      with Cons.prems Pair have "iter_io perform ops w1 = (r, w')" by (auto simp: then_io_def bind_io_def)
      from Cons.IH [OF this Cons.prems(2)] obtain k where
        k: "k \<le> length ops" "stored w' q = fold meaning (take k ops) (stored w1) q"
           "is_ok r \<longrightarrow> k = length ops" by blast
      have "stored w1 q = meaning op (stored w) q" using perform_Inr Pair Inr Cons.prems(2) by simp
      then have "fold meaning (take k ops) (stored w1) q = fold meaning (take k ops) (meaning op (stored w)) q"
        by (rule fold_meaning_cong)
      with k show ?thesis by (intro exI [of _ "Suc k"]) simp
    qed
  qed
qed (simp add: ret_eq)

lemma load_after_save:
  assumes "save r s w = (Inr (), w1)" "load r w1 = (Inr t, w2)"
  shows "value_of t = value_of s"
  using save_stores [OF assms(1)] load_value [OF assms(2)] by simp

end

section \<open>The file store\<close>

definition credential_path :: "path \<Rightarrow> credential_ref \<Rightarrow> path" where
  "credential_path root r = root @ [credential_str r @ ''.key'']"

definition save_credential :: "env \<Rightarrow> path \<Rightarrow> credential_ref \<Rightarrow> secret \<Rightarrow> (error, unit) io" where
  "save_credential E root r s =
     then_io (ensure_private_dir E root)
       (atomic_write_private E (credential_path root r) (expose_secret s))"

definition load_credential :: "env \<Rightarrow> path \<Rightarrow> credential_ref \<Rightarrow> (error, secret) io" where
  "load_credential E root r =
     (let p = credential_path root r in
      then_io (reject_symlink_if_present E root)
     (then_io (reject_symlink_if_present E p)
     (bind_io (map_err (Io ''read credential'' p) (read_file E p)) (\<lambda>bytes.
        if \<not> valid_utf8 bytes then throw (InvalidCredential ''credential file is not UTF-8'')
        else lift_io (secret_new bytes)))))"

definition delete_credential :: "env \<Rightarrow> path \<Rightarrow> credential_ref \<Rightarrow> (error, unit) io" where
  "delete_credential E root r =
     (let p = credential_path root r in
      then_io (reject_symlink_if_present E root)
     (bind_io (try_io (remove_file E p)) (\<lambda>r.
        case r of
          Inr _ \<Rightarrow> ret ()
        | Inl e \<Rightarrow> if io_kind e = NotFound then ret () else throw (Io ''delete credential'' p e))))"

definition stored_credential :: "path \<Rightarrow> world \<Rightarrow> credential_ref \<Rightarrow> string option" where
  "stored_credential root w r = contents_at w (credential_path root r)"

definition valid_credential :: "credential_ref \<Rightarrow> bool" where
  "valid_credential r \<longleftrightarrow> safe_component (credential_str r)"

text \<open>
  The path of a reference is not the temporary file of another write, and no path lies under it.
\<close>

lemma credential_path_inject [simp]: "credential_path root q = credential_path root r \<longleftrightarrow> q = r"
  by (cases q; cases r) (simp add: credential_path_def)

lemma under_credential_path: "starts_with (credential_path root q) (credential_path root r) \<longleftrightarrow> q = r"
  by (cases q; cases r) (auto simp: credential_path_def starts_with_iff)

lemma credential_path_not_temporary:
  assumes "valid_credential q"
  shows "\<not> temporary_of E (credential_path root r) (credential_path root q)"
proof
  assume "temporary_of E (credential_path root r) (credential_path root q)"
  then have "\<exists>t. credential_str q @ ''.key'' = CHR ''.'' # t"
    by (auto simp: temporary_of_def credential_path_def temporary_name_def starts_with_iff)
  moreover have "credential_str q \<noteq> []" "hd (credential_str q) \<noteq> CHR ''.''"
    using assms by (auto simp: valid_credential_def safe_component_def ascii_class_defs)
  ultimately show False by (cases "credential_str q") auto
qed

lemma save_credential_effect:
  assumes "save_credential E root r s w = (x, w')" "valid_credential q"
  shows "stored_credential root w' q = stored_credential root w q \<or> (q = r \<and> is_ok x)"
proof -
  from assms(1) consider e where "x = Inl e" "ensure_private_dir E root w = (Inl e, w')"
    | w1 where "ensure_private_dir E root w = (Inr (), w1)"
        "atomic_write_private E (credential_path root r) (expose_secret s) w1 = (x, w')"
    by (cases x) (auto simp: save_credential_def io_eqs)
  then show ?thesis
  proof cases
    case 1
    then show ?thesis using frame_result [OF keeps_ensure_private_dir [of nowhere] 1(2)]
      by (simp add: nowhere_def stored_credential_def)
  next
    case 2
    have "contents_at w1 p = contents_at w p" for p
      using frame_result [OF keeps_ensure_private_dir [of nowhere] 2(1)] by (simp add: nowhere_def)
    moreover have "credential_path root r \<noteq> []" by (simp add: credential_path_def)
    ultimately show ?thesis
      using atomic_write_effect [OF _ 2(2)] credential_path_not_temporary [OF assms(2), of E root r]
      by (auto simp: stored_credential_def under_credential_path)
  qed
qed

lemma save_credential_private:
  assumes "save_credential E root r s w = (Inr (), w')"
  shows "replaced_file (credential_path root r) (expose_secret s) w'"
proof -
  from assms obtain w1 where
    "atomic_write_private E (credential_path root r) (expose_secret s) w1 = (Inr (), w')"
    by (auto simp: save_credential_def io_eqs)
  from atomic_write_effect [OF _ this] show ?thesis by (simp add: credential_path_def)
qed

lemma load_credential_value:
  assumes "load_credential E root r w = (Inr s, w')"
  shows "stored_credential root w r = Some (expose_secret s)"
proof -
  from assms obtain w1 w2 b where
    1: "reject_symlink_if_present E root w = (Inr (), w1)" and
    2: "reject_symlink_if_present E (credential_path root r) w1 = (Inr (), w2)" and
    3: "read_file E (credential_path root r) w2 = (Inr b, w')" and 4: "secret_new b = Inr s"
    by (auto simp: load_credential_def Let_def io_eqs lift_io_def split: if_splits)
  note n = reject_symlink_Inr [OF 1] reject_symlink_Inr [OF 2]
  have "contents_at w2 (credential_path root r) = Some b" by (rule read_file_Inr [OF 3]) (use n in simp)
  with n 4 show ?thesis by (simp add: secret_new_Inr_iff stored_credential_def contents_at_def)
qed

lemma touches_load_credential [frame_intros]: "touches S (load_credential E root r)"
  unfolding load_credential_def Let_def by (intro frame_intros)

lemma load_credential_calm:
  assumes "fault E = (\<lambda>_. None)" "not_link (node_at w root)" "node_at w root \<noteq> None"
    "stored_credential root w r = Some v" "secret_new v = Inr s" "valid_utf8 v"
  shows "\<exists>w'. load_credential E root r w = (Inr s, w')"
proof -
  let ?p = "credential_path root r"
  have c: "contents_at w ?p = Some v" using assms(4) by (simp add: stored_credential_def)
  then have n: "not_link (node_at w ?p)" "node_at w ?p \<noteq> None"
    by (auto simp: contents_at_def contents_of_def not_link_def split: option.splits node.splits)
  obtain w1 where 1: "reject_symlink_if_present E root w = (Inr (), w1)" "node_at w1 = node_at w"
    using reject_symlink_calm [OF assms(1), of w root] assms(2,3) by auto
  obtain w2 where 2: "reject_symlink_if_present E ?p w1 = (Inr (), w2)" "node_at w2 = node_at w1"
    using reject_symlink_calm [OF assms(1), of w1 ?p] n 1(2) by auto
  obtain w3 where 3: "read_file E ?p w2 = (Inr v, w3)"
    using read_file_calm [OF assms(1), of w2 ?p v] c 1(2) 2(2) by (auto simp: contents_at_def)
  show ?thesis using assms(5,6) 1(1) 2(1) 3
    by (simp add: load_credential_def Let_def then_io_def bind_io_def map_err_def lift_io_def)
qed

lemma remove_file_result:
  assumes "remove_file E p w = (x, w')"
  shows "(\<forall>q. q \<noteq> p \<longrightarrow> node_at w' q = node_at w q) \<and>
    (case x of Inr _ \<Rightarrow> node_at w' p = None
     | Inl e \<Rightarrow> node_at w' p = node_at w p \<and> (io_kind e = NotFound \<longrightarrow> node_at w p = None))"
  using assms by (auto simp: remove_file_def syscall_def split: option.splits node.splits prod.splits)

lemma delete_credential_effect:
  assumes "delete_credential E root r w = (x, w')"
  shows "(\<forall>q. q \<noteq> r \<longrightarrow> stored_credential root w' q = stored_credential root w q) \<and>
    stored_credential root w' r = (if is_ok x then None else stored_credential root w r)"
proof -
  let ?p = "credential_path root r"
  define after where "after y = (case y of Inr _ \<Rightarrow> ret ()
    | Inl e \<Rightarrow> if io_kind e = NotFound then ret () else throw (Io ''delete credential'' ?p e))" for y :: "(io_error, unit) result"
  have after: "w'' = w' \<and> (case y of Inr _ \<Rightarrow> x = Inr () | Inl e \<Rightarrow> is_ok x = (io_kind e = NotFound))"
    if "after y w' = (x, w'')" for y w' w'' x
    using that by (cases y) (auto simp: after_def ret_eq throw_eq split: if_splits)
  from assms consider e where "x = Inl e" "reject_symlink_if_present E root w = (Inl e, w')"
    | w1 y where "reject_symlink_if_present E root w = (Inr (), w1)" "remove_file E ?p w1 = (y, w')"
        "case y of Inr _ \<Rightarrow> x = Inr () | Inl e \<Rightarrow> is_ok x = (io_kind e = NotFound)"
    unfolding delete_credential_def Let_def after_def [symmetric]
    by (cases x) (auto simp: then_io_def bind_io_Inl bind_io_Inr try_io_eq dest!: after)
  then show ?thesis
  proof cases
    case 1
    then show ?thesis using frame_result [OF touches_checks(1) [of nowhere] 1(2)]
      by (simp add: nowhere_def stored_credential_def contents_at_def)
  next
    case 2
    note n = reject_symlink_Inr [OF 2(1)] and rm = remove_file_result [OF 2(2)]
    have "\<forall>q. q \<noteq> r \<longrightarrow> stored_credential root w' q = stored_credential root w q"
      using n rm by (simp add: stored_credential_def contents_at_def)
    moreover have "stored_credential root w' r = (if is_ok x then None else stored_credential root w r)"
      using n rm 2(3) by (cases y) (auto simp: stored_credential_def contents_at_def contents_of_def)
    ultimately show ?thesis by blast
  qed
qed

interpretation file_store: credential_storage "save_credential E root" "load_credential E root"
    "delete_credential E root" "stored_credential root" expose_secret valid_credential
  for E root
proof unfold_locales
  fix r s w w'
  show "save_credential E root r s w = (Inr (), w') \<Longrightarrow> stored_credential root w' r = Some (expose_secret s)"
    by (drule save_credential_private)
      (auto simp: replaced_file_def stored_credential_def contents_at_def contents_of_def)
next
  fix r s w x w' q
  show "save_credential E root r s w = (x, w') \<Longrightarrow> valid_credential q \<Longrightarrow> q \<noteq> r \<Longrightarrow>
      stored_credential root w' q = stored_credential root w q"
    by (drule (1) save_credential_effect) simp
next
  fix r s w e w'
  show "save_credential E root r s w = (Inl e, w') \<Longrightarrow> valid_credential r \<Longrightarrow>
      stored_credential root w' r = stored_credential root w r"
    by (drule (1) save_credential_effect) simp
next
  fix r w s w' y q
  show "load_credential E root r w = (Inr s, w') \<Longrightarrow> stored_credential root w r = Some (expose_secret s)"
    by (rule load_credential_value)
  show "load_credential E root r w = (y, w') \<Longrightarrow> stored_credential root w' q = stored_credential root w q"
    using frame_result [OF touches_load_credential [of nowhere]]
    by (simp add: nowhere_def stored_credential_def contents_at_def)
next
  fix r w w' x e q
  show "delete_credential E root r w = (Inr (), w') \<Longrightarrow> stored_credential root w' r = None"
    "delete_credential E root r w = (x, w') \<Longrightarrow> q \<noteq> r \<Longrightarrow>
      stored_credential root w' q = stored_credential root w q"
    "delete_credential E root r w = (Inl e, w') \<Longrightarrow>
      stored_credential root w' r = stored_credential root w r"
    by (drule delete_credential_effect, simp)+
qed

section \<open>What the store promises\<close>

primrec run_store_operation :: "env \<Rightarrow> path \<Rightarrow> (credential_ref, secret) store_operation \<Rightarrow> (error, unit) io" where
  "run_store_operation E root (SaveSecret r s) = save_credential E root r s"
| "run_store_operation E root (DeleteSecret r) = delete_credential E root r"

primrec secret_map_after :: "(credential_ref, secret) store_operation \<Rightarrow>
    (credential_ref \<Rightarrow> string option) \<Rightarrow> credential_ref \<Rightarrow> string option" where
  "secret_map_after (SaveSecret r s) m = m(r \<mapsto> expose_secret s)"
| "secret_map_after (DeleteSecret r) m = m(r := None)"

lemma run_store_operation_eq: "run_store_operation E root = file_store.perform E root"
  by (rule ext, rename_tac op, case_tac op) simp_all

lemma secret_map_after_eq: "secret_map_after = file_store.meaning"
proof
  show "secret_map_after op = file_store.meaning op" for op
    by (cases op) (simp_all add: fun_eq_iff)
qed


definition example_key :: credential_ref where
  "example_key = CredentialRef ''codex-1''"


text \<open>
  A secret that was saved is in a file of mode 0600 in the user's credential directory.  Whatever a
  load of that reference then returns is that secret, and the load does return it when no call fails.
\<close>

theorem saved_credential_loads:
  assumes "save_credential E root r s w = (Inr (), w1)"
  shows "(\<exists>m. node_at w1 (credential_path root r) = Some (File (expose_secret s) m) \<and> mode m = 384) \<and>
    (\<forall>t w2. load_credential E' root r w1 = (Inr t, w2) \<longrightarrow> t = s) \<and>
    (fault E' = (\<lambda>_. None) \<and> secret_new (expose_secret s) = Inr s \<and> valid_utf8 (expose_secret s) \<and>
      is_dir_at w1 root \<and> root \<noteq> [] \<longrightarrow> fst (load_credential E' root r w1) = Inr s)"
proof -
  have st: "stored_credential root w1 r = Some (expose_secret s)"
    using assms by (rule file_store.save_stores)
  have "\<forall>t w2. load_credential E' root r w1 = (Inr t, w2) \<longrightarrow> t = s"
    using file_store.load_after_save [OF assms] load_credential_value st
    by (metis option.inject secret.expand)
  moreover have "fst (load_credential E' root r w1) = Inr s"
    if "fault E' = (\<lambda>_. None)" "secret_new (expose_secret s) = Inr s" "valid_utf8 (expose_secret s)"
      "is_dir_at w1 root" "root \<noteq> []"
  proof -
    have "not_link (node_at w1 root)" "node_at w1 root \<noteq> None"
      using that(4,5) by (auto simp: is_dir_at_def not_link_def split: option.splits node.splits)
    from load_credential_calm [OF that(1) this st that(2,3)] show ?thesis by auto
  qed
  ultimately show ?thesis
    using save_credential_private [OF assms] by (auto simp: replaced_file_def)
qed

theorem saved_credential_loads_witness:
  "fst (load_credential calm_env [''app''] example_key
     (snd (save_credential calm_env [''app''] example_key (SecretString ''sk-1'') example_tree))) =
   Inr (SecretString ''sk-1'')"
proof -
  let ?w1 = "snd (save_credential calm_env [''app''] example_key (SecretString ''sk-1'') example_tree)"
  have "fst (save_credential calm_env [''app''] example_key (SecretString ''sk-1'') example_tree) = Inr ()"
    and d: "is_dir_at ?w1 [''app'']" and s: "secret_new ''sk-1'' = Inr (SecretString ''sk-1'')"
    and u: "valid_utf8 ''sk-1''" by code_simp+
  then have "save_credential calm_env [''app''] example_key (SecretString ''sk-1'') example_tree = (Inr (), ?w1)"
    by (metis prod.collapse)
  from saved_credential_loads [OF this, of calm_env] d s u show ?thesis by (simp add: calm_env_def)
qed

end
