(* ===== verification/Leases.thy ===== *)
theory Leases
  imports App_Paths Fs_Util
begin

text \<open>
  Generation leases (\<open>lease.rs\<close>): a launcher holds a shared lock on the lease file of its generation
  for as long as its child runs, and only who gets the exclusive lock may remove the generation.
  The lease of a process is known by the inode of the file it opened.
\<close>

section \<open>The operations\<close>

definition acquire_generation_lease :: "env \<Rightarrow> app_paths \<Rightarrow> generation_ref \<Rightarrow> (error, nat) io" where
  "acquire_generation_lease E P g =
     (let p = generation_lease_file P g in
      then_io (ensure_no_managed_symlinks E (state_dir P) p)
     (bind_io (open_private_lock_file E p) (\<lambda>h.
        then_io (map_err (Io ''acquire generation lease'' p) (lock_shared E h))
       (then_io (on_error (validate_opened_lock_file E h p) (unlock_shared h))
                (ret h)))))"

definition drop_generation_lease :: "nat \<Rightarrow> ('e, unit) io" where
  "drop_generation_lease h = unlock_shared h"

record exclusive_lease =
  lease_handle :: nat
  lease_path :: path

datatype lease_probe = LeaseAcquired exclusive_lease | LeaseMissing | LeaseBusy

definition lock_is_contended :: "io_error \<Rightarrow> bool" where
  "lock_is_contended e \<longleftrightarrow> io_kind e = WouldBlock"

definition try_acquire_existing_path :: "env \<Rightarrow> app_paths \<Rightarrow> path \<Rightarrow> (error, lease_probe) io" where
  "try_acquire_existing_path E P p =
     then_io (ensure_no_managed_symlinks E (state_dir P) p)
    (bind_io (try_io (open_nofollow E False p)) (\<lambda>r.
       case r of
         Inl e \<Rightarrow> if io_kind e = NotFound then ret LeaseMissing
                  else throw (Io ''open existing generation lease'' p e)
       | Inr h \<Rightarrow>
           then_io (validate_opened_lock_file E h p)
          (bind_io (try_io (try_lock_exclusive E h)) (\<lambda>r.
             case r of
               Inr _ \<Rightarrow>
                 then_io (on_error (validate_opened_lock_file E h p) (unlock_exclusive h))
                         (ret (LeaseAcquired \<lparr>lease_handle = h, lease_path = p\<rparr>))
             | Inl e \<Rightarrow>
                 if lock_is_contended e then ret LeaseBusy
                 else throw (Io ''inspect generation lease'' p e)))))"

definition try_acquire_existing :: "env \<Rightarrow> app_paths \<Rightarrow> generation_ref \<Rightarrow> (error, lease_probe) io" where
  "try_acquire_existing E P g = try_acquire_existing_path E P (generation_lease_file P g)"

definition drop_exclusive_lease :: "exclusive_lease \<Rightarrow> ('e, unit) io" where
  "drop_exclusive_lease l = unlock_exclusive (lease_handle l)"

definition release_and_remove :: "env \<Rightarrow> exclusive_lease \<Rightarrow> (error, bool) io" where
  "release_and_remove E l =
     (let p = lease_path l in
      then_io (drop_exclusive_lease l)
     (bind_io (try_io (symlink_metadata E p)) (\<lambda>r.
        case r of
          Inr n \<Rightarrow>
            if is_file_node n \<and> \<not> is_symlink_or_reparse n
            then then_io (map_err (Io ''remove generation lease'' p) (remove_file E p)) (ret True)
            else throw (Io ''remove generation lease'' p
                   (IoError InvalidData ''generation lease path is not a regular file''))
        | Inl e \<Rightarrow> if io_kind e = NotFound then ret False
                   else throw (Io ''inspect generation lease'' p e))))"

section \<open>What the operations do to the locks\<close>

lemma lock_view_checks [frame_intros]:
  "frame lock_view S (inspect_managed_component E p b)"
  "frame lock_view S (reject_symlink_if_present E p)"
  "frame lock_view S (validate_directory_if_present E p)"
  unfolding inspect_managed_component_def reject_symlink_if_present_def validate_directory_if_present_def
  by (intro frame_intros)+

lemma lock_view_no_managed_symlinks [frame_intros]: "frame lock_view S (ensure_no_managed_symlinks E root p)"
proof -
  have "frame lock_view S (inspect_components E current cs)" for current cs
    by (induction cs arbitrary: current) (simp_all, (intro frame_intros; assumption)+)
  then show ?thesis unfolding ensure_no_managed_symlinks_def by (intro frame_intros)
qed

lemma lock_view_validate [frame_intros]: "frame lock_view S (validate_opened_lock_file E h p)"
proof -
  have "frame lock_view S (file_metadata E h)" for h
    unfolding file_metadata_def by (rule lock_view_syscall) simp_all
  then show ?thesis unfolding validate_opened_lock_file_def opened_lock_is_current_def
    by (intro frame_intros)
qed

lemma lock_view_open [frame_intros]:
  "frame lock_view S (open_nofollow E b p)" "frame lock_view S (open_private_lock_file E p)"
proof -
  have o: "frame lock_view S (open_nofollow E b p)" for b
    unfolding open_nofollow_def by (rule lock_view_syscall; auto split: option.split node.split)
  then show "frame lock_view S (open_nofollow E b p)" .
  have "frame lock_view S (set_private_lock_permissions E h p)" for h
    unfolding set_private_lock_permissions_def
    by (intro frame_intros lock_view_syscall; auto split: option.split node.split)
  then show "frame lock_view S (open_private_lock_file E p)"
    unfolding open_private_lock_file_def ensure_private_dir_def set_private_dir_permissions_def
    by (intro frame_intros o)
qed

lemma lock_view_result:
  "frame lock_view nowhere m \<Longrightarrow> m w = (r, w') \<Longrightarrow>
     shared_locks w' = shared_locks w \<and> exclusive_locks w' = exclusive_locks w"
  using frame_result [of lock_view nowhere m w r w' "[]"] by (simp add: lock_view_def nowhere_def)

lemma lock_shared_result:
  "lock_shared E h w = (r, w') \<Longrightarrow> exclusive_locks w' = exclusive_locks w \<and>
     (case r of Inr _ \<Rightarrow> h \<notin> set (exclusive_locks w) \<and> shared_locks w' = h # shared_locks w
      | Inl _ \<Rightarrow> shared_locks w' = shared_locks w)"
  by (auto simp: lock_shared_def syscall_def split: option.splits if_splits prod.splits)

lemma try_lock_exclusive_result:
  "try_lock_exclusive E h w = (r, w') \<Longrightarrow> shared_locks w' = shared_locks w \<and>
     (case r of Inr _ \<Rightarrow> h \<notin> set (exclusive_locks w) \<union> set (shared_locks w) \<and>
                        exclusive_locks w' = h # exclusive_locks w
      | Inl _ \<Rightarrow> exclusive_locks w' = exclusive_locks w)"
  by (auto simp: try_lock_exclusive_def syscall_def split: option.splits if_splits prod.splits)

lemma validate_on_error:
  assumes "on_error (validate_opened_lock_file E h p) c w = (r, w')"
  shows "(is_ok r \<longrightarrow> shared_locks w' = shared_locks w \<and> exclusive_locks w' = exclusive_locks w) \<and>
    (\<not> is_ok r \<longrightarrow> (\<exists>w1. shared_locks w1 = shared_locks w \<and> exclusive_locks w1 = exclusive_locks w \<and>
                     w' = snd (c w1)))"
proof (cases r)
  case (Inl e)
  with assms obtain w1 where "validate_opened_lock_file E h p w = (Inl e, w1)" "w' = snd (c w1)"
    by (auto simp: on_error_Inl)
  then show ?thesis using lock_view_result [OF lock_view_validate, of E h p w "Inl e" w1] Inl
    by (auto intro!: exI [of _ w1])
next
  case (Inr u)
  with assms have "validate_opened_lock_file E h p w = (Inr u, w')" by (simp add: on_error_Inr)
  then show ?thesis using lock_view_result [OF lock_view_validate] Inr by auto
qed

lemma acquire_generation_lease_locks:
  assumes "acquire_generation_lease E P g w = (r, w')"
  shows "exclusive_locks w' = exclusive_locks w \<and>
    (case r of Inr h \<Rightarrow> shared_locks w' = h # shared_locks w \<and> h \<notin> set (exclusive_locks w)
     | Inl _ \<Rightarrow> shared_locks w' = shared_locks w)"
proof -
  let ?p = "generation_lease_file P g"
  note lv = lock_view_result [OF lock_view_no_managed_symlinks] lock_view_result [OF lock_view_open(2)]
  note ls = lock_shared_result
  show ?thesis
  proof (cases r)
    case (Inr h)
    with assms obtain w1 w2 w3 where
      1: "ensure_no_managed_symlinks E (state_dir P) ?p w = (Inr (), w1)" and
      2: "open_private_lock_file E ?p w1 = (Inr h, w2)" and 3: "lock_shared E h w2 = (Inr (), w3)" and
      4: "on_error (validate_opened_lock_file E h ?p) (unlock_shared h) w3 = (Inr (), w')"
      by (auto simp: acquire_generation_lease_def Let_def io_eqs)
    show ?thesis using lv(1) [OF 1] lv(2) [OF 2] ls [OF 3] validate_on_error [OF 4] Inr by simp
  next
    case (Inl e)
    with assms consider "ensure_no_managed_symlinks E (state_dir P) ?p w = (Inl e, w')"
      | w1 where "ensure_no_managed_symlinks E (state_dir P) ?p w = (Inr (), w1)"
          "open_private_lock_file E ?p w1 = (Inl e, w')"
      | w1 w2 h e' where "ensure_no_managed_symlinks E (state_dir P) ?p w = (Inr (), w1)"
          "open_private_lock_file E ?p w1 = (Inr h, w2)" "lock_shared E h w2 = (Inl e', w')"
      | w1 w2 h w3 where "ensure_no_managed_symlinks E (state_dir P) ?p w = (Inr (), w1)"
          "open_private_lock_file E ?p w1 = (Inr h, w2)" "lock_shared E h w2 = (Inr (), w3)"
          "on_error (validate_opened_lock_file E h ?p) (unlock_shared h) w3 = (Inl e, w')"
      unfolding acquire_generation_lease_def Let_def then_io_def
      by (auto simp: bind_io_Inl map_err_Inl map_err_Inr ret_eq)
    then show ?thesis
    proof cases
      case 1 then show ?thesis using lv(1) Inl by auto
    next
      case 2 then show ?thesis using lv(1) [OF 2(1)] lv(2) [OF 2(2)] Inl by simp
    next
      case 3 then show ?thesis using lv(1) [OF 3(1)] lv(2) [OF 3(2)] ls [OF 3(3)] Inl by simp
    next
      case 4 then show ?thesis
        using lv(1) [OF 4(1)] lv(2) [OF 4(2)] ls [OF 4(3)] validate_on_error [OF 4(4)] Inl
        by (auto simp: unlock_shared_def)
    qed
  qed
qed

lemma open_existing_Inr:
  assumes "open_nofollow E False p w = (Inr h, w')"
  shows "\<exists>c m. node_at w p = Some (File c m) \<and> ino m = h"
  using assms by (auto simp: open_nofollow_def syscall_def split: option.splits node.splits prod.splits)

lemma open_existing_missing:
  "open_nofollow E False p w = (Inl e, w') \<Longrightarrow> io_kind e = NotFound \<Longrightarrow> node_at w p = None"
  by (auto simp: open_nofollow_def syscall_def split: option.splits node.splits prod.splits)

lemma try_acquire_existing_path_locks:
  assumes "try_acquire_existing_path E P p w = (r, w')"
  shows "shared_locks w' = shared_locks w \<and>
    (case r of
       Inr (LeaseAcquired l) \<Rightarrow> lease_path l = p \<and> exclusive_locks w' = lease_handle l # exclusive_locks w \<and>
         lease_handle l \<notin> set (exclusive_locks w) \<union> set (shared_locks w)
     | _ \<Rightarrow> exclusive_locks w' = exclusive_locks w) \<and>
    (\<forall>l. r = Inr (LeaseAcquired l) \<longrightarrow> (\<exists>c m. node_at w p = Some (File c m) \<and> ino m = lease_handle l)) \<and>
    (r = Inr LeaseMissing \<longrightarrow> node_at w p = None)"
proof -
  define got where "got h y = (case y of
        Inr _ \<Rightarrow> then_io (on_error (validate_opened_lock_file E h p) (unlock_exclusive h))
                         (ret (LeaseAcquired \<lparr>lease_handle = h, lease_path = p\<rparr>))
      | Inl e \<Rightarrow> if lock_is_contended e then ret LeaseBusy
                 else throw (Io ''inspect generation lease'' p e))" for h and y :: "(io_error, unit) result"
  define opened where "opened y = (case y of
         Inl e \<Rightarrow> if io_kind e = NotFound then ret LeaseMissing
                  else throw (Io ''open existing generation lease'' p e)
       | Inr h \<Rightarrow> then_io (validate_opened_lock_file E h p) (bind_io (try_io (try_lock_exclusive E h)) (got h)))"
    for y :: "(io_error, nat) result"
  let ?ok = "\<lambda>w r w'. shared_locks w' = shared_locks w \<and>
    (case r of
       Inr (LeaseAcquired l) \<Rightarrow> lease_path l = p \<and> exclusive_locks w' = lease_handle l # exclusive_locks w \<and>
         lease_handle l \<notin> set (exclusive_locks w) \<union> set (shared_locks w)
     | _ \<Rightarrow> exclusive_locks w' = exclusive_locks w)"
  note lv = lock_view_result [OF lock_view_no_managed_symlinks] lock_view_result [OF lock_view_open(1)]
    lock_view_result [OF lock_view_validate]
  have got: "?ok w r w' \<and> (\<forall>l. r = Inr (LeaseAcquired l) \<longrightarrow> lease_handle l = h) \<and> r \<noteq> Inr LeaseMissing" if t: "try_lock_exclusive E h w = (y, w1)" and g: "got h y w1 = (r, w')" for h w y w1 r w'
  proof (cases y)
    case (Inl e)
    then show ?thesis using t g try_lock_exclusive_result [OF t]
      by (auto simp: got_def ret_eq throw_eq split: if_splits)
  next
    case (Inr u)
    note x = try_lock_exclusive_result [OF t]
    from g Inr consider e where "r = Inl e"
        "on_error (validate_opened_lock_file E h p) (unlock_exclusive h) w1 = (Inl e, w')"
      | "r = Inr (LeaseAcquired \<lparr>lease_handle = h, lease_path = p\<rparr>)"
        "on_error (validate_opened_lock_file E h p) (unlock_exclusive h) w1 = (Inr (), w')"
      by (cases r) (auto simp: got_def then_io_def bind_io_Inl bind_io_Inr ret_eq)
    then show ?thesis
    proof cases
      case 1 then show ?thesis using x Inr validate_on_error [OF 1(2)] by (auto simp: unlock_exclusive_def)
    next
      case 2 then show ?thesis using x Inr validate_on_error [OF 2(2)] by simp
    qed
  qed
  have opened: "?ok w r w' \<and> (\<forall>l. r = Inr (LeaseAcquired l) \<longrightarrow> y = Inr (lease_handle l)) \<and>
      (r = Inr LeaseMissing \<longrightarrow> (\<exists>e. y = Inl e \<and> io_kind e = NotFound))" if o: "opened y w = (r, w')" for y w r w'
  proof (cases y)
    case (Inl e) then show ?thesis using o by (auto simp: opened_def ret_eq throw_eq split: if_splits)
  next
    case (Inr h)
    with o consider e where "r = Inl e" "validate_opened_lock_file E h p w = (Inl e, w')"
      | w1 z w2 where "validate_opened_lock_file E h p w = (Inr (), w1)"
          "try_lock_exclusive E h w1 = (z, w2)" "got h z w2 = (r, w')"
      by (cases r) (auto simp: opened_def then_io_def bind_io_Inl [of "validate_opened_lock_file E h p"]
          bind_io_Inr [of "validate_opened_lock_file E h p"] bind_try)
    then show ?thesis
    proof cases
      case 1 then show ?thesis using lv(3) [OF 1(2)] by simp
    next
      case 2 then show ?thesis using lv(3) [OF 2(1)] got [OF 2(2,3)] Inr
        by (auto split: sum.splits lease_probe.splits)
    qed
  qed
  have "try_acquire_existing_path E P p =
      then_io (ensure_no_managed_symlinks E (state_dir P) p) (bind_io (try_io (open_nofollow E False p)) opened)"
    unfolding try_acquire_existing_path_def opened_def [abs_def] got_def [abs_def] ..
  with assms consider e where "r = Inl e" "ensure_no_managed_symlinks E (state_dir P) p w = (Inl e, w')"
    | w1 y w2 where "ensure_no_managed_symlinks E (state_dir P) p w = (Inr (), w1)"
        "open_nofollow E False p w1 = (y, w2)" "opened y w2 = (r, w')"
    by (cases r) (auto simp: then_io_def bind_io_Inl [of "ensure_no_managed_symlinks E (state_dir P) p"]
        bind_io_Inr [of "ensure_no_managed_symlinks E (state_dir P) p"] bind_try)
  then show ?thesis
  proof cases
    case 1 then show ?thesis using lv(1) [OF 1(2)] by simp
  next
    case 2
    have n: "node_at w1 p = node_at w p"
      using frame_result [OF touches_ensure_no_managed_symlinks [of nowhere] 2(1)] by (simp add: nowhere_def)
    have "\<exists>c m. node_at w p = Some (File c m) \<and> ino m = h" if "y = Inr h" for h
      using open_existing_Inr [of E p w1 h w2] 2(2) that n by simp
    moreover have "node_at w p = None" if "y = Inl e" "io_kind e = NotFound" for e
      using open_existing_missing [of E p w1 e w2] 2(2) that n by simp
    ultimately show ?thesis using lv(1) [OF 2(1)] lv(2) [OF 2(2)] opened [OF 2(3)]
      by (auto split: sum.splits lease_probe.splits)
  qed
qed

section \<open>Processes taking and dropping leases\<close>

text \<open>
  Any number of launchers and transactions of the same installation, each step one operation of one
  of them: a launcher takes or drops its lease, a transaction probes a lease or removes one it holds.
\<close>

inductive lease_step :: "env \<Rightarrow> app_paths \<Rightarrow> world \<Rightarrow> world \<Rightarrow> bool" for E P where
  acquire: "acquire_generation_lease E P g w = (r, w') \<Longrightarrow> lease_step E P w w'"
| release: "h \<in> set (shared_locks w) \<Longrightarrow> drop_generation_lease h w = (Inr () :: (error, unit) result, w') \<Longrightarrow>
    lease_step E P w w'"
| probe: "try_acquire_existing_path E P p w = (r, w') \<Longrightarrow> lease_step E P w w'"
| give_up: "lease_handle l \<in> set (exclusive_locks w) \<Longrightarrow>
    drop_exclusive_lease l w = (Inr () :: (error, unit) result, w') \<Longrightarrow> lease_step E P w w'"
| remove: "lease_handle l \<in> set (exclusive_locks w) \<Longrightarrow> release_and_remove E l w = (r, w') \<Longrightarrow> lease_step E P w w'"

inductive_cases lease_stepE: "lease_step E P w w'"

definition lock_exclusion :: "world \<Rightarrow> bool" where
  "lock_exclusion w \<longleftrightarrow> distinct (exclusive_locks w) \<and> set (exclusive_locks w) \<inter> set (shared_locks w) = {}"

lemma release_and_remove_locks:
  assumes "release_and_remove E l w = (r, w')"
  shows "shared_locks w' = shared_locks w \<and> exclusive_locks w' = remove1 (lease_handle l) (exclusive_locks w)"
proof -
  let ?p = "lease_path l"
  define rest where "rest = bind_io (try_io (symlink_metadata E ?p)) (\<lambda>r.
        case r of
          Inr n \<Rightarrow>
            if is_file_node n \<and> \<not> is_symlink_or_reparse n
            then then_io (map_err (Io ''remove generation lease'' ?p) (remove_file E ?p)) (ret True)
            else throw (Io ''remove generation lease'' ?p
                   (IoError InvalidData ''generation lease path is not a regular file''))
        | Inl e \<Rightarrow> if io_kind e = NotFound then ret False
                   else throw (Io ''inspect generation lease'' ?p e))"
  have "frame lock_view nowhere rest" unfolding rest_def by (intro frame_intros)
  moreover have "rest (w\<lparr>exclusive_locks := remove1 (lease_handle l) (exclusive_locks w)\<rparr>) = (r, w')"
    using assms by (simp add: release_and_remove_def Let_def rest_def then_io_def bind_io_def
        drop_exclusive_lease_def unlock_exclusive_def)
  ultimately show ?thesis by (auto dest: lock_view_result)
qed

lemma lease_step_exclusion: "lease_step E P w w' \<Longrightarrow> lock_exclusion w \<Longrightarrow> lock_exclusion w'"
proof (induction rule: lease_step.induct)
  case (acquire g w r w')
  show ?case using acquire_generation_lease_locks [OF acquire(1)] acquire(2)
    by (auto simp: lock_exclusion_def split: sum.splits)
next
  case (probe p w r w')
  show ?case using try_acquire_existing_path_locks [OF probe(1)] probe(2)
    by (auto simp: lock_exclusion_def split: sum.splits lease_probe.splits)
next
  case (remove l w r w')
  show ?case using release_and_remove_locks [OF remove(2)] remove(3)
    by (auto simp: lock_exclusion_def dest: notin_set_remove1 in_set_remove1 set_remove1_subset [THEN subsetD])
next
  case (release h w w')
  then have "w' = w\<lparr>shared_locks := remove1 h (shared_locks w)\<rparr>"
    by (simp add: drop_generation_lease_def unlock_shared_def)
  with release(3) set_remove1_subset [of h "shared_locks w"] show ?case by (auto simp: lock_exclusion_def)
next
  case (give_up l w w')
  then have "w' = w\<lparr>exclusive_locks := remove1 (lease_handle l) (exclusive_locks w)\<rparr>"
    by (simp add: drop_exclusive_lease_def unlock_exclusive_def)
  with give_up(3) set_remove1_subset [of "lease_handle l" "exclusive_locks w"] show ?case
    by (auto simp: lock_exclusion_def)
qed


lemma touches_probe [frame_intros]: "touches S (try_acquire_existing_path E P p)"
proof -
  have "touches S (open_nofollow E False p)"
    unfolding open_nofollow_def by (rule touches_syscall) (auto split: option.split node.split)
  then show ?thesis unfolding try_acquire_existing_path_def by (intro frame_intros)
qed

text \<open>
  C17: While a launcher holds the lease of a generation, a transaction that probes it does not get it:
  the probe says the lease is busy or fails, and the lease file, every other path and every lock are as
  before, so the generation the child runs from is not removed under it.
\<close>

theorem held_lease_is_not_acquired:
  assumes "try_acquire_existing E P g w = (r, w')"
    and "node_at w (generation_lease_file P g) = Some (File c m)" "ino m \<in> set (shared_locks w)"
  shows "(r = Inr LeaseBusy \<or> (\<exists>e. r = Inl e)) \<and> node_at w' = node_at w \<and>
    shared_locks w' = shared_locks w \<and> exclusive_locks w' = exclusive_locks w"
proof -
  from assms(1) have a: "try_acquire_existing_path E P (generation_lease_file P g) w = (r, w')"
    by (simp add: try_acquire_existing_def)
  have "node_at w' = node_at w"
    using frame_result [OF touches_probe [of nowhere] a] by (simp add: nowhere_def fun_eq_iff)
  then show ?thesis using try_acquire_existing_path_locks [OF a] assms(2,3)
    by (auto split: sum.splits lease_probe.splits)
qed

definition example_paths :: app_paths where
  "example_paths = \<lparr>config_dir = [''c''], data_dir = [''d''], state_dir = [''s'']\<rparr>"

definition example_leases :: world where
  "example_leases = world_of [([''s''], private_dir 1), ([''s'', ''leases''], private_dir 2),
     ([''s'', ''leases'', ''g1.lock''], private_file [] 3)]"


theorem held_lease_is_not_acquired_witness:
  "let w = snd (acquire_generation_lease calm_env example_paths (GenerationRef ''g1'') example_leases);
       w' = snd (try_acquire_existing calm_env example_paths (GenerationRef ''g1'') w)
   in shared_locks w = [3] \<and> shared_locks w' = [3] \<and>
      fst (try_acquire_existing calm_env example_paths (GenerationRef ''g1'') w) = Inr LeaseBusy"
proof -
  let ?g = "GenerationRef ''g1''"
  let ?w = "snd (acquire_generation_lease calm_env example_paths ?g example_leases)"
  have s: "shared_locks ?w = [3]" by code_simp
  have n: "node_at ?w (generation_lease_file example_paths ?g) = Some (private_file [] 3)" by code_simp
  have f: "is_ok (fst (try_acquire_existing calm_env example_paths ?g ?w))" by code_simp
  have p: "try_acquire_existing calm_env example_paths ?g ?w =
      (fst (try_acquire_existing calm_env example_paths ?g ?w), snd (try_acquire_existing calm_env example_paths ?g ?w))"
    by simp
  from held_lease_is_not_acquired [OF p n [unfolded private_file_def]] s f show ?thesis
    by (auto simp: Let_def)
qed

end
