(* ===== verification/Setup_State.thy ===== *)
theory Setup_State
  imports Configuration App_Paths Artifacts Credential_Store Leases
begin

text \<open>
  What \<open>setup.rs\<close> reads: the committed configuration and credentials, the product homes, the
  diagnosis of an installation and the receipts a transaction returns.  The libraries that read JSON,
  URLs and certificates are the parameter \<open>libraries\<close>; a \<open>core\<close> is one installation with its
  environment.
\<close>

section \<open>An installation\<close>

record libraries =
  decode_json :: "string \<Rightarrow> (string, raw_config) result"
  encode_json :: "raw_config \<Rightarrow> string"
  error_text :: "error \<Rightarrow> string"
  parse_gateway :: "string \<Rightarrow> (error, gateway_url) result"
  render_gateway :: "gateway_url \<Rightarrow> string"
  documents :: document_libraries

record core =
  core_env :: env
  core_paths :: app_paths
  core_libs :: libraries

definition core_parse :: "core \<Rightarrow> string \<Rightarrow> (error, config_v2) result" where
  "core_parse C = parse_config (decode_json (core_libs C)) (error_text (core_libs C)) (parse_gateway (core_libs C))"

definition core_serialize :: "core \<Rightarrow> config_v2 \<Rightarrow> string" where
  "core_serialize C = serialize_config (encode_json (core_libs C)) (render_gateway (core_libs C))"

definition product_marker_filename :: string where
  "product_marker_filename = ''.saiai-managed-v2''"

definition product_marker :: string where
  "product_marker = ''saiai-managed-client-home-v2'' @ [CHR 0x0A]"

definition unsafe_gateway_credential_message :: string where
  "unsafe_gateway_credential_message =
     ''the Gateway URL contains a stored API key; run `saiai revoke --all` to reset this V2 state''"

record setup_request =
  request_base_url :: gateway_url
  request_credential :: secret

definition setup_request_from_validated :: "gateway_url \<Rightarrow> secret \<Rightarrow> (error, setup_request) result" where
  "setup_request_from_validated url credential =
     bind_result (reject_credential_url_component url credential) (\<lambda>_.
       Inr \<lparr>request_base_url = url, request_credential = credential\<rparr>)"

definition setup_request_new ::
  "(string \<Rightarrow> (error, gateway_url) result) \<Rightarrow> string \<Rightarrow> string \<Rightarrow> (error, setup_request) result" where
  "setup_request_new parse_url url credential =
     bind_result (secret_new credential) (\<lambda>s.
     bind_result (parse_url url) (\<lambda>u. setup_request_from_validated u s))"

record root_presence =
  root_config :: bool
  root_data :: bool
  root_state :: bool

definition inspect_roots :: "core \<Rightarrow> (error, root_presence) io" where
  "inspect_roots C = (let E = core_env C; P = core_paths C in
     bind_io (path_present_no_follow E (config_dir P)) (\<lambda>c.
     bind_io (path_present_no_follow E (data_dir P)) (\<lambda>d.
     bind_io (path_present_no_follow E (state_dir P)) (\<lambda>s.
       ret \<lparr>root_config = c, root_data = d, root_state = s\<rparr>))))"

definition any_root :: "root_presence \<Rightarrow> bool" where
  "any_root r \<longleftrightarrow> root_config r \<or> root_data r \<or> root_state r"

definition missing_config_requires_full_revoke :: error where
  "missing_config_requires_full_revoke = InvalidConfig
     ''V2-owned roots already exist without config.json; run `saiai revoke --all` before setup''"

section \<open>Reading the committed state\<close>

definition read_utf8 :: "env \<Rightarrow> path \<Rightarrow> (error, string) io" where
  "read_utf8 E p = bind_io (read_managed E p) (\<lambda>bytes.
     if valid_utf8 bytes then ret bytes
     else throw (InvalidArtifact ''managed client file'' (show_path p @ '' is not UTF-8'')))"

definition read_config_optional :: "core \<Rightarrow> (error, string option) io" where
  "read_config_optional C =
     (let p = config_file (core_paths C) in
      then_io (ensure_no_managed_symlinks (core_env C) (config_dir (core_paths C)) p)
              (read_optional (core_env C) p))"

definition load_configured_credential :: "core \<Rightarrow> product_config \<Rightarrow> (error, secret) io" where
  "load_configured_credential C pc =
     (let root = credentials_dir (core_paths C) in
      then_io (ensure_no_managed_symlinks (core_env C) (data_dir (core_paths C))
                (credential_path root (credential_ref pc)))
              (load_credential (core_env C) root (credential_ref pc)))"

primrec overlap_checks :: "core \<Rightarrow> config_v2 \<Rightarrow> product list \<Rightarrow> (error, unit) io" where
  "overlap_checks C c [] = ret ()"
| "overlap_checks C c (p # ps) =
     (case config_product c p of
        None \<Rightarrow> overlap_checks C c ps
      | Some pc \<Rightarrow> bind_io (try_io (load_configured_credential C pc)) (\<lambda>r.
          case r of
            Inl _ \<Rightarrow> overlap_checks C c ps
          | Inr credential \<Rightarrow>
              if \<not> is_ok (reject_credential_url_component (base_url c) credential)
              then throw (InvalidConfig unsafe_gateway_credential_message)
              else overlap_checks C c ps))"

definition reject_gateway_credential_overlap :: "core \<Rightarrow> config_v2 \<Rightarrow> (error, unit) io" where
  "reject_gateway_credential_overlap C c = overlap_checks C c all_products"

definition load_config_optional_strict :: "core \<Rightarrow> (error, config_v2 option) io" where
  "load_config_optional_strict C = bind_io (read_config_optional C) (\<lambda>r.
     case r of None \<Rightarrow> ret None
     | Some bytes \<Rightarrow> bind_io (lift_io (core_parse C bytes)) (\<lambda>c.
         then_io (reject_gateway_credential_overlap C c) (ret (Some c))))"

definition load_config :: "core \<Rightarrow> (error, config_v2) io" where
  "load_config C = bind_io (read_config_optional C) (\<lambda>r.
     case r of None \<Rightarrow> throw (InvalidConfig ''setup is not complete because config.json is missing'')
     | Some bytes \<Rightarrow> bind_io (lift_io (core_parse C bytes)) (\<lambda>c.
         then_io (reject_gateway_credential_overlap C c) (ret c)))"

definition load_product_credential :: "core \<Rightarrow> product \<Rightarrow> (error, secret) io" where
  "load_product_credential C p = bind_io (load_config C) (\<lambda>c.
     bind_io (lift_io (configured_product c p)) (load_configured_credential C))"

definition client_home :: "core \<Rightarrow> product \<Rightarrow> (error, path) io" where
  "client_home C p = bind_io (load_config C) (\<lambda>c.
     bind_io (lift_io (configured_product c p)) (\<lambda>pc.
       ret (generation_client_home (core_paths C) (active_generation pc) p)))"

definition product_runtime_dir :: "core \<Rightarrow> product \<Rightarrow> (error, path) io" where
  "product_runtime_dir C p = bind_io (load_config C) (\<lambda>c.
     bind_io (lift_io (configured_product c p)) (\<lambda>pc.
       ret (generation_product_runtime_dir (core_paths C) (active_generation pc) p)))"

definition product_logs_dir :: "core \<Rightarrow> product \<Rightarrow> (error, path) io" where
  "product_logs_dir C p = bind_io (load_config C) (\<lambda>c.
     bind_io (lift_io (configured_product c p)) (\<lambda>pc.
       ret (generation_product_logs_dir (core_paths C) (active_generation pc) p)))"

section \<open>Product homes\<close>

definition staged_client_home :: "path \<Rightarrow> product \<Rightarrow> path" where
  "staged_client_home root p = root @ [''clients'', directory_name p]"

definition write_product_home :: "env \<Rightarrow> path \<Rightarrow> product_artifacts \<Rightarrow> (error, unit) io" where
  "write_product_home E root a =
     then_io (ensure_private_dir E root)
    (then_io (iter_io (\<lambda>(filename, contents). atomic_write_private E (root @ [filename]) contents) (artifact_files a))
             (atomic_write_private E (root @ [product_marker_filename]) product_marker))"

fun validate_home_files :: "core \<Rightarrow> path \<Rightarrow> product \<Rightarrow> (error, unit) io" where
  "validate_home_files C home Claude =
     (let E = core_env C; L = documents (core_libs C) in
      bind_io (read_managed E (home @ [claude_settings_filename])) (\<lambda>settings.
      bind_io (read_managed E (home @ [claude_state_filename])) (\<lambda>state.
      bind_io (read_utf8 E (home @ [claude_ca_cert_filename])) (\<lambda>cert.
      bind_io (read_utf8 E (home @ [claude_ca_key_filename])) (\<lambda>key.
      then_io (lift_io (claude_artifacts_new L settings state cert key)) (ret ()))))))"
| "validate_home_files C home Codex =
     (let E = core_env C; L = documents (core_libs C) in
      bind_io (read_utf8 E (home @ [codex_config_filename])) (\<lambda>config.
      then_io (lift_io (codex_artifacts_new L config)) (ret ())))"

definition validate_product_home :: "core \<Rightarrow> path \<Rightarrow> product \<Rightarrow> (error, unit) io" where
  "validate_product_home C home p =
     then_io (reject_symlink_if_present (core_env C) home)
    (bind_io (read_managed (core_env C) (home @ [product_marker_filename])) (\<lambda>marker.
       if marker \<noteq> product_marker
       then throw (InvalidArtifact product_marker_filename ''managed marker is missing or invalid'')
       else validate_home_files C home p))"

section \<open>Status and diagnosis\<close>

record setup_status =
  overall_state :: setup_state
  committed_config :: "config_v2 option"
  product_statuses :: "product_setup_status list"
  overall_issues :: "setup_issue list"

definition unconfigured_product_status :: "product \<Rightarrow> product_setup_status" where
  "unconfigured_product_status p = \<lparr>status_product = p, status_state = Unconfigured, status_home = None,
     credential_present = False, status_issues = []\<rparr>"

text \<open>\<open>ready_product_status\<close> is called for the product a transaction just configured.\<close>

definition ready_product_status :: "app_paths \<Rightarrow> product_config \<Rightarrow> product \<Rightarrow> product_setup_status" where
  "ready_product_status P pc p = \<lparr>status_product = p, status_state = ProductReady,
     status_home = Some (generation_client_home P (active_generation pc) p),
     credential_present = True, status_issues = []\<rparr>"

definition preserved_product_status ::
  "config_v2 \<Rightarrow> product \<Rightarrow> product_setup_status list \<Rightarrow> product_setup_status" where
  "preserved_product_status c p diagnosed_before =
     (if config_product c p = None then unconfigured_product_status p
      else case find (\<lambda>s. status_product s = p) diagnosed_before of
        Some s \<Rightarrow> s
      | None \<Rightarrow> \<lparr>status_product = p, status_state = ProductBroken, status_home = None,
          credential_present = False,
          status_issues = [\<lparr>issue_code = ConfigInvalid, issue_message =
            ''the committed '' @ directory_name p @
            '' status could not preserve its pre-transaction diagnostics''\<rparr>]\<rparr>)"

definition status_from_committed_config :: "config_v2 \<Rightarrow> product_setup_status list \<Rightarrow> setup_status" where
  "status_from_committed_config c ps =
     \<lparr>overall_state = (if list_ex (\<lambda>s. status_state s = ProductBroken) ps then SetupBroken else SetupReady),
      committed_config = Some c, product_statuses = ps,
      overall_issues = concat (map status_issues ps)\<rparr>"

definition uninitialized_status :: setup_status where
  "uninitialized_status = \<lparr>overall_state = Uninitialized, committed_config = None,
     product_statuses = map unconfigured_product_status all_products, overall_issues = []\<rparr>"

definition unreadable_config_status :: "setup_issue \<Rightarrow> setup_status" where
  "unreadable_config_status i = \<lparr>overall_state = SetupBroken, committed_config = None,
     product_statuses = map (\<lambda>p. \<lparr>status_product = p, status_state = ProductBroken, status_home = None,
       credential_present = False, status_issues = [i]\<rparr>) all_products,
     overall_issues = [i]\<rparr>"

definition committed_status_after_product_setup ::
  "app_paths \<Rightarrow> config_v2 \<Rightarrow> product_config \<Rightarrow> product \<Rightarrow> product_setup_status list \<Rightarrow> setup_status" where
  "committed_status_after_product_setup P c pc selected diagnosed_before =
     status_from_committed_config c (map (\<lambda>p.
       if p = selected then ready_product_status P pc p
       else preserved_product_status c p diagnosed_before) all_products)"

definition committed_status_after_product_revoke ::
  "config_v2 option \<Rightarrow> product_setup_status list \<Rightarrow> setup_status" where
  "committed_status_after_product_revoke config diagnosed_before =
     (case config of None \<Rightarrow> uninitialized_status
      | Some c \<Rightarrow> status_from_committed_config c
          (map (\<lambda>p. preserved_product_status c p diagnosed_before) all_products))"

definition issue :: "setup_issue_code \<Rightarrow> string \<Rightarrow> setup_issue" where
  "issue c m = \<lparr>issue_code = c, issue_message = m\<rparr>"

definition credential_issues :: "product \<Rightarrow> (error, secret) result \<Rightarrow> setup_issue list" where
  "credential_issues p r =
     (case r of
        Inr _ \<Rightarrow> []
      | Inl e \<Rightarrow>
          if is_not_found e
          then [issue CredentialMissing (''the '' @ directory_name p @ '' credential referenced by config.json is missing'')]
          else [issue CredentialInvalid (''the stored '' @ directory_name p @ '' credential is invalid'')])"

definition diagnose_home :: "core \<Rightarrow> product_config \<Rightarrow> product \<Rightarrow> ('e, setup_issue list) io" where
  "diagnose_home C pc p =
     (let P = core_paths C; E = core_env C; name = directory_name p;
          generation = generation_dir P (active_generation pc);
          home = generation_client_home P (active_generation pc) p
      in bind_io (try_io (ensure_no_managed_symlinks E (data_dir P) generation)) (\<lambda>r.
         case r of
           Inl _ \<Rightarrow> ret [issue UnsafeManagedPath (''the '' @ name @ '' generation uses an unsafe V2-owned path'')]
         | Inr _ \<Rightarrow> bind_io (is_dir_path E generation) (\<lambda>present.
             if \<not> present
             then ret [issue GenerationMissing (''the configured '' @ name @ '' generation is missing'')]
             else bind_io (try_io (then_io (ensure_no_managed_symlinks E (data_dir P) home)
                                           (validate_product_home C home p))) (\<lambda>r.
               ret (if is_ok r then []
                    else [issue ProductInvalid (''the configured '' @ name @ '' client state is invalid'')])))))"

definition diagnose_product :: "core \<Rightarrow> config_v2 \<Rightarrow> product \<Rightarrow> ('e, product_setup_status) io" where
  "diagnose_product C c p =
     (case config_product c p of
        None \<Rightarrow> ret (unconfigured_product_status p)
      | Some pc \<Rightarrow>
          bind_io (try_io (load_configured_credential C pc)) (\<lambda>r.
          bind_io (diagnose_home C pc p) (\<lambda>home_issues.
            let issues = credential_issues p r @ home_issues in
            ret \<lparr>status_product = p,
                 status_state = (if issues = [] then ProductReady else ProductBroken),
                 status_home = Some (generation_client_home (core_paths C) (active_generation pc) p),
                 credential_present = (credential_issues p r = []),
                 status_issues = issues\<rparr>)))"

primrec diagnose_products :: "core \<Rightarrow> config_v2 \<Rightarrow> product list \<Rightarrow> ('e, product_setup_status list) io" where
  "diagnose_products C c [] = ret []"
| "diagnose_products C c (p # ps) =
     bind_io (diagnose_product C c p) (\<lambda>s. bind_io (diagnose_products C c ps) (\<lambda>ss. ret (s # ss)))"

definition diagnose_configured_products :: "core \<Rightarrow> config_v2 \<Rightarrow> ('e, product_setup_status list) io" where
  "diagnose_configured_products C c = diagnose_products C c all_products"

definition setup_status_locked :: "core \<Rightarrow> (error, setup_status) io" where
  "setup_status_locked C =
     (let E = core_env C; P = core_paths C in
      bind_io (path_present_no_follow E (config_dir P)) (\<lambda>a.
      bind_io (if a then ret True else path_present_no_follow E (data_dir P)) (\<lambda>b.
      bind_io (if b then ret True else path_present_no_follow E (state_dir P)) (\<lambda>any_state.
      bind_io (read_config_optional C) (\<lambda>bytes.
      case bytes of
        None \<Rightarrow>
          ret (if \<not> any_state then uninitialized_status
               else unreadable_config_status (issue ConfigMissing
                 ''V2-owned files exist, but config.json is missing; run `saiai revoke --all` to reset them''))
      | Some bytes \<Rightarrow>
          (case core_parse C bytes of
             Inl _ \<Rightarrow> ret (unreadable_config_status (issue ConfigInvalid
               ''config.json is invalid or uses an unsupported schema; older V2 state is not migrated, so run `saiai revoke --all` to reset it''))
           | Inr c \<Rightarrow>
               bind_io (try_io (reject_gateway_credential_overlap C c)) (\<lambda>r.
                 if \<not> is_ok r
                 then ret (unreadable_config_status (issue ConfigInvalid unsafe_gateway_credential_message))
                 else bind_io (diagnose_configured_products C c) (\<lambda>ps.
                   ret (status_from_committed_config c ps)))))))))"

end
