(* ===== verification/Transaction_Lock.thy ===== *)
theory Transaction_Lock
  imports Setup_State
begin

text \<open>
  The installation-wide locks of \<open>setup.rs\<close> on Unix: writers lock the parent directory of the state
  root and then the lock file inside it, readers lock the parent only.  The lock file is opened again
  when it was replaced between opening and locking it; the model bounds the rounds.
\<close>

section \<open>Taking the locks\<close>

text \<open>\<open>File::open\<close>; the handle is the inode, 0 for the root directory.\<close>

definition open_handle :: "env \<Rightarrow> path \<Rightarrow> (io_error, nat) io" where
  "open_handle E p = syscall E (\<lambda>w.
     (if p = [] then (Inr 0, w)
      else case follow 41 w p of
          None \<Rightarrow> (Inl (os_error (missing_kind w p)), w)
        | Some q \<Rightarrow> (case node_at w q of
              Some n \<Rightarrow> (Inr (ino (node_meta n)), w)
            | None \<Rightarrow> (Inl (os_error (missing_kind w p)), w))))"

definition lock_exclusive :: "env \<Rightarrow> nat \<Rightarrow> (io_error, unit) io" where
  "lock_exclusive E h = try_lock_exclusive E h"

record transaction_lock =
  lock_file_handle :: nat
  stable_parent_handle :: nat

primrec lock_rounds :: "nat \<Rightarrow> env \<Rightarrow> path \<Rightarrow> (error, nat) io" where
  "lock_rounds 0 E p = throw (Io ''lock setup transaction'' p (os_error WouldBlock))"
| "lock_rounds (Suc n) E p =
     bind_io (open_private_lock_file E p) (\<lambda>h.
     then_io (map_err (Io ''lock setup transaction'' p) (lock_exclusive E h))
    (bind_io (on_error (map_err (Io ''inspect setup transaction lock'' p) (file_metadata E h)) (unlock_exclusive h)) (\<lambda>opened.
     bind_io (try_io (symlink_metadata E p)) (\<lambda>r.
       case r of
         Inr m \<Rightarrow>
           if is_file_node m \<and> \<not> is_symlink_node m \<and> ino (node_meta m) = opened then ret h
           else if \<not> is_file_node m \<or> is_symlink_node m
           then then_io (unlock_exclusive h)
                  (throw (Io ''inspect current setup transaction lock'' p
                    (IoError InvalidData ''transaction lock path is not a regular file'')))
           else then_io (unlock_exclusive h) (lock_rounds n E p)
       | Inl e \<Rightarrow>
           if io_kind e = NotFound then then_io (unlock_exclusive h) (lock_rounds n E p)
           else then_io (unlock_exclusive h) (throw (Io ''inspect current setup transaction lock'' p e))))))"

definition max_lock_rounds :: nat where
  "max_lock_rounds = 8"

definition acquire_transaction_lock :: "core \<Rightarrow> (error, transaction_lock) io" where
  "acquire_transaction_lock C =
     (let E = core_env C; P = core_paths C in
      case parent (state_dir P) of
        None \<Rightarrow> throw (InvalidAppPath ''state_dir'' (raw_of (state_dir P)) ''path has no parent directory'')
      | Some sp \<Rightarrow>
          then_io (map_err (Io ''create setup transaction lock parent'' sp) (create_dir_all E sp))
         (bind_io (map_err (Io ''open setup transaction lock parent'' sp) (open_handle E sp)) (\<lambda>s.
          then_io (map_err (Io ''lock setup transaction parent'' sp) (lock_exclusive E s))
            (on_error
              (bind_io (lock_rounds max_lock_rounds E (transaction_lock_file P)) (\<lambda>h.
                 ret \<lparr>lock_file_handle = h, stable_parent_handle = s\<rparr>))
              (unlock_exclusive s)))))"

definition drop_transaction_lock :: "transaction_lock \<Rightarrow> ('e, unit) io" where
  "drop_transaction_lock l = then_io (unlock_exclusive (lock_file_handle l)) (unlock_exclusive (stable_parent_handle l))"

definition with_transaction_lock :: "core \<Rightarrow> (error, 'a) io \<Rightarrow> (error, 'a) io" where
  "with_transaction_lock C body =
     bind_io (acquire_transaction_lock C) (\<lambda>l. finally_io body (drop_transaction_lock l))"

definition with_read_lock :: "core \<Rightarrow> (error, 'a) io \<Rightarrow> (error, 'a) io" where
  "with_read_lock C body =
     (let E = core_env C; P = core_paths C in
      case parent (state_dir P) of
        None \<Rightarrow> throw (InvalidAppPath ''state_dir'' (raw_of (state_dir P)) ''path has no parent directory'')
      | Some sp \<Rightarrow> bind_io (try_io (open_handle E sp)) (\<lambda>r.
          case r of
            Inl e \<Rightarrow> if io_kind e = NotFound then body
                     else throw (Io ''open setup diagnostic lock parent'' sp e)
          | Inr s \<Rightarrow>
              then_io (map_err (Io ''lock setup diagnostic parent'' sp) (lock_exclusive E s))
                      (finally_io body (unlock_exclusive s))))"

section \<open>Operations under a read lock\<close>

definition core_setup_status :: "core \<Rightarrow> (error, setup_status) io" where
  "core_setup_status C = bind_io (inspect_roots C) (\<lambda>r.
     if \<not> any_root r then ret uninitialized_status else with_read_lock C (setup_status_locked C))"

definition validate_shared_base_url_locked :: "core \<Rightarrow> product \<Rightarrow> gateway_url \<Rightarrow> (error, unit) io" where
  "validate_shared_base_url_locked C p url = bind_io (load_config_optional_strict C) (\<lambda>r.
     case r of
       None \<Rightarrow> bind_io (inspect_roots C) (\<lambda>roots.
         if any_root roots then throw missing_config_requires_full_revoke else ret ())
     | Some c \<Rightarrow> lift_io (validate_shared_base_url c p url))"

definition core_validate_shared_base_url :: "core \<Rightarrow> product \<Rightarrow> gateway_url \<Rightarrow> (error, unit) io" where
  "core_validate_shared_base_url C p url = bind_io (inspect_roots C) (\<lambda>r.
     if \<not> any_root r then ret () else with_read_lock C (validate_shared_base_url_locked C p url))"

section \<open>Loading a committed product\<close>

record committed_product =
  committed_name :: product
  committed_base_url :: gateway_url
  committed_home :: path
  committed_credential :: secret
  committed_lease :: nat

text \<open>The lease is given up when a later step fails.\<close>

definition load_committed_product :: "core \<Rightarrow> product \<Rightarrow> (error, committed_product) io" where
  "load_committed_product C p =
     (let E = core_env C; P = core_paths C in
      with_transaction_lock C
        (bind_io (load_config C) (\<lambda>c.
         bind_io (lift_io (configured_product c p)) (\<lambda>pc.
         bind_io (acquire_generation_lease E P (active_generation pc)) (\<lambda>lease.
         on_error
           (let generation = generation_dir P (active_generation pc);
                home = generation_client_home P (active_generation pc) p
            in then_io (ensure_no_managed_symlinks E (data_dir P) generation)
              (then_io (ensure_no_managed_symlinks E (data_dir P) home)
              (then_io (validate_product_home C home p)
              (bind_io (load_configured_credential C pc) (\<lambda>credential.
                 ret \<lparr>committed_name = p, committed_base_url = base_url c, committed_home = home,
                      committed_credential = credential, committed_lease = lease\<rparr>)))))
           (drop_generation_lease lease))))))"

end
