(* ===== verification/Transaction.thy ===== *)
theory Transaction
  imports Transaction_Lock
begin

text \<open>
  The setup transaction of \<open>setup.rs\<close>: stage a product home, promote it to a new generation, save the
  credential, commit by replacing the configuration, then clean up what the product used before.  The
  guards the code drops on an early return are \<open>on_error\<close>.  The fault injection of the tests is off,
  as in \<open>setup_product_with_artifacts\<close>.
\<close>

section \<open>Roots\<close>

definition transaction_state_root_contains_only_lock :: "core \<Rightarrow> (error, bool) io" where
  "transaction_state_root_contains_only_lock C =
     (let E = core_env C; root = state_dir (core_paths C) in
      bind_io (try_io (symlink_metadata E root)) (\<lambda>r.
        case r of
          Inl e \<Rightarrow> if io_kind e = NotFound then ret True
                   else throw (Io ''inspect transaction state root'' root e)
        | Inr n \<Rightarrow>
            if is_symlink_or_reparse n \<or> \<not> is_dir_node n then ret False
            else bind_io (map_err (Io ''list transaction state root'' root) (read_dir E root)) (\<lambda>names.
              ret (list_all (\<lambda>name. name = ''transaction.lock'') names))))"

definition roots_are_clean_for_first_setup :: "core \<Rightarrow> (error, bool) io" where
  "roots_are_clean_for_first_setup C =
     (let E = core_env C; P = core_paths C in
      bind_io (path_present_no_follow E (config_dir P)) (\<lambda>a.
      bind_io (if a then ret True else path_present_no_follow E (data_dir P)) (\<lambda>b.
        if b then ret False else transaction_state_root_contains_only_lock C)))"

definition cleanup_new_transaction_state_root_best_effort :: "core \<Rightarrow> root_presence \<Rightarrow> ('e, unit) io" where
  "cleanup_new_transaction_state_root_best_effort C roots =
     (if root_state roots then ret ()
      else bind_io (try_io (transaction_state_root_contains_only_lock C)) (\<lambda>r.
        if r = Inr True then ignore_io (remove_dir_if_exists (core_env C) (state_dir (core_paths C)))
        else ret ()))"

definition failed_setup_root_cleanup :: "core \<Rightarrow> root_presence \<Rightarrow> ('e, unit) io" where
  "failed_setup_root_cleanup C roots =
     (let P = core_paths C in
      iter_io (\<lambda>(existed, p). if existed then ret () else ignore_io (remove_dir_if_exists (core_env C) p))
        [(root_config roots, config_dir P), (root_data roots, data_dir P), (root_state roots, state_dir P)])"

section \<open>Staging and clean-up\<close>

definition create_stage :: "core \<Rightarrow> (error, path) io" where
  "create_stage C =
     (let E = core_env C; P = core_paths C; staging = generation_staging_dir P in
      then_io (ensure_private_dir E (generations_dir P))
     (then_io (ensure_private_dir E staging)
     (bind_io (new_uuid E) (\<lambda>identifier.
        let root = staging @ [identifier] in then_io (ensure_private_dir E root) (ret root)))))"

definition generation_paths :: "app_paths \<Rightarrow> generation_ref \<Rightarrow> (path \<times> path) list" where
  "generation_paths P g =
     [(data_dir P, generation_dir P g), (state_dir P, generation_runtime_dir P g),
      (state_dir P, generation_logs_dir P g)]"

definition remove_generation :: "core \<Rightarrow> generation_ref \<Rightarrow> exclusive_lease option \<Rightarrow> ('e, unit) io" where
  "remove_generation C g lease =
     (let E = core_env C in
      then_io
        (iter_io (\<lambda>(root, p). bind_io (try_io (ensure_no_managed_symlinks E root p)) (\<lambda>r.
           if is_ok r then ignore_io (remove_dir_if_exists E p) else ret ())) (generation_paths (core_paths C) g))
        (case lease of None \<Rightarrow> ret () | Some l \<Rightarrow> ignore_io (release_and_remove E l)))"

definition cleanup_generation_best_effort :: "core \<Rightarrow> generation_ref \<Rightarrow> ('e, unit) io" where
  "cleanup_generation_best_effort C g =
     bind_io (try_io (try_acquire_existing (core_env C) (core_paths C) g)) (\<lambda>r.
       case r of
         Inr (LeaseAcquired l) \<Rightarrow> remove_generation C g (Some l)
       | Inr LeaseMissing \<Rightarrow> remove_generation C g None
       | _ \<Rightarrow> ret ())"

definition cleanup_staging_best_effort :: "core \<Rightarrow> ('e, unit) io" where
  "cleanup_staging_best_effort C =
     (let E = core_env C; staging = generation_staging_dir (core_paths C) in
      bind_io (try_io (read_dir E staging)) (\<lambda>r.
        if r = Inr [] then ignore_io (remove_dir E staging) else ret ()))"

section \<open>The transaction\<close>

definition next_config :: "config_v2 option \<Rightarrow> gateway_url \<Rightarrow> product \<Rightarrow> product_config \<Rightarrow> config_v2" where
  "next_config previous url p pc =
     (case previous of
        Some c \<Rightarrow> insert_product p pc (replace_base_url url c)
      | None \<Rightarrow> config_new url p pc)"

definition stage_and_promote :: "core \<Rightarrow> product_artifacts \<Rightarrow> path \<Rightarrow> path \<Rightarrow> (error, unit) io" where
  "stage_and_promote C a stage final =
     (let E = core_env C; home = staged_client_home stage (artifacts_product a) in
      on_error
        (then_io (ensure_private_dir E (stage @ [''clients'']))
        (then_io (write_product_home E home a)
        (then_io (validate_product_home C home (artifacts_product a))
                 (promote_new_directory E stage final))))
        (ignore_io (remove_dir_all E stage)))"

definition save_and_commit ::
  "core \<Rightarrow> credential_ref \<Rightarrow> secret \<Rightarrow> string \<Rightarrow> path \<Rightarrow> (error, unit) io" where
  "save_and_commit C cr credential config_bytes final =
     (let E = core_env C; P = core_paths C in
      on_error
        (then_io (save_credential E (credentials_dir P) cr credential)
          (on_error (atomic_write_private E (config_file P) config_bytes)
                    (ignore_io (delete_credential E (credentials_dir P) cr))))
        (ignore_io (remove_dir_all E final)))"

definition retire_previous :: "core \<Rightarrow> product_config option \<Rightarrow> product_config \<Rightarrow> ('e, unit) io" where
  "retire_previous C previous pc =
     (case previous of
        None \<Rightarrow> ret ()
      | Some old \<Rightarrow>
          then_io (if credential_ref old \<noteq> credential_ref pc
                   then ignore_io (delete_credential (core_env C) (credentials_dir (core_paths C)) (credential_ref old))
                   else ret ())
                  (if active_generation old \<noteq> active_generation pc
                   then cleanup_generation_best_effort C (active_generation old) else ret ()))"

text \<open>What happens from the prepared configuration to the commit; nothing after it can fail.\<close>

definition prepare_and_commit ::
  "core \<Rightarrow> setup_request \<Rightarrow> product_artifacts \<Rightarrow> product_config \<Rightarrow> config_v2 \<Rightarrow> (error, unit) io" where
  "prepare_and_commit C req a pc c =
     (let E = core_env C; P = core_paths C; final = generation_dir P (active_generation pc) in
      then_io (iter_io (ensure_private_dir E) [config_dir P, data_dir P, state_dir P])
     (bind_io (create_stage C) (\<lambda>stage.
      then_io (stage_and_promote C a stage final)
              (save_and_commit C (credential_ref pc) (request_credential req) (core_serialize C c) final))))"

definition setup_locked ::
  "core \<Rightarrow> setup_request \<Rightarrow> product_artifacts \<Rightarrow> config_v2 option \<Rightarrow> (error, setup_status) io" where
  "setup_locked C req a previous =
     (let E = core_env C; P = core_paths C; p = artifacts_product a; url = request_base_url req in
      then_io (case previous of None \<Rightarrow> ret () | Some c \<Rightarrow> lift_io (validate_shared_base_url c p url))
     (bind_io (case previous of None \<Rightarrow> ret (map unconfigured_product_status all_products)
               | Some c \<Rightarrow> diagnose_configured_products C c) (\<lambda>diagnosed_before.
      bind_io (new_uuid E) (\<lambda>identifier.
      bind_io (lift_io (generation_ref_new (generation_name p identifier))) (\<lambda>g.
      bind_io (lift_io (credential_ref_new (credential_name p identifier))) (\<lambda>cr.
      let pc = \<lparr>credential_ref = cr, active_generation = g\<rparr>;
          c = next_config previous url p pc
      in then_io (prepare_and_commit C req a pc c)
        (then_io (retire_previous C (case previous of None \<Rightarrow> None | Some old \<Rightarrow> config_product old p) pc)
        (then_io (cleanup_staging_best_effort C)
                 (ret (committed_status_after_product_setup P c pc p diagnosed_before))))))))))"

definition setup_product :: "core \<Rightarrow> setup_request \<Rightarrow> product_artifacts \<Rightarrow> (error, setup_status) io" where
  "setup_product C req a =
     then_io (lift_io (validate_artifacts (documents (core_libs C)) a))
    (bind_io (inspect_roots C) (\<lambda>roots_before.
     with_transaction_lock C
      (bind_io (load_config_optional_strict C) (\<lambda>previous.
       case previous of
         Some _ \<Rightarrow> setup_locked C req a previous
       | None \<Rightarrow>
           bind_io (if any_root roots_before then ret False else roots_are_clean_for_first_setup C) (\<lambda>clean.
             if \<not> clean
             then then_io (cleanup_new_transaction_state_root_best_effort C roots_before)
                          (throw missing_config_requires_full_revoke)
             else on_error (setup_locked C req a None) (failed_setup_root_cleanup C roots_before))))))"

section \<open>A concrete installation\<close>

text \<open>A line-based encoding of the configuration and one gateway, for examples.\<close>

definition example_encode :: "raw_config \<Rightarrow> string" where
  "example_encode r = join [CHR 0x0A]
     [decimal (raw_schema_version r), raw_base_url r,
      (case raw_claude r of None \<Rightarrow> [] | Some x \<Rightarrow> raw_credential_ref x),
      (case raw_claude r of None \<Rightarrow> [] | Some x \<Rightarrow> raw_active_generation x),
      (case raw_codex r of None \<Rightarrow> [] | Some x \<Rightarrow> raw_credential_ref x),
      (case raw_codex r of None \<Rightarrow> [] | Some x \<Rightarrow> raw_active_generation x)]"

definition example_decode :: "string \<Rightarrow> (string, raw_config) result" where
  "example_decode s = (case split_on ((=) CHR 0x0A) s of
     [v, u, cc, cg, xc, xg] \<Rightarrow>
       (case parse_unsigned 4294967295 v of None \<Rightarrow> Inl ''version''
        | Some n \<Rightarrow> Inr \<lparr>raw_schema_version = n, raw_base_url = u,
            raw_claude = (if cc = [] then None else Some \<lparr>raw_credential_ref = cc, raw_active_generation = cg\<rparr>),
            raw_codex = (if xc = [] then None else Some \<lparr>raw_credential_ref = xc, raw_active_generation = xg\<rparr>)\<rparr>)
   | _ \<Rightarrow> Inl ''fields'')"

definition example_core :: "nat list \<Rightarrow> core" where
  "example_core faults =
     \<lparr>core_env = (faulty_env faults)\<lparr>uuid := (\<lambda>k. replicate 31 CHR ''0'' @ [char_of (48 + k mod 10)])\<rparr>,
      core_paths = \<lparr>config_dir = [''h'', ''c''], data_dir = [''h'', ''d''], state_dir = [''h'', ''s'']\<rparr>,
      core_libs = \<lparr>decode_json = example_decode, encode_json = example_encode, error_text = (\<lambda>_. []),
        parse_gateway = (\<lambda>_. Inr (GatewayUrl (example_url ''/''))),
        render_gateway = (\<lambda>_. ''https://api.example.test/''), documents = example_libraries\<rparr>\<rparr>"

definition example_home :: world where
  "example_home = world_of [([''h''], private_dir 1)]"

definition example_request :: setup_request where
  "example_request = \<lparr>request_base_url = GatewayUrl (example_url ''/''), request_credential = SecretString ''sk-1''\<rparr>"

definition example_artifacts :: product_artifacts where
  "example_artifacts = CodexArtifacts \<lparr>config_toml = ''a=1''\<rparr>"

end
