(* ===== verification/Setup_Safety.thy ===== *)
theory Setup_Safety
  imports Transaction
begin

text \<open>
  What a setup transaction can change.  \<open>scratch\<close> is the set of paths a transaction may use without
  harm: those that mention a UUID it draws (staging directories, new generations, new credentials,
  temporary files) and the transaction lock file.  A failed setup leaves every other file as it was.
\<close>

section \<open>Scratch paths\<close>

definition mentions_uuid :: "env \<Rightarrow> path \<Rightarrow> bool" where
  "mentions_uuid E q \<longleftrightarrow> (\<exists>c \<in> set q. \<exists>k. contains_text c (uuid E k))"

definition scratch :: "core \<Rightarrow> path \<Rightarrow> bool" where
  "scratch C q \<longleftrightarrow> mentions_uuid (core_env C) q \<or> starts_with q (transaction_lock_file (core_paths C))"

lemma mentions_append: "mentions_uuid E p \<Longrightarrow> mentions_uuid E (p @ r)"
  by (auto simp: mentions_uuid_def)

lemma mentions_last: "contains_text n (uuid E k) \<Longrightarrow> mentions_uuid E (p @ n # r)"
  by (auto simp: mentions_uuid_def)

lemma contains_end: "contains_text (a @ u) u"
  unfolding contains_text_iff by (intro exI [of _ a] exI [of _ "[]"]) simp

lemma temporary_mentions: "temporary_of E p q \<Longrightarrow> mentions_uuid E q"
proof -
  assume "temporary_of E p q"
  then obtain k r where "q = butlast p @ temporary_name (last p) (uuid E k) # r"
    by (auto simp: temporary_of_def starts_with_iff)
  moreover have "contains_text (temporary_name (last p) (uuid E k)) (uuid E k)"
    using contains_end [of "''.'' @ last p @ ''.tmp-''" "uuid E k"] by (simp add: temporary_name_def)
  ultimately show ?thesis by (auto intro: mentions_last)
qed

lemma scratch_temporary: "temporary_of (core_env C) p q \<Longrightarrow> scratch C q"
  by (simp add: scratch_def temporary_mentions)

lemma scratch_mentions: "mentions_uuid (core_env C) p \<Longrightarrow> scratch C (p @ r)"
  by (simp add: scratch_def mentions_append)

lemma generation_mentions:
  "generation_str g = generation_name p (uuid E k) \<Longrightarrow> mentions_uuid E (generation_dir P g)"
  using contains_end [of "''gen-'' @ directory_name p @ ''-''" "uuid E k"]
  by (auto simp: generation_dir_def generation_name_def intro: mentions_last)

lemma credential_mentions:
  assumes "credential_str cr = credential_name p (uuid E k)"
  shows "mentions_uuid E (credential_path root cr)"
proof -
  have "contains_text (credential_str cr @ ''.key'') (uuid E k)"
    unfolding contains_text_iff assms credential_name_def
    by (intro exI [of _ "directory_name p @ ''-''"] exI [of _ "''.key''"]) simp
  then show ?thesis unfolding credential_path_def by (rule mentions_last)
qed

section \<open>Reading changes nothing\<close>

lemma touches_inspect_roots [frame_intros]: "touches S (inspect_roots C)"
  unfolding inspect_roots_def Let_def by (intro frame_intros)

lemma touches_read_config [frame_intros]: "touches S (read_config_optional C)"
  unfolding read_config_optional_def Let_def by (intro frame_intros)

lemma touches_configured_credential [frame_intros]: "touches S (load_configured_credential C pc)"
  unfolding load_configured_credential_def Let_def by (intro frame_intros)

lemma touches_overlap [frame_intros]: "touches S (reject_gateway_credential_overlap C c)"
proof -
  have "touches S (overlap_checks C c ps)" for ps
    by (induction ps) (simp_all, (intro frame_intros; assumption)+)
  then show ?thesis by (simp add: reject_gateway_credential_overlap_def)
qed

lemma touches_load_config [frame_intros]:
  "touches S (load_config_optional_strict C)" "touches S (load_config C)"
  unfolding load_config_optional_strict_def load_config_def by (intro frame_intros)+

lemma touches_read_utf8 [frame_intros]: "touches S (read_utf8 E p)"
  unfolding read_utf8_def by (intro frame_intros)

lemma touches_validate_product_home [frame_intros]: "touches S (validate_product_home C home p)"
proof -
  have "touches S (validate_home_files C home p)"
    by (cases p) (simp_all add: Let_def, (intro frame_intros)+)
  then show ?thesis unfolding validate_product_home_def by (intro frame_intros)
qed

lemma touches_diagnose [frame_intros]: "touches S (diagnose_configured_products C c)"
proof -
  have d: "touches S (diagnose_product C c p)" for p
    unfolding diagnose_product_def diagnose_home_def Let_def by (intro frame_intros)
  have "touches S (diagnose_products C c ps)" for ps
    by (induction ps) (simp_all, (intro frame_intros d; assumption)+)
  then show ?thesis by (simp add: diagnose_configured_products_def)
qed

lemma touches_state_root_check [frame_intros]:
  "touches S (transaction_state_root_contains_only_lock C)" "touches S (roots_are_clean_for_first_setup C)"
proof -
  have t: "touches S (transaction_state_root_contains_only_lock C)"
    unfolding transaction_state_root_contains_only_lock_def Let_def by (intro frame_intros)
  then show "touches S (transaction_state_root_contains_only_lock C)" .
  show "touches S (roots_are_clean_for_first_setup C)"
    unfolding roots_are_clean_for_first_setup_def Let_def by (intro frame_intros t)
qed

lemma touches_setup_status_locked [frame_intros]: "touches S (setup_status_locked C)"
  unfolding setup_status_locked_def Let_def by (intro frame_intros)

lemma touches_open_handle [frame_intros]: "touches S (open_handle E p)"
  unfolding open_handle_def by (rule touches_syscall) (simp split: option.split)

lemma touches_lock_exclusive [frame_intros]: "touches S (lock_exclusive E h)"
  unfolding lock_exclusive_def by (intro frame_intros)

lemma touches_with_read_lock:
  "touches S body \<Longrightarrow> touches S (with_read_lock C body)"
  unfolding with_read_lock_def Let_def by (intro frame_intros; assumption)

text \<open>
  Asking for the status of an installation changes no path of the file system, whatever is found
  there and whatever fails: no directory is created, no mode is changed, no file is written.
\<close>

theorem status_changes_nothing:
  "node_at (snd (core_setup_status C w)) = node_at w"
proof -
  have "touches nowhere (core_setup_status C)"
    unfolding core_setup_status_def by (intro frame_intros touches_with_read_lock)
  from frameD [OF this] show ?thesis by (simp add: nowhere_def fun_eq_iff)
qed

section \<open>Writing below scratch paths\<close>

lemmas keeps_reading [frame_intros] =
  touches_inspect_roots [THEN keeps_touches] touches_load_config [THEN keeps_touches]
  touches_validate_product_home [THEN keeps_touches] touches_diagnose [THEN keeps_touches]
  touches_state_root_check [THEN keeps_touches] touches_open_handle [THEN keeps_touches]
  touches_lock_exclusive [THEN keeps_touches]

lemma keeps_scratch_write:
  assumes "mentions_uuid (core_env C) p"
  shows "keeps (scratch C) (atomic_write_private (core_env C) p c)"
proof -
  have "p \<noteq> []" using assms by (auto simp: mentions_uuid_def)
  then show ?thesis
    by (intro keeps_atomic_write scratch_temporary scratch_mentions assms) auto
qed

lemma keeps_write_product_home:
  assumes "mentions_uuid (core_env C) home"
  shows "keeps (scratch C) (write_product_home (core_env C) home a)"
  unfolding write_product_home_def
  by (intro frame_intros keeps_scratch_write mentions_append assms)

lemma keeps_drop_lock [frame_intros]: "keeps S (drop_transaction_lock l)"
  unfolding drop_transaction_lock_def by (intro frame_intros)

lemma keeps_lock_rounds: "S p \<Longrightarrow> keeps S (lock_rounds n E p)"
proof (induction n)
  case 0
  show ?case by (simp add: frame_throw)
next
  case (Suc n)
  then have "keeps S (open_private_lock_file E p)" "keeps S (lock_rounds n E p)"
    by (simp_all add: keeps_open_private_lock_file)
  then show ?case by (simp only: lock_rounds.simps) (intro frame_intros)
qed

lemma keeps_acquire: "S (transaction_lock_file (core_paths C)) \<Longrightarrow> keeps S (acquire_transaction_lock C)"
  unfolding acquire_transaction_lock_def Let_def by (intro frame_intros keeps_lock_rounds)

lemma keeps_acquire_lock [frame_intros]: "keeps (scratch C) (acquire_transaction_lock C)"
  by (rule keeps_acquire) (simp add: scratch_def starts_with_iff)

lemma keeps_create_stage [frame_intros]: "keeps S (create_stage C)"
  unfolding create_stage_def Let_def by (intro frame_intros)

lemma create_stage_mentions:
  "create_stage C w = (Inr stage, w') \<Longrightarrow> mentions_uuid (core_env C) stage"
  using contains_end [of "[]"]
  by (auto simp: create_stage_def Let_def io_eqs new_uuid_def intro!: mentions_last)

lemma keeps_stage_and_promote:
  assumes "mentions_uuid (core_env C) stage" "mentions_uuid (core_env C) final"
  shows "keeps (scratch C) (stage_and_promote C a stage final)"
proof -
  have "mentions_uuid (core_env C) (staged_client_home stage p)" for p
    using assms(1) by (simp add: staged_client_home_def mentions_append)
  then show ?thesis unfolding stage_and_promote_def Let_def
    by (intro frame_intros keeps_write_product_home keeps_promote keeps_remove_dir_all scratch_mentions assms)
qed

lemma keeps_save_new_credential:
  assumes "mentions_uuid (core_env C) (credential_path root cr)"
  shows "keeps (scratch C) (save_credential (core_env C) root cr s)"
  unfolding save_credential_def by (intro frame_intros keeps_scratch_write assms)

lemma keeps_delete_credential:
  assumes "\<And>r. S (credential_path root cr @ r)"
  shows "keeps S (delete_credential E root cr)"
proof -
  have "S (credential_path root cr)" using assms [of "[]"] by simp
  then have "keeps S (remove_file E (credential_path root cr))"
    by (intro keeps_touches touches_remove_file)
  then show ?thesis unfolding delete_credential_def Let_def by (intro frame_intros)
qed

section \<open>A failed setup\<close>

lemma config_file_nonempty: "config_file P \<noteq> []"
  by (simp add: config_file_def)

lemma failure_save_and_commit:
  assumes "mentions_uuid (core_env C) (credential_path (credentials_dir (core_paths C)) cr)"
    and "mentions_uuid (core_env C) final"
  shows "failure_frame contents_at (scratch C) (save_and_commit C cr s bytes final)"
  unfolding save_and_commit_def Let_def
  by (intro failure_frame_on_error failure_frame_then failure_frame_atomic_write frame_ignore
      keeps_remove_dir_all keeps_save_new_credential keeps_delete_credential scratch_temporary
      scratch_mentions assms config_file_nonempty)

lemma failure_prepare_and_commit:
  assumes "credential_str (credential_ref pc) = credential_name p (uuid (core_env C) k)"
    and "generation_str (active_generation pc) = generation_name p (uuid (core_env C) k)"
  shows "failure_frame contents_at (scratch C) (prepare_and_commit C req a pc c)"
  unfolding prepare_and_commit_def Let_def
  by (intro failure_frame_then failure_frame_bind failure_save_and_commit keeps_stage_and_promote
      frame_intros generation_mentions [OF assms(2)] credential_mentions [OF assms(1)]
      create_stage_mentions; assumption)

lemma never_fails_if: "never_fails m \<Longrightarrow> never_fails n \<Longrightarrow> never_fails (if b then m else n)"
  by simp

lemma never_fails_iter: "(\<And>x. never_fails (f x)) \<Longrightarrow> never_fails (iter_io f xs)"
  by (induction xs) (simp_all add: never_fails_intros)

lemma never_fails_remove_generation: "never_fails (remove_generation C g lease)"
  unfolding remove_generation_def Let_def
  by (cases lease) (auto intro!: never_fails_intros never_fails_iter never_fails_if split: prod.split)

lemma never_fails_cleanup_generation: "never_fails (cleanup_generation_best_effort C g)"
  unfolding cleanup_generation_best_effort_def
  by (intro never_fails_intros)
    (auto intro: never_fails_intros never_fails_remove_generation split: sum.split lease_probe.split)

lemma never_fails_retire_previous: "never_fails (retire_previous C previous pc)"
  unfolding retire_previous_def
  by (cases previous) (auto intro!: never_fails_intros never_fails_if never_fails_cleanup_generation)

lemma never_fails_cleanup_staging: "never_fails (cleanup_staging_best_effort C)"
  unfolding cleanup_staging_best_effort_def Let_def
  by (intro never_fails_intros never_fails_if)

lemma never_fails_diagnose: "never_fails (diagnose_configured_products C c)"
proof -
  have h: "never_fails (diagnose_home C pc p)" for pc p
    unfolding diagnose_home_def Let_def is_dir_path_def
    by (intro never_fails_intros)
      (auto intro!: never_fails_intros never_fails_if split: sum.split)
  have d: "never_fails (diagnose_product C c p)" for p
    unfolding diagnose_product_def Let_def
    by (auto intro!: never_fails_intros h split: option.split)
  have "never_fails (diagnose_products C c ps)" for ps
    by (induction ps) (auto intro!: never_fails_intros d)
  then show ?thesis by (simp add: diagnose_configured_products_def)
qed

lemma new_uuid_value: "new_uuid E w = (Inr x, w') \<Longrightarrow> \<exists>k. x = uuid E k"
  by (auto simp: new_uuid_def)

lemma failure_setup_locked:
  "failure_frame contents_at (scratch C) (setup_locked C req a previous)"
proof -
  let ?p = "artifacts_product a"
  have tail: "failure_frame contents_at (scratch C)
      (bind_io (lift_io (generation_ref_new (generation_name ?p i))) (\<lambda>g.
       bind_io (lift_io (credential_ref_new (credential_name ?p i))) (\<lambda>cr. F g cr)))"
    if i: "i = uuid (core_env C) k" and F: "\<And>g cr. generation_str g = generation_name ?p i \<Longrightarrow>
      credential_str cr = credential_name ?p i \<Longrightarrow> failure_frame contents_at (scratch C) (F g cr)"
    for i k and F :: "generation_ref \<Rightarrow> credential_ref \<Rightarrow> (error, setup_status) io"
    using i by (intro failure_frame_bind F frame_lift)
      (auto simp: lift_io_def generation_ref_new_iff credential_ref_new_iff)
  have commit: "failure_frame contents_at (scratch C)
      (then_io (prepare_and_commit C req a pc c) (then_io (retire_previous C old pc)
        (then_io (cleanup_staging_best_effort C) (ret status))))"
    if "credential_str (credential_ref pc) = credential_name ?p i"
      "generation_str (active_generation pc) = generation_name ?p i" "i = uuid (core_env C) k"
    for pc c i k old and status :: setup_status
    unfolding then_io_def [of "prepare_and_commit C req a pc c"]
    using that by (intro failure_frame_committed failure_prepare_and_commit [where p = ?p and k = k]
        never_fails_intros never_fails_retire_previous never_fails_cleanup_staging) simp_all
  show ?thesis unfolding setup_locked_def Let_def
  proof (intro failure_frame_then failure_frame_bind [where f = "\<lambda>d. bind_io (new_uuid (core_env C)) (F d)" for F]
      failure_frame_bind [where m = "new_uuid (core_env C)"], goal_cases)
    case 1 show ?case by (intro frame_intros)
  next
    case 2 show ?case by (intro frame_intros)
  next
    case (3 x w w')
    show ?case by (intro frame_intros)
  next
    case (4 d w1 w1' i w2 w2')
    from new_uuid_value [OF this(2)] obtain k where i: "i = uuid (core_env C) k" by blast
    show ?case by (rule tail [OF i], rule commit [where i = i and k = k]) (simp_all add: i)
  qed
qed

lemma path_present_result:
  assumes "path_present_no_follow E p w = (Inr b, w')"
  shows "node_at w' = node_at w \<and> (b \<longleftrightarrow> node_at w p \<noteq> None)"
proof -
  from assms obtain r where s: "symlink_metadata E p w = (r, w')"
    and r: "case r of Inr n \<Rightarrow> b | Inl e \<Rightarrow> \<not> b \<and> io_kind e = NotFound"
    unfolding path_present_no_follow_def bind_try
    by (elim exE conjE, rename_tac y w1, case_tac y) (auto simp: ret_eq throw_eq split: if_splits)
  from symlink_metadata_result [OF s] r show ?thesis by (cases r) auto
qed

lemma inspect_roots_result:
  assumes "inspect_roots C w = (Inr r, w')"
  shows "node_at w' = node_at w"
    and "root_config r \<longleftrightarrow> node_at w (config_dir (core_paths C)) \<noteq> None"
    and "root_data r \<longleftrightarrow> node_at w (data_dir (core_paths C)) \<noteq> None"
    and "root_state r \<longleftrightarrow> node_at w (state_dir (core_paths C)) \<noteq> None"
proof -
  from assms obtain c d s w1 w2 where
    1: "path_present_no_follow (core_env C) (config_dir (core_paths C)) w = (Inr c, w1)" and
    2: "path_present_no_follow (core_env C) (data_dir (core_paths C)) w1 = (Inr d, w2)" and
    3: "path_present_no_follow (core_env C) (state_dir (core_paths C)) w2 = (Inr s, w')" and
    r: "r = \<lparr>root_config = c, root_data = d, root_state = s\<rparr>"
    by (auto simp: inspect_roots_def Let_def bind_io_Inr ret_eq)
  note p = path_present_result [OF 1] path_present_result [OF 2] path_present_result [OF 3]
  show "node_at w' = node_at w" using p by simp
  show "root_config r \<longleftrightarrow> node_at w (config_dir (core_paths C)) \<noteq> None"
    "root_data r \<longleftrightarrow> node_at w (data_dir (core_paths C)) \<noteq> None"
    "root_state r \<longleftrightarrow> node_at w (state_dir (core_paths C)) \<noteq> None"
    using p r by simp_all
qed

lemma absent_missing:
  assumes "rooted w" "node_at w p = None" "p \<noteq> []"
  shows "absent_or S w p"
  unfolding absent_or_def using rooted_below [OF assms] by (simp add: contents_at_def contents_of_def)

lemma triple_remove_missing_root:
  assumes "existed \<longleftrightarrow> node_at w0 p \<noteq> None" "rooted w0" "p \<noteq> []"
  shows "triple (as_before S w0) (if existed then ret () else ignore_io (remove_dir_if_exists E p))
    (\<lambda>_. as_before S w0) R"
proof (cases existed)
  case True then show ?thesis by (simp add: triple_ret)
next
  case False
  with assms(1) have "node_at w0 p = None" by simp
  from absent_missing [OF assms(2) this assms(3)] have "absent_or S w0 p" .
  from triple_remove_dir_if_exists_absent [OF this] False show ?thesis by (auto intro: triple_ignore)
qed

definition known_roots :: "core \<Rightarrow> world \<Rightarrow> root_presence \<Rightarrow> bool" where
  "known_roots C w r \<longleftrightarrow>
     (root_config r \<longleftrightarrow> node_at w (config_dir (core_paths C)) \<noteq> None) \<and>
     (root_data r \<longleftrightarrow> node_at w (data_dir (core_paths C)) \<noteq> None) \<and>
     (root_state r \<longleftrightarrow> node_at w (state_dir (core_paths C)) \<noteq> None) \<and>
     rooted w \<and> config_dir (core_paths C) \<noteq> [] \<and> data_dir (core_paths C) \<noteq> [] \<and>
     state_dir (core_paths C) \<noteq> []"

lemma triple_failed_cleanup:
  assumes "known_roots C w0 r"
  shows "triple (as_before S w0) (failed_setup_root_cleanup C r) (\<lambda>_. as_before S w0) (\<lambda>_. as_before S w0)"
  unfolding failed_setup_root_cleanup_def Let_def
proof (rule triple_iter)
  fix x assume "x \<in> set [(root_config r, config_dir (core_paths C)), (root_data r, data_dir (core_paths C)),
      (root_state r, state_dir (core_paths C))]"
  then obtain existed p where x: "x = (existed, p)" and
    "existed \<longleftrightarrow> node_at w0 p \<noteq> None" "rooted w0" "p \<noteq> []"
    using assms by (auto simp: known_roots_def)
  then show "triple (as_before S w0) (case x of (existed, p) \<Rightarrow>
      if existed then ret () else ignore_io (remove_dir_if_exists (core_env C) p)) (\<lambda>_. as_before S w0) (\<lambda>_. as_before S w0)"
    using triple_remove_missing_root [of existed w0 p S "core_env C" "\<lambda>_. as_before S w0"] by simp
qed

lemma triple_new_state_cleanup:
  assumes "known_roots C w0 r"
  shows "triple (as_before S w0) (cleanup_new_transaction_state_root_best_effort C r)
    (\<lambda>_. as_before S w0) (\<lambda>_. as_before S w0)"
proof -
  let ?rm = "ignore_io (remove_dir_if_exists (core_env C) (state_dir (core_paths C)))"
  have rm: "triple (as_before S w0) ?rm (\<lambda>_. as_before S w0) (\<lambda>_. as_before S w0)" if "\<not> root_state r"
    using triple_remove_missing_root [of False w0 "state_dir (core_paths C)" S "core_env C" "\<lambda>_. as_before S w0"]
      assms that by (simp add: known_roots_def)
  have "triple (as_before S w0) (if y = Inr True then ?rm else ret ()) (\<lambda>_. as_before S w0) (\<lambda>_. as_before S w0)"
    if "\<not> root_state r" for y :: "(error, bool) result"
    using rm [OF that] by (cases "y = Inr True") (simp_all add: triple_ret)
  then show ?thesis unfolding cleanup_new_transaction_state_root_best_effort_def
    by (cases "root_state r")
      (auto intro!: triple_ret triple_bind [OF triple_frameI [OF frame_try [OF keeps_reading(6)]]])
qed

lemma triple_failure_frame:
  "failure_frame contents_at S m \<Longrightarrow> triple (as_before S w0) m (\<lambda>_ _. True) (\<lambda>_. as_before S w0)"
  by (auto simp: triple_def same_outside_def dest: failure_frameD)

lemma triple_finally:
  assumes "triple P m (\<lambda>_ _. True) (\<lambda>_. as_before S w0)" "keeps S c"
  shows "triple P (finally_io m c) (\<lambda>_ _. True) (\<lambda>_. as_before S w0)"
proof (rule tripleI)
  fix w e w'' assume "P w" "finally_io m c w = (Inl e, w'')"
  then obtain w' where w': "m w = (Inl e, w')" "w'' = snd (c w')" by (auto simp: finally_io_eq)
  with triple_Inl [OF assms(1) \<open>P w\<close>] have "as_before S w0 w'" by simp
  with frameD [OF assms(2)] w'(2) show "as_before S w0 w''" by (simp add: same_outside_def)
qed simp

lemma triple_setup_body:
  assumes "known_roots C w0 r"
  shows "triple (as_before (scratch C) w0)
    (bind_io (load_config_optional_strict C) (\<lambda>previous.
       case previous of
         Some _ \<Rightarrow> setup_locked C req a previous
       | None \<Rightarrow>
           bind_io (if any_root r then ret False else roots_are_clean_for_first_setup C) (\<lambda>clean.
             if \<not> clean
             then then_io (cleanup_new_transaction_state_root_best_effort C r)
                          (throw missing_config_requires_full_revoke)
             else on_error (setup_locked C req a None) (failed_setup_root_cleanup C r))))
    (\<lambda>_ _. True) (\<lambda>_. as_before (scratch C) w0)"
proof -
  let ?I = "as_before (scratch C) w0"
  have locked: "triple ?I (setup_locked C req a previous) (\<lambda>_ _. True) (\<lambda>_. ?I)" for previous
    by (rule triple_failure_frame [OF failure_setup_locked])
  have first: "triple ?I (on_error (setup_locked C req a None) (failed_setup_root_cleanup C r)) (\<lambda>_ _. True) (\<lambda>_. ?I)"
    by (rule triple_on_error [OF locked]) (rule triple_failed_cleanup [OF assms])
  have refused: "triple ?I (then_io (cleanup_new_transaction_state_root_best_effort C r)
      (throw missing_config_requires_full_revoke) :: (error, setup_status) io) (\<lambda>_ _. True) (\<lambda>_. ?I)"
    by (rule triple_then [OF triple_new_state_cleanup [OF assms]]) (rule triple_throw)
  have clean: "triple ?I (if any_root r then ret False else roots_are_clean_for_first_setup C) (\<lambda>_. ?I) (\<lambda>_. ?I)"
    by (rule triple_frameI) (intro frame_intros)
  have none: "triple ?I (bind_io (if any_root r then ret False else roots_are_clean_for_first_setup C) (\<lambda>clean.
             if \<not> clean
             then then_io (cleanup_new_transaction_state_root_best_effort C r)
                          (throw missing_config_requires_full_revoke)
             else on_error (setup_locked C req a None) (failed_setup_root_cleanup C r))) (\<lambda>_ _. True) (\<lambda>_. ?I)"
    using first refused by (intro triple_bind [OF clean]) simp
  show ?thesis
  proof (rule triple_bind [OF triple_frameI [OF keeps_reading(2)]], goal_cases)
    case (1 previous)
    show ?case by (cases previous) (simp_all only: option.case none locked)
  qed
qed

lemma failed_setup_keeps_contents:
  assumes "setup_product C req a w = (Inl e, w')" and "rooted w" and "wf_paths (core_paths C)"
    and "\<not> scratch C q"
  shows "contents_at w' q = contents_at w q"
proof -
  let ?I = "as_before (scratch C) w"
  have body: "triple (\<lambda>w1. ?I w1 \<and> known_roots C w r) (with_transaction_lock C body) (\<lambda>_ _. True) (\<lambda>_. ?I)"
    if "known_roots C w r \<Longrightarrow> triple ?I body (\<lambda>_ _. True) (\<lambda>_. ?I)" for r and body :: "(error, setup_status) io"
  proof (rule triple_weaken [where P' = "\<lambda>w1. known_roots C w r \<and> ?I w1"])
    show "triple (\<lambda>w1. known_roots C w r \<and> ?I w1) (with_transaction_lock C body) (\<lambda>_ _. True) (\<lambda>_. ?I)"
    proof (rule triple_pre)
      assume "known_roots C w r"
      then have "triple ?I body (\<lambda>_ _. True) (\<lambda>_. ?I)" by (rule that)
      then show "triple ?I (with_transaction_lock C body) (\<lambda>_ _. True) (\<lambda>_. ?I)"
        unfolding with_transaction_lock_def
        by (intro triple_bind [OF triple_frameI [OF keeps_acquire_lock]] triple_finally keeps_drop_lock)
    qed
  qed simp_all
  have roots: "triple (\<lambda>w1. w1 = w) (inspect_roots C) (\<lambda>r w1. ?I w1 \<and> known_roots C w r) (\<lambda>_. ?I)"
  proof (rule tripleI)
    fix w0 e w1 assume "w0 = w" "inspect_roots C w0 = (Inl e, w1)"
    then show "?I w1" using frame_result [OF touches_inspect_roots [of nowhere C]]
      by (auto simp: same_outside_def contents_at_def nowhere_def)
  next
    fix w0 r w1 assume "w0 = w" "inspect_roots C w0 = (Inr r, w1)"
    with inspect_roots_result [of C w r w1] assms(2,3) show "?I w1 \<and> known_roots C w r"
      by (auto simp: known_roots_def wf_paths_def same_outside_def contents_at_def)
  qed
  have "triple (\<lambda>w1. w1 = w) (setup_product C req a) (\<lambda>_ _. True) (\<lambda>_. ?I)"
    unfolding setup_product_def then_io_def [of "lift_io (validate_artifacts (documents (core_libs C)) a)"]
    by (rule triple_bind [where S = "\<lambda>_ w1. w1 = w"], rule triple_lift, simp, simp)
      (rule triple_bind [OF roots], rule body, rule triple_setup_body)
  from triple_Inl [OF this refl assms(1)] assms(4) show ?thesis by (simp add: same_outside_def)
qed

text \<open>
  C2: A setup that fails, at whatever step and for whatever reason, is undone: every regular file of the
  machine keeps its contents, committed configuration, credentials and product homes included, and no
  new one is left except under names that carry a UUID of this transaction, or the lock file.
\<close>

theorem failed_setup_is_undone:
  assumes "setup_product C req a w = (Inl e, w')" and "tree_closed w" and "wf_paths (core_paths C)"
    and "\<not> scratch C q"
  shows "contents_at w' q = contents_at w q"
  using assms(1) rooted_tree_closed [OF assms(2)] assms(3,4) by (rule failed_setup_keeps_contents)

end
