(* ===== verification/Setup_Success.thy ===== *)
theory Setup_Success
  imports Setup_Safety
begin

text \<open>
  What a successful setup leaves: the committed configuration, the stored credential, the installed
  product home, and everything of the other product as it was.
\<close>

section \<open>Retiring what the product used before\<close>

definition retired :: "core \<Rightarrow> product_config \<Rightarrow> product_config \<Rightarrow> path \<Rightarrow> bool" where
  "retired C old new q \<longleftrightarrow>
     (credential_ref old \<noteq> credential_ref new \<and>
        starts_with q (credential_path (credentials_dir (core_paths C)) (credential_ref old))) \<or>
     (active_generation old \<noteq> active_generation new \<and>
       ((\<exists>(root, p) \<in> set (generation_paths (core_paths C) (active_generation old)). starts_with q p) \<or>
        starts_with q (generation_lease_file (core_paths C) (active_generation old))))"

lemma starts_with_under [simp]: "starts_with (p @ r) p"
  by (simp add: starts_with_iff)

lemma touches_release:
  assumes "S (lease_path l)"
  shows "touches S (release_and_remove E l)"
proof -
  have "touches S (drop_exclusive_lease l)" unfolding drop_exclusive_lease_def by (intro frame_intros)
  moreover have "touches S (remove_file E (lease_path l))" by (rule touches_remove_file [where S = S, OF assms])
  ultimately show ?thesis unfolding release_and_remove_def Let_def by (intro frame_intros)
qed

lemma keeps_remove_generation:
  assumes "\<And>root p r. (root, p) \<in> set (generation_paths (core_paths C) g) \<Longrightarrow> S (p @ r)"
    and "\<And>l. lease = Some l \<Longrightarrow> S (lease_path l)"
  shows "keeps S (remove_generation C g lease)"
proof -
  have "keeps S (remove_dir_if_exists (core_env C) p)" if "(root, p) \<in> set (generation_paths (core_paths C) g)" for root p
    by (rule keeps_remove_dir_if_exists) (rule assms(1) [OF that])
  moreover have "keeps S (release_and_remove (core_env C) l)" if "lease = Some l" for l
    using assms(2) [OF that] by (intro keeps_touches touches_release)
  ultimately show ?thesis unfolding remove_generation_def Let_def
    by (intro frame_intros) auto
qed

lemma keeps_cleanup_generation:
  assumes "\<And>root p r. (root, p) \<in> set (generation_paths (core_paths C) g) \<Longrightarrow> S (p @ r)"
    and "S (generation_lease_file (core_paths C) g)"
  shows "keeps S (cleanup_generation_best_effort C g)"
  unfolding cleanup_generation_best_effort_def
proof (rule frame_bind_result)
  show "keeps S (try_io (try_acquire_existing (core_env C) (core_paths C) g))"
    unfolding try_acquire_existing_def by (intro frame_intros keeps_touches touches_probe)
next
  fix r w w'
  assume "try_io (try_acquire_existing (core_env C) (core_paths C) g) w = (Inr r, w')"
  then have t: "try_acquire_existing_path (core_env C) (core_paths C) (generation_lease_file (core_paths C) g) w = (r, w')"
    by (simp add: try_io_eq try_acquire_existing_def)
  have "lease_path l = generation_lease_file (core_paths C) g" if "r = Inr (LeaseAcquired l)" for l
    using try_acquire_existing_path_locks [OF t] that by simp
  then show "keeps S (case r of Inr (LeaseAcquired l) \<Rightarrow> remove_generation C g (Some l)
      | Inr LeaseMissing \<Rightarrow> remove_generation C g None | _ \<Rightarrow> ret ())"
    using assms by (auto split: sum.split lease_probe.split intro!: keeps_remove_generation frame_ret)
qed

lemma keeps_retire_previous:
  assumes "\<And>old q. previous = Some old \<Longrightarrow> retired C old pc q \<Longrightarrow> S q"
  shows "keeps S (retire_previous C previous pc)"
proof (cases previous)
  case None
  then show ?thesis by (simp add: retire_previous_def frame_ret)
next
  case (Some old)
  have c: "keeps S (delete_credential (core_env C) (credentials_dir (core_paths C)) (credential_ref old))"
    if "credential_ref old \<noteq> credential_ref pc"
    by (rule keeps_delete_credential) (rule assms [OF Some], simp add: retired_def that)
  have g: "keeps S (cleanup_generation_best_effort C (active_generation old) :: ('e, unit) io)"
    if "active_generation old \<noteq> active_generation pc"
  proof (rule keeps_cleanup_generation; rule assms [OF Some])
    fix root p r assume "(root, p) \<in> set (generation_paths (core_paths C) (active_generation old))"
    then have "\<exists>(root, x) \<in> set (generation_paths (core_paths C) (active_generation old)). starts_with (p @ r) x"
      by (intro bexI [of _ "(root, p)"]) simp_all
    then show "retired C old pc (p @ r)" using that by (simp add: retired_def)
  qed (simp add: retired_def that)
  show ?thesis unfolding retire_previous_def Some option.case by (intro frame_intros c g)
qed

lemma keeps_cleanup_staging [frame_intros]: "keeps S (cleanup_staging_best_effort C)"
proof -
  have "keeps S (remove_dir E p)" for E p unfolding remove_dir_def
    by (rule keeps_syscall) (auto simp: contents_at_def contents_of_def split: option.split node.split)
  then show ?thesis unfolding cleanup_staging_best_effort_def Let_def by (intro frame_intros)
qed

section \<open>The steps up to the commit\<close>

definition uuids_simple :: "env \<Rightarrow> bool" where
  "uuids_simple E \<longleftrightarrow> (\<forall>k. uuid_simple (uuid E k))"

lemma short_not_temporary:
  assumes "uuids_simple E" "length n < 32"
  shows "\<not> temporary_of E (d @ [m]) (d @ [n])"
proof
  assume "temporary_of E (d @ [m]) (d @ [n])"
  then obtain k where "n = temporary_name m (uuid E k)"
    by (auto simp: temporary_of_def starts_with_iff)
  moreover have "length (uuid E k) = 32" using assms(1) by (simp add: uuids_simple_def uuid_simple_def)
  ultimately show False using assms(2) by (simp add: temporary_name_def)
qed

lemma temporary_below: "temporary_of E p q \<Longrightarrow> starts_with q (butlast p)"
  by (auto simp: temporary_of_def starts_with_iff)

lemma atomic_write_Inr:
  assumes "atomic_write_private E p c w = (Inr u, w')" "p \<noteq> []"
  shows "contents_at w' p = Some c"
    and "\<not> temporary_of E p q \<Longrightarrow> \<not> starts_with q p \<Longrightarrow> contents_at w' q = contents_at w q"
  using atomic_write_effect [OF assms(2,1)]
  by (auto simp: replaced_file_def contents_at_def contents_of_def)

lemma written_files:
  assumes "iter_io (\<lambda>(f, c). atomic_write_private E (d @ [f]) c) files w = (Inr u, w')"
    and "uuids_simple E" "distinct (map fst files)"
  shows "(\<forall>(f, c) \<in> set files. length f < 32 \<longrightarrow> contents_at w' (d @ [f]) = Some c) \<and>
    (\<forall>n. length n < 32 \<longrightarrow> n \<notin> fst ` set files \<longrightarrow> contents_at w' (d @ [n]) = contents_at w (d @ [n]))"
  using assms(1,3)
proof (induction files arbitrary: w)
  case (Cons x files)
  obtain f c where x: "x = (f, c)" by (cases x)
  from Cons.prems(1) x obtain w1 where
    1: "atomic_write_private E (d @ [f]) c w = (Inr (), w1)" and
    2: "iter_io (\<lambda>(f, c). atomic_write_private E (d @ [f]) c) files w1 = (Inr u, w')"
    by (auto simp: then_io_def bind_io_Inr)
  have dist: "distinct (map fst files)" "f \<notin> fst ` set files" using Cons.prems(2) x by auto
  note IH = Cons.IH [OF 2 dist(1)]
  have keep: "contents_at w1 (d @ [n]) = contents_at w (d @ [n])" if "length n < 32" "n \<noteq> f" for n
    using atomic_write_Inr(2) [OF 1, of "d @ [n]"] short_not_temporary [OF assms(2) that(1), of d f] that(2)
    by (simp add: starts_with_iff)
  have "contents_at w' (d @ [f]) = Some c" if "length f < 32"
    using IH that dist(2) atomic_write_Inr(1) [OF 1] by simp
  with IH keep x show ?case by auto
qed (simp add: ret_eq)

lemma file_names_short: "(f, c) \<in> set (artifact_files a) \<Longrightarrow> length f < 32 \<and> f \<noteq> product_marker_filename"
  by (cases a) (auto simp: claude_files_def codex_files_def filename_defs product_marker_filename_def)

lemma write_product_home_contents:
  assumes "write_product_home E home a w = (Inr u, w')" "uuids_simple E" "(f, c) \<in> set (artifact_files a)"
  shows "contents_at w' (home @ [f]) = Some c"
proof -
  from assms(1) obtain w1 w2 where
    1: "iter_io (\<lambda>(f, c). atomic_write_private E (home @ [f]) c) (artifact_files a) w1 = (Inr (), w2)" and
    2: "atomic_write_private E (home @ [product_marker_filename]) product_marker w2 = (Inr u, w')"
    by (auto simp: write_product_home_def then_io_def bind_io_Inr)
  have "contents_at w2 (home @ [f]) = Some c"
    using written_files [OF 1 assms(2) distinct_artifact_files] assms(3) file_names_short by fastforce
  moreover have "contents_at w' (home @ [f]) = contents_at w2 (home @ [f])"
    using atomic_write_Inr(2) [OF 2, of "home @ [f]"] short_not_temporary [OF assms(2), of f home]
      file_names_short [OF assms(3)] by (auto simp: starts_with_iff)
  ultimately show ?thesis by simp
qed

lemma promote_Inr:
  assumes "promote_new_directory E s d w = (Inr u, w')"
  shows "contents_at w' (d @ r) = contents_at w (s @ r)"
proof -
  from assms obtain dir w1 w2 w3 where
    1: "path_present_no_follow E d w = (Inr False, w1)" and
    2: "ensure_private_dir E dir w1 = (Inr (), w2)" and 3: "rename E s d w2 = (Inr (), w3)" and
    4: "w' = snd (sync_directory E dir w3)"
    by (auto simp: promote_new_directory_def promote_new_directory_with_directory_sync_def
        io_eqs split: if_splits option.splits)
  have "contents_at w3 (d @ r) = contents_at w2 (s @ r)"
    using rename_Inr [OF 3] by (simp add: contents_at_def node_at_move)
  moreover have "contents_at w2 (s @ r) = contents_at w1 (s @ r)"
    using frame_result [OF keeps_ensure_private_dir [of nowhere] 2] by (simp add: nowhere_def)
  moreover have "node_at w1 = node_at w" using path_present_result [OF 1] by simp
  moreover have "node_at w' = node_at w3"
    using frameD [OF touches_sync_directory [of nowhere]] by (simp add: 4 nowhere_def fun_eq_iff)
  ultimately show ?thesis by (simp add: contents_at_def)
qed

lemma stage_and_promote_home:
  assumes "stage_and_promote C a stage final w = (Inr u, w')" "uuids_simple (core_env C)"
    and "(f, c) \<in> set (artifact_files a)"
  shows "contents_at w' (staged_client_home final (artifacts_product a) @ [f]) = Some c"
proof -
  let ?home = "\<lambda>r. staged_client_home r (artifacts_product a)"
  from assms(1) obtain w1 w2 w3 where
    1: "write_product_home (core_env C) (?home stage) a w1 = (Inr (), w2)" and
    2: "validate_product_home C (?home stage) (artifacts_product a) w2 = (Inr (), w3)" and
    3: "promote_new_directory (core_env C) stage final w3 = (Inr u, w')"
    by (auto simp: stage_and_promote_def Let_def on_error_Inr then_io_def bind_io_Inr)
  have "contents_at w2 (?home stage @ [f]) = Some c"
    by (rule write_product_home_contents [OF 1 assms(2,3)])
  moreover have "contents_at w3 p = contents_at w2 p" for p
    using frame_result [OF keeps_reading(4) [of nowhere] 2] by (simp add: nowhere_def)
  moreover have "contents_at w' (final @ [''clients'', directory_name (artifacts_product a), f]) =
      contents_at w3 (stage @ [''clients'', directory_name (artifacts_product a), f])"
    by (rule promote_Inr [OF 3])
  ultimately show ?thesis by (simp add: staged_client_home_def)
qed

section \<open>The commit\<close>

lemma commit_keeps:
  assumes "credential_str (credential_ref pc) = credential_name p (uuid (core_env C) k)"
    and "generation_str (active_generation pc) = generation_name p (uuid (core_env C) k)"
  shows "keeps (\<lambda>q. scratch C q \<or> starts_with q (config_file (core_paths C))) (prepare_and_commit C req a pc c)"
    (is "keeps ?S _")
proof -
  let ?E = "core_env C" and ?P = "core_paths C" and ?final = "generation_dir (core_paths C) (active_generation pc)"
  have m: "keeps ?S x" if "keeps (scratch C) x" for x :: "(error, 'b) io"
    using that by (rule frame_mono) simp
  have cm: "mentions_uuid ?E (credential_path (credentials_dir ?P) (credential_ref pc))"
    by (rule credential_mentions [OF assms(1)])
  have fm: "mentions_uuid ?E ?final" by (rule generation_mentions [OF assms(2)])
  have w: "keeps ?S (atomic_write_private ?E (config_file ?P) b)" for b
    by (rule keeps_atomic_write [OF config_file_nonempty]) (simp_all add: scratch_temporary)
  have sc: "keeps ?S (save_and_commit C (credential_ref pc) s b ?final)" for s b
    unfolding save_and_commit_def Let_def
    by (intro frame_on_error frame_then frame_ignore w m [OF keeps_save_new_credential [OF cm]]
        keeps_delete_credential keeps_remove_dir_all disjI1 scratch_mentions cm fm)
  have st: "keeps ?S (stage_and_promote C a stage ?final)" if "create_stage C w1 = (Inr stage, w2)" for stage w1 w2
    by (rule m, rule keeps_stage_and_promote [OF create_stage_mentions [OF that] fm])
  show ?thesis unfolding prepare_and_commit_def Let_def
    by (intro frame_then frame_bind_result [OF keeps_create_stage] frame_iter keeps_ensure_private_dir sc st; assumption)
qed

lemma save_credential_Inr:
  assumes "save_credential E root cr s w = (Inr u, w')"
  shows "contents_at w' (credential_path root cr) = Some (expose_secret s)"
    and "\<not> starts_with q root \<Longrightarrow> contents_at w' q = contents_at w q"
proof -
  let ?p = "credential_path root cr"
  from assms obtain w1 where
    1: "ensure_private_dir E root w = (Inr (), w1)" and
    2: "atomic_write_private E ?p (expose_secret s) w1 = (Inr u, w')"
    by (auto simp: save_credential_def then_io_def bind_io_Inr)
  have p: "?p \<noteq> []" "butlast ?p = root" by (simp_all add: credential_path_def)
  show "contents_at w' ?p = Some (expose_secret s)" by (rule atomic_write_Inr(1) [OF 2 p(1)])
  assume q: "\<not> starts_with q root"
  then have "\<not> temporary_of E ?p q" using temporary_below p(2) by metis
  moreover have "\<not> starts_with q ?p" using q by (auto simp: credential_path_def starts_with_iff)
  ultimately have "contents_at w' q = contents_at w1 q" by (rule atomic_write_Inr(2) [OF 2 p(1)])
  then show "contents_at w' q = contents_at w q"
    using frame_result [OF keeps_ensure_private_dir [of nowhere] 1] by (simp add: nowhere_def)
qed

lemma outside_config:
  assumes "wf_paths P" "starts_with q (data_dir P)"
  shows "\<not> temporary_of E (config_file P) q" "\<not> starts_with q (config_file P)"
proof -
  have n: "\<not> starts_with q (config_dir P)"
    using assms disjoint_subtrees [of "data_dir P" "config_dir P" q]
    by (auto simp: wf_paths_def app_dirs_overlap_sym)
  show "\<not> temporary_of E (config_file P) q"
    using n temporary_below [of E "config_file P" q] by (auto simp: config_file_def)
  show "\<not> starts_with q (config_file P)" using n by (auto simp: config_file_def starts_with_iff)
qed

lemma commit_contents:
  assumes "prepare_and_commit C req a pc c w = (Inr u, w')" "uuids_simple (core_env C)" "wf_paths (core_paths C)"
  shows "contents_at w' (config_file (core_paths C)) = Some (core_serialize C c)"
    and "contents_at w' (credential_path (credentials_dir (core_paths C)) (credential_ref pc)) =
           Some (expose_secret (request_credential req))"
    and "(f, b) \<in> set (artifact_files a) \<Longrightarrow>
           contents_at w' (staged_client_home (generation_dir (core_paths C) (active_generation pc)) (artifacts_product a) @ [f]) = Some b"
proof -
  let ?E = "core_env C" and ?P = "core_paths C" and ?final = "generation_dir (core_paths C) (active_generation pc)"
  let ?cred = "credential_path (credentials_dir ?P) (credential_ref pc)"
  from assms(1) obtain stage w1 w2 w3 where
    1: "stage_and_promote C a stage ?final w1 = (Inr (), w2)" and
    2: "save_credential ?E (credentials_dir ?P) (credential_ref pc) (request_credential req) w2 = (Inr (), w3)" and
    3: "atomic_write_private ?E (config_file ?P) (core_serialize C c) w3 = (Inr u, w')"
    by (auto simp: prepare_and_commit_def save_and_commit_def Let_def on_error_Inr then_io_def bind_io_Inr)
  show "contents_at w' (config_file ?P) = Some (core_serialize C c)"
    by (rule atomic_write_Inr(1) [OF 3 config_file_nonempty])
  have later: "contents_at w' q = contents_at w3 q" if "starts_with q (data_dir ?P)" for q
    using atomic_write_Inr(2) [OF 3 config_file_nonempty] outside_config [OF assms(3) that] by simp
  have "starts_with ?cred (data_dir ?P)" by (simp add: credential_path_def credentials_dir_def starts_with_iff)
  from later [OF this] save_credential_Inr(1) [OF 2]
  show "contents_at w' ?cred = Some (expose_secret (request_credential req))" by simp
  assume f: "(f, b) \<in> set (artifact_files a)"
  let ?q = "staged_client_home ?final (artifacts_product a) @ [f]"
  have q: "starts_with ?q (data_dir ?P)" "\<not> starts_with ?q (credentials_dir ?P)"
    by (auto simp: staged_client_home_def path_defs starts_with_iff)
  from later [OF q(1)] save_credential_Inr(2) [OF 2 q(2)] stage_and_promote_home [OF 1 assms(2) f]
  show "contents_at w' ?q = Some b" by simp
qed

section \<open>A successful setup\<close>

lemma read_file_missing:
  assumes "read_file E p w = (Inl e, w')" "io_kind e = NotFound" "not_link (node_at w p)"
  shows "contents_at w p = None"
  using assms follow_not_link [OF assms(3)]
  by (auto simp: read_file_def syscall_def contents_at_def contents_of_def
      split: option.splits node.splits prod.splits if_splits)

lemma read_optional_result:
  assumes "read_optional E p w = (Inr r, w')"
  shows "contents_at w p = r"
proof -
  from assms obtain w1 y where 1: "reject_symlink_if_present E p w = (Inr (), w1)" and
    2: "read_file E p w1 = (y, w')" and
    3: "case y of Inr b \<Rightarrow> r = Some b | Inl e \<Rightarrow> io_kind e = NotFound \<and> r = None"
    unfolding read_optional_def then_io_def bind_io_Inr bind_try
    by (elim exE conjE, rename_tac u w1 y w2, case_tac y)
      (auto simp: ret_eq throw_eq try_io_eq split: if_splits sum.splits)
  note n = reject_symlink_Inr [OF 1]
  have "not_link (node_at w1 p)" using n by simp
  then have "contents_at w1 p = r"
    using 2 3 read_file_Inr [of E p w1] read_file_missing [of E p w1] by (cases y) auto
  then show ?thesis using n by (simp add: contents_at_def)
qed

definition committed_before :: "core \<Rightarrow> world \<Rightarrow> config_v2 option \<Rightarrow> bool" where
  "committed_before C w previous \<longleftrightarrow>
     (case previous of
        None \<Rightarrow> contents_at w (config_file (core_paths C)) = None
      | Some c \<Rightarrow> (\<exists>b. contents_at w (config_file (core_paths C)) = Some b \<and> core_parse C b = Inr c))"

lemma load_config_result:
  assumes "load_config_optional_strict C w = (Inr r, w')"
  shows "committed_before C w r"
proof -
  let ?p = "config_file (core_paths C)"
  from assms obtain b w1 where r: "read_config_optional C w = (Inr b, w1)" and
    c: "case b of None \<Rightarrow> r = None | Some x \<Rightarrow> \<exists>c. core_parse C x = Inr c \<and> r = Some c"
    unfolding load_config_optional_strict_def bind_io_Inr
    by (elim exE conjE, rename_tac y w1, case_tac y)
      (auto simp: ret_eq then_io_def bind_io_Inr lift_io_def)
  from r obtain w2 where 1: "ensure_no_managed_symlinks (core_env C) (config_dir (core_paths C)) ?p w = (Inr (), w2)"
    and 2: "read_optional (core_env C) ?p w2 = (Inr b, w1)"
    by (auto simp: read_config_optional_def Let_def then_io_def bind_io_Inr)
  have "contents_at w ?p = b"
    using read_optional_result [OF 2] frame_result [OF touches_ensure_no_managed_symlinks [of nowhere] 1]
    by (simp add: nowhere_def contents_at_def)
  with c show ?thesis by (cases b) (auto simp: committed_before_def)
qed

lemma setup_product_Inr:
  assumes "setup_product C req a w = (Inr status, w')"
  shows "\<exists>previous w1 w2 w3. load_config_optional_strict C w1 = (Inr previous, w2) \<and>
    (\<forall>q. contents_at w1 q = contents_at w q \<or> starts_with q (transaction_lock_file (core_paths C))) \<and>
    (\<exists>w2'. (\<forall>q. contents_at w2' q = contents_at w1 q) \<and>
      setup_locked C req a previous w2' = (Inr status, w3)) \<and>
    (\<forall>q. contents_at w' q = contents_at w3 q)"
proof -
  let ?lock = "\<lambda>q. starts_with q (transaction_lock_file (core_paths C))"
  have lock: "keeps ?lock (acquire_transaction_lock C)" by (rule keeps_acquire) simp
  from assms obtain roots w0 l w1 previous w2 w3 where
    0: "inspect_roots C w = (Inr roots, w0)" and 1: "acquire_transaction_lock C w0 = (Inr l, w1)" and
    2: "load_config_optional_strict C w1 = (Inr previous, w2)" and
    3: "(case previous of
         Some _ \<Rightarrow> setup_locked C req a previous
       | None \<Rightarrow>
           bind_io (if any_root roots then ret False else roots_are_clean_for_first_setup C) (\<lambda>clean.
             if \<not> clean
             then then_io (cleanup_new_transaction_state_root_best_effort C roots)
                          (throw missing_config_requires_full_revoke)
             else on_error (setup_locked C req a None) (failed_setup_root_cleanup C roots))) w2 = (Inr status, w3)" and
    4: "w' = snd (drop_transaction_lock l w3 :: (error, unit) result \<times> world)"
    by (auto simp: setup_product_def with_transaction_lock_def then_io_def bind_io_Inr lift_io_def finally_io_eq)
  have a: "contents_at w1 q = contents_at w q \<or> ?lock q" for q
    using frame_result [OF lock 1] inspect_roots_result(1) [OF 0] by (auto simp: contents_at_def)
  have b: "contents_at w2 q = contents_at w1 q" for q
    using frame_result [OF touches_load_config(1) [of nowhere] 2] by (simp add: nowhere_def contents_at_def)
  have d: "contents_at w' q = contents_at w3 q" for q
    using frameD [OF keeps_drop_lock [of nowhere l]] by (simp add: 4 nowhere_def)
  have "\<exists>w2'. (\<forall>q. contents_at w2' q = contents_at w1 q) \<and> setup_locked C req a previous w2' = (Inr status, w3)"
  proof (cases previous)
    case (Some c)
    with 3 b show ?thesis by (intro exI [of _ w2]) simp
  next
    case None
    with 3 obtain clean w2' where
      c: "(if any_root roots then ret False else roots_are_clean_for_first_setup C) w2 = (Inr clean, w2')" and
      s: "(if \<not> clean
             then then_io (cleanup_new_transaction_state_root_best_effort C roots)
                          (throw missing_config_requires_full_revoke)
             else on_error (setup_locked C req a None) (failed_setup_root_cleanup C roots)) w2' = (Inr status, w3)"
      by (simp only: option.case bind_io_Inr) blast
    have "touches nowhere (if any_root roots then ret False else roots_are_clean_for_first_setup C)"
      by (intro frame_intros)
    from frame_result [OF this c] have "\<forall>q. contents_at w2' q = contents_at w1 q"
      using b by (simp add: nowhere_def contents_at_def)
    moreover have "setup_locked C req a None w2' = (Inr status, w3)"
      using s by (cases clean) (auto simp: on_error_Inr then_io_def bind_io_Inr throw_eq)
    ultimately show ?thesis using None by blast
  qed
  with 2 a d show ?thesis by blast
qed

lemma setup_locked_Inr:
  assumes "setup_locked C req a previous w = (Inr status, w')"
  shows "\<exists>k w1 w2. let p = artifacts_product a; pc = fresh_product_config p (uuid (core_env C) k);
      c = next_config previous (request_base_url req) p pc;
      old = (case previous of None \<Rightarrow> None | Some old \<Rightarrow> config_product old p)
    in (\<forall>q. contents_at w1 q = contents_at w q) \<and> prepare_and_commit C req a pc c w1 = (Inr (), w2) \<and>
       committed_config status = Some c \<and>
       (\<forall>q. contents_at w' q = contents_at w2 q \<or> (\<exists>x. old = Some x \<and> retired C x pc q))"
proof -
  let ?p = "artifacts_product a"
  define old where "old = (case previous of None \<Rightarrow> None | Some old \<Rightarrow> config_product old ?p)"
  define after where "after d pc = (let c = next_config previous (request_base_url req) ?p pc in
      then_io (prepare_and_commit C req a pc c) (then_io (retire_previous C old pc)
        (then_io (cleanup_staging_best_effort C)
          (ret (committed_status_after_product_setup (core_paths C) c pc ?p d)))))" for d pc
  let ?check = "case previous of None \<Rightarrow> ret () | Some c \<Rightarrow> lift_io (validate_shared_base_url c ?p (request_base_url req))"
  let ?diagnose = "case previous of None \<Rightarrow> ret (map unconfigured_product_status all_products)
         | Some c \<Rightarrow> (diagnose_configured_products C c :: (error, product_setup_status list) io)"
  have "setup_locked C req a previous = then_io ?check (bind_io ?diagnose (\<lambda>d.
      bind_io (new_uuid (core_env C)) (\<lambda>i.
      bind_io (lift_io (generation_ref_new (generation_name ?p i))) (\<lambda>g.
      bind_io (lift_io (credential_ref_new (credential_name ?p i))) (\<lambda>cr.
        after d \<lparr>credential_ref = cr, active_generation = g\<rparr>)))))"
    unfolding setup_locked_def Let_def after_def old_def ..
  with assms obtain w0 d w1 i w2 g cr where
    0: "?check w = (Inr (), w0)" and 1: "?diagnose w0 = (Inr d, w1)" and
    2: "new_uuid (core_env C) w1 = ((Inr i :: (error, string) result), w2)" and
    g: "generation_ref_new (generation_name ?p i) = Inr g" and
    cr: "credential_ref_new (credential_name ?p i) = Inr cr" and
    s: "after d \<lparr>credential_ref = cr, active_generation = g\<rparr> w2 = (Inr status, w')"
    by (auto simp: then_io_def bind_io_Inr lift_io_def)
  define pc where "pc = fresh_product_config ?p i"
  have "\<lparr>credential_ref = cr, active_generation = g\<rparr> = pc"
    using g cr by (simp add: pc_def fresh_product_config_def generation_ref_new_iff credential_ref_new_iff)
  with s obtain w3 w4 where
    3: "prepare_and_commit C req a pc (next_config previous (request_base_url req) ?p pc) w2 = (Inr (), w3)" and
    4: "retire_previous C old pc w3 = ((Inr () :: (error, unit) result), w4)" and
    5: "cleanup_staging_best_effort C w4 = ((Inr () :: (error, unit) result), w')" and
    6: "status = committed_status_after_product_setup (core_paths C) (next_config previous (request_base_url req) ?p pc) pc ?p d"
    by (auto simp: after_def Let_def then_io_def bind_io_Inr ret_eq)
  have "touches nowhere ?check" by (intro frame_intros)
  from frame_result [OF this 0] have c0: "contents_at w0 q = contents_at w q" for q
    by (simp add: nowhere_def contents_at_def)
  have "touches nowhere ?diagnose" by (intro frame_intros)
  from frame_result [OF this 1] have c1: "contents_at w1 q = contents_at w0 q" for q
    by (simp add: nowhere_def contents_at_def)
  from 2 obtain k where k: "i = uuid (core_env C) k" and "node_at w2 = node_at w1"
    by (auto simp: new_uuid_def)
  then have c2: "contents_at w2 q = contents_at w q" for q using c0 c1 by (simp add: contents_at_def)
  have "keeps (\<lambda>q. \<exists>x. old = Some x \<and> retired C x pc q) (retire_previous C old pc :: (error, unit) io)"
    by (rule keeps_retire_previous) blast
  from frame_result [OF this 4] frame_result [OF keeps_cleanup_staging [of nowhere] 5]
  have "contents_at w' q = contents_at w3 q \<or> (\<exists>x. old = Some x \<and> retired C x pc q)" for q
    by (auto simp: nowhere_def)
  moreover have "committed_config status = Some (next_config previous (request_base_url req) ?p pc)"
    by (simp add: 6 committed_status_after_product_setup_def status_from_committed_config_def)
  ultimately show ?thesis using c2 3
    by (intro exI [of _ k] exI [of _ w2] exI [of _ w3]) (simp add: Let_def old_def pc_def k)
qed

text \<open>The files of the new generation, its credential and the configuration are not among the retired ones.\<close>

lemma not_retired:
  assumes "wf_paths P" "core_paths C = P"
  shows "\<not> retired C old new (config_file P)"
    and "\<not> retired C old new (credential_path (credentials_dir P) (credential_ref new))"
    and "\<not> retired C old new (generation_dir P (active_generation new) @ r)"
proof -
  have data: "starts_with q (data_dir P) \<Longrightarrow> \<not> starts_with q (state_dir P)"
    and config: "starts_with q (config_dir P) \<Longrightarrow> \<not> starts_with q (data_dir P) \<and> \<not> starts_with q (state_dir P)" for q
    using assms(1) disjoint_subtrees by (auto simp: wf_paths_def)
  have gen: "q \<in> set [generation_dir P g] \<Longrightarrow> starts_with q (data_dir P)"
    "starts_with (generation_runtime_dir P g) (state_dir P)" "starts_with (generation_logs_dir P g) (state_dir P)"
    "starts_with (generation_lease_file P g) (state_dir P)" for q g
    by (auto simp: path_defs starts_with_iff)
  have up: "starts_with q b" if "starts_with q a" "starts_with a b" for q a b :: path
    using that by (rule starts_with_trans)
  have inside: "starts_with q (data_dir P) \<and> (starts_with q (credentials_dir P) \<or> starts_with q (generations_dir P)) \<or>
      starts_with q (state_dir P)" if "retired C old new q" for q
  proof -
    from that consider "starts_with q (credential_path (credentials_dir P) (credential_ref old))"
      | "starts_with q (generation_dir P (active_generation old))"
      | "starts_with q (generation_runtime_dir P (active_generation old))"
      | "starts_with q (generation_logs_dir P (active_generation old))"
      | "starts_with q (generation_lease_file P (active_generation old))"
      by (auto simp: retired_def generation_paths_def assms(2))
    then show ?thesis
      by cases (auto simp: credential_path_def path_defs starts_with_iff)
  qed
  show "\<not> retired C old new (config_file P)"
    using inside config [of "config_file P"] by (auto simp: config_file_def)
  let ?cred = "credential_path (credentials_dir P) (credential_ref new)"
  have c: "starts_with ?cred (data_dir P)" "\<not> starts_with ?cred (generations_dir P)"
    by (auto simp: credential_path_def path_defs starts_with_iff)
  show "\<not> retired C old new ?cred"
  proof
    assume r: "retired C old new ?cred"
    have "\<not> starts_with ?cred (generation_dir P g)" for g
      using c(2) by (auto simp: generation_dir_def starts_with_iff)
    then show False using r data [OF c(1)] gen up assms(2)
      by (auto simp: retired_def generation_paths_def under_credential_path)
  qed
  let ?q = "generation_dir P (active_generation new) @ r"
  have g: "starts_with ?q (data_dir P)" "\<not> starts_with ?q (credentials_dir P)"
    by (auto simp: path_defs starts_with_iff)
  show "\<not> retired C old new ?q"
  proof
    assume t: "retired C old new ?q"
    have "\<not> starts_with ?q (credential_path (credentials_dir P) c)" for c
      using g(2) by (auto simp: credential_path_def starts_with_iff)
    moreover have "\<not> starts_with ?q (generation_dir P (active_generation old))"
      if "active_generation old \<noteq> active_generation new"
      using that by (auto simp: generation_dir_def starts_with_iff generation_ref.expand)
    ultimately show False using t data [OF g(1)] gen up assms(2)
      by (auto simp: retired_def generation_paths_def)
  qed
qed

lemma setup_commits:
  assumes "setup_product C req a w = (Inr status, w')"
    and "uuids_simple (core_env C)" "wf_paths (core_paths C)"
  shows "\<exists>previous k. committed_before C w previous \<and>
    (let P = core_paths C; p = artifacts_product a; pc = fresh_product_config p (uuid (core_env C) k);
         c = next_config previous (request_base_url req) p pc
     in committed_config status = Some c \<and>
        contents_at w' (config_file P) = Some (core_serialize C c) \<and>
        contents_at w' (credential_path (credentials_dir P) (credential_ref pc)) =
          Some (expose_secret (request_credential req)) \<and>
        (\<forall>(f, b) \<in> set (artifact_files a).
           contents_at w' (generation_client_home P (active_generation pc) p @ [f]) = Some b) \<and>
        (\<forall>q. contents_at w' q = contents_at w q \<or> scratch C q \<or> starts_with q (config_file P) \<or>
           (\<exists>old x. previous = Some old \<and> config_product old p = Some x \<and> retired C x pc q)))"
proof -
  let ?P = "core_paths C" and ?p = "artifacts_product a"
  from setup_product_Inr [OF assms(1)] obtain previous w1 w2 w3 w2' where
    1: "load_config_optional_strict C w1 = (Inr previous, w2)" and
    2: "\<forall>q. contents_at w1 q = contents_at w q \<or> starts_with q (transaction_lock_file ?P)" and
    3: "\<forall>q. contents_at w2' q = contents_at w1 q" and
    4: "setup_locked C req a previous w2' = (Inr status, w3)" and
    5: "\<forall>q. contents_at w' q = contents_at w3 q" by blast
  define old where "old = (case previous of None \<Rightarrow> None | Some old \<Rightarrow> config_product old ?p)"
  from setup_locked_Inr [OF 4] obtain k w4 w5 pc c where
    pc: "pc = fresh_product_config ?p (uuid (core_env C) k)" and
    c: "c = next_config previous (request_base_url req) ?p pc" and
    6: "\<forall>q. contents_at w4 q = contents_at w2' q" and
    7: "prepare_and_commit C req a pc c w4 = (Inr (), w5)" and
    8: "committed_config status = Some c" and
    9: "\<forall>q. contents_at w3 q = contents_at w5 q \<or> (\<exists>x. old = Some x \<and> retired C x pc q)"
    by (auto simp: Let_def old_def)
  have lock: "\<not> starts_with (config_file ?P) (transaction_lock_file ?P)"
  proof -
    have "\<not> starts_with (config_file ?P) (state_dir ?P)"
      using assms(3) disjoint_subtrees [of "config_dir ?P" "state_dir ?P" "config_file ?P"]
      by (auto simp: wf_paths_def config_file_def)
    then show ?thesis by (auto simp: transaction_lock_file_def starts_with_iff)
  qed
  have before: "committed_before C w previous"
  proof -
    have "contents_at w1 (config_file ?P) = contents_at w (config_file ?P)" using 2 lock by blast
    then show ?thesis using load_config_result [OF 1] by (cases previous) (simp_all add: committed_before_def)
  qed
  note committed = commit_contents [OF 7 assms(2,3)]
  have kept: "contents_at w' q = contents_at w5 q" if "\<And>x. \<not> retired C x pc q" for q
    using 5 9 that by metis
  have "contents_at w' (config_file ?P) = Some (core_serialize C c)"
    using kept [of "config_file ?P"] committed(1) not_retired(1) [OF assms(3) refl] by simp
  moreover have "contents_at w' (credential_path (credentials_dir ?P) (credential_ref pc)) =
      Some (expose_secret (request_credential req))"
    using kept [of "credential_path (credentials_dir ?P) (credential_ref pc)"] committed(2)
      not_retired(2) [OF assms(3) refl] by simp
  moreover have "contents_at w' (generation_client_home ?P (active_generation pc) ?p @ [f]) = Some b"
    if "(f, b) \<in> set (artifact_files a)" for f b
  proof -
    have "generation_client_home ?P (active_generation pc) ?p @ [f] =
        generation_dir ?P (active_generation pc) @ [''clients'', directory_name ?p, f]"
      by (simp add: generation_client_home_def generation_clients_dir_def)
    then show ?thesis using kept not_retired(3) [OF assms(3) refl] committed(3) [OF that]
      by (simp add: staged_client_home_def)
  qed
  moreover have "contents_at w' q = contents_at w q \<or> scratch C q \<or> starts_with q (config_file ?P) \<or>
      (\<exists>o' x. previous = Some o' \<and> config_product o' ?p = Some x \<and> retired C x pc q)" for q
  proof -
    have "contents_at w5 q = contents_at w4 q \<or> scratch C q \<or> starts_with q (config_file ?P)"
      using frame_result [OF commit_keeps [where pc = pc and p = ?p and k = k and c = c] 7] by (auto simp: pc fresh_product_config_def)
    moreover have "contents_at w1 q = contents_at w q \<or> scratch C q"
      using 2 by (auto simp: scratch_def)
    moreover have "contents_at w' q = contents_at w5 q \<or>
        (\<exists>o' x. previous = Some o' \<and> config_product o' ?p = Some x \<and> retired C x pc q)"
      using 5 9 by (auto simp: old_def split: option.splits)
    ultimately show ?thesis using 3 6 by metis
  qed
  ultimately show ?thesis using before 8
    by (intro exI [of _ previous] exI [of _ k]) (auto simp: Let_def pc [symmetric] c [symmetric])
qed

text \<open>
  C1: A successful setup is committed and exact.  For the configuration that was committed before (or
  none), the file \<open>config.json\<close> now holds the configuration with this product's entry replaced by fresh
  references and the requested gateway, which is also the one in the returned status; the credential
  file of the new reference holds the given key; the new product home holds every given artifact; and
  every other file keeps its contents, except scratch files and what this product used before.
\<close>

theorem successful_setup_commits:
  assumes "setup_product C req a w = (Inr status, w')"
    and "uuids_simple (core_env C)" "wf_paths (core_paths C)"
  shows "\<exists>previous k. committed_before C w previous \<and>
    (let P = core_paths C; p = artifacts_product a; pc = fresh_product_config p (uuid (core_env C) k);
         c = next_config previous (request_base_url req) p pc
     in committed_config status = Some c \<and>
        contents_at w' (config_file P) = Some (core_serialize C c) \<and>
        contents_at w' (credential_path (credentials_dir P) (credential_ref pc)) =
          Some (expose_secret (request_credential req)) \<and>
        (\<forall>(f, b) \<in> set (artifact_files a).
           contents_at w' (generation_client_home P (active_generation pc) p @ [f]) = Some b) \<and>
        (\<forall>q. contents_at w' q = contents_at w q \<or> scratch C q \<or> starts_with q (config_file P) \<or>
           (\<exists>old x. previous = Some old \<and> config_product old p = Some x \<and> retired C x pc q)))"
  using assms by (rule setup_commits)

end
