(* ===== verification/Setup_Examples.thy ===== *)
theory Setup_Examples
  imports Setup_Success
begin

text \<open>
  Setup transactions evaluated by the kernel on a concrete machine: one that succeeds and one whose
  eighth directory cannot be created.  Evaluation is by rewriting with the equations of the
  operations applied to a world; the congruence rules keep the rewriting out of continuations whose
  input is not known yet.
\<close>

section \<open>Evaluation of an operation on a world\<close>

lemma run_cong:
  "w = w' \<Longrightarrow> bind_io m f w = bind_io m f w'"
  "w = w' \<Longrightarrow> then_io m n w = then_io m n w'"
  "w = w' \<Longrightarrow> map_err g m w = map_err g m w'"
  "w = w' \<Longrightarrow> try_io m w = try_io m w'"
  "w = w' \<Longrightarrow> ignore_io m w = ignore_io m w'"
  "w = w' \<Longrightarrow> on_error m c w = on_error m c w'"
  "w = w' \<Longrightarrow> finally_io m c w = finally_io m c w'"
  "xs = xs' \<Longrightarrow> w = w' \<Longrightarrow> iter_io h xs w = iter_io h xs' w'"
  "w = w' \<Longrightarrow> syscall E act w = syscall E act w'"
  by simp_all
lemma then_io_run: "then_io m n w = (case m w of (Inl e, w') \<Rightarrow> (Inl e, w') | (Inr x, w') \<Rightarrow> n w')"
  by (simp add: then_io_def bind_io_def)
lemma iter_run: "iter_io f [] w = (Inr (), w)" "iter_io f (x # xs) w = then_io (f x) (iter_io f xs) w"
  by (simp_all add: ret_def)
lemma if_apply: "(if b then f else g) x = (if b then f x else g x)" by simp
lemma option_apply: "(case z of None \<Rightarrow> f | Some y \<Rightarrow> g y) x = (case z of None \<Rightarrow> f x | Some y \<Rightarrow> g y x)" by (cases z) simp_all
lemma sum_apply: "(case z of Inl z \<Rightarrow> f z | Inr y \<Rightarrow> g y) x = (case z of Inl z \<Rightarrow> f z x | Inr y \<Rightarrow> g y x)" by (cases z) simp_all
lemma prod_apply: "(case z of (y, y') \<Rightarrow> f y y') x = (case z of (y, y') \<Rightarrow> f y y' x)" by (cases z) simp_all
lemmas run_steps = bind_io_def then_io_run map_err_def try_io_def ignore_io_def on_error_def finally_io_def
  iter_run syscall_def ret_def throw_def lift_io_def get_world_def node_at_def put_node_def del_node_def
  create_node_def tick_def new_meta_def write_all_def new_uuid_def parent_is_dir_def is_dir_at_def
  missing_kind_def move_tree_def child_names_def is_dir_node_def is_file_node_def is_symlink_node_def
  is_symlink_or_reparse_def temporary_name_def any_root_def max_lock_rounds_def unlock_exclusive_def
  invalid_opened_lock_def generation_paths_def next_config_def config_new_def config_file_def
  credentials_dir_def generations_dir_def generation_dir_def generation_staging_dir_def
  transaction_lock_file_def credential_path_def staged_client_home_def codex_files_def if_apply option_apply
  sum_apply prod_apply
lemmas run_calls = symlink_metadata_def [THEN fun_cong] metadata_def [THEN fun_cong] is_dir_path_def [THEN
  fun_cong] read_file_def [THEN fun_cong] read_dir_def [THEN fun_cong] create_dir_def [THEN fun_cong]
  create_dir_all_def [THEN fun_cong] create_new_file_def [THEN fun_cong] sync_all_def [THEN fun_cong]
  set_permissions_def [THEN fun_cong] rename_def [THEN fun_cong] remove_file_def [THEN fun_cong]
  remove_dir_def [THEN fun_cong] reject_symlink_if_present_def [THEN fun_cong] path_present_no_follow_def
  [THEN fun_cong] validate_directory_if_present_def [THEN fun_cong] ensure_private_dir_def [THEN fun_cong]
  set_private_dir_permissions_def [THEN fun_cong] set_private_file_permissions_def [THEN fun_cong]
  atomic_write_private_def [THEN fun_cong] atomic_write_private_with_directory_sync_def [THEN fun_cong]
  replace_file_def [THEN fun_cong] sync_directory_def [THEN fun_cong] open_directory_def [THEN fun_cong]
  inspect_roots_def [THEN fun_cong] with_transaction_lock_def [THEN fun_cong] acquire_transaction_lock_def
  [THEN fun_cong] open_handle_def [THEN fun_cong] lock_exclusive_def [THEN fun_cong] drop_transaction_lock_def
  [THEN fun_cong] try_lock_exclusive_def [THEN fun_cong] open_private_lock_file_def [THEN fun_cong]
  open_nofollow_def [THEN fun_cong] file_metadata_def [THEN fun_cong] opened_lock_is_current_def [THEN
  fun_cong] validate_opened_lock_file_def [THEN fun_cong] set_private_lock_permissions_def [THEN fun_cong]
  load_config_optional_strict_def [THEN fun_cong] read_config_optional_def [THEN fun_cong]
  ensure_no_managed_symlinks_def [THEN fun_cong] inspect_managed_component_def [THEN fun_cong]
  read_optional_def [THEN fun_cong] read_managed_def [THEN fun_cong] roots_are_clean_for_first_setup_def [THEN
  fun_cong] transaction_state_root_contains_only_lock_def [THEN fun_cong]
  cleanup_new_transaction_state_root_best_effort_def [THEN fun_cong] failed_setup_root_cleanup_def [THEN
  fun_cong] create_stage_def [THEN fun_cong] cleanup_staging_best_effort_def [THEN fun_cong]
  stage_and_promote_def [THEN fun_cong] save_and_commit_def [THEN fun_cong] retire_previous_def [THEN
  fun_cong] prepare_and_commit_def [THEN fun_cong] setup_locked_def [THEN fun_cong] setup_product_def [THEN
  fun_cong] write_product_home_def [THEN fun_cong] validate_product_home_def [THEN fun_cong] read_utf8_def
  [THEN fun_cong] save_credential_def [THEN fun_cong] delete_credential_def [THEN fun_cong]
  promote_new_directory_def [THEN fun_cong] promote_new_directory_with_directory_sync_def [THEN fun_cong]
  remove_dir_if_exists_def [THEN fun_cong]
lemma follow_run: "follow 41 w p = (case node_at w p of Some (Symlink t _) \<Rightarrow> follow 40 w t | Some _ \<Rightarrow> Some p | None \<Rightarrow> None)"
  using follow.simps(2) [of 40 w p] by simp

lemmas lock_rounds_run = lock_rounds.simps(2) [of 7, unfolded Suc_numeral add_num_simps, THEN fun_cong]

lemmas run_recursive = create_dirs.simps [THEN fun_cong] lock_rounds_run inspect_components.simps [THEN fun_cong]
  validate_home_files.simps [THEN fun_cong] set_mode.simps strip_prefix_def follow_run

lemmas run_weak = let_weak_cong prod.case_cong_weak sum.case_cong_weak option.case_cong_weak node.case_cong_weak

section \<open>The example installation\<close>

lemma example_environment:
  "fault (core_env (example_core fs)) n = (if n \<in> set fs then Some (IoError PermissionDenied [], 2) else None)"
  "euid (core_env (example_core fs)) = 1000"
  "core_paths (example_core fs) = \<lparr>config_dir = [''h'', ''c''], data_dir = [''h'', ''d''], state_dir = [''h'', ''s'']\<rparr>"
  by (simp_all add: example_core_def faulty_env_def List.member_iff)

lemma example_core_uuid: "uuid (core_env (example_core fs)) k = replicate 31 CHR ''0'' @ [char_of (48 + k mod 10)]"
  by (simp add: example_core_def)

lemma example_uuids_simple: "uuids_simple (core_env (example_core fs))"
proof -
  have "is_ascii_hexdigit (char_of (48 + k mod 10))" for k :: nat
    using mod_less_divisor [of 10 k] by (simp add: is_ascii_hexdigit_def is_ascii_digit_def) linarith
  moreover have "is_ascii_hexdigit CHR ''0''" by code_simp
  ultimately show ?thesis
    by (simp add: uuids_simple_def uuid_simple_def example_core_uuid list_all_iff)
qed

lemma example_paths_wf: "wf_paths (core_paths (example_core fs))"
  by (simp add: wf_paths_def example_environment app_dirs_overlap_def starts_with_iff)

lemma example_documents:
  "validate_codex (documents (core_libs (example_core fs))) \<lparr>config_toml = ''a=1''\<rparr> = Inr ()"
proof -
  have "core_libs (example_core fs) = core_libs (example_core [])" by (simp add: example_core_def)
  moreover have "validate_codex (documents (core_libs (example_core []))) \<lparr>config_toml = ''a=1''\<rparr> = Inr ()" by code_simp
  ultimately show ?thesis by simp
qed

lemma example_uuids:
  "uuid (core_env (example_core fs)) 2 = ''00000000000000000000000000000002''"
  "uuid (core_env (example_core fs)) 3 = ''00000000000000000000000000000003''"
  "uuid (core_env (example_core fs)) 4 = ''00000000000000000000000000000004''"
  "uuid (core_env (example_core fs)) 5 = ''00000000000000000000000000000005''"
  "uuid (core_env (example_core fs)) 6 = ''00000000000000000000000000000006''"
  "uuid (core_env (example_core fs)) 7 = ''00000000000000000000000000000007''"
  unfolding example_core_uuid by code_simp+

lemma example_references:
  "generation_ref_new (generation_name Codex ''00000000000000000000000000000002'') =
     Inr (GenerationRef ''gen-codex-00000000000000000000000000000002'')"
  "credential_ref_new (credential_name Codex ''00000000000000000000000000000002'') =
     Inr (CredentialRef ''codex-00000000000000000000000000000002'')"
  "valid_utf8 ''a=1''"
  by code_simp+

definition example_start :: world where
  "example_start = example_home\<lparr>steps := 5, drawn := 2\<rparr>"

lemmas example_facts = example_environment example_documents example_uuids example_references
  example_artifacts_def example_start_def example_home_def world_of_def private_dir_def parent_def file_name_def
  starts_with_iff codex_artifacts_new_def bind_result_def filename_defs product_marker_filename_def product_marker_def

lemma example_setup_succeeds: "is_ok (fst (setup_product (example_core []) example_request example_artifacts example_start))"
  by (simp add: run_steps run_calls run_recursive example_facts Let_def cong: run_cong run_weak)

theorem successful_setup_commits_witness:
  "\<exists>k w'. w' = snd (setup_product (example_core []) example_request example_artifacts example_start) \<and>
     contents_at w' (credential_path [''h'', ''d'', ''credentials'']
       (CredentialRef (credential_name Codex (uuid (core_env (example_core [])) k)))) = Some ''sk-1''"
proof -
  obtain s w' where run: "setup_product (example_core []) example_request example_artifacts example_start = (Inr s, w')"
    using example_setup_succeeds
    by (cases "setup_product (example_core []) example_request example_artifacts example_start")
      (auto simp: is_ok_def split: sum.splits)
  from successful_setup_commits [OF run example_uuids_simple example_paths_wf]
  have "\<exists>k. contents_at w' (credential_path [''h'', ''d'', ''credentials'']
      (CredentialRef (credential_name Codex (uuid (core_env (example_core [])) k)))) = Some ''sk-1''"
    by (auto simp: Let_def example_environment credentials_dir_def fresh_product_config_def
        example_artifacts_def example_request_def)
  then show ?thesis by (simp add: run)
qed

section \<open>A transaction that fails\<close>

lemma example_setup_fails: "\<not> is_ok (fst (setup_product (example_core [49]) example_request example_artifacts example_start))"
  by (simp add: run_steps run_calls run_recursive example_facts Let_def cong: run_cong run_weak)

lemma short_not_scratch: "list_all (\<lambda>c. length c < 16) q \<Longrightarrow> \<not> starts_with q [''h'', ''s''] \<Longrightarrow> \<not> scratch (example_core fs) q"
proof
  assume short: "list_all (\<lambda>c. length c < 16) q" and "\<not> starts_with q [''h'', ''s'']" "scratch (example_core fs) q"
  then have "mentions_uuid (core_env (example_core fs)) q"
    by (auto simp: scratch_def transaction_lock_file_def example_environment starts_with_iff)
  then obtain c k where "c \<in> set q" "contains_text c (uuid (core_env (example_core fs)) k)"
    by (auto simp: mentions_uuid_def)
  moreover have "length (uuid (core_env (example_core fs)) k) = 32" by (simp add: example_core_uuid)
  ultimately show False using short by (fastforce simp: contains_text_iff list_all_iff)
qed

theorem failed_setup_is_undone_witness:
  "\<not> is_ok (fst (setup_product (example_core [49]) example_request example_artifacts example_start)) \<and>
   contents_at (snd (setup_product (example_core [49]) example_request example_artifacts example_start))
     [''h'', ''c'', ''config.json''] = None"
proof -
  obtain e w' where run: "setup_product (example_core [49]) example_request example_artifacts example_start = (Inl e, w')"
    using example_setup_fails
    by (cases "setup_product (example_core [49]) example_request example_artifacts example_start")
      (auto simp: is_ok_def split: sum.splits)
  have "tree_closed example_start" by code_simp
  from failed_setup_is_undone [OF run this example_paths_wf, of "[''h'', ''c'', ''config.json'']"]
  have "contents_at w' [''h'', ''c'', ''config.json''] = contents_at example_start [''h'', ''c'', ''config.json'']"
    by (simp add: short_not_scratch starts_with_iff)
  moreover have "contents_at example_start [''h'', ''c'', ''config.json''] = None" by code_simp
  ultimately show ?thesis using example_setup_fails by (simp add: run)
qed

end
