(* ===== verification/Json.thy ===== *)
theory Json
  imports Prelude "HOL-Library.AList"
begin

text \<open>
  The documents of \<open>serde_json\<close> and the accessors of \<open>Value\<close> the code uses.  Parsing and printing are
  the library's and parameters where they are used.  An object is a list of entries with distinct keys,
  a number is its text.
\<close>

datatype json =
    JNull
  | JBool bool
  | JNumber string
  | JString string
  | JArray "json list"
  | JObject "(string \<times> json) list"

fun json_get :: "json \<Rightarrow> string \<Rightarrow> json option" where
  "json_get (JObject fields) key = map_of fields key"
| "json_get _ key = None"

fun as_str :: "json \<Rightarrow> string option" where
  "as_str (JString s) = Some s"
| "as_str _ = None"

fun as_array :: "json \<Rightarrow> json list option" where
  "as_array (JArray xs) = Some xs"
| "as_array _ = None"

fun as_object :: "json \<Rightarrow> (string \<times> json) list option" where
  "as_object (JObject fields) = Some fields"
| "as_object _ = None"

definition get_str :: "json \<Rightarrow> string \<Rightarrow> string option" where
  "get_str v key = Option.bind (json_get v key) as_str"

definition get_path :: "json \<Rightarrow> string list \<Rightarrow> json option" where
  "get_path v keys = foldl (\<lambda>r key. Option.bind r (\<lambda>x. json_get x key)) (Some v) keys"

text \<open>\<open>value[key] = v\<close> on an object, and on null, which becomes one.\<close>

fun json_set :: "string \<Rightarrow> json \<Rightarrow> json \<Rightarrow> json" where
  "json_set key v (JObject fields) = JObject (AList.update key v fields)"
| "json_set key v JNull = JObject [(key, v)]"
| "json_set key v w = w"

lemma json_get_set [simp]: "json_get (json_set k v (JObject fs)) j = (if j = k then Some v else json_get (JObject fs) j)"
  by (simp add: update_conv')

end
