(* ===== verification/Provisioning.thy ===== *)
theory Provisioning
  imports Setup_Success Json
begin

text \<open>
  Provisioning of one product (\<open>provision.rs\<close>): the gateway is asked what the API key may do, the client
  files are generated, and a setup transaction installs them.  The exchange with the gateway, \<open>serde\<close>'s
  derived readers, the JSON and TOML writers and \<open>rcgen\<close> are parameters.
\<close>

section \<open>What the gateway answers\<close>

definition bootstrap_schema_version :: nat where "bootstrap_schema_version = 2"
definition bootstrap_path :: string where "bootstrap_path = ''/api/v1/client/bootstrap''"
definition max_bootstrap_response_bytes :: nat where "max_bootstrap_response_bytes = 1024 * 1024"
definition max_gateway_version_bytes :: nat where "max_gateway_version_bytes = 128"

record bootstrap_capabilities =
  cap_claude :: bool
  cap_codex :: bool
  cap_codex_responses :: bool
  cap_codex_websockets :: bool
  cap_openai_messages_dispatch :: bool

record bootstrap_data =
  bootstrap_schema :: nat
  gateway_version :: string
  capabilities :: bootstrap_capabilities

text \<open>A reply: its status, the declared length and the chunks of its body, the last of which may be an error.\<close>

datatype bootstrap_reply =
  ClientUnavailable | TransportFailed | BootstrapReply nat "nat option" "(unit, string) result list"

datatype toml = TomlString string | TomlBool bool | TomlTable "(string \<times> toml) list"

text \<open>\<open>envelope_fields\<close> is the derived reader, which takes any text as the gateway version.\<close>

record provisioning =
  bootstrap_exchange :: "string \<Rightarrow> string \<Rightarrow> bootstrap_reply"
  envelope_fields :: "string \<Rightarrow> (int \<times> bootstrap_data option) option"
  pretty_json :: "json \<Rightarrow> string option"
  toml_text :: "toml \<Rightarrow> string"
  new_ca_key :: "(string, string) result"
  new_ca_params :: "(string, unit) result"
  self_sign :: "string \<Rightarrow> string \<Rightarrow> (string, string) result"
  key_pem :: "string \<Rightarrow> string"

record provision_request =
  provision_base_url :: gateway_url
  provision_credential :: secret

definition provision_request_from_validated :: "gateway_url \<Rightarrow> secret \<Rightarrow> (error, provision_request) result" where
  "provision_request_from_validated url credential =
     bind_result (reject_credential_url_component url credential) (\<lambda>_.
       Inr \<lparr>provision_base_url = url, provision_credential = credential\<rparr>)"

definition provision_request_new ::
  "(string \<Rightarrow> (error, gateway_url) result) \<Rightarrow> string \<Rightarrow> string \<Rightarrow> (error, provision_request) result" where
  "provision_request_new parse_url url credential =
     bind_result (secret_new credential) (\<lambda>s.
     bind_result (parse_url url) (\<lambda>u. provision_request_from_validated u s))"

definition bootstrap_endpoint :: "core \<Rightarrow> gateway_url \<Rightarrow> string" where
  "bootstrap_endpoint C service_root = trim_end_char CHR ''/'' (render_gateway (core_libs C) service_root) @ bootstrap_path"

definition bootstrap_http_error :: "nat \<Rightarrow> error" where
  "bootstrap_http_error status =
     BootstrapHttp status
       (if status = 401 then ''invalid credential''
        else if status = 403 then ''credential not permitted''
        else if status = 404 then ''bootstrap endpoint unavailable''
        else if status = 429 then ''rate limited''
        else if 500 \<le> status \<and> status < 600 then ''gateway unavailable''
        else if 300 \<le> status \<and> status < 400 then ''redirect refused''
        else ''request rejected'')"

fun read_bootstrap_body :: "string \<Rightarrow> (unit, string) result list \<Rightarrow> (error, string) result" where
  "read_bootstrap_body bytes [] = Inr bytes"
| "read_bootstrap_body bytes (Inl () # chunks) = Inl BootstrapTransport"
| "read_bootstrap_body bytes (Inr chunk # chunks) =
     (if length bytes + length chunk > max_bootstrap_response_bytes then Inl BootstrapResponseTooLarge
      else read_bootstrap_body (bytes @ chunk) chunks)"

definition deserialize_gateway_version :: "string \<Rightarrow> string option" where
  "deserialize_gateway_version version =
     (let display_safe = list_all (\<lambda>c. c = CHR '' '' \<or> is_ascii_graphic c) version
      in if length version > max_gateway_version_bytes \<or> \<not> display_safe then None else Some version)"

definition decode_envelope :: "provisioning \<Rightarrow> string \<Rightarrow> (int \<times> bootstrap_data option) option" where
  "decode_envelope N bytes =
     Option.bind (envelope_fields N bytes) (\<lambda>(status, data).
       case data of
         None \<Rightarrow> Some (status, None)
       | Some d \<Rightarrow> map_option (\<lambda>v. (status, Some (d\<lparr>gateway_version := v\<rparr>))) (deserialize_gateway_version (gateway_version d)))"

definition accept_bootstrap :: "provisioning \<Rightarrow> secret \<Rightarrow> string \<Rightarrow> (error, bootstrap_data) result" where
  "accept_bootstrap N credential bytes =
     (case decode_envelope N bytes of
        None \<Rightarrow> Inl (InvalidBootstrapResponse ''expected a JSON success envelope'')
      | Some (status, data) \<Rightarrow>
          if status \<noteq> 0 then Inl (InvalidBootstrapResponse ''the success envelope code is not numeric zero'')
          else (case data of
              None \<Rightarrow> Inl (InvalidBootstrapResponse ''the success envelope does not contain data'')
            | Some d \<Rightarrow>
                if bootstrap_schema d \<noteq> bootstrap_schema_version
                then Inl (InvalidBootstrapResponse ''the bootstrap schema version is unsupported'')
                else if contains_text (gateway_version d) (expose_secret credential)
                then Inl (InvalidBootstrapResponse ''the gateway version is not safe to report'')
                else Inr d))"

definition fetch_bootstrap :: "core \<Rightarrow> provisioning \<Rightarrow> gateway_url \<Rightarrow> secret \<Rightarrow> (error, bootstrap_data) result" where
  "fetch_bootstrap C N service_root credential =
     (case bootstrap_exchange N (bootstrap_endpoint C service_root) (expose_secret credential) of
        ClientUnavailable \<Rightarrow> Inl BootstrapClient
      | TransportFailed \<Rightarrow> Inl BootstrapTransport
      | BootstrapReply status declared chunks \<Rightarrow>
          if \<not> (200 \<le> status \<and> status < 300) then Inl (bootstrap_http_error status)
          else if (case declared of None \<Rightarrow> False | Some n \<Rightarrow> n > max_bootstrap_response_bytes)
          then Inl BootstrapResponseTooLarge
          else bind_result (read_bootstrap_body [] chunks) (accept_bootstrap N credential))"

fun validate_required_capabilities :: "product \<Rightarrow> bootstrap_capabilities \<Rightarrow> (error, unit) result" where
  "validate_required_capabilities Claude c =
     (if \<not> cap_claude c
      then Inl (IncompatibleGateway ''the API key cannot route native Claude requests for Claude setup'') else Inr ())"
| "validate_required_capabilities Codex c =
     (if \<not> cap_codex c
      then Inl (IncompatibleGateway ''the API key cannot route Codex requests for Codex setup'')
      else if \<not> cap_codex_responses c
      then Inl (IncompatibleGateway ''the API key cannot use the Codex Responses API for Codex setup'') else Inr ())"

section \<open>The generated files\<close>

definition claude_settings_document :: json where
  "claude_settings_document = JObject [(''env'', JObject
     [(''CLAUDE_CODE_DISABLE_NONESSENTIAL_TRAFFIC'', JString ''1''), (''CLAUDE_STREAM_IDLE_TIMEOUT_MS'', JString ''600000''),
      (''ENABLE_PROMPT_CACHING_1H'', JString ''1''), (''ENABLE_TOOL_SEARCH'', JString ''true'')])]"

definition claude_state_document :: json where
  "claude_state_document = JObject [(''hasCompletedOnboarding'', JBool True)]"

definition ca_failure :: "string \<Rightarrow> string \<Rightarrow> (string, 'a) result \<Rightarrow> (error, 'a) result" where
  "ca_failure artifact what r = (case r of Inl e \<Rightarrow> Inl (InvalidArtifact artifact (what @ e)) | Inr x \<Rightarrow> Inr x)"

definition generate_installation_ca :: "core \<Rightarrow> provisioning \<Rightarrow> (error, string \<times> string) io" where
  "generate_installation_ca C N =
     bind_io (lift_io (ca_failure claude_ca_key_filename ''could not generate installation key: '' (new_ca_key N))) (\<lambda>key.
     then_io (lift_io (ca_failure claude_ca_cert_filename ''could not create installation CA parameters: '' (new_ca_params N)))
    (bind_io (new_uuid (core_env C)) (\<lambda>suffix.
     bind_io (lift_io (ca_failure claude_ca_cert_filename ''could not self-sign installation CA: ''
       (self_sign N (''SAIAI local installation CA '' @ take 8 suffix) key))) (\<lambda>certificate.
       ret (certificate, key_pem N key)))))"

definition codex_document :: "string \<Rightarrow> bootstrap_capabilities \<Rightarrow> toml" where
  "codex_document service_root c =
     TomlTable ([(''model_provider'', TomlString ''saiai''), (''disable_response_storage'', TomlBool True),
       (''model_providers'', TomlTable [(''saiai'', TomlTable
          ([(''name'', TomlString ''SAIAI''), (''base_url'', TomlString (trim_end_char CHR ''/'' service_root)),
            (''wire_api'', TomlString ''responses''), (''requires_openai_auth'', TomlBool False),
            (''env_key'', TomlString ''SAIAI_CODEX_API_KEY'')] @
           (if cap_codex_websockets c then [(''supports_websockets'', TomlBool True)] else [])))])] @
       (if cap_codex_websockets c then [(''features'', TomlTable [(''responses_websockets_v2'', TomlBool True)])] else []))"

definition build_codex_config :: "core \<Rightarrow> provisioning \<Rightarrow> gateway_url \<Rightarrow> bootstrap_capabilities \<Rightarrow> (error, string) result" where
  "build_codex_config C N service_root c =
     (let rendered = toml_text N (codex_document (render_gateway (core_libs C) service_root) c)
      in case toml_document (documents (core_libs C)) rendered of
           Inl _ \<Rightarrow> Inl (InvalidArtifact codex_config_filename ''generated Codex configuration is invalid'')
         | Inr _ \<Rightarrow> Inr rendered)"

fun build_product_artifacts ::
  "core \<Rightarrow> provisioning \<Rightarrow> product \<Rightarrow> gateway_url \<Rightarrow> bootstrap_capabilities \<Rightarrow> (error, product_artifacts) io" where
  "build_product_artifacts C N Claude service_root c =
     bind_io (generate_installation_ca C N) (\<lambda>(cert, key).
     bind_io (lift_io (ok_or (InvalidArtifact claude_settings_filename ''could not generate clean Claude settings'')
       (pretty_json N claude_settings_document))) (\<lambda>settings.
     bind_io (lift_io (ok_or (InvalidArtifact claude_state_filename ''could not generate clean Claude state'')
       (pretty_json N claude_state_document))) (\<lambda>state.
     bind_io (lift_io (claude_artifacts_new (documents (core_libs C)) settings state cert key)) (\<lambda>a.
       ret (ClaudeArtifacts a)))))"
| "build_product_artifacts C N Codex service_root c =
     bind_io (lift_io (build_codex_config C N service_root c)) (\<lambda>config.
     bind_io (lift_io (codex_artifacts_new (documents (core_libs C)) config)) (\<lambda>a.
       ret (CodexArtifacts a)))"

section \<open>Provisioning\<close>

record provision_report =
  report_product :: product
  report_bootstrap :: bootstrap_data
  report_setup :: setup_status

definition provision :: "core \<Rightarrow> provisioning \<Rightarrow> product \<Rightarrow> provision_request \<Rightarrow> (error, provision_report) io" where
  "provision C N p req =
     then_io (core_validate_shared_base_url C p (provision_base_url req))
    (bind_io (lift_io (fetch_bootstrap C N (provision_base_url req) (provision_credential req))) (\<lambda>bootstrap.
     then_io (lift_io (validate_required_capabilities p (capabilities bootstrap)))
    (bind_io (build_product_artifacts C N p (provision_base_url req) (capabilities bootstrap)) (\<lambda>artifacts.
     bind_io (lift_io (setup_request_from_validated (provision_base_url req) (provision_credential req))) (\<lambda>setup_request.
     bind_io (setup_product C setup_request artifacts) (\<lambda>status.
       ret \<lparr>report_product = p, report_bootstrap = bootstrap, report_setup = status\<rparr>))))))"

end
