(* ===== verification/Provisioning_Safety.thy ===== *)
theory Provisioning_Safety
  imports Provisioning
begin

text \<open>
  What provisioning guarantees: nothing is changed unless the gateway admits the API key for the product, and
  then the setup transaction decides, with the guarantees of \<open>Setup_Success\<close> and \<open>Setup_Safety\<close>.
\<close>

section \<open>An accepted answer\<close>

definition authorised :: "core \<Rightarrow> provisioning \<Rightarrow> product \<Rightarrow> provision_request \<Rightarrow> bootstrap_data \<Rightarrow> bool" where
  "authorised C N p req d \<longleftrightarrow>
     (\<exists>status declared chunks any_version.
        bootstrap_exchange N (bootstrap_endpoint C (provision_base_url req)) (expose_secret (provision_credential req)) =
          BootstrapReply status declared (map Inr chunks) \<and>
        status div 100 = 2 \<and> length (concat chunks) \<le> 2 ^ 20 \<and>
        envelope_fields N (concat chunks) = Some (0, Some (d\<lparr>gateway_version := any_version\<rparr>))) \<and>
     bootstrap_schema d = 2 \<and> length (gateway_version d) \<le> 128 \<and>
     (\<forall>c \<in> set (gateway_version d). 32 \<le> code c \<and> code c \<le> 126) \<and>
     (\<nexists>a b. gateway_version d = a @ expose_secret (provision_credential req) @ b) \<and>
     (case p of Claude \<Rightarrow> cap_claude (capabilities d) | Codex \<Rightarrow> cap_codex (capabilities d) \<and> cap_codex_responses (capabilities d))"

lemma read_bootstrap_body_Inr:
  "read_bootstrap_body bytes chunks = Inr body \<Longrightarrow> length bytes \<le> 2 ^ 20 \<Longrightarrow>
     \<exists>cs. chunks = map Inr cs \<and> body = bytes @ concat cs \<and> length body \<le> 2 ^ 20"
proof (induction bytes chunks rule: read_bootstrap_body.induct)
  case (3 bytes chunk chunks)
  then obtain cs where "chunks = map Inr cs \<and> body = (bytes @ chunk) @ concat cs \<and> length body \<le> 2 ^ 20"
    by (auto simp: max_bootstrap_response_bytes_def split: if_splits)
  then show ?case by (intro exI [of _ "chunk # cs"]) auto
qed simp_all

lemma printable_version:
  "deserialize_gateway_version v = Some v' \<longleftrightarrow>
     v' = v \<and> length v \<le> 128 \<and> (\<forall>c \<in> set v. 32 \<le> code c \<and> code c \<le> 126)"
proof -
  have blank: "c = CHR '' '' \<longleftrightarrow> code c = 32" for c
    using of_char_eq_iff [of c "CHR '' ''", where 'a = nat] by auto
  have "c = CHR '' '' \<or> is_ascii_graphic c \<longleftrightarrow> 32 \<le> code c \<and> code c \<le> 126" for c
    unfolding is_ascii_graphic_def blank by arith
  then show ?thesis
    by (auto simp: deserialize_gateway_version_def Let_def max_gateway_version_bytes_def list_all_iff)
qed

lemma accept_bootstrap_Inr:
  "accept_bootstrap N s bytes = Inr d \<longleftrightarrow> decode_envelope N bytes = Some (0, Some d) \<and>
     bootstrap_schema d = 2 \<and> \<not> contains_text (gateway_version d) (expose_secret s)"
  by (auto simp: accept_bootstrap_def bootstrap_schema_version_def split: option.split prod.split)

lemma decode_envelope_data:
  "decode_envelope N bytes = Some (status, Some d) \<Longrightarrow>
     (\<exists>v. envelope_fields N bytes = Some (status, Some (d\<lparr>gateway_version := v\<rparr>))) \<and>
     deserialize_gateway_version (gateway_version d) = Some (gateway_version d)"
  by (cases "envelope_fields N bytes")
    (auto simp: decode_envelope_def printable_version intro: exI [of _ "gateway_version d"] split: option.splits)

lemma fetched_is_authorised:
  assumes "fetch_bootstrap C N (provision_base_url req) (provision_credential req) = Inr d"
    and "validate_required_capabilities p (capabilities d) = Inr ()"
  shows "authorised C N p req d"
proof -
  from assms(1) obtain status declared chunks body where
    1: "bootstrap_exchange N (bootstrap_endpoint C (provision_base_url req)) (expose_secret (provision_credential req)) =
          BootstrapReply status declared chunks" "200 \<le> status" "status < 300" and
    2: "read_bootstrap_body [] chunks = Inr body" and
    3: "accept_bootstrap N (provision_credential req) body = Inr d"
    by (auto simp: fetch_bootstrap_def bind_result_def split: bootstrap_reply.splits if_splits sum.splits)
  from read_bootstrap_body_Inr [OF 2] obtain cs where
    4: "chunks = map Inr cs" "body = concat cs" "length body \<le> 2 ^ 20" by auto
  note 5 = 3 [unfolded accept_bootstrap_Inr]
  from decode_envelope_data [OF conjunct1 [OF 5]] obtain v where
    6: "envelope_fields N body = Some (0, Some (d\<lparr>gateway_version := v\<rparr>))"
      "deserialize_gateway_version (gateway_version d) = Some (gateway_version d)" by blast
  have "status div 100 = 2" using 1(2,3) by simp
  moreover have "case p of Claude \<Rightarrow> cap_claude (capabilities d)
      | Codex \<Rightarrow> cap_codex (capabilities d) \<and> cap_codex_responses (capabilities d)"
    using assms(2) by (cases p) (auto split: if_splits)
  ultimately show ?thesis
    using 1(1) 4 5 6 unfolding authorised_def printable_version contains_text_iff by blast
qed

section \<open>Nothing is changed before the answer is accepted\<close>

lemma touches_core_validate: "touches S (core_validate_shared_base_url C p url)"
  unfolding core_validate_shared_base_url_def validate_shared_base_url_locked_def
  by (intro frame_intros touches_with_read_lock)

lemma touches_generate_ca: "touches S (generate_installation_ca C N)"
  unfolding generate_installation_ca_def by (intro frame_intros)

lemma touches_build_artifacts: "touches S (build_product_artifacts C N p url c)"
  by (cases p) (simp_all only: build_product_artifacts.simps, (intro frame_intros touches_generate_ca)+)

section \<open>What provisioning does\<close>

lemma before_the_answer:
  assumes "provision C N p req w = (r, w')"
  shows "(\<forall>q. node_at w' q = node_at w q) \<and> (\<exists>e. r = Inl e) \<or>
    (\<exists>d a w1 request. (\<forall>q. node_at w1 q = node_at w q) \<and>
       fetch_bootstrap C N (provision_base_url req) (provision_credential req) = Inr d \<and>
       validate_required_capabilities p (capabilities d) = Inr () \<and>
       (\<exists>v v'. build_product_artifacts C N p (provision_base_url req) (capabilities d) v = (Inr a, v')) \<and>
       setup_request_from_validated (provision_base_url req) (provision_credential req) = Inr request \<and>
       bind_io (setup_product C request a)
         (\<lambda>status. ret \<lparr>report_product = p, report_bootstrap = d, report_setup = status\<rparr>) w1 = (r, w'))"
proof -
  let ?url = "provision_base_url req" and ?key = "provision_credential req"
  obtain r1 w1 where 1: "core_validate_shared_base_url C p ?url w = (r1, w1)" by fastforce
  have same1: "node_at w1 q = node_at w q" for q
    using frame_result [OF touches_core_validate 1, where p = q and S = nowhere] by (simp add: nowhere_def)
  show ?thesis
  proof (cases r1; cases "fetch_bootstrap C N ?url ?key")
    fix u d assume r1: "r1 = Inr u" and d: "fetch_bootstrap C N ?url ?key = Inr d"
    obtain r2 w2 where 2: "build_product_artifacts C N p ?url (capabilities d) w1 = (r2, w2)" by fastforce
    have same2: "node_at w2 q = node_at w q" for q
      using frame_result [OF touches_build_artifacts 2, where p = q and S = nowhere] same1 by (simp add: nowhere_def)
    show ?thesis
    proof (cases "validate_required_capabilities p (capabilities d)"; cases r2;
        cases "setup_request_from_validated ?url ?key")
      fix u a request
      assume "validate_required_capabilities p (capabilities d) = Inr u" "r2 = Inr a"
        "setup_request_from_validated ?url ?key = Inr request"
      with assms 1 2 r1 d have "bind_io (setup_product C request a)
          (\<lambda>status. ret \<lparr>report_product = p, report_bootstrap = d, report_setup = status\<rparr>) w2 = (r, w')"
        by (simp add: provision_def then_io_def bind_io_def [of "core_validate_shared_base_url C p ?url"]
            bind_io_def [of "lift_io x" for x] bind_io_def [of "build_product_artifacts C N p u c" for u c] lift_io_def)
      with \<open>validate_required_capabilities p (capabilities d) = Inr u\<close> \<open>r2 = Inr a\<close>
        \<open>setup_request_from_validated ?url ?key = Inr request\<close> same2 d 2 show ?thesis
        by (intro disjI2 exI [of _ d] exI [of _ a] exI [of _ w2] exI [of _ request]) auto
    qed (use assms 1 2 r1 d same1 same2 in \<open>auto simp: provision_def then_io_def bind_io_def lift_io_def\<close>)
  qed (use assms 1 same1 in \<open>auto simp: provision_def then_io_def bind_io_def lift_io_def\<close>)
qed

text \<open>
  C5: provisioning of a product touches no path and reports no success unless the gateway answered the
  request made with the API key and the answer admits it: a status of 200 to 299, a body of at most
  one mebibyte, an envelope of status zero with data of schema version 2, the capabilities of the product,
  and a gateway version that is short, printable and does not contain the key.
\<close>

theorem provisioning_is_authorised:
  assumes "provision C N p req w = (r, w')"
    and "(\<exists>report. r = Inr report) \<or> node_at w' \<noteq> node_at w"
  shows "\<exists>d. authorised C N p req d \<and> (\<forall>report. r = Inr report \<longrightarrow> report_bootstrap report = d)"
proof -
  from assms(2) have "\<not> ((\<forall>q. node_at w' q = node_at w q) \<and> (\<exists>e. r = Inl e))" by auto
  with before_the_answer [OF assms(1)] obtain d a w1 request where
    1: "fetch_bootstrap C N (provision_base_url req) (provision_credential req) = Inr d"
      "validate_required_capabilities p (capabilities d) = Inr ()" and
    2: "bind_io (setup_product C request a)
         (\<lambda>status. ret \<lparr>report_product = p, report_bootstrap = d, report_setup = status\<rparr>) w1 = (r, w')"
    by blast
  from 2 have "report_bootstrap report = d" if "r = Inr report" for report
    using that by (auto simp: bind_io_Inr ret_def)
  with fetched_is_authorised [OF 1] show ?thesis by blast
qed


lemma built_artifacts_product: "build_product_artifacts C N p url c w = (Inr a, w') \<Longrightarrow> artifacts_product a = p"
  by (cases p) (auto simp: bind_io_Inr ret_def split: prod.splits)

lemma built_product: "\<exists>v v'. build_product_artifacts C N p url c v = (Inr a, v') \<Longrightarrow> artifacts_product a = p"
  using built_artifacts_product by blast

lemma setup_requests: "setup_request_from_validated url key = Inr request \<Longrightarrow>
     request_base_url request = url \<and> request_credential request = key"
  by (auto simp: setup_request_from_validated_def bind_result_def split: sum.splits)

text \<open>
  C6: a successful provisioning leaves the committed configuration with the gateway and a fresh credential
  and generation of the product on disk, the API key as that credential, and the generated client files in
  the home of the generation; nothing but scratch paths, the configuration and the retired generation of
  the product differs.  A failed one leaves every file but scratch ones as it was.
\<close>

theorem provisioning_is_all_or_nothing:
  assumes "provision C N p req w = (r, w')" and "tree_closed w" "wf_paths (core_paths C)" "uuids_simple (core_env C)"
  shows "case r of
      Inl e \<Rightarrow> \<forall>q. contents_at w' q = contents_at w q \<or> scratch C q
    | Inr report \<Rightarrow> \<exists>a k c old. committed_before C w old \<and> (let P = core_paths C; pc = fresh_product_config p (uuid (core_env C) k) in
        (\<exists>v v'. build_product_artifacts C N p (provision_base_url req) (capabilities (report_bootstrap report)) v = (Inr a, v')) \<and>
        c = next_config old (provision_base_url req) p pc \<and>
        committed_config (report_setup report) = Some c \<and>
        contents_at w' (config_file P) = Some (core_serialize C c) \<and>
        contents_at w' (credential_path (credentials_dir P) (credential_ref pc)) = Some (expose_secret (provision_credential req)) \<and>
        (\<forall>(f, b) \<in> set (artifact_files a). contents_at w' (generation_client_home P (active_generation pc) p @ [f]) = Some b) \<and>
        (\<forall>q. contents_at w' q = contents_at w q \<or> scratch C q \<or> starts_with q (config_file P) \<or>
          (\<exists>before x. old = Some before \<and> config_product before p = Some x \<and> retired C x pc q)))"
proof -
  let ?url = "provision_base_url req" and ?key = "provision_credential req"
  note known = assms(2) [THEN rooted_tree_closed]
  from before_the_answer [OF assms(1)] consider
    (unchanged) e where "\<forall>q. node_at w' q = node_at w q" "r = Inl e"
  | (transaction) d a w1 request where "\<forall>q. node_at w1 q = node_at w q" "setup_request_from_validated ?url ?key = Inr request"
      "\<exists>v v'. build_product_artifacts C N p ?url (capabilities d) v = (Inr a, v')"
      "bind_io (setup_product C request a)
         (\<lambda>status. ret \<lparr>report_product = p, report_bootstrap = d, report_setup = status\<rparr>) w1 = (r, w')" by blast
  then show ?thesis
  proof cases
    case unchanged then show ?thesis by (simp add: contents_at_def)
  next
    case transaction
    have same: "contents_at w1 q = contents_at w q" for q using transaction(1) by (simp add: contents_at_def)
    have closed: "rooted w1" using known transaction(1) by (simp add: rooted_def parent_is_dir_def is_dir_at_def)
    note a = built_product [OF transaction(3)] and request = setup_requests [OF transaction(2), THEN conjunct1] setup_requests [OF transaction(2), THEN conjunct2]
    show ?thesis
    proof (cases r)
      case (Inl e)
      with transaction(4) have "setup_product C request a w1 = (Inl e, w')"
        by (auto simp: bind_io_def ret_def split: prod.splits sum.splits)
      from failed_setup_keeps_contents [OF this closed assms(3)] Inl same show ?thesis by auto
    next
      case (Inr report)
      with transaction(4) obtain status where status: "setup_product C request a w1 = (Inr status, w')"
        "report = \<lparr>report_product = p, report_bootstrap = d, report_setup = status\<rparr>" by (auto simp: bind_io_Inr ret_def)
      have before: "committed_before C w1 old = committed_before C w old" for old
        unfolding committed_before_def same by simp
      from Inr status(2) transaction(3) have r: "r = Inr report" "report_setup report = status"
        "\<exists>v v'. build_product_artifacts C N p ?url (capabilities (report_bootstrap report)) v = (Inr a, v')" by auto
      show ?thesis
        using setup_commits [OF status(1) assms(4,3), unfolded Let_def a request same before] r(3)
        unfolding r(1) sum.case Let_def r(2) by (elim exE conjE) (intro exI conjI; (assumption | rule refl | blast))
    qed
  qed
qed

end
