(* ===== verification/Provisioning_Examples.thy ===== *)
theory Provisioning_Examples
  imports Setup_Examples Provisioning_Safety "HOL-Library.Code_Target_Nat"
begin

text \<open>Provisioning of Codex against a gateway that admits the key.\<close>

definition example_answer :: bootstrap_data where
  "example_answer = \<lparr>bootstrap_schema = 2, gateway_version = ''1.4.0'',
     capabilities = \<lparr>cap_claude = False, cap_codex = True, cap_codex_responses = True, cap_codex_websockets = True,
       cap_openai_messages_dispatch = False\<rparr>\<rparr>"

definition example_gateway :: provisioning where
  "example_gateway =
     \<lparr>bootstrap_exchange = (\<lambda>url key. if url = ''https://api.example.test/api/v1/client/bootstrap'' \<and> key = ''sk-1''
          then BootstrapReply 200 None [Inr ''answ'', Inr ''er''] else TransportFailed),
      envelope_fields = (\<lambda>body. if body = ''answer'' then Some (0, Some example_answer) else None),
      pretty_json = (\<lambda>_. Some ''{}''), toml_text = (\<lambda>_. ''a=1''), new_ca_key = Inr ''key'', new_ca_params = Inr (),
      self_sign = (\<lambda>name key. Inr ''certificate''), key_pem = (\<lambda>key. ''private'')\<rparr>"

definition example_provision :: provision_request where
  "example_provision = \<lparr>provision_base_url = GatewayUrl (example_url ''/''), provision_credential = SecretString ''sk-1''\<rparr>"

lemma example_exchange:
  "fetch_bootstrap (example_core fs) example_gateway (GatewayUrl (example_url ''/'')) (SecretString ''sk-1'') = Inr example_answer"
proof -
  have libs: "core_libs (example_core fs) = core_libs (example_core [])" by (simp add: example_core_def)
  show "fetch_bootstrap (example_core fs) example_gateway (GatewayUrl (example_url ''/'')) (SecretString ''sk-1'') = Inr example_answer"
    unfolding fetch_bootstrap_def bootstrap_endpoint_def libs by code_simp
qed

lemma example_codex_config:
  "build_codex_config (example_core fs) example_gateway (GatewayUrl (example_url ''/'')) c = Inr ''a=1''"
proof -
  have libs: "documents (core_libs (example_core fs)) = documents (core_libs (example_core []))" by (simp add: example_core_def)
  have "toml_text example_gateway = (\<lambda>_. ''a=1'')" by (simp add: example_gateway_def)
  moreover have "\<exists>t. toml_document (documents (core_libs (example_core []))) ''a=1'' = Inr t" by code_simp
  ultimately show ?thesis unfolding build_codex_config_def libs by (auto simp: Let_def)
qed

lemma example_setup_request:
  "setup_request_from_validated (GatewayUrl (example_url ''/'')) (SecretString ''sk-1'') = Inr example_request"
  by code_simp

definition before_provisioning :: world where
  "before_provisioning = example_home\<lparr>steps := 2, drawn := 2\<rparr>"

lemma example_checked:
  "core_validate_shared_base_url (example_core []) p url before_provisioning = (Inr (), example_start)"
  by (simp add: run_steps run_calls run_recursive example_facts Let_def core_validate_shared_base_url_def [THEN fun_cong]
    before_provisioning_def cong: run_cong run_weak)

lemma example_provision_runs:
  "\<exists>status w'. provision (example_core []) example_gateway Codex example_provision before_provisioning =
     (Inr \<lparr>report_product = Codex, report_bootstrap = example_answer, report_setup = status\<rparr>, w') \<and>
     w' = snd (provision (example_core []) example_gateway Codex example_provision before_provisioning)"
proof -
  obtain s w' where run: "setup_product (example_core []) example_request example_artifacts example_start = (Inr s, w')"
    using example_setup_succeeds
    by (cases "setup_product (example_core []) example_request example_artifacts example_start")
      (auto simp: is_ok_def split: sum.splits)
  have "codex_artifacts_new (documents (core_libs (example_core []))) ''a=1'' = Inr \<lparr>config_toml = ''a=1''\<rparr>" by code_simp
  then show ?thesis
    using run by (simp add: provision_def then_io_def bind_io_def lift_io_def ret_def example_provision_def example_checked
      example_exchange example_answer_def example_codex_config example_setup_request example_artifacts_def)
qed

theorem provisioning_is_authorised_witness:
  "authorised (example_core []) example_gateway Codex example_provision example_answer"
proof -
  from example_provision_runs obtain status w' where
    "provision (example_core []) example_gateway Codex example_provision before_provisioning =
       (Inr \<lparr>report_product = Codex, report_bootstrap = example_answer, report_setup = status\<rparr>, w')" by blast
  from provisioning_is_authorised [OF this] show ?thesis by auto
qed

theorem provisioning_is_all_or_nothing_witness:
  "\<exists>k. contents_at (snd (provision (example_core []) example_gateway Codex example_provision before_provisioning))
     (credential_path [''h'', ''d'', ''credentials'']
       (CredentialRef (credential_name Codex (uuid (core_env (example_core [])) k)))) = Some ''sk-1''"
proof -
  from example_provision_runs obtain status w' where
    run: "provision (example_core []) example_gateway Codex example_provision before_provisioning =
       (Inr \<lparr>report_product = Codex, report_bootstrap = example_answer, report_setup = status\<rparr>, w')" and
    w': "w' = snd (provision (example_core []) example_gateway Codex example_provision before_provisioning)" by blast
  have "tree_closed before_provisioning" by code_simp
  from provisioning_is_all_or_nothing [OF run this example_paths_wf example_uuids_simple] show ?thesis
    unfolding w' [symmetric]
    by (auto simp: Let_def example_environment credentials_dir_def fresh_product_config_def example_provision_def)
qed

end
