(* ===== verification/Revocation.thy ===== *)
theory Revocation
  imports Transaction "HOL-Library.List_Lexorder" "HOL-Library.Char_ord"
begin

text \<open>
  Revocation (\<open>setup.rs\<close>: \<open>revoke\<close>, \<open>revoke_product_with_fault\<close>, \<open>discover_product_resources\<close>,
  \<open>RevokeQuarantine\<close>, \<open>revoke_all\<close> and their helpers).  What a product owns is first moved into
  quarantine directories beside it; the new configuration is the commit; a failure before the commit
  moves everything back.  The quarantine is a value that is passed along, and an error carries it, so
  that what the source's \<open>Drop\<close> does with it is written out.
\<close>

section \<open>Listing what a product owns\<close>

definition list_managed_directory :: "env \<Rightarrow> path \<Rightarrow> path \<Rightarrow> string \<Rightarrow> (error, path list) io" where
  "list_managed_directory E managed_root directory operation =
     then_io (ensure_no_managed_symlinks E managed_root directory)
    (bind_io (try_io (read_dir E directory)) (\<lambda>r.
       case r of
         Inr names \<Rightarrow> ret (sort (map (\<lambda>name. directory @ [name]) names))
       | Inl e \<Rightarrow> if io_kind e = NotFound then ret [] else throw (Io operation directory e)))"

text \<open>\<open>path.file_name().and_then(|name| name.to_str())\<close>.\<close>

definition utf8_file_name :: "path \<Rightarrow> string option" where
  "utf8_file_name p = (case file_name p of Some n \<Rightarrow> if valid_utf8 n then Some n else None | None \<Rightarrow> None)"

definition product_for_lease_path :: "config_v2 option \<Rightarrow> path \<Rightarrow> product option" where
  "product_for_lease_path config p =
     (case Option.bind (utf8_file_name p) (strip_suffix ''.lock'') of
        None \<Rightarrow> None
      | Some generation \<Rightarrow>
          (case (case config of None \<Rightarrow> None
                 | Some c \<Rightarrow> find (\<lambda>p. case config_product c p of None \<Rightarrow> False
                     | Some pc \<Rightarrow> generation_str (active_generation pc) = generation) all_products) of
             Some p \<Rightarrow> Some p
           | None \<Rightarrow> find (\<lambda>p. generated_identifier_suffix generation (''gen-'' @ directory_name p @ ''-'')) all_products))"

record product_resources =
  resource_generations :: "generation_ref list"
  removal_paths :: "path list"
  previous_quarantines :: "path list"

definition other_product :: "product \<Rightarrow> config_v2 option \<Rightarrow> product_config option" where
  "other_product p remaining =
     Option.bind remaining (\<lambda>c. Option.bind (find (\<lambda>q. q \<noteq> p) all_products) (config_product c))"

definition protected_ref :: "string option \<Rightarrow> string \<Rightarrow> bool" where
  "protected_ref protected_name reference = (case protected_name of None \<Rightarrow> False | Some n \<Rightarrow> eq_ignore_ascii_case n reference)"

text \<open>A \<open>BTreeMap\<close> from the lower-case name to the reference: its values come in the order of the keys.\<close>

definition add_refs :: "('r \<Rightarrow> string) \<Rightarrow> string option \<Rightarrow> 'r list \<Rightarrow> (string \<times> 'r) list \<Rightarrow> (string \<times> 'r) list" where
  "add_refs text protected_name refs m =
     fold (\<lambda>r m. if protected_ref protected_name (text r) then m
                 else AList.update (to_ascii_lowercase (text r)) r m) refs m"

definition ref_values :: "(string \<times> 'r) list \<Rightarrow> 'r list" where
  "ref_values m = map snd (sort_key fst m)"

definition list_owned ::
  "core \<Rightarrow> (string \<Rightarrow> 'r option) \<Rightarrow> string \<Rightarrow> path \<times> path \<Rightarrow> (error, 'r list) io" where
  "list_owned C owned operation dir =
     bind_io (list_managed_directory (core_env C) (fst dir) (snd dir) operation)
       (\<lambda>paths. ret (List.map_filter (\<lambda>p. Option.bind (utf8_file_name p) owned) paths))"

primrec collect_io :: "('a \<Rightarrow> ('e, 'b list) io) \<Rightarrow> 'a list \<Rightarrow> ('e, 'b list) io" where
  "collect_io f [] = ret []"
| "collect_io f (x # xs) = bind_io (f x) (\<lambda>ys. bind_io (collect_io f xs) (\<lambda>zs. ret (ys @ zs)))"

definition check_parents :: "env \<Rightarrow> (path \<times> path) list \<Rightarrow> (error, unit) io" where
  "check_parents E ps = iter_io (\<lambda>(root, p). ensure_no_managed_symlinks E root (butlast p)) ps"

definition discover_product_resources ::
  "core \<Rightarrow> product \<Rightarrow> product_config option \<Rightarrow> config_v2 option \<Rightarrow> (error, product_resources) io" where
  "discover_product_resources C p selected remaining =
     (let E = core_env C; P = core_paths C; other = other_product p remaining;
          protected_credential = map_option (\<lambda>pc. credential_str (credential_ref pc)) other;
          protected_generation = map_option (\<lambda>pc. generation_str (active_generation pc)) other;
          credentials = (case selected of None \<Rightarrow> [] | Some pc \<Rightarrow>
            [(to_ascii_lowercase (credential_str (credential_ref pc)), credential_ref pc)]);
          generations = (case selected of None \<Rightarrow> [] | Some pc \<Rightarrow>
            [(to_ascii_lowercase (generation_str (active_generation pc)), active_generation pc)])
      in bind_io (list_owned C (generated_credential_reference p) ''list stored credentials''
                   (data_dir P, credentials_dir P)) (\<lambda>listed_credentials.
         bind_io (collect_io (list_owned C (\<lambda>n. generated_generation_reference p n GenerationDirectory) ''list product generations'')
                   [(data_dir P, generations_dir P), (state_dir P, runtime_dir P), (state_dir P, logs_dir P)]) (\<lambda>listed_dirs.
         bind_io (list_owned C (\<lambda>n. generated_generation_reference p n LeaseFile) ''list product generations''
                   (state_dir P, leases_dir P)) (\<lambda>listed_leases.
         bind_io (collect_io (\<lambda>dir. bind_io (list_managed_directory E (fst dir) (snd dir) ''list revoke quarantine'') (\<lambda>paths.
                     ret (filter (\<lambda>x. case utf8_file_name x of None \<Rightarrow> False
                       | Some n \<Rightarrow> generated_revoke_quarantine_name p n) paths)))
                   [(data_dir P, credentials_dir P), (data_dir P, generations_dir P),
                    (state_dir P, runtime_dir P), (state_dir P, logs_dir P)]) (\<lambda>quarantines.
         let credentials = ref_values (add_refs credential_str protected_credential listed_credentials credentials);
             generations = ref_values (add_refs generation_str protected_generation (listed_dirs @ listed_leases) generations);
             credential_paths = map (\<lambda>c. (data_dir P, credential_path (credentials_dir P) c)) credentials;
             generation_dirs = concat (map (generation_paths P) generations)
         in then_io (check_parents E (credential_paths @ generation_dirs))
              (ret \<lparr>resource_generations = generations,
                    removal_paths = sort (remdups (map snd (credential_paths @ generation_dirs))),
                    previous_quarantines = sort (remdups quarantines)\<rparr>))))))"

section \<open>The quarantine\<close>

record revoke_quarantine =
  quarantine_product :: product
  quarantine_identifier :: string
  quarantined_entries :: "(path \<times> path) list"
  quarantine_roots :: "path list"

type_synonym 'a quarantine_io = "(error \<times> revoke_quarantine, 'a) io"

definition quarantine_name :: "product \<Rightarrow> string \<Rightarrow> string" where
  "quarantine_name p identifier = ''.saiai-revoke-'' @ directory_name p @ ''-'' @ identifier"

definition with_quarantine :: "revoke_quarantine \<Rightarrow> (error, 'a) io \<Rightarrow> 'a quarantine_io" where
  "with_quarantine q m = map_err (\<lambda>e. (e, q)) m"

text \<open>One entry of the roll-back: what to report, and whether the entry stays in quarantine.\<close>

definition restore_entry :: "env \<Rightarrow> (error \<Rightarrow> string) \<Rightarrow> path \<times> path \<Rightarrow> ('e, string option \<times> bool) io" where
  "restore_entry E describe entry =
     (let (original, quarantined) = entry in
      bind_io (try_io (path_present_no_follow E quarantined)) (\<lambda>r.
        case r of
          Inl e \<Rightarrow> ret (Some (''could not inspect '' @ show_path quarantined @ '': '' @ describe e), True)
        | Inr quarantined_present \<Rightarrow>
            bind_io (try_io (path_present_no_follow E original)) (\<lambda>r.
              case r of
                Inl e \<Rightarrow> ret (Some (''could not inspect '' @ show_path original @ '': '' @ describe e), quarantined_present)
              | Inr original_present \<Rightarrow>
                  if \<not> quarantined_present then
                    ret (if \<not> original_present then Some (''both rollback paths are missing for '' @ show_path original)
                         else None, False)
                  else if original_present then
                    ret (Some (show_path original @ '' was recreated during rollback''), True)
                  else bind_io (try_io (rename E quarantined original)) (\<lambda>r.
                    ret (case r of
                        Inl e \<Rightarrow> (Some (''could not restore '' @ show_path original @ '': '' @ io_message e), True)
                      | Inr _ \<Rightarrow> (None, False))))))"

primrec restore_entries ::
  "env \<Rightarrow> (error \<Rightarrow> string) \<Rightarrow> (path \<times> path) list \<Rightarrow> ('e, string list \<times> (path \<times> path) list) io" where
  "restore_entries E describe [] = ret ([], [])"
| "restore_entries E describe (entry # entries) =
     bind_io (restore_entry E describe entry) (\<lambda>(failure, stays).
     bind_io (restore_entries E describe entries) (\<lambda>(failures, failed).
       ret ((case failure of None \<Rightarrow> failures | Some f \<Rightarrow> f # failures),
            (if stays then entry # failed else failed))))"

primrec retain_roots :: "env \<Rightarrow> path list \<Rightarrow> ('e, path list) io" where
  "retain_roots E [] = ret []"
| "retain_roots E (root # roots) =
     bind_io (try_io (read_dir E root)) (\<lambda>r.
     bind_io (if r = Inr [] then bind_io (try_io (remove_dir E root)) (\<lambda>x. ret (is_ok x)) else ret False) (\<lambda>removed.
     bind_io (retain_roots E roots) (\<lambda>rest. ret (if removed then rest else root # rest))))"

definition quarantine_rollback :: "core \<Rightarrow> revoke_quarantine \<Rightarrow> revoke_quarantine quarantine_io" where
  "quarantine_rollback C q =
     (let E = core_env C in
      bind_io (restore_entries E (error_text (core_libs C)) (rev (quarantined_entries q))) (\<lambda>(failures, failed).
      bind_io (retain_roots E (quarantine_roots q)) (\<lambda>roots.
        let q = q\<lparr>quarantined_entries := rev failed, quarantine_roots := roots\<rparr>
        in if failures = [] then ret q
           else throw (Io ''restore revoked paths''
                  (case quarantined_entries q of (original, _) # _ \<Rightarrow> original | [] \<Rightarrow> [''revoke quarantine''])
                  (IoError OtherKind (join ''; '' failures)), q))))"

text \<open>\<open>self.rollback()?; return Err(error)\<close>.\<close>

definition roll_back_and_fail :: "core \<Rightarrow> revoke_quarantine \<Rightarrow> error \<Rightarrow> 'a quarantine_io" where
  "roll_back_and_fail C q e = bind_io (quarantine_rollback C q) (\<lambda>q. throw (e, q))"

definition insert_path :: "path \<Rightarrow> path list \<Rightarrow> path list" where
  "insert_path p ps = sort (remdups (p # ps))"

definition move_path :: "core \<Rightarrow> revoke_quarantine \<Rightarrow> path \<Rightarrow> (bool \<times> revoke_quarantine) quarantine_io" where
  "move_path C q original =
     (let E = core_env C in
      bind_io (with_quarantine q (path_present_no_follow E original)) (\<lambda>present.
        if \<not> present then ret (False, q)
        else if original = [] then throw (InvalidAppPath ''revoke path'' (raw_of original) ''path has no parent directory'', q)
        else let root = butlast original @ [quarantine_name (quarantine_product q) (quarantine_identifier q)] in
          then_io (with_quarantine q (ensure_private_dir E root))
            (let q = q\<lparr>quarantine_roots := insert_path root (quarantine_roots q)\<rparr>;
                 destination = root @ [last original]
             in bind_io (with_quarantine q (path_present_no_follow E destination)) (\<lambda>taken.
                  if taken then roll_back_and_fail C q (Io ''quarantine revoked path'' destination
                    (IoError AlreadyExists ''revoke quarantine destination already exists''))
                  else bind_io (try_io (rename E original destination)) (\<lambda>r.
                    case r of
                      Inl e \<Rightarrow> roll_back_and_fail C q (Io ''quarantine revoked path'' original e)
                    | Inr _ \<Rightarrow> ret (True, q\<lparr>quarantined_entries := quarantined_entries q @ [(original, destination)]\<rparr>))))))"

primrec move_paths :: "core \<Rightarrow> revoke_quarantine \<Rightarrow> path list \<Rightarrow> (path list \<times> revoke_quarantine) quarantine_io" where
  "move_paths C q [] = ret ([], q)"
| "move_paths C q (p # ps) =
     bind_io (move_path C q p) (\<lambda>(moved, q).
     bind_io (move_paths C q ps) (\<lambda>(removed, q). ret ((if moved then p # removed else removed), q)))"

text \<open>The \<open>Drop\<close> of a quarantine that was not committed: one more attempt to roll back.\<close>

definition drop_on_error :: "core \<Rightarrow> 'a quarantine_io \<Rightarrow> (error, 'a) io" where
  "drop_on_error C m w =
     (case m w of
        (Inl (e, q), w') \<Rightarrow> (Inl e, snd (quarantine_rollback C q w'))
      | (Inr x, w') \<Rightarrow> (Inr x, w'))"

definition commit_and_purge_best_effort :: "core \<Rightarrow> revoke_quarantine \<Rightarrow> ('e, unit) io" where
  "commit_and_purge_best_effort C q =
     iter_io (\<lambda>root. ignore_io (remove_dir_if_exists (core_env C) root)) (quarantine_roots q)"

section \<open>Revoking a product\<close>

record revoke_report =
  report_target :: revoke_target
  removed_paths :: "path list"
  report_status :: setup_status

datatype config_commit = NoCommit | ReplaceConfig string | RemoveLast

definition drop_leases :: "exclusive_lease list \<Rightarrow> ('e, unit) io" where
  "drop_leases leases = iter_io drop_exclusive_lease leases"

primrec acquire_product_leases ::
  "core \<Rightarrow> product \<Rightarrow> generation_ref list \<Rightarrow> exclusive_lease list \<Rightarrow> (error, exclusive_lease list) io" where
  "acquire_product_leases C p [] leases = ret leases"
| "acquire_product_leases C p (g # gs) leases =
     bind_io (on_error (try_acquire_existing (core_env C) (core_paths C) g) (drop_leases leases)) (\<lambda>r.
       case r of
         LeaseAcquired l \<Rightarrow> acquire_product_leases C p gs (leases @ [l])
       | LeaseMissing \<Rightarrow> acquire_product_leases C p gs leases
       | LeaseBusy \<Rightarrow> then_io (drop_leases leases) (throw (ProductBusy p)))"

primrec remove_previous :: "env \<Rightarrow> path list \<Rightarrow> (error, path list) io" where
  "remove_previous E [] = ret []"
| "remove_previous E (p # ps) =
     bind_io (remove_dir_if_exists E p) (\<lambda>removed.
     bind_io (remove_previous E ps) (\<lambda>rest. ret (if removed then p # rest else rest)))"

definition commit_config :: "core \<Rightarrow> revoke_quarantine \<Rightarrow> config_commit \<Rightarrow> bool quarantine_io" where
  "commit_config C q commit =
     (let E = core_env C; p = config_file (core_paths C) in
      case commit of
        NoCommit \<Rightarrow> ret False
      | ReplaceConfig bytes \<Rightarrow> bind_io (try_io (atomic_write_private E p bytes)) (\<lambda>r.
          case r of Inl e \<Rightarrow> roll_back_and_fail C q e | Inr _ \<Rightarrow> ret False)
      | RemoveLast \<Rightarrow> bind_io (try_io (remove_config_file_for_product_commit E p)) (\<lambda>r.
          case r of Inl e \<Rightarrow> roll_back_and_fail C q e | Inr removed \<Rightarrow> ret removed))"

definition quarantine_and_commit ::
  "core \<Rightarrow> product \<Rightarrow> string \<Rightarrow> path list \<Rightarrow> config_commit \<Rightarrow> (path list \<times> bool \<times> revoke_quarantine) quarantine_io" where
  "quarantine_and_commit C p identifier paths commit =
     bind_io (move_paths C \<lparr>quarantine_product = p, quarantine_identifier = identifier,
        quarantined_entries = [], quarantine_roots = []\<rparr> paths) (\<lambda>(removed, q).
     bind_io (commit_config C q commit) (\<lambda>removed_config. ret (removed, removed_config, q)))"

text \<open>The leases of the generations that are gone; a lease file that cannot be removed is left.\<close>

primrec release_leases :: "env \<Rightarrow> exclusive_lease list \<Rightarrow> ('e, path list) io" where
  "release_leases E [] = ret []"
| "release_leases E (l # ls) =
     bind_io (try_io (release_and_remove E l)) (\<lambda>r.
     bind_io (release_leases E ls) (\<lambda>rest. ret (if r = Inr True then lease_path l # rest else rest)))"

primrec remove_empty_dirs :: "env \<Rightarrow> path list \<Rightarrow> ('e, path list) io" where
  "remove_empty_dirs E [] = ret []"
| "remove_empty_dirs E (p # ps) =
     bind_io (remove_empty_real_directory_best_effort E p) (\<lambda>removed.
     bind_io (remove_empty_dirs E ps) (\<lambda>rest. ret (if removed then p # rest else rest)))"

definition prune_empty_shared_dirs_best_effort :: "core \<Rightarrow> ('e, path list) io" where
  "prune_empty_shared_dirs_best_effort C =
     (let E = core_env C; P = core_paths C; lock = transaction_lock_file P in
      bind_io (remove_empty_dirs E [generation_staging_dir P, credentials_dir P, generations_dir P,
         runtime_dir P, logs_dir P, leases_dir P]) (\<lambda>dirs.
      bind_io (try_io (transaction_state_root_contains_only_lock C)) (\<lambda>r.
      bind_io (if r = Inr True then remove_regular_file_best_effort E lock else ret False) (\<lambda>removed.
      bind_io (remove_empty_dirs E [config_dir P, data_dir P, state_dir P]) (\<lambda>roots.
        ret (dirs @ (if removed then [lock] else []) @ roots))))))"

text \<open>What the removal of a product's entry means for the configuration file and the report.\<close>

definition revoke_commit :: "core \<Rightarrow> product \<Rightarrow> config_v2 option \<Rightarrow> config_commit \<times> config_v2 option" where
  "revoke_commit C p config =
     (case config of
        None \<Rightarrow> (NoCommit, None)
      | Some c \<Rightarrow>
          (case remove_product p c of
             (None, c') \<Rightarrow> (NoCommit, Some c')
           | (Some _, c') \<Rightarrow>
               if entries_is_empty (products c') then (RemoveLast, Some c')
               else (ReplaceConfig (core_serialize C c'), Some c')))"

definition revoke_resources ::
  "core \<Rightarrow> product \<Rightarrow> product_resources \<Rightarrow> config_commit \<Rightarrow> (error, path list) io" where
  "revoke_resources C p resources commit =
     (let E = core_env C in
      bind_io (acquire_product_leases C p (resource_generations resources) []) (\<lambda>leases.
      bind_io (on_error
          (bind_io (remove_previous E (previous_quarantines resources)) (\<lambda>previous.
           bind_io (new_uuid E) (\<lambda>identifier.
           bind_io (drop_on_error C (quarantine_and_commit C p identifier (removal_paths resources) commit))
             (\<lambda>(removed, removed_config, q).
               ret (previous @ removed @ (if removed_config then [config_file (core_paths C)] else []), q)))))
          (drop_leases leases)) (\<lambda>(removed, q).
      then_io (commit_and_purge_best_effort C q)
     (bind_io (release_leases E leases) (\<lambda>released.
      bind_io (prune_empty_shared_dirs_best_effort C) (\<lambda>pruned.
        ret (removed @ released @ pruned)))))))"

definition revoke_product_locked :: "core \<Rightarrow> product \<Rightarrow> (error, revoke_report) io" where
  "revoke_product_locked C p =
     bind_io (load_config_optional_strict C) (\<lambda>config.
     bind_io (case config of None \<Rightarrow> ret (map unconfigured_product_status all_products)
              | Some c \<Rightarrow> diagnose_configured_products C c) (\<lambda>diagnosed_before.
     let selected = Option.bind config (\<lambda>c. config_product c p);
         (commit, remaining) = revoke_commit C p config;
         status = committed_status_after_product_revoke (if commit = RemoveLast then None else remaining) diagnosed_before
     in bind_io (discover_product_resources C p selected remaining) (\<lambda>resources.
        bind_io (revoke_resources C p resources commit) (\<lambda>removed.
          ret \<lparr>report_target = RevokeProduct p, removed_paths = removed, report_status = status\<rparr>))))"

definition revoke_product :: "core \<Rightarrow> product \<Rightarrow> (error, revoke_report) io" where
  "revoke_product C p = bind_io (inspect_roots C) (\<lambda>r.
     if \<not> any_root r
     then ret \<lparr>report_target = RevokeProduct p, removed_paths = [], report_status = uninitialized_status\<rparr>
     else with_transaction_lock C (revoke_product_locked C p))"

section \<open>Revoking everything\<close>

text \<open>The directories leading to the leases; \<open>False\<close> when one is missing or is no real directory.\<close>

primrec lease_dirs_real :: "env \<Rightarrow> path list \<Rightarrow> (error, bool) io" where
  "lease_dirs_real E [] = ret True"
| "lease_dirs_real E (p # ps) =
     bind_io (try_io (symlink_metadata E p)) (\<lambda>r.
       case r of
         Inr n \<Rightarrow> if is_symlink_or_reparse n \<or> \<not> is_dir_node n then ret False else lease_dirs_real E ps
       | Inl e \<Rightarrow> if io_kind e = NotFound then ret False else throw (Io ''inspect generation leases'' p e))"

primrec acquire_listed_leases ::
  "core \<Rightarrow> config_v2 option \<Rightarrow> path list \<Rightarrow> exclusive_lease list \<Rightarrow> (error, exclusive_lease list) io" where
  "acquire_listed_leases C config [] leases = ret leases"
| "acquire_listed_leases C config (p # ps) leases =
     bind_io (try_io (symlink_metadata (core_env C) p)) (\<lambda>r.
       case r of
         Inl e \<Rightarrow>
           if io_kind e = NotFound then acquire_listed_leases C config ps leases
           else then_io (drop_leases leases) (throw (Io ''inspect generation lease'' p e))
       | Inr n \<Rightarrow>
           if \<not> is_file_node n \<or> is_symlink_or_reparse n then acquire_listed_leases C config ps leases
           else bind_io (on_error (try_acquire_existing_path (core_env C) (core_paths C) p) (drop_leases leases)) (\<lambda>r.
             case r of
               LeaseAcquired l \<Rightarrow> acquire_listed_leases C config ps (leases @ [l])
             | LeaseMissing \<Rightarrow> acquire_listed_leases C config ps leases
             | LeaseBusy \<Rightarrow> then_io (drop_leases leases)
                 (throw (case product_for_lease_path config p of Some q \<Rightarrow> ProductBusy q | None \<Rightarrow> InstallationBusy))))"

definition acquire_all_existing_generation_leases :: "core \<Rightarrow> config_v2 option \<Rightarrow> (error, exclusive_lease list) io" where
  "acquire_all_existing_generation_leases C config =
     (let E = core_env C; P = core_paths C; dir = leases_dir P in
      bind_io (lease_dirs_real E [state_dir P, dir]) (\<lambda>real.
        if \<not> real then ret []
        else then_io (ensure_no_managed_symlinks E (state_dir P) dir)
          (bind_io (try_io (read_dir E dir)) (\<lambda>r.
            case r of
              Inl e \<Rightarrow> if io_kind e = NotFound then ret [] else throw (Io ''list generation leases'' dir e)
            | Inr names \<Rightarrow> acquire_listed_leases C config (sort (map (\<lambda>n. dir @ [n]) names)) []))))"

definition remove_all_roots :: "core \<Rightarrow> (error, revoke_report) io" where
  "remove_all_roots C =
     (let E = core_env C; P = core_paths C in
      bind_io (try_io (load_config_optional_strict C)) (\<lambda>r.
      let config = (case r of Inr c \<Rightarrow> c | Inl _ \<Rightarrow> None) in
      bind_io (acquire_all_existing_generation_leases C config) (\<lambda>leases.
      bind_io (on_error (remove_previous E [config_dir P, data_dir P]) (drop_leases leases)) (\<lambda>removed.
      then_io (drop_leases leases)
     (bind_io (remove_dir_if_exists E (state_dir P)) (\<lambda>state_removed.
        ret \<lparr>report_target = RevokeAll,
             removed_paths = removed @ (if state_removed then [state_dir P] else []),
             report_status = uninitialized_status\<rparr>))))))"

definition revoke_all :: "core \<Rightarrow> (error, revoke_report) io" where
  "revoke_all C =
     (let E = core_env C; P = core_paths C in
      bind_io (path_present_no_follow E (config_dir P)) (\<lambda>a.
      bind_io (if a then ret True else path_present_no_follow E (data_dir P)) (\<lambda>b.
      bind_io (if b then ret True else path_present_no_follow E (state_dir P)) (\<lambda>any.
        if \<not> any
        then ret \<lparr>report_target = RevokeAll, removed_paths = [], report_status = uninitialized_status\<rparr>
        else with_transaction_lock C (remove_all_roots C)))))"

fun revoke :: "core \<Rightarrow> revoke_target \<Rightarrow> (error, revoke_report) io" where
  "revoke C RevokeAll = revoke_all C"
| "revoke C (RevokeProduct p) = revoke_product C p"

end
