(* ===== verification/Permission_Audit.thy ===== *)
theory Permission_Audit
  imports Setup_Safety Revocation
begin

text \<open>
  The audit of private permissions (\<open>permissions.rs\<close>, Unix build): which paths of an installation are
  inspected, in which order, and what is reported of each.  The report never looks through a directory
  that was found to be something else.
\<close>

section \<open>Managed objects\<close>

datatype managed_object_kind = DirectoryObject | FileObject

instantiation managed_object_kind :: linorder
begin

definition less_eq_managed_object_kind :: "managed_object_kind \<Rightarrow> managed_object_kind \<Rightarrow> bool" where
  "less_eq_managed_object_kind a b \<longleftrightarrow> a = DirectoryObject \<or> b = FileObject"

definition less_managed_object_kind :: "managed_object_kind \<Rightarrow> managed_object_kind \<Rightarrow> bool" where
  "less_managed_object_kind a b \<longleftrightarrow> a = DirectoryObject \<and> b = FileObject"

instance
proof
  fix a b c :: managed_object_kind
  show "(a < b) = (a \<le> b \<and> \<not> b \<le> a)"
    by (cases a; cases b) (simp_all add: less_eq_managed_object_kind_def less_managed_object_kind_def)
  show "a \<le> a" by (cases a) (simp_all add: less_eq_managed_object_kind_def)
  show "a \<le> c" if "a \<le> b" "b \<le> c" using that by (cases b) (simp_all add: less_eq_managed_object_kind_def)
  show "a = b" if "a \<le> b" "b \<le> a" using that by (cases a; cases b) (simp_all add: less_eq_managed_object_kind_def)
  show "a \<le> b \<or> b \<le> a" by (cases a) (simp_all add: less_eq_managed_object_kind_def)
qed

end

fun kind_name :: "managed_object_kind \<Rightarrow> string" where
  "kind_name DirectoryObject = ''directory''"
| "kind_name FileObject = ''file''"

type_synonym target = "path \<times> managed_object_kind"

definition fixed_targets :: "app_paths \<Rightarrow> target list" where
  "fixed_targets P =
     map (\<lambda>p. (p, DirectoryObject))
       [config_dir P, data_dir P, state_dir P, credentials_dir P, generations_dir P, generation_staging_dir P,
        runtime_dir P, logs_dir P, leases_dir P] @
     map (\<lambda>p. (p, FileObject)) [config_file P, transaction_lock_file P]"

fun client_filenames :: "product \<Rightarrow> string list" where
  "client_filenames Claude = [claude_settings_filename, claude_state_filename, claude_ca_cert_filename, claude_ca_key_filename]"
| "client_filenames Codex = [codex_config_filename]"

definition product_targets :: "app_paths \<Rightarrow> product \<Rightarrow> product_config \<Rightarrow> target list" where
  "product_targets P p pc =
     (let g = active_generation pc; home = generation_client_home P g p in
      [(credential_path (credentials_dir P) (credential_ref pc), FileObject)] @
      map (\<lambda>p. (p, DirectoryObject))
        [generation_dir P g, generation_clients_dir P g, generation_runtime_dir P g, generation_logs_dir P g] @
      [(generation_lease_file P g, FileObject), (home, DirectoryObject), (home @ [product_marker_filename], FileObject)] @
      map (\<lambda>p. (p, DirectoryObject)) [generation_product_runtime_dir P g p, generation_product_logs_dir P g p] @
      map (\<lambda>f. (home @ [f], FileObject)) (client_filenames p))"

definition configured_targets :: "app_paths \<Rightarrow> config_v2 \<Rightarrow> target list" where
  "configured_targets P c =
     concat (map (\<lambda>p. case config_product c p of None \<Rightarrow> [] | Some pc \<Rightarrow> product_targets P p pc) all_products)"

definition managed_targets :: "core \<Rightarrow> ('e, target list) io" where
  "managed_targets C = bind_io (try_io (load_config C)) (\<lambda>r.
     ret (fixed_targets (core_paths C) @ (case r of Inl _ \<Rightarrow> [] | Inr c \<Rightarrow> configured_targets (core_paths C) c)))"

text \<open>The set is sorted by depth, then by path and kind.\<close>

definition in_order :: "target list \<Rightarrow> target list" where
  "in_order ts = sort_key (\<lambda>t. length (fst t)) (sort_key fst (sort_key snd (remdups ts)))"

section \<open>Permissions\<close>

definition octal_mode :: "nat \<Rightarrow> string" where
  "octal_mode m = map (\<lambda>d. char_of (48 + d)) [m div 64 mod 8, m div 8 mod 8, m mod 8]"

definition validate_unix_private_metadata :: "nat \<Rightarrow> nat \<Rightarrow> nat \<Rightarrow> (io_error, unit) result" where
  "validate_unix_private_metadata owner_uid effective_uid md =
     (if owner_uid \<noteq> effective_uid
      then Inl (IoError PermissionDenied
        (''owner UID is '' @ decimal owner_uid @ ''; expected current effective UID '' @ decimal effective_uid))
      else if md mod 64 \<noteq> 0
      then Inl (IoError PermissionDenied (''permissions are '' @ octal_mode (md mod 512) @ ''; expected user-only access''))
      else Inr ())"

definition audit_platform_permissions :: "env \<Rightarrow> path \<Rightarrow> (io_error, unit) io" where
  "audit_platform_permissions E p = bind_io (metadata E p) (\<lambda>n.
     lift_io (validate_unix_private_metadata (uid (node_meta n)) (euid E) (mode (node_meta n))))"

section \<open>The audit\<close>

record audit_state =
  blocked_directories :: "path list"
  audited :: nat
  found_issues :: "private_permission_issue list"

definition permission_issue :: "private_permission_issue_code \<Rightarrow> path \<Rightarrow> string \<Rightarrow> audit_state \<Rightarrow> audit_state" where
  "permission_issue c p m a = a\<lparr>found_issues := found_issues a @ [\<lparr>perm_code = c, perm_path = p, perm_message = m\<rparr>]\<rparr>"

definition block_directory :: "target \<Rightarrow> audit_state \<Rightarrow> audit_state" where
  "block_directory t a =
     (if snd t = DirectoryObject then a\<lparr>blocked_directories := blocked_directories a @ [fst t]\<rparr> else a)"

definition is_blocked :: "audit_state \<Rightarrow> path \<Rightarrow> bool" where
  "is_blocked a p = list_ex (\<lambda>d. p \<noteq> d \<and> starts_with p d) (blocked_directories a)"

fun has_kind :: "managed_object_kind \<Rightarrow> node \<Rightarrow> bool" where
  "has_kind DirectoryObject n = is_dir_node n"
| "has_kind FileObject n = is_file_node n"

definition audit_target :: "env \<Rightarrow> target \<Rightarrow> audit_state \<Rightarrow> ('e, audit_state) io" where
  "audit_target E t a =
     (let p = fst t; k = snd t in
      if is_blocked a p then ret a
      else bind_io (try_io (symlink_metadata E p)) (\<lambda>r.
        case r of
          Inl e \<Rightarrow> ret (if io_kind e = NotFound then a
            else permission_issue InspectFailed p (''could not inspect V2-owned path: '' @ io_message e) (block_directory t a))
        | Inr n \<Rightarrow>
            if is_symlink_or_reparse n
            then ret (permission_issue SymbolicLink p
              (''expected a managed '' @ kind_name k @ '', but found a symbolic link'') (block_directory t a))
            else if \<not> has_kind k n
            then ret (permission_issue UnexpectedObjectType p (''expected a managed '' @ kind_name k) (block_directory t a))
            else bind_io (try_io (audit_platform_permissions E p)) (\<lambda>r.
              let a = a\<lparr>audited := audited a + 1\<rparr> in
              ret (case r of Inr _ \<Rightarrow> a | Inl e \<Rightarrow> permission_issue InsecurePermissions p (io_message e) a))))"

primrec audit_targets :: "env \<Rightarrow> target list \<Rightarrow> audit_state \<Rightarrow> ('e, audit_state) io" where
  "audit_targets E [] a = ret a"
| "audit_targets E (t # ts) a = bind_io (audit_target E t a) (audit_targets E ts)"

definition audit_private_permissions :: "core \<Rightarrow> ('e, private_permissions_audit) io" where
  "audit_private_permissions C = bind_io (managed_targets C) (\<lambda>ts.
     bind_io (audit_targets (core_env C) (in_order ts) \<lparr>blocked_directories = [], audited = 0, found_issues = []\<rparr>) (\<lambda>a.
       ret \<lparr>supported = True, checked_paths = audited a, perm_issues = found_issues a\<rparr>))"

section \<open>What a clean report says\<close>

definition private_target :: "env \<Rightarrow> world \<Rightarrow> target \<Rightarrow> bool" where
  "private_target E w t =
     (case node_at w (fst t) of
        None \<Rightarrow> missing_kind w (fst t) = NotFound
      | Some n \<Rightarrow> has_kind (snd t) n \<and> uid (node_meta n) = euid E \<and> mode (node_meta n) mod 64 = 0)"

lemma private_target_same: "node_at w' = node_at w \<Longrightarrow> private_target E w' t = private_target E w t"
  by (cases "node_at w (fst t)") (simp_all add: private_target_def missing_kind_def is_dir_at_def)

lemma has_kind_not_link: "has_kind k n \<Longrightarrow> \<not> is_symlink_or_reparse n"
  by (cases k; cases n) (simp_all add: is_symlink_or_reparse_def is_dir_node_def is_file_node_def is_symlink_node_def)

lemma follow_kind: "node_at w p = Some n \<Longrightarrow> has_kind k n \<Longrightarrow> follow 41 w p = Some p"
  using has_kind_not_link [of k n]
  by (simp add: follow_not_link not_link_def is_symlink_or_reparse_def is_symlink_node_def split: node.splits)

lemma validate_private [simp]:
  "validate_unix_private_metadata o' e m = Inr () \<longleftrightarrow> o' = e \<and> m mod 64 = 0"
  by (simp add: validate_unix_private_metadata_def)

lemma touches_audit [frame_intros]:
  "touches S (audit_platform_permissions E p)" "touches S (audit_target E t a)" "touches S (audit_targets E ts a)"
proof -
  show p: "touches S (audit_platform_permissions E p)" for p
    unfolding audit_platform_permissions_def by (intro frame_intros)
  show t: "touches S (audit_target E t a)" for t a
    unfolding audit_target_def Let_def by (intro frame_intros p)
  show "touches S (audit_targets E ts a)"
    by (induction ts arbitrary: a) (simp_all, (intro frame_intros t; assumption)+)
qed

text \<open>The second look finds what the first one found.\<close>

lemma audit_platform_result:
  assumes "node_at w p = Some n" "has_kind k n"
  shows "\<exists>r w'. audit_platform_permissions E p w = (r, w') \<and> (r = Inr () \<longrightarrow> private_target E w (p, k)) \<and>
    ((\<forall>j. fault E j = None) \<longrightarrow> private_target E w (p, k) \<longrightarrow> r = Inr ())"
proof -
  have "follow 41 (tick w) p = Some p" "node_at (tick w) p = Some n"
    using follow_kind [of "tick w" p n k] assms by simp_all
  then show ?thesis using assms
    by (auto simp: audit_platform_permissions_def metadata_def syscall_def bind_io_def lift_io_def private_target_def
        split: option.splits)
qed

lemma issue_fields [simp]:
  "found_issues (permission_issue c p m a) = found_issues a @ [\<lparr>perm_code = c, perm_path = p, perm_message = m\<rparr>]"
  "blocked_directories (permission_issue c p m a) = blocked_directories a"
  "found_issues (block_directory t a) = found_issues a"
  by (simp_all add: permission_issue_def block_directory_def)

lemma missing_kind_clock [simp]: "missing_kind (tick w) p = missing_kind w p"
  by (simp add: missing_kind_def is_dir_at_def)

lemma audit_target_result:
  assumes "audit_target E t a w = (r, w')"
  shows "\<exists>a' new. r = Inr a' \<and> node_at w' = node_at w \<and> found_issues a' = found_issues a @ new \<and>
    (blocked_directories a = [] \<longrightarrow> new = [] \<longrightarrow> blocked_directories a' = [] \<and> private_target E w t) \<and>
    (blocked_directories a = [] \<longrightarrow> (\<forall>j. fault E j = None) \<longrightarrow> private_target E w t \<longrightarrow>
       new = [] \<and> blocked_directories a' = [])"
proof -
  have same: "node_at w' = node_at w"
    using frame_result [OF touches_audit(2) [of nowhere E t a] assms] by (simp add: nowhere_def fun_eq_iff)
  show ?thesis
  proof (cases "is_blocked a (fst t)")
    case True
    with assms same show ?thesis by (auto simp: audit_target_def Let_def ret_def is_blocked_def)
  next
    case blocked: False
    show ?thesis
    proof (cases "\<exists>n. symlink_metadata E (fst t) w = (Inr n, tick w) \<and> has_kind (snd t) n")
      case True
      then obtain n where n: "symlink_metadata E (fst t) w = (Inr n, tick w)" "has_kind (snd t) n" by blast
      then have at: "node_at (tick w) (fst t) = Some n"
        by (auto simp: symlink_metadata_def syscall_def split: option.splits)
      from audit_platform_result [OF at n(2), of E] obtain q w2 where
        q: "audit_platform_permissions E (fst t) (tick w) = (q, w2)"
          "q = Inr () \<longrightarrow> private_target E (tick w) t"
          "(\<forall>j. fault E j = None) \<longrightarrow> private_target E (tick w) t \<longrightarrow> q = Inr ()" by auto
      moreover have "private_target E (tick w) t = private_target E w t" by (rule private_target_same) (simp add:)
      ultimately show ?thesis using assms blocked n same has_kind_not_link [OF n(2)]
        by (cases q) (auto simp: audit_target_def Let_def bind_io_def try_io_def ret_def permission_issue_def)
    next
      case wrong: False
      show ?thesis
      proof (cases "node_at w (fst t)")
        case None
        with assms blocked same show ?thesis
          by (cases "fault E (steps w)") (auto simp: audit_target_def Let_def bind_io_def try_io_def ret_def
              symlink_metadata_def syscall_def private_target_def split: if_splits)
      next
        case (Some n)
        with assms blocked same wrong show ?thesis
          by (cases "fault E (steps w)") (auto simp: audit_target_def Let_def bind_io_def try_io_def ret_def
              symlink_metadata_def syscall_def private_target_def split: if_splits)
      qed
    qed
  qed
qed

lemma audit_targets_result:
  assumes "audit_targets E ts a w = (r :: ('e, audit_state) result, w')"
  shows "\<exists>a' new. r = Inr a' \<and> found_issues a' = found_issues a @ new \<and>
    (blocked_directories a = [] \<longrightarrow> new = [] \<longrightarrow> list_all (private_target E w) ts) \<and>
    (blocked_directories a = [] \<longrightarrow> (\<forall>j. fault E j = None) \<longrightarrow> list_all (private_target E w) ts \<longrightarrow> new = [])"
  using assms
proof (induction ts arbitrary: a w)
  case Nil
  then show ?case by (auto simp: ret_def)
next
  case (Cons t ts)
  obtain q w1 where q: "audit_target E t a w = (q :: ('e, audit_state) result, w1)" by fastforce
  from audit_target_result [OF q] obtain b new where b: "q = Inr b" "node_at w1 = node_at w"
    "found_issues b = found_issues a @ new"
    "blocked_directories a = [] \<longrightarrow> new = [] \<longrightarrow> blocked_directories b = [] \<and> private_target E w t"
    "blocked_directories a = [] \<longrightarrow> (\<forall>j. fault E j = None) \<longrightarrow> private_target E w t \<longrightarrow> new = [] \<and> blocked_directories b = []"
    by blast
  with Cons.prems q have "audit_targets E ts b w1 = (r, w')" by (simp add: bind_io_def)
  from Cons.IH [OF this] obtain a' more where "r = Inr a'" "found_issues a' = found_issues b @ more"
    "blocked_directories b = [] \<longrightarrow> more = [] \<longrightarrow> list_all (private_target E w1) ts"
    "blocked_directories b = [] \<longrightarrow> (\<forall>j. fault E j = None) \<longrightarrow> list_all (private_target E w1) ts \<longrightarrow> more = []" by blast
  moreover have "list_all (private_target E w1) ts = list_all (private_target E w) ts"
    using private_target_same [OF b(2)] by (simp add: list_all_iff)
  ultimately show ?case using b by (intro exI [of _ a'] exI [of _ "new @ more"]) auto
qed

lemma set_in_order [simp]: "set (in_order ts) = set ts"
  by (simp add: in_order_def)

lemma touches_managed_targets: "touches S (managed_targets C)"
  unfolding managed_targets_def by (intro frame_intros)

lemma managed_targets_Inr: "\<exists>ts w'. managed_targets C w = (Inr ts, w')"
  by (simp add: managed_targets_def bind_io_def try_io_def ret_def split: prod.split)

definition inspected :: "core \<Rightarrow> world \<Rightarrow> target list" where
  "inspected C w = (case managed_targets C w of (Inr ts, _) \<Rightarrow> ts | (Inl (e :: error), _) \<Rightarrow> [])"


end
