(* ===== verification/Rooted_Trees.thy ===== *)
theory Rooted_Trees
  imports Setup_Safety
begin

text \<open>
  Invariants of the state that hold whatever fails.  \<open>preserves J m\<close>: a run of \<open>m\<close> from a state with
  \<open>J\<close> ends in a state with \<open>J\<close>, in success and in failure.  The one used most is \<open>rooted\<close>: every
  node of the tree has a directory above it.
\<close>

section \<open>Preserved properties\<close>

named_theorems preserves_intros "operations preserve a property of the state"

definition preserves :: "(world \<Rightarrow> bool) \<Rightarrow> ('e, 'a) io \<Rightarrow> bool" where
  "preserves J m \<longleftrightarrow> (\<forall>w. J w \<longrightarrow> J (snd (m w)))"

lemma preservesI: "(\<And>w. J w \<Longrightarrow> J (snd (m w))) \<Longrightarrow> preserves J m"
  by (simp add: preserves_def)

lemma preservesD: "preserves J m \<Longrightarrow> J w \<Longrightarrow> J (snd (m w))"
  by (simp add: preserves_def)

lemma preserves_result: "preserves J m \<Longrightarrow> J w \<Longrightarrow> m w = (r, w') \<Longrightarrow> J w'"
  by (metis preservesD snd_conv)

lemma triple_preserves: "preserves J m \<Longrightarrow> triple J m (\<lambda>_. J) (\<lambda>_. J)"
  by (auto simp: triple_def dest: preserves_result)

lemma preserves_simple [preserves_intros]:
  "preserves J (ret x)" "preserves J (throw e)" "preserves J (lift_io r)" "preserves J get_world"
  by (simp_all add: preserves_def ret_def throw_def lift_io_def get_world_def)

lemma preserves_bind [preserves_intros]:
  assumes "preserves J m" and "\<And>x. preserves J (f x)"
  shows "preserves J (bind_io m f)"
  using assms by (auto simp: preserves_def snd_bind_io split: prod.split sum.split)

lemma preserves_then [preserves_intros]: "preserves J m \<Longrightarrow> preserves J n \<Longrightarrow> preserves J (then_io m n)"
  unfolding then_io_def by (rule preserves_bind)

lemma preserves_wrappers [preserves_intros]:
  "preserves J m \<Longrightarrow> preserves J (map_err f m)"
  "preserves J m \<Longrightarrow> preserves J (try_io m)"
  "preserves J m \<Longrightarrow> preserves J (ignore_io m)"
  "preserves J m \<Longrightarrow> preserves J c \<Longrightarrow> preserves J (on_error m c)"
  "preserves J m \<Longrightarrow> preserves J c \<Longrightarrow> preserves J (finally_io m c)"
  by (simp_all add: preserves_def snd_wrappers)

lemma preserves_iter [preserves_intros]: "(\<And>x. x \<in> set xs \<Longrightarrow> preserves J (f x)) \<Longrightarrow> preserves J (iter_io f xs)"
  by (induction xs) (auto intro: preserves_intros)

lemma preserves_if [preserves_intros]:
  "(b \<Longrightarrow> preserves J m) \<Longrightarrow> (\<not> b \<Longrightarrow> preserves J n) \<Longrightarrow> preserves J (if b then m else n)"
  by simp

lemma preserves_case_sum [preserves_intros]:
  "(\<And>x. r = Inl x \<Longrightarrow> preserves J (f x)) \<Longrightarrow> (\<And>y. r = Inr y \<Longrightarrow> preserves J (g y)) \<Longrightarrow>
     preserves J (case r of Inl x \<Rightarrow> f x | Inr y \<Rightarrow> g y)"
  by (cases r) auto

lemma preserves_case_option [preserves_intros]:
  "(r = None \<Longrightarrow> preserves J f) \<Longrightarrow> (\<And>y. r = Some y \<Longrightarrow> preserves J (g y)) \<Longrightarrow>
     preserves J (case r of None \<Rightarrow> f | Some y \<Rightarrow> g y)"
  by (cases r) auto

lemma preserves_case_prod [preserves_intros]:
  "(\<And>x y. z = (x, y) \<Longrightarrow> preserves J (f x y)) \<Longrightarrow> preserves J (case z of (x, y) \<Rightarrow> f x y)"
  by (cases z) auto

lemma preserves_let [preserves_intros]: "preserves J (f x) \<Longrightarrow> preserves J (let y = x in f y)"
  by simp

section \<open>Rooted trees\<close>

lemma is_dir_at_cong: "node_at w' = node_at w \<Longrightarrow> is_dir_at w' p = is_dir_at w p"
  by (simp add: is_dir_at_def)

lemma rooted_cong: "node_at w' = node_at w \<Longrightarrow> rooted w' = rooted w"
  by (simp add: rooted_def parent_is_dir_def is_dir_at_def)

lemma rooted_simps [simp]:
  "rooted (tick w) = rooted w" "rooted (w\<lparr>next_ino := i\<rparr>) = rooted w"
  by (rule rooted_cong, simp)+

lemma rooted_put:
  assumes "rooted w" "parent_is_dir w p" "is_dir_at w p \<longrightarrow> is_dir_node n"
  shows "rooted (put_node p n w)"
  unfolding rooted_def
proof (intro allI impI)
  fix q assume q: "node_at (put_node p n w) q \<noteq> None"
  have p: "p \<noteq> []" using assms(2) by (simp add: parent_is_dir_def)
  have "parent_is_dir w q"
    using q assms(1,2) by (cases "q = p") (auto simp: rooted_def)
  then have "q \<noteq> []" and d: "is_dir_at w (butlast q)" by (auto simp: parent_is_dir_def)
  have "is_dir_at (put_node p n w) (butlast q)"
    using d assms(3) by (cases "butlast q = p") (auto simp: is_dir_at_def is_dir_node_def)
  with \<open>q \<noteq> []\<close> show "parent_is_dir (put_node p n w) q" by (simp add: parent_is_dir_def)
qed

lemma rooted_del:
  assumes "rooted w" "\<And>q. q \<noteq> [] \<Longrightarrow> butlast q = p \<Longrightarrow> node_at w q = None"
  shows "rooted (del_node p w)"
  using assms by (auto simp: rooted_def parent_is_dir_def is_dir_at_def split: if_splits)

lemma rooted_create: "rooted w \<Longrightarrow> parent_is_dir w p \<Longrightarrow> node_at w p = None \<Longrightarrow> rooted (create_node p n w)"
  by (auto simp: create_node_def is_dir_at_def parent_is_dir_def intro!: rooted_put)

lemma rooted_update:
  assumes "rooted w" "node_at w p = Some n" "is_dir_node n = is_dir_node m"
  shows "rooted (put_node p m w)"
proof (rule rooted_put [OF assms(1)])
  show "parent_is_dir w p" using assms(1,2) by (simp add: rooted_def)
  then show "is_dir_at w p \<longrightarrow> is_dir_node m"
    using assms(2,3) by (auto simp: is_dir_at_def parent_is_dir_def is_dir_node_def split: node.splits)
qed

lemma not_dir_no_children:
  assumes "rooted w" "\<not> is_dir_at w p" "q \<noteq> []" "butlast q = p"
  shows "node_at w q = None"
  using assms by (auto simp: rooted_def parent_is_dir_def)

lemma no_child_names:
  assumes "child_names w p = []" "q \<noteq> []" "butlast q = p"
  shows "node_at w q = None"
proof -
  have "(q, n) \<notin> set (nodes w)" for n
    using assms by (auto simp: child_names_def filter_empty_conv)
  then show ?thesis by (metis map_of_SomeD node_at_def not_None_eq)
qed

lemma starts_with_butlast: "starts_with q p \<Longrightarrow> q \<noteq> p \<Longrightarrow> q \<noteq> [] \<and> starts_with (butlast q) p"
  by (auto simp: starts_with_iff butlast_append)

lemma butlast_starts_with: "starts_with (butlast q) p \<Longrightarrow> starts_with q p"
  by (metis append_butlast_last_id append_assoc butlast.simps(1) starts_with_iff)

lemma not_starts_with_butlast: "d \<noteq> [] \<Longrightarrow> \<not> starts_with (butlast d) d"
proof
  assume "d \<noteq> []" "starts_with (butlast d) d"
  then obtain r where "butlast d = d @ r" by (auto simp: starts_with_iff)
  then have "length d - 1 = length d + length r" by (metis length_append length_butlast)
  then show False using \<open>d \<noteq> []\<close> by (cases d) (auto split: if_splits)
qed

lemma rooted_move:
  assumes "rooted w" "node_at w s \<noteq> None" "\<not> starts_with d s" "\<not> starts_with s d" "parent_is_dir w d"
  shows "rooted (move_tree s d w)"
  unfolding rooted_def
proof (intro allI impI)
  fix q assume q: "node_at (move_tree s d w) q \<noteq> None"
  let ?w = "move_tree s d w"
  have s: "s \<noteq> []" using assms(3) by (auto simp: starts_with_iff)
  show "parent_is_dir ?w q"
  proof (cases "strip_prefix d q")
    case None
    then have nd: "\<not> starts_with q d" by (simp add: strip_prefix_def split: if_splits)
    with q None have ns: "\<not> starts_with q s" "node_at w q \<noteq> None"
      by (auto simp: node_at_move split: if_splits)
    then have "q \<noteq> []" and dir: "is_dir_at w (butlast q)"
      using assms(1) by (auto simp: rooted_def parent_is_dir_def)
    have "\<not> starts_with (butlast q) d" "\<not> starts_with (butlast q) s"
      using nd ns(1) by (auto dest: butlast_starts_with)
    then have "node_at ?w (butlast q) = node_at w (butlast q)"
      by (simp add: node_at_move strip_prefix_def)
    with dir \<open>q \<noteq> []\<close> show ?thesis by (simp add: parent_is_dir_def is_dir_at_def)
  next
    case (Some r)
    then have qd: "q = d @ r" by (simp add: strip_prefix_Some_iff)
    have d: "d \<noteq> []" using assms(5) by (simp add: parent_is_dir_def)
    show ?thesis
    proof (cases r rule: rev_cases)
      case Nil
      have "\<not> starts_with (butlast d) s" "\<not> starts_with (butlast d) d"
        using assms(3) butlast_starts_with not_starts_with_butlast [OF d] by blast+
      then have "node_at ?w (butlast d) = node_at w (butlast d)"
        by (simp add: node_at_move strip_prefix_def)
      with assms(5) d Nil qd show ?thesis by (simp add: parent_is_dir_def is_dir_at_def)
    next
      case (snoc r' c)
      have "node_at w (s @ r) \<noteq> None" using q Some by (simp add: node_at_move)
      then have "is_dir_at w (s @ r')" using assms(1) snoc
        by (auto simp: rooted_def parent_is_dir_def butlast_append dest!: spec [of _ "s @ r"])
      moreover have "strip_prefix d (d @ r') = Some r'" by (simp add: strip_prefix_Some_iff)
      ultimately show ?thesis using qd snoc s d
        by (simp add: parent_is_dir_def butlast_append is_dir_at_def node_at_move)
    qed
  qed
qed

section \<open>Every operation keeps the tree rooted\<close>

lemma preserves_reading:
  assumes "touches nowhere m"
  shows "preserves rooted m"
proof (rule preservesI)
  fix w assume w: "rooted w"
  have "node_at (snd (m w)) = node_at w"
    using frameD [OF assms] by (simp add: nowhere_def fun_eq_iff)
  from w show "rooted (snd (m w))" by (simp only: rooted_cong [OF \<open>node_at (snd (m w)) = node_at w\<close>])
qed

lemma preserves_syscall:
  "(\<And>w. rooted w \<Longrightarrow> rooted (snd (act w))) \<Longrightarrow> preserves rooted (syscall E act)"
  by (auto simp: preserves_def syscall_def split: option.split prod.split)

lemma follow_present: "follow n w p = Some q \<Longrightarrow> node_at w q \<noteq> None"
  by (induction n w p rule: follow.induct) (auto split: option.splits node.splits)

lemma is_dir_node_set_mode [simp]: "is_dir_node (set_mode m n) = is_dir_node n"
  by (cases n) (simp_all add: is_dir_node_def)

lemma preserves_calls [preserves_intros]:
  "preserves rooted (create_dir E p)" "preserves rooted (create_new_file E p m)" "preserves rooted (set_permissions E p m)"
proof -
  show "preserves rooted (create_dir E p)" "preserves rooted (create_new_file E p m)"
    unfolding create_dir_def create_new_file_def
    by (rule preserves_syscall, simp add: rooted_create)+
  show "preserves rooted (set_permissions E p m)"
    unfolding set_permissions_def
  proof (rule preserves_syscall)
    fix w assume "rooted w"
    then show "rooted (snd (case follow 41 w p of None \<Rightarrow> (Inl (os_error (missing_kind w p)), w)
        | Some q \<Rightarrow> (case node_at w q of None \<Rightarrow> (Inl (os_error (missing_kind w p)), w)
            | Some n \<Rightarrow> (Inr (), put_node q (set_mode m n) w))))"
      by (cases "follow 41 w p") (simp_all add: rooted_update split: option.split)
  qed
qed

lemma preserves_write_all [preserves_intros]: "preserves rooted (write_all E p c)"
  by (auto simp: preserves_def write_all_def is_dir_node_def split: option.split node.split intro!: rooted_update)

lemma preserves_rename [preserves_intros]: "preserves rooted (rename E s d)"
  unfolding rename_def
  by (rule preserves_syscall) (auto intro!: rooted_move split: option.split node.split)

lemma is_dir_at_node: "node_at w p = Some n \<Longrightarrow> \<not> is_dir_node n \<Longrightarrow> p \<noteq> [] \<Longrightarrow> \<not> is_dir_at w p"
  by (auto simp: is_dir_at_def is_dir_node_def split: node.splits)

lemma rooted_del_leaf:
  assumes "rooted w" "node_at w p = Some n" "\<not> is_dir_node n"
  shows "rooted (del_node p w)"
proof -
  have "p \<noteq> []" using assms by (auto simp: rooted_def parent_is_dir_def)
  with assms show ?thesis by (intro rooted_del not_dir_no_children) (auto dest: is_dir_at_node)
qed

lemma preserves_removals [preserves_intros]:
  "preserves rooted (remove_file E p)" "preserves rooted (remove_dir E p)"
  unfolding remove_file_def remove_dir_def
  by (rule preserves_syscall;
      force simp: is_dir_node_def split: option.split node.split intro: rooted_del_leaf rooted_del no_child_names)+

lemma preserves_reads [preserves_intros]:
  "preserves rooted (symlink_metadata E p)" "preserves rooted (metadata E p)" "preserves rooted (read_file E p)"
  "preserves rooted (read_dir E p)" "preserves rooted (sync_all E p)" "preserves rooted (new_uuid E)"
  "preserves rooted (is_dir_path E p)" "preserves rooted (lock_shared E h)" "preserves rooted (try_lock_exclusive E h)"
  "preserves rooted (unlock_shared h)" "preserves rooted (unlock_exclusive h)"
  by (rule preserves_reading, intro frame_intros)+

lemma preserves_create_dir_all [preserves_intros]: "preserves rooted (create_dir_all E p)"
proof -
  have "preserves rooted (create_dirs E base cs)" for base cs
    by (induction cs arbitrary: base) (simp_all, (intro preserves_intros; assumption)+)
  then show ?thesis by (simp add: create_dir_all_def)
qed

lemma preserves_remove_dir_all [preserves_intros]: "preserves rooted (remove_dir_all E p)"
  unfolding remove_dir_all_def unlink_entry_def by (intro preserves_intros)

lemma preserves_checks [preserves_intros]:
  "preserves rooted (reject_symlink_if_present E p)" "preserves rooted (path_present_no_follow E p)"
  "preserves rooted (validate_directory_if_present E p)" "preserves rooted (ensure_no_managed_symlinks E root p)"
  "preserves rooted (sync_directory E p)" "preserves rooted (validate_opened_lock_file E h p)"
  "preserves rooted (opened_lock_is_current E h p)" "preserves rooted (file_metadata E h)"
  "preserves rooted (open_handle E p)" "preserves rooted (read_optional E p)"
  by (rule preserves_reading, intro frame_intros)+

lemma preserves_ensure_private_dir [preserves_intros]: "preserves rooted (ensure_private_dir E p)"
  unfolding ensure_private_dir_def set_private_dir_permissions_def by (intro preserves_intros)

lemma preserves_removal_kind [preserves_intros]:
  "preserves J a \<Longrightarrow> preserves J b \<Longrightarrow> preserves J c \<Longrightarrow>
     preserves J (case k of FileOrFileLink \<Rightarrow> a | DirectoryLink \<Rightarrow> b | DirectoryTree \<Rightarrow> c)"
  by (cases k) auto

lemma preserves_fs_util [preserves_intros]:
  "preserves rooted (remove_dir_if_exists E p)" "preserves rooted (remove_regular_file_best_effort E p)"
  "preserves rooted (remove_empty_real_directory_best_effort E p)"
  "preserves rooted (remove_config_file_for_product_commit E p)"
  unfolding remove_dir_if_exists_def remove_regular_file_best_effort_def remove_empty_real_directory_best_effort_def
    remove_config_file_for_product_commit_def Let_def
  by (intro preserves_intros)+

lemma preserves_atomic_write [preserves_intros]: "preserves rooted (atomic_write_private E p c)"
  unfolding atomic_write_private_def atomic_write_private_with_directory_sync_def replace_file_def
    set_private_file_permissions_def Let_def
  by (intro preserves_intros)

lemma preserves_open_lock_file [preserves_intros]: "preserves rooted (open_private_lock_file E p)"
proof -
  have o: "preserves rooted (open_nofollow E b p)" for b unfolding open_nofollow_def
    by (rule preserves_syscall) (auto simp: rooted_create split: option.split node.split)
  have l: "preserves rooted (set_private_lock_permissions E h p)" for h unfolding set_private_lock_permissions_def
    by (intro preserves_intros preserves_syscall)
      (auto simp: is_dir_node_def split: option.split node.split intro!: rooted_update)
  show ?thesis unfolding open_private_lock_file_def by (intro preserves_intros o l)
qed

lemma preserves_acquire_transaction_lock [preserves_intros]: "preserves rooted (acquire_transaction_lock C)"
proof -
  have "preserves rooted (lock_rounds n E p)" for n E p
    by (induction n) (simp_all add: lock_exclusive_def, (intro preserves_intros; assumption)+)
  then show ?thesis unfolding acquire_transaction_lock_def Let_def lock_exclusive_def by (intro preserves_intros)
qed

lemma preserves_drop_transaction_lock [preserves_intros]: "preserves rooted (drop_transaction_lock l)"
  unfolding drop_transaction_lock_def by (intro preserves_intros)

end
