(* ===== verification/Revocation_Safety.thy ===== *)
theory Revocation_Safety
  imports Rooted_Trees Revocation
begin

text \<open>
  What a revocation that fails leaves behind.  Up to the commit a file is only ever moved between its
  place and the place of the same name inside a quarantine directory; \<open>survives\<close> says so, and every
  step of the transaction up to the commit preserves it, the roll-back included.
\<close>

section \<open>Places inside and outside of quarantine\<close>

definition quarantine_prefix :: "product \<Rightarrow> string" where
  "quarantine_prefix p = ''.saiai-revoke-'' @ directory_name p @ ''-''"

definition quarantine_component :: "product \<Rightarrow> string \<Rightarrow> bool" where
  "quarantine_component p c = starts_with c (quarantine_prefix p)"

text \<open>The place of a path: the path without the quarantine directories of the product.\<close>

definition place :: "product \<Rightarrow> path \<Rightarrow> path" where
  "place p q = filter (\<lambda>c. \<not> quarantine_component p c) q"

definition quarantined :: "product \<Rightarrow> path \<Rightarrow> bool" where
  "quarantined p q \<longleftrightarrow> list_ex (quarantine_component p) q"

definition survives :: "core \<Rightarrow> product \<Rightarrow> world \<Rightarrow> world \<Rightarrow> bool" where
  "survives C p w0 w \<longleftrightarrow> (\<forall>q c. contents_at w0 q = Some c \<longrightarrow> \<not> scratch C q \<longrightarrow> \<not> quarantined p q \<longrightarrow>
     (\<exists>q'. place p q' = q \<and> contents_at w q' = Some c))"

definition unharmed :: "core \<Rightarrow> product \<Rightarrow> world \<Rightarrow> world \<Rightarrow> bool" where
  "unharmed C p w0 w \<longleftrightarrow> rooted w \<and> survives C p w0 w"

lemma place_append [simp]: "place p (q @ r) = place p q @ place p r"
  by (simp add: place_def)

lemma place_id: "\<not> quarantined p q \<Longrightarrow> place p q = q"
  by (auto simp: place_def quarantined_def list_ex_iff filter_id_conv)

lemma place_not_quarantined: "\<not> quarantined p (place p q)"
  by (auto simp: place_def quarantined_def list_ex_iff)

lemma quarantine_name_component: "quarantine_component p (quarantine_name p i)"
  by (auto simp: quarantine_component_def quarantine_name_def quarantine_prefix_def starts_with_iff)

lemma previous_quarantine_component: "generated_revoke_quarantine_name p n \<Longrightarrow> quarantine_component p n"
  by (auto simp: generated_revoke_quarantine_name_def generated_identifier_suffix_iff
      quarantine_component_def quarantine_prefix_def starts_with_iff)

lemma survives_refl: "survives C p w w"
  using place_id by (fastforce simp: survives_def)

lemma survives_as_before:
  "as_before (\<lambda>q. scratch C q \<or> quarantined p q) w0 w \<Longrightarrow> survives C p w0 w"
  unfolding survives_def same_outside_def using place_id by fastforce

section \<open>Steps that keep every file somewhere\<close>

lemma survives_change:
  assumes "\<And>q. \<not> S q \<Longrightarrow> contents_at w' q = contents_at w q" "\<And>q. S q \<Longrightarrow> scratch C (place p q)"
    "survives C p w0 w"
  shows "survives C p w0 w'"
  unfolding survives_def
proof (intro allI impI)
  fix q c assume q: "contents_at w0 q = Some c" "\<not> scratch C q" "\<not> quarantined p q"
  with assms(3) obtain q' where q': "place p q' = q" "contents_at w q' = Some c"
    unfolding survives_def by blast
  with assms(2) q(2) have "\<not> S q'" by auto
  with assms(1) q' show "\<exists>q'. place p q' = q \<and> contents_at w' q' = Some c" by metis
qed

lemma survives_keeps:
  assumes "keeps S m" "\<And>q. S q \<Longrightarrow> scratch C (place p q)" "survives C p w0 w"
  shows "survives C p w0 (snd (m w))"
  using survives_change [OF _ assms(2,3)] frameD [OF assms(1)] by metis

lemma unharmed_keeps:
  assumes "keeps nowhere m" "preserves rooted m"
  shows "preserves (unharmed C p w0) m"
  using survives_keeps [OF assms(1)] assms(2) by (auto simp: unharmed_def preserves_def nowhere_def)

lemma survives_move:
  assumes "survives C p w0 w" "rooted w" "place p d = place p s" "node_at w d = None"
    "\<not> starts_with d s" "\<not> starts_with s d" "d \<noteq> []"
  shows "survives C p w0 (move_tree s d w)"
  unfolding survives_def
proof (intro allI impI)
  fix q c assume q: "contents_at w0 q = Some c" "\<not> scratch C q" "\<not> quarantined p q"
  with assms(1) obtain q' where q': "place p q' = q" "contents_at w q' = Some c"
    unfolding survives_def by blast
  have under: "contents_at w (d @ r) = None" for r
    using rooted_below [OF assms(2,4,7)] by (simp add: contents_at_def contents_of_def)
  show "\<exists>q'. place p q' = q \<and> contents_at (move_tree s d w) q' = Some c"
  proof (cases "starts_with q' s")
    case True
    then obtain r where r: "q' = s @ r" by (auto simp: starts_with_iff)
    have "strip_prefix d (d @ r) = Some r" by (simp add: strip_prefix_Some_iff)
    then have "contents_at (move_tree s d w) (d @ r) = Some c"
      using q' r by (simp add: contents_at_def node_at_move)
    moreover have "place p (d @ r) = q" using q'(1) r assms(3) by simp
    ultimately show ?thesis by blast
  next
    case False
    have "\<not> starts_with q' d" using under q'(2) by (auto simp: starts_with_iff)
    with False q' show ?thesis
      by (intro exI [of _ q']) (simp add: contents_at_def node_at_move strip_prefix_def)
  qed
qed

lemma triple_rename_place:
  assumes "place p d = place p s" "d \<noteq> []"
  shows "triple (\<lambda>w. unharmed C p w0 w \<and> node_at w d = None) (rename E s d)
    (\<lambda>_. unharmed C p w0) (\<lambda>_. unharmed C p w0)"
proof (rule tripleI)
  fix w e w' assume w: "unharmed C p w0 w \<and> node_at w d = None" "rename E s d w = (Inl e, w')"
  with rename_Inl have "node_at w' = node_at w" by blast
  with w(1) show "unharmed C p w0 w'"
    by (simp add: unharmed_def survives_def contents_at_def rooted_cong [of w' w])
next
  fix w x w' assume w: "unharmed C p w0 w \<and> node_at w d = None" "rename E s d w = (Inr x, w')"
  then have r: "node_at w' = node_at (move_tree s d w)" "\<not> starts_with d s" "\<not> starts_with s d"
    using rename_Inr [of E s d w w'] by simp_all
  have "survives C p w0 (move_tree s d w)"
    using w assms r by (intro survives_move) (simp_all add: unharmed_def)
  then have "survives C p w0 w'" using r(1) by (simp add: survives_def contents_at_def)
  moreover have "rooted w'" using w preserves_result [OF preserves_rename] by (auto simp: unharmed_def)
  ultimately show "unharmed C p w0 w'" by (simp add: unharmed_def)
qed

section \<open>The quarantine\<close>

lemma triple_if: "(b \<Longrightarrow> triple P m Q R) \<Longrightarrow> (\<not> b \<Longrightarrow> triple P n Q R) \<Longrightarrow> triple P (if b then m else n) Q R"
  by simp

definition well_placed :: "product \<Rightarrow> revoke_quarantine \<Rightarrow> bool" where
  "well_placed p q \<longleftrightarrow> quarantine_product q = p \<and>
     (\<forall>(original, inside) \<in> set (quarantined_entries q). original \<noteq> [] \<and> place p inside = place p original)"

lemma unharmed_remove_dir [preserves_intros]: "preserves (unharmed C p w0) (remove_dir E q)"
proof (rule unharmed_keeps)
  show "keeps nowhere (remove_dir E q)" unfolding remove_dir_def
    by (rule keeps_syscall) (auto simp: contents_at_def contents_of_def split: option.split node.split)
qed (rule preserves_removals)

lemma unharmed_reads [preserves_intros]:
  "preserves (unharmed C p w0) (path_present_no_follow E q)" "preserves (unharmed C p w0) (read_dir E q)"
  "preserves (unharmed C p w0) (ensure_private_dir E q)"
  by (rule unharmed_keeps, intro frame_intros, intro preserves_intros)+

lemma unharmed_retain_roots [preserves_intros]: "preserves (unharmed C p w0) (retain_roots E roots)"
  by (induction roots) (simp_all, (intro preserves_intros; assumption)+)

lemma triple_present:
  assumes "preserves J (path_present_no_follow E q)"
  shows "triple J (path_present_no_follow E q) (\<lambda>present w. J w \<and> (present \<longleftrightarrow> node_at w q \<noteq> None)) (\<lambda>_. J)"
proof (rule tripleI)
  fix w b w' assume w: "J w" "path_present_no_follow E q w = (Inr b, w')"
  with path_present_result [OF w(2)] preserves_result [OF assms w] show "J w' \<and> (b \<longleftrightarrow> node_at w' q \<noteq> None)" by simp
qed (rule preserves_result [OF assms])

lemma preserves_triple: "triple J m (\<lambda>_. J) (\<lambda>_. J) \<Longrightarrow> preserves J m"
  unfolding preserves_def triple_def by (metis prod.collapse sum.exhaust)

lemma unharmed_restore_entry:
  assumes "original \<noteq> []" "place p inside = place p original"
  shows "preserves (unharmed C p w0) (restore_entry E describe (original, inside))"
proof -
  let ?J = "unharmed C p w0"
  have inspect: "triple ?J (try_io (path_present_no_follow E q))
      (\<lambda>r w. ?J w \<and> (\<forall>b. r = Inr b \<longrightarrow> (b \<longleftrightarrow> node_at w q \<noteq> None))) (\<lambda>_. ?J)" for q
    by (rule triple_try, rule triple_weaken [OF triple_present [OF unharmed_reads(1)]]) simp_all
  have restore: "triple (\<lambda>w. ?J w \<and> node_at w original = None)
      (bind_io (try_io (rename E inside original)) (\<lambda>r. ret (case r of
          Inl e \<Rightarrow> (Some (''could not restore '' @ show_path original @ '': '' @ io_message e), True)
        | Inr _ \<Rightarrow> (None, False)))) (\<lambda>_. ?J) (\<lambda>_. ?J)"
    using assms
    by (intro triple_bind [where S = "\<lambda>_. ?J"] triple_try triple_rename_place triple_ret) simp_all
  have "triple ?J (restore_entry E describe (original, inside)) (\<lambda>_. ?J) (\<lambda>_. ?J)"
    unfolding restore_entry_def Let_def prod.case
  proof (rule triple_bind [OF inspect], goal_cases)
    case (1 r)
    show ?case
    proof (cases r)
      case (Inl e)
      then show ?thesis by (simp add: triple_ret)
    next
      case (Inr present)
      have "triple ?J (bind_io (try_io (path_present_no_follow E original)) (\<lambda>r.
              case r of
                Inl e \<Rightarrow> ret (Some (''could not inspect '' @ show_path original @ '': '' @ describe e), present)
              | Inr original_present \<Rightarrow>
                  if \<not> present then
                    ret (if \<not> original_present then Some (''both rollback paths are missing for '' @ show_path original)
                         else None, False)
                  else if original_present then
                    ret (Some (show_path original @ '' was recreated during rollback''), True)
                  else bind_io (try_io (rename E inside original)) (\<lambda>r.
                    ret (case r of
                        Inl e \<Rightarrow> (Some (''could not restore '' @ show_path original @ '': '' @ io_message e), True)
                      | Inr _ \<Rightarrow> (None, False))))) (\<lambda>_. ?J) (\<lambda>_. ?J)"
      proof (rule triple_bind [OF inspect], goal_cases)
        case (1 r)
        then show ?case using triple_weaken [OF restore]
          by (cases r) (auto intro!: triple_ret)
      qed
      then show ?thesis unfolding Inr sum.case by (rule triple_weaken) simp_all
    qed
  qed
  then show ?thesis by (rule preserves_triple)
qed

lemma unharmed_restore_entries:
  assumes "\<forall>(original, inside) \<in> set entries. original \<noteq> [] \<and> place p inside = place p original"
  shows "preserves (unharmed C p w0) (restore_entries E describe entries)"
  using assms
proof (induction entries)
  case (Cons entry entries)
  obtain original inside where e: "entry = (original, inside)" by (cases entry)
  with Cons.prems have "preserves (unharmed C p w0) (restore_entry E describe entry)"
    by (auto intro: unharmed_restore_entry)
  with Cons show ?case by (auto intro!: preserves_intros)
qed (simp add: preserves_intros)

lemma unharmed_quarantine_rollback:
  "well_placed p q \<Longrightarrow> preserves (unharmed C p w0) (quarantine_rollback C q)"
  unfolding quarantine_rollback_def Let_def well_placed_def
  by (intro preserves_intros unharmed_restore_entries) auto

text \<open>Restoring keeps a subset of the entries.\<close>

lemma restore_entries_subset:
  "restore_entries E describe entries w = (Inr (failures, failed), w') \<Longrightarrow> set failed \<subseteq> set entries"
  by (induction entries arbitrary: w failures failed w')
    (fastforce simp: ret_eq bind_io_Inr split: prod.splits if_splits)+

lemma never_fails_Inl: "never_fails m \<Longrightarrow> m w \<noteq> (Inl x, w')"
  by (metis fst_conv is_ok_simps(1) never_fails_def)

lemma never_fails_restore: "never_fails (restore_entries E describe entries)"
proof -
  have "never_fails (restore_entry E describe entry)" for entry
    unfolding restore_entry_def Let_def
    by (cases entry) (auto intro!: never_fails_intros never_fails_if split: sum.split)
  then show ?thesis by (induction entries) (auto intro!: never_fails_intros split: prod.split)
qed

lemma never_fails_retain: "never_fails (retain_roots E roots)"
  by (induction roots) (auto intro!: never_fails_intros never_fails_if)

lemma quarantine_rollback_well_placed:
  assumes "well_placed p q"
  shows "quarantine_rollback C q w = (Inr q', w') \<Longrightarrow> well_placed p q'"
    and "quarantine_rollback C q w = (Inl (e, q'), w') \<Longrightarrow> well_placed p q'"
proof -
  have sub: "well_placed p (q\<lparr>quarantined_entries := rev failed, quarantine_roots := roots\<rparr>)"
    if "restore_entries E describe (rev (quarantined_entries q)) w = (Inr (failures, failed), w')"
    for E and describe :: "error \<Rightarrow> string" and w w' failures failed roots
    using restore_entries_subset [OF that] assms by (auto simp: well_placed_def)
  have never: "restore_entries E describe entries w \<noteq> (Inl x, w')"
    for E and describe :: "error \<Rightarrow> string" and entries w w' and x :: "error \<times> revoke_quarantine"
    by (rule never_fails_Inl [OF never_fails_restore])
  have never': "retain_roots E roots w \<noteq> (Inl x, w')" for E roots w w' and x :: "error \<times> revoke_quarantine"
    by (rule never_fails_Inl [OF never_fails_retain])
  show "quarantine_rollback C q w = (Inr q', w') \<Longrightarrow> well_placed p q'"
    using sub unfolding quarantine_rollback_def Let_def bind_io_Inr
    by (auto simp: ret_eq throw_eq bind_io_Inr split: if_splits)
  show "quarantine_rollback C q w = (Inl (e, q'), w') \<Longrightarrow> well_placed p q'"
    using sub never never' unfolding quarantine_rollback_def Let_def bind_io_Inl
    by (auto simp: ret_eq throw_eq bind_io_Inl split: if_splits)
qed

section \<open>The transaction up to its commit\<close>

definition still_unharmed :: "core \<Rightarrow> product \<Rightarrow> world \<Rightarrow> revoke_quarantine \<Rightarrow> world \<Rightarrow> bool" where
  "still_unharmed C p w0 q w \<longleftrightarrow> well_placed p q \<and> unharmed C p w0 w"

lemma triple_roll_back_and_fail:
  assumes "well_placed p q"
  shows "triple (unharmed C p w0) (roll_back_and_fail C q e) Q (\<lambda>(e, q). still_unharmed C p w0 q)"
proof (rule tripleI)
  note pr = preserves_result [OF unharmed_quarantine_rollback [OF assms]]
  fix w x w' assume w: "unharmed C p w0 w" "roll_back_and_fail C q e w = (Inl x, w')"
  then show "(case x of (e, q) \<Rightarrow> still_unharmed C p w0 q) w'"
    using pr [OF w(1)] quarantine_rollback_well_placed [OF assms]
    by (cases x) (auto simp: roll_back_and_fail_def bind_io_Inl throw_eq still_unharmed_def)
qed (auto simp: roll_back_and_fail_def bind_io_Inr throw_eq)

lemma triple_with_quarantine:
  assumes "triple J m Q (\<lambda>_. J)" "\<And>w. J w \<Longrightarrow> still_unharmed C p w0 q w"
  shows "triple J (with_quarantine q m) Q (\<lambda>(e, q). still_unharmed C p w0 q)"
  unfolding with_quarantine_def
  by (rule triple_map_err, rule triple_weaken [OF assms(1)]) (simp_all add: assms(2))

lemma triple_move_path:
  assumes "well_placed p q"
  shows "triple (unharmed C p w0) (move_path C q original)
    (\<lambda>(moved, q). still_unharmed C p w0 q) (\<lambda>(e, q). still_unharmed C p w0 q)"
proof -
  let ?J = "unharmed C p w0"
  let ?root = "butlast original @ [quarantine_name (quarantine_product q) (quarantine_identifier q)]"
  let ?inside = "?root @ [last original]"
  define q1 where "q1 = q\<lparr>quarantine_roots := insert_path ?root (quarantine_roots q)\<rparr>"
  have q1: "well_placed p q1" using assms by (simp add: well_placed_def q1_def)
  have present: "triple ?J (with_quarantine q' (path_present_no_follow (core_env C) x))
      (\<lambda>b w. ?J w \<and> (b \<longleftrightarrow> node_at w x \<noteq> None)) (\<lambda>(e, q). still_unharmed C p w0 q)"
    if "well_placed p q'" for q' x
    using that by (intro triple_with_quarantine triple_present preserves_intros) (simp add: still_unharmed_def)
  have dir: "triple ?J (with_quarantine q (ensure_private_dir (core_env C) ?root)) (\<lambda>_. ?J)
      (\<lambda>(e, q). still_unharmed C p w0 q)"
    using assms by (intro triple_with_quarantine triple_preserves preserves_intros) (simp add: still_unharmed_def)
  have same: "place p ?inside = place p original" if "original \<noteq> []"
  proof -
    have "place p [quarantine_name (quarantine_product q) i] = []" for i
      using assms quarantine_name_component by (simp add: place_def well_placed_def)
    moreover have "original = butlast original @ [last original]" using that by simp
    ultimately show ?thesis by (metis append_Nil2 place_append)
  qed
  have moved: "triple (\<lambda>w. ?J w \<and> node_at w ?inside = None)
      (bind_io (try_io (rename (core_env C) original ?inside)) (\<lambda>r.
        case r of
          Inl e \<Rightarrow> roll_back_and_fail C q1 (Io ''quarantine revoked path'' original e)
        | Inr _ \<Rightarrow> ret (True, q1\<lparr>quarantined_entries := quarantined_entries q1 @ [(original, ?inside)]\<rparr>)))
      (\<lambda>(moved, q). still_unharmed C p w0 q) (\<lambda>(e, q). still_unharmed C p w0 q)" if o: "original \<noteq> []"
  proof (rule triple_bind [where S = "\<lambda>_. ?J"])
    show "triple (\<lambda>w. ?J w \<and> node_at w ?inside = None) (try_io (rename (core_env C) original ?inside))
        (\<lambda>_. ?J) (\<lambda>(e, q). still_unharmed C p w0 q)"
      using same [OF o] by (intro triple_try triple_rename_place) simp_all
    have "still_unharmed C p w0 (q1\<lparr>quarantined_entries := quarantined_entries q1 @ [(original, ?inside)]\<rparr>) w"
      if "?J w" for w
      using that q1 same [OF o] o by (simp add: still_unharmed_def well_placed_def)
    then show "triple ?J (case r of
          Inl e \<Rightarrow> roll_back_and_fail C q1 (Io ''quarantine revoked path'' original e)
        | Inr _ \<Rightarrow> ret (True, q1\<lparr>quarantined_entries := quarantined_entries q1 @ [(original, ?inside)]\<rparr>))
      (\<lambda>(moved, q). still_unharmed C p w0 q) (\<lambda>(e, q). still_unharmed C p w0 q)" for r
      by (cases r) (simp_all add: triple_roll_back_and_fail q1 triple_ret)
  qed
  have into: "triple ?J
      (bind_io (with_quarantine q1 (path_present_no_follow (core_env C) ?inside)) (\<lambda>taken.
         if taken then roll_back_and_fail C q1 (Io ''quarantine revoked path'' ?inside
            (IoError AlreadyExists ''revoke quarantine destination already exists''))
         else bind_io (try_io (rename (core_env C) original ?inside)) (\<lambda>r.
           case r of
             Inl e \<Rightarrow> roll_back_and_fail C q1 (Io ''quarantine revoked path'' original e)
           | Inr _ \<Rightarrow> ret (True, q1\<lparr>quarantined_entries := quarantined_entries q1 @ [(original, ?inside)]\<rparr>))))
      (\<lambda>(moved, q). still_unharmed C p w0 q) (\<lambda>(e, q). still_unharmed C p w0 q)" if "original \<noteq> []"
  proof (rule triple_bind [OF present [OF q1]], goal_cases)
    case (1 taken)
    show ?case
    proof (cases taken)
      case True
      then show ?thesis unfolding if_P [OF True]
        by (intro triple_weaken [OF triple_roll_back_and_fail [OF q1, where Q = "\<lambda>(moved, q). still_unharmed C p w0 q"]]) simp_all
    next
      case False
      show ?thesis unfolding if_not_P [OF False]
        using False by (intro triple_weaken [OF moved [OF that]]) simp_all
    qed
  qed
  show ?thesis unfolding move_path_def Let_def q1_def [symmetric]
  proof (rule triple_bind [OF present [OF assms]], goal_cases)
    case (1 there)
    have "triple ?J (if \<not> there then ret (False, q)
        else if original = [] then throw (InvalidAppPath ''revoke path'' (raw_of original) ''path has no parent directory'', q)
        else then_io (with_quarantine q (ensure_private_dir (core_env C) ?root))
          (bind_io (with_quarantine q1 (path_present_no_follow (core_env C) ?inside)) (\<lambda>taken.
         if taken then roll_back_and_fail C q1 (Io ''quarantine revoked path'' ?inside
            (IoError AlreadyExists ''revoke quarantine destination already exists''))
         else bind_io (try_io (rename (core_env C) original ?inside)) (\<lambda>r.
           case r of
             Inl e \<Rightarrow> roll_back_and_fail C q1 (Io ''quarantine revoked path'' original e)
           | Inr _ \<Rightarrow> ret (True, q1\<lparr>quarantined_entries := quarantined_entries q1 @ [(original, ?inside)]\<rparr>)))))
      (\<lambda>(moved, q). still_unharmed C p w0 q) (\<lambda>(e, q). still_unharmed C p w0 q)"
      by (intro triple_if triple_ret triple_throw triple_then [OF dir] into) (simp_all add: still_unharmed_def assms)
    then show ?case by (rule triple_weaken) simp_all
  qed
qed

lemma triple_move_paths:
  "well_placed p q \<Longrightarrow> triple (unharmed C p w0) (move_paths C q paths)
     (\<lambda>(removed, q). still_unharmed C p w0 q) (\<lambda>(e, q). still_unharmed C p w0 q)"
proof (induction paths arbitrary: q)
  case Nil
  then show ?case by (simp add: triple_ret still_unharmed_def)
next
  case (Cons path paths)
  show ?case unfolding move_paths.simps
  proof (rule triple_bind [OF triple_move_path [OF Cons.prems]], goal_cases)
    case (1 r)
    obtain moved q1 where r: "r = (moved, q1)" by (cases r)
    have "triple (unharmed C p w0) (bind_io (move_paths C q1 paths)
        (\<lambda>(removed, q). ret (if moved then path # removed else removed, q)))
      (\<lambda>(removed, q). still_unharmed C p w0 q) (\<lambda>(e, q). still_unharmed C p w0 q)" if "well_placed p q1"
      by (rule triple_bind [OF Cons.IH [OF that]]) (auto intro!: triple_ret split: prod.split)
    then show ?case unfolding r prod.case still_unharmed_def [of C p w0 q1] by (rule triple_pre)
  qed
qed

lemma config_temporary_place:
  assumes "temporary_of (core_env C) (config_file (core_paths C)) q"
  shows "scratch C (place p q)"
proof -
  from assms obtain k r where q: "q = config_dir (core_paths C) @ [temporary_name ''config.json'' (uuid (core_env C) k)] @ r"
    by (auto simp: temporary_of_def starts_with_iff config_file_def)
  let ?n = "temporary_name ''config.json'' (uuid (core_env C) k)"
  have "\<not> quarantine_component p ?n"
    by (auto simp: quarantine_component_def quarantine_prefix_def temporary_name_def starts_with_iff)
  then have "?n \<in> set (place p q)" by (simp add: q place_def)
  moreover have "contains_text ?n (uuid (core_env C) k)"
    using contains_end [of "''.config.json.tmp-''" "uuid (core_env C) k"] by (simp add: temporary_name_def)
  ultimately show ?thesis by (auto simp: scratch_def mentions_uuid_def)
qed

lemma failure_remove_config: "failure_frame contents_at nowhere (remove_config_file_for_product_commit E p)"
proof -
  have rm: "node_at w' = node_at w" if "remove_file E p w = (Inl e, w')" for w e w'
    using that by (auto simp: remove_file_def syscall_def split: option.splits node.splits prod.splits)
  have tail: "failure_frame contents_at nowhere (bind_io (try_io (remove_file E p)) (\<lambda>r.
      case r of Inr _ \<Rightarrow> ret True
      | Inl e \<Rightarrow> if io_kind e = NotFound then ret False else throw (Io ''remove final product config'' p e)))"
    unfolding failure_frame_def bind_try
  proof (intro allI impI, elim exE conjE)
    fix w e w' q y w1
    assume "remove_file E p w = (y, w1)" and "(case y of Inr _ \<Rightarrow> ret True
      | Inl e \<Rightarrow> if io_kind e = NotFound then ret False else throw (Io ''remove final product config'' p e)) w1 = (Inl e, w')"
    then show "contents_at w' q = contents_at w q"
      using rm by (cases y) (auto simp: ret_eq throw_eq contents_at_def split: if_splits)
  qed
  then show ?thesis unfolding remove_config_file_for_product_commit_def
    by (intro failure_frame_then frame_intros)
qed

lemma unharmed_failure:
  assumes "failure_frame contents_at S m" "\<And>q. S q \<Longrightarrow> scratch C (place p q)" "preserves rooted m"
  shows "triple (unharmed C p w0) m (\<lambda>_ _. True) (\<lambda>_. unharmed C p w0)"
proof (rule tripleI)
  fix w e w' assume w: "unharmed C p w0 w" "m w = (Inl e, w')"
  have "survives C p w0 w'"
  proof (rule survives_change [where S = S and w = w])
    show "contents_at w' q = contents_at w q" if "\<not> S q" for q
      using failure_frameD [OF assms(1) w(2) that] .
    show "survives C p w0 w" using w(1) by (simp add: unharmed_def)
  qed (rule assms(2))
  then show "unharmed C p w0 w'"
    using w(1) preserves_result [OF assms(3) _ w(2)] by (simp add: unharmed_def)
qed simp

lemma triple_try_cases:
  assumes "triple P m S T" "\<And>e. triple (T e) (f (Inl e)) Q R" "\<And>x. triple (S x) (f (Inr x)) Q R"
  shows "triple P (bind_io (try_io m) f) Q R"
proof (rule triple_bind [where S = "\<lambda>r. case r of Inl e \<Rightarrow> T e | Inr x \<Rightarrow> S x"])
  show "triple P (try_io m) (\<lambda>r. case r of Inl e \<Rightarrow> T e | Inr x \<Rightarrow> S x) R"
    using assms(1) by (intro triple_try) simp
  show "triple (case r of Inl e \<Rightarrow> T e | Inr x \<Rightarrow> S x) (f r) Q R" for r
    using assms(2,3) by (cases r) simp_all
qed

lemma triple_commit_config:
  assumes "well_placed p q"
  shows "triple (unharmed C p w0) (commit_config C q commit) (\<lambda>_ _. True) (\<lambda>(e, q). still_unharmed C p w0 q)"
proof (cases commit)
  case NoCommit
  then show ?thesis by (simp add: commit_config_def triple_ret)
next
  case (ReplaceConfig bytes)
  have w: "triple (unharmed C p w0) (atomic_write_private (core_env C) (config_file (core_paths C)) bytes)
      (\<lambda>_ _. True) (\<lambda>_. unharmed C p w0)"
    by (rule unharmed_failure [OF failure_frame_atomic_write config_temporary_place preserves_atomic_write])
      (simp_all add: config_file_nonempty)
  show ?thesis unfolding ReplaceConfig commit_config_def Let_def config_commit.case
    by (rule triple_try_cases [OF w]) (simp_all add: triple_roll_back_and_fail assms triple_ret)
next
  case RemoveLast
  have w: "triple (unharmed C p w0) (remove_config_file_for_product_commit (core_env C) (config_file (core_paths C)))
      (\<lambda>_ _. True) (\<lambda>_. unharmed C p w0)"
    by (rule unharmed_failure [OF failure_remove_config _ preserves_fs_util(4)]) (simp add: nowhere_def)
  show ?thesis unfolding RemoveLast commit_config_def Let_def config_commit.case
    by (rule triple_try_cases [OF w]) (simp_all add: triple_roll_back_and_fail assms triple_ret)
qed

lemma triple_quarantine_and_commit:
  "triple (unharmed C p w0) (quarantine_and_commit C p i paths commit) (\<lambda>_ _. True) (\<lambda>(e, q). still_unharmed C p w0 q)"
  unfolding quarantine_and_commit_def
proof (rule triple_bind [OF triple_move_paths], goal_cases)
  case 1
  show ?case by (simp add: well_placed_def)
next
  case (2 r)
  obtain removed q where r: "r = (removed, q)" by (cases r)
  have "triple (unharmed C p w0) (bind_io (commit_config C q commit)
      (\<lambda>removed_config. ret (removed, removed_config, q))) (\<lambda>_ _. True) (\<lambda>(e, q). still_unharmed C p w0 q)"
    if "well_placed p q"
    by (rule triple_bind [OF triple_commit_config [OF that]]) (simp add: triple_ret)
  then show ?case unfolding r prod.case still_unharmed_def [of C p w0 q] by (rule triple_pre)
qed

lemma triple_drop_on_error:
  assumes "triple P m Q (\<lambda>(e, q). still_unharmed C p w0 q)"
  shows "triple P (drop_on_error C m) Q (\<lambda>_. unharmed C p w0)"
proof (rule tripleI)
  fix w e w'' assume w: "P w" "drop_on_error C m w = (Inl e, w'')"
  then obtain q w' where m: "m w = (Inl (e, q), w')" and w'': "w'' = snd (quarantine_rollback C q w')"
    by (auto simp: drop_on_error_def split: prod.splits sum.splits)
  from triple_Inl [OF assms w(1) m] have "well_placed p q" "unharmed C p w0 w'"
    by (simp_all add: still_unharmed_def)
  then show "unharmed C p w0 w''" unfolding w'' by (rule preservesD [OF unharmed_quarantine_rollback])
next
  fix w x w' assume w: "P w" "drop_on_error C m w = (Inr x, w')"
  then have "m w = (Inr x, w')" by (auto simp: drop_on_error_def split: prod.splits sum.splits)
  from triple_Inr [OF assms w(1) this] show "Q x w'" .
qed

section \<open>A revocation that fails\<close>

text \<open>Before the first move every file is where it was.\<close>

definition untouched :: "core \<Rightarrow> product \<Rightarrow> world \<Rightarrow> world \<Rightarrow> bool" where
  "untouched C p w0 w \<longleftrightarrow> rooted w \<and> as_before (\<lambda>q. scratch C q \<or> quarantined p q) w0 w"

lemma untouched_unharmed: "untouched C p w0 w \<Longrightarrow> unharmed C p w0 w"
  by (simp add: untouched_def unharmed_def survives_as_before)

lemma untouched_keeps:
  assumes "keeps (\<lambda>q. scratch C q \<or> quarantined p q) m" "preserves rooted m"
  shows "preserves (untouched C p w0) m"
  unfolding preserves_def untouched_def
proof (intro allI impI conjI; elim conjE)
  fix w assume "rooted w" then show "rooted (snd (m w))" by (rule preservesD [OF assms(2)])
next
  fix w assume "as_before (\<lambda>q. scratch C q \<or> quarantined p q) w0 w"
  with frameD [OF assms(1), of _ w] show "as_before (\<lambda>q. scratch C q \<or> quarantined p q) w0 (snd (m w))"
    by (simp add: same_outside_def)
qed

lemma untouched_reading: "touches nowhere m \<Longrightarrow> preserves (untouched C p w0) m"
  by (rule untouched_keeps [OF keeps_touches [OF frame_nowhere] preserves_reading])

lemma touches_acquire_existing_path [frame_intros]: "touches S (try_acquire_existing_path E P q)"
proof -
  have "touches S (open_nofollow E False q)" unfolding open_nofollow_def
    by (rule touches_syscall) (simp split: option.split node.split)
  then show ?thesis unfolding try_acquire_existing_path_def
    by (intro frame_intros; assumption?)
qed

lemma touches_drop_leases [frame_intros]: "touches S (drop_leases ls)"
  unfolding drop_leases_def drop_exclusive_lease_def by (intro frame_intros)

lemma frame_lease_probe [frame_intros]:
  "(\<And>l. r = LeaseAcquired l \<Longrightarrow> frame V S (f l)) \<Longrightarrow> frame V S m \<Longrightarrow> frame V S b \<Longrightarrow>
     frame V S (case r of LeaseAcquired l \<Rightarrow> f l | LeaseMissing \<Rightarrow> m | LeaseBusy \<Rightarrow> b)"
  by (cases r) auto

lemma touches_acquire_product_leases [frame_intros]: "touches S (acquire_product_leases C p gs ls)"
  by (induction gs arbitrary: ls) (simp_all add: try_acquire_existing_def, (intro frame_intros; assumption)+)

lemma touches_list_managed [frame_intros]: "touches S (list_managed_directory E root d operation)"
  unfolding list_managed_directory_def by (intro frame_intros)

lemma touches_collect [frame_intros]: "(\<And>x. touches S (f x)) \<Longrightarrow> touches S (collect_io f xs)"
  by (induction xs) (auto intro: frame_intros)

lemma touches_owned: "touches S (list_owned C owned operation dir)"
  unfolding list_owned_def by (intro frame_bind frame_ret touches_list_managed)

lemma touches_discover [frame_intros]: "touches S (discover_product_resources C p selected remaining)"
proof -
  have parents: "touches S (check_parents E ps)" for E ps
    unfolding check_parents_def
    by (intro frame_iter frame_case_prod touches_ensure_no_managed_symlinks)
  show ?thesis unfolding discover_product_resources_def Let_def
    by (intro frame_bind frame_then frame_ret touches_collect touches_list_managed parents
        touches_owned)
qed

lemma untouched_remove_previous:
  "\<forall>x \<in> set paths. quarantined p x \<Longrightarrow> preserves (untouched C p w0) (remove_previous E paths)"
proof (induction paths)
  case Nil
  show ?case by (simp add: preserves_intros)
next
  case (Cons path paths)
  then have "preserves (untouched C p w0) (remove_dir_if_exists E path)"
    by (intro untouched_keeps keeps_touches touches_remove_dir_if_exists preserves_intros)
      (simp add: quarantined_def)
  with Cons show ?case by (auto intro!: preserves_intros)
qed

lemma collect_io_all:
  assumes "collect_io f xs w = (Inr ys, w')" "\<And>x w zs w'. f x w = (Inr zs, w') \<Longrightarrow> list_all P zs"
  shows "list_all P ys"
  using assms(1)
  by (induction xs arbitrary: w ys w') (auto simp: ret_eq bind_io_Inr dest!: assms(2))

lemma generated_quarantine_path:
  assumes "utf8_file_name x = Some n" "generated_revoke_quarantine_name p n"
  shows "quarantined p x"
proof -
  have "n \<in> set x" using assms(1) by (auto simp: utf8_file_name_def file_name_def split: if_splits option.splits)
  with previous_quarantine_component [OF assms(2)] show ?thesis by (auto simp: quarantined_def list_ex_iff)
qed

lemma discovered_quarantines:
  assumes "discover_product_resources C p selected remaining w = (Inr resources, w')"
  shows "\<forall>x \<in> set (previous_quarantines resources). quarantined p x"
proof -
  let ?collect = "collect_io (\<lambda>dir. bind_io (list_managed_directory (core_env C) (fst dir) (snd dir) ''list revoke quarantine'')
      (\<lambda>paths. ret (filter (\<lambda>x. case utf8_file_name x of None \<Rightarrow> False
                       | Some n \<Rightarrow> generated_revoke_quarantine_name p n) paths)) :: (error, path list) io)"
  have all: "list_all (quarantined p) ys" if "?collect dirs w = (Inr ys, w')" for dirs ys w w'
    using that by (rule collect_io_all)
      (auto simp: bind_io_Inr ret_eq list_all_iff generated_quarantine_path split: option.splits)
  from assms obtain quarantines dirs w1 w2 where "?collect dirs w1 = (Inr quarantines, w2)"
    and "previous_quarantines resources = sort (remdups quarantines)"
    unfolding discover_product_resources_def Let_def
    by (simp only: bind_io_Inr then_io_def ret_eq, elim exE conjE) (rule that, assumption, simp)
  with all show ?thesis by (simp add: list_all_iff)
qed

lemma triple_then_anything:
  assumes "triple P m (\<lambda>_. S) R" "\<And>x. never_fails (f x)"
  shows "triple P (bind_io m f) (\<lambda>_ _. True) R"
proof (rule tripleI)
  fix w e w'' assume w: "P w" "bind_io m f w = (Inl e, w'')"
  with never_fails_Inl [OF assms(2)] have "m w = (Inl e, w'')" by (auto simp: bind_io_Inl)
  from triple_Inl [OF assms(1) w(1) this] show "R e w''" .
qed simp

lemma never_fails_committed:
  "never_fails (commit_and_purge_best_effort C q)" "never_fails (release_leases E ls)"
  "never_fails (prune_empty_shared_dirs_best_effort C)"
proof -
  show "never_fails (commit_and_purge_best_effort C q)"
    unfolding commit_and_purge_best_effort_def by (intro never_fails_iter never_fails_intros)
  show "never_fails (release_leases E ls)" by (induction ls) (auto intro!: never_fails_intros)
  have r: "never_fails (remove_regular_file_best_effort E p)" "never_fails (remove_empty_real_directory_best_effort E p)" for E p
    unfolding remove_regular_file_best_effort_def remove_empty_real_directory_best_effort_def
    by (auto intro!: never_fails_intros never_fails_if split: sum.split)
  have d: "never_fails (remove_empty_dirs E ps)" for E ps
    by (induction ps) (auto intro!: never_fails_intros r)
  show "never_fails (prune_empty_shared_dirs_best_effort C)"
    unfolding prune_empty_shared_dirs_best_effort_def Let_def by (intro never_fails_intros never_fails_if d r)
qed

lemma unharmed_reading: "touches nowhere m \<Longrightarrow> preserves (unharmed C p w0) m"
  by (rule unharmed_keeps [OF keeps_touches preserves_reading])

lemma triple_untouched:
  "preserves (untouched C p w0) m \<Longrightarrow> triple (untouched C p w0) m (\<lambda>_. untouched C p w0) (\<lambda>_. unharmed C p w0)"
  by (auto simp: triple_def dest: preserves_result intro: untouched_unharmed)

lemma triple_move_and_commit:
  "triple (untouched C p w0) (bind_io (new_uuid (core_env C)) (\<lambda>i.
      bind_io (drop_on_error C (quarantine_and_commit C p i paths commit)) (\<lambda>(removed, removed_config, q).
        ret (previous @ removed @ (if removed_config then [config_file (core_paths C)] else []), q))))
    (\<lambda>_ _. True) (\<lambda>_. unharmed C p w0)"
proof (rule triple_bind)
  show "triple (untouched C p w0) (new_uuid (core_env C)) (\<lambda>_. unharmed C p w0) (\<lambda>_. unharmed C p w0)"
    by (rule triple_weaken [OF triple_untouched [OF untouched_reading [OF touches_reads(6)]]])
      (simp_all add: untouched_unharmed)
  show "triple (unharmed C p w0) (bind_io (drop_on_error C (quarantine_and_commit C p i paths commit))
      (\<lambda>(removed, removed_config, q).
        ret (previous @ removed @ (if removed_config then [config_file (core_paths C)] else []), q)))
    (\<lambda>_ _. True) (\<lambda>_. unharmed C p w0)" for i
    by (rule triple_bind [OF triple_drop_on_error [OF triple_quarantine_and_commit]])
      (auto intro: triple_ret)
qed

lemma triple_revoke_resources:
  assumes "\<forall>x \<in> set (previous_quarantines resources). quarantined p x"
  shows "triple (untouched C p w0) (revoke_resources C p resources commit) (\<lambda>_ _. True) (\<lambda>_. unharmed C p w0)"
proof -
  let ?I = "untouched C p w0" and ?J = "unharmed C p w0"
  have previous: "triple ?I (bind_io (remove_previous (core_env C) (previous_quarantines resources)) (\<lambda>previous.
      bind_io (new_uuid (core_env C)) (\<lambda>i.
        bind_io (drop_on_error C (quarantine_and_commit C p i (removal_paths resources) commit)) (\<lambda>(removed, removed_config, q).
          ret (previous @ removed @ (if removed_config then [config_file (core_paths C)] else []), q)))))
      (\<lambda>_ _. True) (\<lambda>_. ?J)"
    by (rule triple_bind [OF triple_untouched [OF untouched_remove_previous [OF assms]] triple_move_and_commit])
  have drop: "triple ?J (drop_leases ls) (\<lambda>_. ?J) (\<lambda>_. ?J)" for ls
    by (intro triple_preserves unharmed_reading touches_drop_leases)
  show ?thesis unfolding revoke_resources_def Let_def
  proof (rule triple_bind [OF triple_untouched [OF untouched_reading [OF touches_acquire_product_leases]]],
      rule triple_then_anything [OF triple_on_error [OF previous drop]], goal_cases)
    case (1 leases x)
    show ?case by (cases x) (auto intro!: never_fails_intros never_fails_committed)
  qed
qed

lemma triple_revoke_locked:
  "triple (untouched C p w0) (revoke_product_locked C p) (\<lambda>_ _. True) (\<lambda>_. unharmed C p w0)"
proof -
  let ?I = "untouched C p w0" and ?J = "unharmed C p w0"
  have discover: "triple ?I (discover_product_resources C p selected remaining)
      (\<lambda>resources w. (\<forall>x \<in> set (previous_quarantines resources). quarantined p x) \<and> ?I w) (\<lambda>_. ?J)"
    for selected remaining
  proof (rule tripleI)
    note pr = preserves_result [OF untouched_reading [OF touches_discover]]
    show "?J w'" if "?I w" "discover_product_resources C p selected remaining w = (Inl e, w')" for w e w'
      using pr [OF that] by (rule untouched_unharmed)
    show "(\<forall>x \<in> set (previous_quarantines resources). quarantined p x) \<and> ?I w'"
      if "?I w" "discover_product_resources C p selected remaining w = (Inr resources, w')" for w resources w'
      using pr [OF that] discovered_quarantines [OF that(2)] by simp
  qed
  have diagnose: "triple ?I (case config of None \<Rightarrow> ret (map unconfigured_product_status all_products)
      | Some c \<Rightarrow> diagnose_configured_products C c) (\<lambda>_. ?I) (\<lambda>_. ?J)" for config
    by (intro triple_untouched untouched_reading frame_intros)
  show ?thesis unfolding revoke_product_locked_def Let_def
  proof (rule triple_bind [OF triple_untouched [OF untouched_reading [OF touches_load_config(1)]]],
      rule triple_bind [OF diagnose], goal_cases)
    case (1 config diagnosed)
    obtain commit remaining where rc: "revoke_commit C p config = (commit, remaining)" by fastforce
    show ?case unfolding rc prod.case
    proof (rule triple_bind [OF discover], goal_cases)
      case (1 resources)
      show ?case
        by (rule triple_pre, rule triple_bind [OF triple_revoke_resources], assumption) (simp add: triple_ret)
    qed
  qed
qed

lemma triple_with_transaction_lock:
  assumes "triple (untouched C p w0) body (\<lambda>_ _. True) (\<lambda>_. unharmed C p w0)"
  shows "triple (untouched C p w0) (with_transaction_lock C body) (\<lambda>_ _. True) (\<lambda>_. unharmed C p w0)"
  unfolding with_transaction_lock_def
proof (rule triple_bind)
  have "keeps (\<lambda>q. scratch C q \<or> quarantined p q) (acquire_transaction_lock C)"
    by (rule frame_mono [OF keeps_acquire_lock]) simp
  then show "triple (untouched C p w0) (acquire_transaction_lock C) (\<lambda>_. untouched C p w0) (\<lambda>_. unharmed C p w0)"
    by (intro triple_untouched untouched_keeps preserves_intros)
  let ?drop = "drop_transaction_lock :: transaction_lock \<Rightarrow> (error, unit) io"
  have d: "preserves (unharmed C p w0) (?drop l)" for l
    unfolding drop_transaction_lock_def by (intro unharmed_reading frame_intros)
  show "triple (untouched C p w0) (finally_io body (?drop l)) (\<lambda>_ _. True) (\<lambda>_. unharmed C p w0)" for l
  proof (rule tripleI)
    fix w e w'' assume w: "untouched C p w0 w" "finally_io body (?drop l) w = (Inl e, w'')"
    then obtain w' where w': "body w = (Inl e, w')" "w'' = snd (?drop l w')" by (auto simp: finally_io_eq)
    from triple_Inl [OF assms w(1) w'(1)] show "unharmed C p w0 w''" unfolding w'(2) by (rule preservesD [OF d])
  qed simp
qed

lemma untouched_refl: "rooted w \<Longrightarrow> untouched C p w w"
  by (simp add: untouched_def)


end
