(* ===== verification/Revocation_Full.thy ===== *)
theory Revocation_Full
  imports Revocation_Safety
begin

text \<open>
  A full revocation that succeeds: nothing is left at or below the three roots, and no file outside
  of them has changed.
\<close>

section \<open>Removals only remove\<close>

abbreviation absent :: "path \<Rightarrow> world \<Rightarrow> bool" where
  "absent p w \<equiv> node_at w p = None"

lemma absent_reading: "touches nowhere m \<Longrightarrow> preserves (absent p) m"
  by (rule preservesI) (simp add: frameD nowhere_def)

lemma absent_removals [preserves_intros]:
  "preserves (absent q) (remove_file E p)" "preserves (absent q) (remove_dir E p)"
proof -
  have sys: "preserves (absent q) (syscall E act)" if "\<And>w. absent q w \<Longrightarrow> absent q (snd (act w))"
    for act :: "world \<Rightarrow> (io_error, unit) result \<times> world"
    using that by (auto simp: preserves_def syscall_def split: option.split prod.split)
  show "preserves (absent q) (remove_file E p)" "preserves (absent q) (remove_dir E p)"
    unfolding remove_file_def remove_dir_def by (rule sys; simp split: option.split node.split)+
qed

lemma absent_metadata [preserves_intros]: "preserves (absent q) (symlink_metadata E p)"
  by (rule absent_reading) (rule touches_reads)

lemma absent_unlink [preserves_intros]: "preserves (absent q) (unlink_entry E p)"
  unfolding unlink_entry_def by (intro preserves_intros)

lemma absent_remove_dir_all [preserves_intros]: "preserves (absent q) (remove_dir_all E p)"
  unfolding remove_dir_all_def by (intro preserves_intros)

lemma absent_remove_if_exists [preserves_intros]: "preserves (absent q) (remove_dir_if_exists E p)"
  unfolding remove_dir_if_exists_def Let_def by (intro preserves_intros)

lemma removal_Inr:
  "remove_file E p w = (Inr u, w') \<Longrightarrow> absent p w'" "remove_dir E p w = (Inr u, w') \<Longrightarrow> absent p w'"
  by (auto simp: remove_file_def remove_dir_def syscall_def split: option.splits node.splits prod.splits if_splits)

lemma unlink_entry_Inr: "unlink_entry E p w = (Inr u, w') \<Longrightarrow> absent p w'"
  by (auto simp: unlink_entry_def bind_io_Inr split: if_splits dest: removal_Inr)

lemma unlink_all_Inr:
  assumes "iter_io (unlink_entry E) ps w = (Inr u, w')" "q \<in> set ps"
  shows "absent q w'"
  using assms
proof (induction ps arbitrary: w)
  case (Cons p ps)
  then obtain w1 where 1: "unlink_entry E p w = (Inr (), w1)" and r: "iter_io (unlink_entry E) ps w1 = (Inr u, w')"
    by (auto simp: io_eqs)
  show ?case
  proof (cases "q \<in> set ps")
    case True
    with Cons.IH [OF r] show ?thesis .
  next
    case False
    with Cons.prems(2) unlink_entry_Inr [OF 1] have "absent q w1" by simp
    from preserves_result [OF preserves_iter [OF absent_unlink] this r] show ?thesis .
  qed
qed simp

lemma remove_dir_all_Inr:
  assumes "remove_dir_all E p w = (Inr u, w')"
  shows "absent p w'"
proof -
  from assms obtain n w1 where m: "symlink_metadata E p w = (Inr n, w1)"
    and r: "(if is_dir_node n then bind_io get_world (\<lambda>w. iter_io (unlink_entry E) (tree_entries w p))
          else if is_symlink_node n then remove_file E p else throw (os_error NotADirectory)) w1 = (Inr u, w')"
    by (auto simp: remove_dir_all_def bind_io_Inr)
  from symlink_metadata_result [OF m] have "node_at w1 p \<noteq> None" by simp
  then have "p \<in> set (tree_entries w1 p)"
    by (force simp: tree_entries_def node_at_def starts_with_iff dest: map_of_SomeD)
  with r show ?thesis
    by (auto simp: bind_io_Inr get_world_def throw_eq split: if_splits dest: unlink_all_Inr removal_Inr)
qed

lemma remove_if_exists_Inr:
  assumes "remove_dir_if_exists E p w = (Inr b, w')"
  shows "absent p w'"
proof -
  from assms obtain r w1 where m: "symlink_metadata E p w = (r, w1)"
    and k: "(case r of
       Inr n \<Rightarrow> then_io (case removal_kind_of (is_symlink_or_reparse n) (is_dir_node n) of
                FileOrFileLink \<Rightarrow> map_err (Io ''remove path'' p) (remove_file E p)
              | DirectoryLink \<Rightarrow> map_err (Io ''remove directory link'' p) (remove_dir E p)
              | DirectoryTree \<Rightarrow> map_err (Io ''remove directory'' p) (remove_dir_all E p)) (ret True)
     | Inl e \<Rightarrow> if io_kind e = NotFound then ret False else throw (Io ''inspect path'' p e)) w1 = (Inr b, w')"
    unfolding remove_dir_if_exists_def Let_def bind_try by blast
  show ?thesis
  proof (cases r)
    case (Inl e)
    with k symlink_metadata_result [OF m] show ?thesis by (auto simp: ret_eq throw_eq split: if_splits)
  next
    case (Inr n)
    with k show ?thesis
      by (cases "removal_kind_of (is_symlink_or_reparse n) (is_dir_node n)")
        (auto simp: io_eqs dest: removal_Inr remove_dir_all_Inr)
  qed
qed

lemma triple_remove_if_exists:
  "triple (\<lambda>w. \<forall>q \<in> set qs. absent q w) (remove_dir_if_exists E p) (\<lambda>_ w. \<forall>q \<in> set (p # qs). absent q w) R'"
  if "\<And>e w. R' e w"
proof (rule tripleI)
  fix w b w' assume w: "\<forall>q \<in> set qs. absent q w" "remove_dir_if_exists E p w = (Inr b, w')"
  then show "\<forall>q \<in> set (p # qs). absent q w'"
    using remove_if_exists_Inr [OF w(2)] preserves_result [OF absent_remove_if_exists _ w(2)] by auto
qed (rule that)

section \<open>The three roots\<close>

definition under_roots :: "app_paths \<Rightarrow> path \<Rightarrow> bool" where
  "under_roots P q \<longleftrightarrow> starts_with q (config_dir P) \<or> starts_with q (data_dir P) \<or> starts_with q (state_dir P)"

lemma touches_acquire_all [frame_intros]: "touches S (acquire_all_existing_generation_leases C config)"
proof -
  have d: "touches S (lease_dirs_real E ps)" for E ps
    by (induction ps) (simp_all, (intro frame_intros; assumption)+)
  have l: "touches S (acquire_listed_leases C config ps ls)" for ps ls
    by (induction ps arbitrary: ls) (simp_all, (intro frame_intros; assumption)+)
  show ?thesis unfolding acquire_all_existing_generation_leases_def Let_def by (intro frame_intros d l)
qed

lemma touches_remove_root: "(\<And>r. S (p @ r)) \<Longrightarrow> touches S (remove_previous E [p, q])"
  if "\<And>r. S (q @ r)"
  using that by (auto intro!: frame_intros touches_remove_dir_if_exists)

lemma keeps_remove_all_roots: "keeps (under_roots (core_paths C)) (remove_all_roots C)"
proof -
  have u: "under_roots P (config_dir P @ r)" "under_roots P (data_dir P @ r)" "under_roots P (state_dir P @ r)" for P r
    by (auto simp: under_roots_def starts_with_iff)
  show ?thesis unfolding remove_all_roots_def Let_def
    by (intro frame_intros keeps_touches [OF touches_remove_root] keeps_touches [OF touches_drop_leases]
        keeps_touches [OF touches_acquire_all] keeps_touches [OF touches_remove_dir_if_exists] u)
qed

lemma remove_all_roots_absent:
  assumes "remove_all_roots C w = (Inr r, w')"
  shows "absent (config_dir (core_paths C)) w' \<and> absent (data_dir (core_paths C)) w' \<and> absent (state_dir (core_paths C)) w'"
proof -
  let ?P = "core_paths C"
  from assms obtain removed b w1 w2 w3 leases d where
    1: "remove_previous (core_env C) [config_dir ?P, data_dir ?P] w1 = (Inr removed, w2)" and
    2: "drop_leases leases w2 = (Inr d :: (error, unit) result, w3)" and
    3: "remove_dir_if_exists (core_env C) (state_dir ?P) w3 = (Inr b, w')"
    unfolding remove_all_roots_def Let_def then_io_def bind_io_Inr on_error_Inr try_io_eq ret_eq by blast
  from 1 obtain b1 b2 u where "remove_dir_if_exists (core_env C) (config_dir ?P) w1 = (Inr b1, u)"
    "remove_dir_if_exists (core_env C) (data_dir ?P) u = (Inr b2, w2)"
    by (auto simp: bind_io_Inr ret_eq)
  then have "absent (config_dir ?P) w2" "absent (data_dir ?P) w2"
    by (auto dest: remove_if_exists_Inr preserves_result [OF absent_remove_if_exists])
  with preserves_result [OF absent_reading [OF touches_drop_leases] _ 2]
  have "absent (config_dir ?P) w3" "absent (data_dir ?P) w3" by blast+
  with 3 show ?thesis by (auto dest: remove_if_exists_Inr preserves_result [OF absent_remove_if_exists])
qed

lemma with_transaction_lock_Inr:
  assumes "with_transaction_lock C body w = (Inr r, w')"
  shows "\<exists>w1 w2. body w1 = (Inr r, w2) \<and> node_at w' = node_at w2"
proof -
  let ?drop = "drop_transaction_lock :: transaction_lock \<Rightarrow> (error, unit) io"
  from assms obtain l w1 w2 where "acquire_transaction_lock C w = (Inr l, w1)"
    "body w1 = (Inr r, w2)" "w' = snd (?drop l w2)"
    by (auto simp: with_transaction_lock_def bind_io_Inr finally_io_eq)
  moreover have "touches nowhere (?drop l)" unfolding drop_transaction_lock_def by (intro frame_intros)
  ultimately show ?thesis using frameD [of node_at nowhere "?drop l" _ w2]
    by (intro exI [of _ w1] exI [of _ w2]) (simp add: nowhere_def fun_eq_iff)
qed

lemma rooted_remove_all_roots: "preserves rooted (remove_all_roots C)"
proof -
  have d: "preserves rooted (drop_leases ls)" for ls by (intro preserves_reading frame_intros)
  have a: "preserves rooted (acquire_all_existing_generation_leases C c)" for c by (intro preserves_reading frame_intros)
  have l: "preserves rooted (load_config_optional_strict C)" by (intro preserves_reading frame_intros)
  show ?thesis unfolding remove_all_roots_def Let_def
    by (simp, intro preserves_intros d a l)
qed

lemma rooted_with_lock: "preserves rooted body \<Longrightarrow> preserves rooted (with_transaction_lock C body)"
  unfolding with_transaction_lock_def by (intro preserves_intros)

lemma keeps_with_lock:
  "keeps S body \<Longrightarrow> (\<And>r. S (state_dir (core_paths C) @ r)) \<Longrightarrow> keeps S (with_transaction_lock C body)"
  unfolding with_transaction_lock_def
  by (intro frame_intros keeps_acquire) (simp_all add: transaction_lock_file_def)

text \<open>
  C4: A full revocation that succeeds leaves nothing at or below the configuration, data and state
  directories, the transaction lock included, and changes no regular file outside of them.
\<close>

theorem full_revoke_removes_everything:
  assumes "revoke C RevokeAll w = (Inr r, w')" and "tree_closed w" and "wf_paths (core_paths C)"
  shows "if under_roots (core_paths C) q then node_at w' q = None else contents_at w' q = contents_at w q"
proof -
  let ?P = "core_paths C"
  have roots: "config_dir ?P \<noteq> []" "data_dir ?P \<noteq> []" "state_dir ?P \<noteq> []"
    using assms(3) by (auto simp: wf_paths_def)
  have k: "keeps (under_roots ?P) (revoke_all C)"
    unfolding revoke_all_def Let_def
    by (intro frame_intros keeps_with_lock keeps_remove_all_roots) (auto simp: under_roots_def starts_with_iff)
  have closed: "rooted w'"
  proof -
    have "preserves rooted (revoke_all C)" unfolding revoke_all_def Let_def
      by (intro preserves_intros rooted_with_lock rooted_remove_all_roots)
    with assms(1,2) show ?thesis by (auto intro: preserves_result rooted_tree_closed)
  qed
  have "absent (config_dir ?P) w' \<and> absent (data_dir ?P) w' \<and> absent (state_dir ?P) w'"
  proof -
    from assms(1) obtain a b c w1 w2 w3 where
      1: "path_present_no_follow (core_env C) (config_dir ?P) w = (Inr a, w1)" and
      2: "(if a then ret True else path_present_no_follow (core_env C) (data_dir ?P)) w1 = (Inr b, w2)" and
      3: "(if b then ret True else path_present_no_follow (core_env C) (state_dir ?P)) w2 = (Inr c, w3)" and
      4: "(if \<not> c then ret \<lparr>report_target = RevokeAll, removed_paths = [], report_status = uninitialized_status\<rparr>
           else with_transaction_lock C (remove_all_roots C)) w3 = (Inr r, w')"
      unfolding revoke.simps revoke_all_def Let_def bind_io_Inr by blast
    show ?thesis
    proof (cases c)
      case True
      with 4 obtain v1 v2 where "remove_all_roots C v1 = (Inr r, v2)" "node_at w' = node_at v2"
        using with_transaction_lock_Inr [of C "remove_all_roots C" w3 r w'] by auto
      with remove_all_roots_absent show ?thesis by metis
    next
      case False
      with 4 have w3: "w' = w3" by (simp add: ret_eq)
      from False 3 have nb: "\<not> b" "path_present_no_follow (core_env C) (state_dir ?P) w2 = (Inr False, w3)"
        by (auto simp: ret_eq split: if_splits)
      from nb(1) 2 have na: "\<not> a" "path_present_no_follow (core_env C) (data_dir ?P) w1 = (Inr False, w2)"
        by (auto simp: ret_eq split: if_splits)
      show ?thesis using path_present_result [OF nb(2)] path_present_result [OF na(2)]
          path_present_result [OF 1] na(1) w3 by simp
    qed
  qed
  then show ?thesis
    using rooted_below [OF closed _ roots(1)] rooted_below [OF closed _ roots(2)] rooted_below [OF closed _ roots(3)]
      frame_result [OF k assms(1) [unfolded revoke.simps]] by (auto simp: under_roots_def starts_with_iff)
qed

end
