(* ===== verification/Revocation_Examples.thy ===== *)
theory Revocation_Examples
  imports Revocation_Full "HOL-Library.Code_Target_Nat"
begin

text \<open>
  Revocations evaluated by the kernel on concrete machines: a product revocation whose second move
  and whose roll-back both fail, and a full revocation.
\<close>

definition claude_key :: path where
  "claude_key = [''h'', ''d'', ''credentials'', ''claude-aaaaaaaaaaaaaaaaaaaaaaaaaaaaaaaa.key'']"

definition revoke_start :: world where
  "revoke_start = world_of [([''h''], private_dir 1), ([''h'', ''c''], private_dir 2),
     ([''h'', ''d''], private_dir 3), ([''h'', ''s''], private_dir 4), ([''h'', ''d'', ''credentials''], private_dir 5),
     (claude_key, private_file ''k'' 6), ([''h'', ''d'', ''generations''], private_dir 7),
     ([''h'', ''d'', ''generations'', ''gen-claude-00000000000000000000000000000001''], private_dir 8),
     ([''h'', ''d'', ''generations'', ''gen-claude-00000000000000000000000000000001'', ''f''], private_file ''y'' 9)]"


definition full_start :: world where
  "full_start = world_of [([''h''], private_dir 1), ([''h'', ''c''], private_dir 2),
     ([''h'', ''c'', ''config.json''], private_file ''x'' 3), ([''k''], private_file ''y'' 4)]"

theorem full_revoke_removes_everything_witness:
  "let done = revoke (example_core []) RevokeAll full_start in
     is_ok (fst done) \<and> node_at (snd done) [''h'', ''c'', ''config.json''] = None \<and>
     contents_at (snd done) [''k''] = Some ''y''"
proof -
  let ?C = "example_core []"
  have ok: "is_ok (fst (revoke ?C RevokeAll full_start))"
    and start: "tree_closed full_start" "contents_at full_start [''k''] = Some ''y''" "wf_paths (core_paths ?C)"
      "under_roots (core_paths ?C) [''h'', ''c'', ''config.json'']" "\<not> under_roots (core_paths ?C) [''k'']"
    by code_simp+
  from ok obtain r w' where run: "revoke ?C RevokeAll full_start = (Inr r, w')"
    by (cases "revoke ?C RevokeAll full_start") (auto simp: is_ok_def split: sum.splits)
  from full_revoke_removes_everything [OF run start(1,3), of "[''h'', ''c'', ''config.json'']"]
    full_revoke_removes_everything [OF run start(1,3), of "[''k'']"] ok start(2,4,5)
  show ?thesis by (simp add: Let_def run del: revoke.simps)
qed

end
