(* ===== verification/Core_Examples.thy ===== *)
theory Core_Examples
  imports Permission_Audit Revocation_Examples
begin

text \<open>
  The audit of a small installation of Codex, and of the same installation after the credential was opened
  to others.
\<close>

definition codex_generation :: path where
  "codex_generation = [''h'', ''d'', ''generations'', ''g1'']"

definition installed :: "meta \<Rightarrow> world" where
  "installed m = world_of [([''h''], private_dir 1), ([''h'', ''c''], private_dir 2), ([''h'', ''d''], private_dir 3),
     ([''h'', ''s''], private_dir 4),
     ([''h'', ''c'', ''config.json''],
        private_file (join [CHR 0x0A] [''2'', ''https://api.example.test/'', [], [], ''k1'', ''g1'']) 5),
     ([''h'', ''d'', ''credentials''], private_dir 6), ([''h'', ''d'', ''credentials'', ''k1.key''], File ''k'' m),
     ([''h'', ''d'', ''generations''], private_dir 8), (codex_generation, private_dir 9),
     (codex_generation @ [''clients''], private_dir 10), (codex_generation @ [''clients'', ''codex''], private_dir 11),
     (codex_generation @ [''clients'', ''codex'', ''config.toml''], private_file ''a=1'' 12)]"

definition own :: "nat \<Rightarrow> meta" where
  "own md = \<lparr>mode = md, uid = 1000, ino = 7\<rparr>"

definition audit_of :: "world \<Rightarrow> (error, private_permissions_audit) result" where
  "audit_of w = fst (audit_private_permissions (example_core []) w)"

lemma audit_runs:
  "audit_of (installed (own 384)) = Inr \<lparr>supported = True, checked_paths = 11, perm_issues = []\<rparr>"
  "audit_of (installed (own 420)) = Inr \<lparr>supported = True, checked_paths = 11, perm_issues =
     [\<lparr>perm_code = InsecurePermissions, perm_path = [''h'', ''d'', ''credentials'', ''k1.key''],
       perm_message = ''permissions are 644; expected user-only access''\<rparr>]\<rparr>"
  by code_simp+


end
