(* ===== verification/Cli_Files.thy ===== *)
theory Cli_Files
  imports Filesystem
begin

text \<open>
  How the command line client writes its own files (\<open>write_bytes_atomic\<close> of \<open>main.rs\<close>): a temporary
  file beside the destination that replaces it.  Errors are their text, outermost context first.
\<close>

type_synonym 'a cli = "(string, 'a) io"

definition context_of :: "string \<Rightarrow> string \<Rightarrow> string" where
  "context_of what e = what @ '': '' @ e"

definition os_context :: "string \<Rightarrow> path \<Rightarrow> (io_error, 'a) io \<Rightarrow> 'a cli" where
  "os_context what p m = map_err (\<lambda>e. context_of (what @ show_path p) (io_message e)) m"

definition cli_temporary_name :: "string \<Rightarrow> string \<Rightarrow> string \<Rightarrow> string" where
  "cli_temporary_name name process unique = ''.'' @ name @ ''.saiai-tmp-'' @ process @ ''-'' @ unique"

definition replace_destination :: "env \<Rightarrow> path \<Rightarrow> path \<Rightarrow> (io_error, unit) io" where
  "replace_destination E source destination = rename E source destination"

definition sync_parent_best_effort :: "env \<Rightarrow> path \<Rightarrow> ('e, unit) io" where
  "sync_parent_best_effort E directory = ignore_io (sync_all E directory)"

definition write_bytes_atomic :: "env \<Rightarrow> string \<Rightarrow> path \<Rightarrow> string \<Rightarrow> nat \<Rightarrow> unit cli" where
  "write_bytes_atomic E process p bytes unix_mode =
     (case parent p of
        None \<Rightarrow> throw ''failed to resolve atomic-write parent directory''
      | Some directory \<Rightarrow>
          let name = (case file_name p of Some n \<Rightarrow> if valid_utf8 n then n else ''saiai'' | None \<Rightarrow> ''saiai'') in
          then_io (os_context ''failed to create '' directory (create_dir_all E directory))
         (bind_io (new_uuid E) (\<lambda>unique.
            let tmp = directory @ [cli_temporary_name name process unique] in
            then_io (os_context ''failed to create '' tmp (create_new_file E tmp unix_mode))
           (then_io (os_context ''failed to write '' tmp
                (on_error (then_io (write_all E tmp bytes) (sync_all E tmp)) (ignore_io (remove_file E tmp))))
           (then_io (os_context ''failed to replace '' p
                (on_error (replace_destination E tmp p) (ignore_io (remove_file E tmp))))
           (then_io (os_context ''failed to protect '' p (set_permissions E p unix_mode))
                    (sync_parent_best_effort E directory)))))))"

end
