(* ===== verification/Client_Files.thy ===== *)
theory Client_Files
  imports Cli_Files Fs_Util Json
begin

text \<open>
  The files of other programs the command line client edits: backups, JSON objects read and written whole
  (\<open>backup_if_exists\<close> to \<open>write_json_object\<close> of \<open>main.rs\<close>), and what an atomic write of \<open>Cli_Files\<close> can
  change.  The reader and the writer of JSON documents are parameters, as is the time stamp of a backup.
\<close>

section \<open>Operations\<close>

record json_library =
  read_json :: "string \<Rightarrow> (string, json) result"
  pretty_text :: "json \<Rightarrow> string"

definition path_exists :: "env \<Rightarrow> path \<Rightarrow> ('e, bool) io" where
  "path_exists E p = bind_io (try_io (metadata E p)) (\<lambda>r. ret (is_ok r))"

text \<open>\<open>open\<close> with \<open>create\<close> and \<open>truncate\<close> writes through a link; the result is the file that was opened.\<close>

fun link_target :: "nat \<Rightarrow> world \<Rightarrow> path \<Rightarrow> path option" where
  "link_target 0 w p = None"
| "link_target (Suc n) w p = (case node_at w p of Some (Symlink t _) \<Rightarrow> link_target n w t | _ \<Rightarrow> Some p)"

definition open_truncate :: "env \<Rightarrow> path \<Rightarrow> nat \<Rightarrow> (io_error, path) io" where
  "open_truncate E p m = syscall E (\<lambda>w.
     (case link_target 41 w p of
        None \<Rightarrow> (Inl (os_error OtherKind), w)
      | Some q \<Rightarrow> (case node_at w q of
            None \<Rightarrow> if parent_is_dir w q then (Inr q, create_node q (File [] (new_meta E m w)) w)
                    else (Inl (os_error (missing_kind w q)), w)
          | Some (File c a) \<Rightarrow> (Inr q, put_node q (File [] a) w)
          | _ \<Rightarrow> (Inl (os_error IsADirectory), w))))"

text \<open>\<open>fs::copy\<close>: the source is opened first, the mode of the copy is that of the source.\<close>

definition copy_file :: "env \<Rightarrow> path \<Rightarrow> path \<Rightarrow> (io_error, unit) io" where
  "copy_file E src dst =
     bind_io (read_file E src) (\<lambda>contents.
     bind_io (metadata E src) (\<lambda>n.
     bind_io (open_truncate E dst (mode (node_meta n))) (\<lambda>q.
     then_io (set_permissions E q (mode (node_meta n))) (write_all E q contents))))"

definition backup_path :: "path \<Rightarrow> string \<Rightarrow> path" where
  "backup_path p stamp = butlast p @ [last p @ ''.bak-'' @ stamp]"

definition backup_if_exists :: "env \<Rightarrow> path \<Rightarrow> string \<Rightarrow> unit cli" where
  "backup_if_exists E p stamp =
     bind_io (path_exists E p) (\<lambda>present.
       if present then
         map_err (\<lambda>e. context_of (''failed to back up '' @ show_path p @ '' to '' @ show_path (backup_path p stamp)) (io_message e))
           (copy_file E p (backup_path p stamp))
       else ret ())"

definition remove_if_exists_with_backup :: "env \<Rightarrow> path \<Rightarrow> string \<Rightarrow> unit cli" where
  "remove_if_exists_with_backup E p stamp =
     bind_io (path_exists E p) (\<lambda>present.
       if present then then_io (backup_if_exists E p stamp) (os_context ''failed to remove '' p (remove_file E p))
       else ret ())"

type_synonym json_map = "(string \<times> json) list"

definition parse_json_object_bytes :: "json_library \<Rightarrow> path \<Rightarrow> string \<Rightarrow> (string, json_map) result" where
  "parse_json_object_bytes J p raw =
     (if \<not> valid_utf8 raw then Inl (context_of (''failed to read '' @ show_path p) ''invalid utf-8'')
      else if trim raw = [] then Inr []
      else case read_json J raw of
          Inl e \<Rightarrow> Inl (context_of (''failed to parse '' @ show_path p) e)
        | Inr v \<Rightarrow> ok_or (show_path p @ '' must contain a JSON object'') (as_object v))"

definition load_json_object :: "env \<Rightarrow> json_library \<Rightarrow> path \<Rightarrow> json_map cli" where
  "load_json_object E J p =
     bind_io (path_exists E p) (\<lambda>present.
       if \<not> present then ret []
       else bind_io (os_context ''failed to read '' p (read_file E p)) (\<lambda>raw. lift_io (parse_json_object_bytes J p raw)))"

definition write_json_object :: "env \<Rightarrow> json_library \<Rightarrow> string \<Rightarrow> path \<Rightarrow> json \<Rightarrow> unit cli" where
  "write_json_object E J process p v = write_bytes_atomic E process p (pretty_text J v @ [CHR 0x0A]) 384"

section \<open>Running a sequence\<close>

lemma run_bind: "m w = (Inr x, w') \<Longrightarrow> bind_io m f w = f x w'" "m w = (Inl e, w') \<Longrightarrow> bind_io m f w = (Inl e, w')"
  by (simp_all add: bind_io_def)

lemma run_try: "m w = (x, w') \<Longrightarrow> bind_io (try_io m) f w = f x w'"
  by (simp add: bind_io_def try_io_def)

lemma run_pure: "bind_io (ret x) f = f x" "bind_io (lift_io (Inr x)) f = f x" "then_io (ignore_io m) n w = n (snd (m w))"
  by (simp_all add: bind_io_def ret_def lift_io_def ignore_io_def then_io_def fun_eq_iff)

section \<open>What a read changes\<close>

lemma touches_path_exists [frame_intros]: "touches S (path_exists E p)"
  unfolding path_exists_def by (intro frame_intros)

lemma touches_os_context [frame_intros]: "frame V S m \<Longrightarrow> frame V S (os_context what p m)"
  unfolding os_context_def by (intro frame_intros)

lemma touches_load_json_object [frame_intros]: "touches S (load_json_object E J p)"
  unfolding load_json_object_def by (intro frame_intros)

section \<open>What an atomic write changes\<close>

definition cli_temporary :: "env \<Rightarrow> string \<Rightarrow> path \<Rightarrow> path \<Rightarrow> bool" where
  "cli_temporary E process p q \<longleftrightarrow>
     (\<exists>k. starts_with q (butlast p @ [cli_temporary_name (if valid_utf8 (last p) then last p else ''saiai'') process (uuid E k)]))"

definition written :: "(path \<Rightarrow> bool) \<Rightarrow> world \<Rightarrow> path \<Rightarrow> string \<Rightarrow> world \<Rightarrow> bool" where
  "written T w0 p bytes w \<longleftrightarrow>
     contents_at w p = Some bytes \<and> (\<forall>q. contents_at w q = contents_at w0 q \<or> T q \<or> starts_with q p)"

definition write_through :: "env \<Rightarrow> path \<Rightarrow> path \<Rightarrow> string \<Rightarrow> nat \<Rightarrow> unit cli" where
  "write_through E tmp p bytes unix_mode =
     then_io (os_context ''failed to create '' tmp (create_new_file E tmp unix_mode))
    (then_io (os_context ''failed to write '' tmp
         (on_error (then_io (write_all E tmp bytes) (sync_all E tmp)) (ignore_io (remove_file E tmp))))
    (then_io (os_context ''failed to replace '' p
         (on_error (replace_destination E tmp p) (ignore_io (remove_file E tmp))))
    (then_io (os_context ''failed to protect '' p (set_permissions E p unix_mode))
             (sync_parent_best_effort E (butlast p)))))"

lemma triple_os_context: "triple P m Q (\<lambda>_. R) \<Longrightarrow> triple P (os_context what p m) Q (\<lambda>_. R)"
  unfolding os_context_def by (rule triple_map_err)

lemma keeps_protect: "keeps S (set_permissions E p m)"
  by (intro frame_intros)

lemma write_through_triple:
  assumes t: "T = (\<lambda>q. starts_with q tmp)"
  shows "triple (same_outside contents_at T w0) (write_through E tmp p bytes m)
    (\<lambda>_. written T w0 p bytes) (\<lambda>_ w. same_outside contents_at T w0 w \<or> written T w0 p bytes w)"
proof -
  let ?same = "same_outside contents_at T w0"
  let ?R = "\<lambda>_ w. ?same w \<or> written T w0 p bytes w"
  have tt: "T tmp" by (simp add: t)
  have keeps: "keeps T (create_new_file E tmp m')" "keeps T (write_all E tmp bytes)" "keeps T (remove_file E tmp)" for m'
    by (rule keeps_touches, rule touches_create_new_file touches_write_all touches_remove_file, simp add: tt)+
  have rm: "triple ?same (ignore_io (remove_file E tmp)) (\<lambda>_. ?same) (\<lambda>_. ?same)"
    by (rule triple_ignore) (rule triple_frame [OF keeps(3)])
  have create: "triple ?same (create_new_file E tmp m) (\<lambda>_ w. ?same w \<and> (\<exists>a. node_at w tmp = Some (File [] a))) (\<lambda>_. ?same)"
  proof (rule tripleI)
    fix w x w' assume "?same w" "create_new_file E tmp m w = (Inr x, w')"
    then show "?same w' \<and> (\<exists>a. node_at w' tmp = Some (File [] a))"
      using triple_Inr [OF triple_frame [OF keeps(1)], of w0 w m] create_new_file_Inr [of E tmp m w w'] by auto
  next
    fix w e w' assume "?same w" "create_new_file E tmp m w = (Inl e, w')"
    then show "?same w'" using triple_Inl [OF triple_frame [OF keeps(1)], of w0 w m] by blast
  qed
  have "keeps T (then_io (write_all E tmp bytes) (sync_all E tmp))" by (intro frame_intros keeps)
  note both = triple_frame [OF this, of w0]
  have "triple (\<lambda>w. ?same w \<and> (\<exists>a. node_at w tmp = Some (File [] a))) (then_io (write_all E tmp bytes) (sync_all E tmp))
      (\<lambda>_ w. ?same w \<and> contents_at w tmp = Some bytes) (\<lambda>_. ?same)"
  proof (rule tripleI)
    fix w e w' assume w: "?same w \<and> (\<exists>a. node_at w tmp = Some (File [] a))"
      "then_io (write_all E tmp bytes) (sync_all E tmp) w = (Inl e, w')"
    from triple_Inl [OF both conjunct1 [OF w(1)] w(2)] show "?same w'" .
  next
    fix w x w' assume w: "?same w \<and> (\<exists>a. node_at w tmp = Some (File [] a))"
      "then_io (write_all E tmp bytes) (sync_all E tmp) w = (Inr x, w')"
    then obtain a w1 where a: "node_at w tmp = Some (File [] a)" "write_all E tmp bytes w = (Inr (), w1)"
      "sync_all E tmp w1 = (Inr x, w')" by (auto simp: io_eqs)
    from triple_Inr [OF both conjunct1 [OF w(1)] w(2)] have "?same w'" .
    moreover have "node_at w' tmp = Some (File bytes a)"
      using write_all_Inr [OF a(2,1)] sync_all_result [OF a(3)] by simp
    ultimately show "?same w' \<and> contents_at w' tmp = Some bytes" by (simp add: contents_at_def contents_of_def)
  qed
  from triple_on_error [OF this rm] have wr: "triple (\<lambda>w. ?same w \<and> (\<exists>a. node_at w tmp = Some (File [] a)))
      (on_error (then_io (write_all E tmp bytes) (sync_all E tmp)) (ignore_io (remove_file E tmp)))
      (\<lambda>_ w. ?same w \<and> contents_at w tmp = Some bytes) (\<lambda>_. ?same)" .
  have "triple (\<lambda>w. ?same w \<and> contents_at w tmp = Some bytes) (replace_destination E tmp p) (\<lambda>_. written T w0 p bytes) (\<lambda>_. ?same)"
    unfolding replace_destination_def
  proof (rule tripleI)
    fix w e w' assume "?same w \<and> contents_at w tmp = Some bytes" "rename E tmp p w = (Inl e, w')"
    then show "?same w'" using rename_Inl by (auto simp: same_outside_def contents_at_def)
  next
    fix w x w' assume w: "?same w \<and> contents_at w tmp = Some bytes" "rename E tmp p w = (Inr x, w')"
    then have r: "node_at w' = node_at (move_tree tmp p w)" using rename_Inr by simp
    have "node_at w' p = node_at w tmp" using r strip_prefix_Some_iff [of p p "[]"] by (simp add: node_at_move)
    then have "contents_at w' p = Some bytes" using w(1) by (simp add: contents_at_def)
    moreover have "contents_at w' q = contents_at w0 q \<or> T q \<or> starts_with q p" for q
    proof (cases "T q \<or> starts_with q p")
      case False
      then have "contents_at w' q = contents_at w q" using r by (simp add: node_at_move contents_at_def strip_prefix_def t)
      then show ?thesis using w(1) False by (simp add: same_outside_def)
    qed auto
    ultimately show "written T w0 p bytes w'" by (simp add: written_def)
  qed
  from triple_on_error [OF this rm] have rn: "triple (\<lambda>w. ?same w \<and> contents_at w tmp = Some bytes)
      (on_error (replace_destination E tmp p) (ignore_io (remove_file E tmp))) (\<lambda>_. written T w0 p bytes) (\<lambda>_. ?same)" .
  have after: "triple (written T w0 p bytes) n (\<lambda>_. written T w0 p bytes) (\<lambda>_. written T w0 p bytes)"
    if "\<And>S. keeps S n" for n :: "('e, unit) io"
  proof -
    have "contents_at w' = contents_at w" if "n w = (r, w')" for w r w'
      using frame_result [OF \<open>\<And>S. keeps S n\<close> [of nowhere] that] by (simp add: nowhere_def fun_eq_iff)
    then show ?thesis unfolding triple_def written_def by simp
  qed
  have weak: "triple P n Q (\<lambda>_. R) \<Longrightarrow> (\<And>w. R w \<Longrightarrow> ?same w \<or> written T w0 p bytes w) \<Longrightarrow> triple P n Q ?R"
    for P Q R and n :: "(string, unit) io" by (erule triple_weaken) auto
  show ?thesis unfolding write_through_def
  proof (intro triple_then)
    show "triple ?same (os_context ''failed to create '' tmp (create_new_file E tmp m))
        (\<lambda>_ w. ?same w \<and> (\<exists>a. node_at w tmp = Some (File [] a))) ?R"
      by (rule weak [OF triple_os_context [OF create]]) simp
    show "triple (\<lambda>w. ?same w \<and> (\<exists>a. node_at w tmp = Some (File [] a))) (os_context ''failed to write '' tmp
        (on_error (then_io (write_all E tmp bytes) (sync_all E tmp)) (ignore_io (remove_file E tmp))))
        (\<lambda>_ w. ?same w \<and> contents_at w tmp = Some bytes) ?R"
      by (rule weak [OF triple_os_context [OF wr]]) simp
    show "triple (\<lambda>w. ?same w \<and> contents_at w tmp = Some bytes) (os_context ''failed to replace '' p
        (on_error (replace_destination E tmp p) (ignore_io (remove_file E tmp)))) (\<lambda>_. written T w0 p bytes) ?R"
      by (rule weak [OF triple_os_context [OF rn]]) simp
    show "triple (written T w0 p bytes) (os_context ''failed to protect '' p (set_permissions E p m))
        (\<lambda>_. written T w0 p bytes) ?R"
      by (rule weak [OF triple_os_context [OF after [OF keeps_protect]]]) simp
    show "triple (written T w0 p bytes) (sync_parent_best_effort E (butlast p) :: unit cli) (\<lambda>_. written T w0 p bytes) ?R"
    proof (rule weak)
      have "keeps S (sync_parent_best_effort E (butlast p) :: unit cli)" for S
        unfolding sync_parent_best_effort_def by (intro frame_intros)
      from after [OF this] show "triple (written T w0 p bytes) (sync_parent_best_effort E (butlast p) :: unit cli)
        (\<lambda>_. written T w0 p bytes) (\<lambda>_. written T w0 p bytes)" .
    qed simp
  qed
qed

text \<open>An atomic write replaces the file completely or leaves every file but its temporary one as it was.\<close>

lemma write_bytes_atomic_effect:
  assumes p: "p \<noteq> []" and run: "write_bytes_atomic E process p bytes m w = (r, w')"
  shows "written (cli_temporary E process p) w p bytes w' \<or> \<not> is_ok r \<and> same_outside contents_at (cli_temporary E process p) w w'"
proof -
  define name where "name = (if valid_utf8 (last p) then last p else ''saiai'')"
  define tmp where "tmp k = butlast p @ [cli_temporary_name name process (uuid E k)]" for k
  have alt: "write_bytes_atomic E process p bytes m =
      then_io (os_context ''failed to create '' (butlast p) (create_dir_all E (butlast p)))
        (bind_io (new_uuid E) (\<lambda>u. write_through E (butlast p @ [cli_temporary_name name process u]) p bytes m))"
    using p by (simp add: write_bytes_atomic_def parent_def file_name_def Let_def write_through_def name_def)
  have mk: "keeps nowhere (os_context ''failed to create '' (butlast p) (create_dir_all E (butlast p)))"
    by (intro frame_intros)
  show ?thesis
  proof (cases "os_context ''failed to create '' (butlast p) (create_dir_all E (butlast p)) w")
    case (Pair r1 w1)
    have same: "contents_at w1 q = contents_at w q" for q using frame_result [OF mk Pair] by (simp add: nowhere_def)
    show ?thesis
    proof (cases r1)
      case (Inl e)
      then show ?thesis using run Pair same unfolding alt by (auto simp: then_io_def bind_io_def same_outside_def)
    next
      case (Inr u)
      let ?k = "drawn w1" and ?w2 = "w1\<lparr>drawn := Suc (drawn w1)\<rparr>"
      have thr: "write_through E (tmp ?k) p bytes m ?w2 = (r, w')"
        using run Pair Inr unfolding alt by (simp add: then_io_def bind_io_def new_uuid_def tmp_def)
      have tm: "cli_temporary E process p q" if "starts_with q (tmp ?k)" for q
        using that by (auto simp: cli_temporary_def tmp_def name_def)
      have start: "same_outside contents_at (\<lambda>q. starts_with q (tmp ?k)) w ?w2"
        using same unfolding same_outside_def contents_at_def by simp
      note tr = write_through_triple [OF refl, of "tmp ?k" w E p bytes m]
      have "written (\<lambda>q. starts_with q (tmp ?k)) w p bytes w' \<or>
          \<not> is_ok r \<and> same_outside contents_at (\<lambda>q. starts_with q (tmp ?k)) w w'"
        using triple_Inr [OF tr start] triple_Inl [OF tr start] thr by (cases r) auto
      then show ?thesis using tm unfolding written_def same_outside_def by blast
    qed
  qed
qed

end
