(* ===== verification/Codex_Auth.thy ===== *)
theory Codex_Auth
  imports Client_Files
begin

text \<open>
  The login of Codex in \<open>auth.json\<close> (\<open>write_codex_local_proxy_auth\<close> and the functions around it in
  \<open>main.rs\<close>): when a real ChatGPT login is kept, and when it is saved beside the file and replaced by the
  placeholder of the local proxy.  Base64, JSON numbers and the clock are parameters.  What is printed is
  left out.
\<close>

datatype existing_codex_auth = KeepAuth | ReplaceExpired | ReplaceAuth

record auth_library =
  auth_json :: json_library
  base64url_decode :: "string \<Rightarrow> string option"
  json_i64 :: "json \<Rightarrow> int option"
  epoch_text :: "int \<Rightarrow> string"
  compact_stamp :: "int \<Rightarrow> string"
  rfc3339_now :: string

definition codex_placeholder_account_id :: string where
  "codex_placeholder_account_id = ''saiai-local-proxy-account''"

definition codex_placeholder_id_token :: string where
  "codex_placeholder_id_token =
     ''eyJhbGciOiJub25lIiwidHlwIjoiSldUIn0.eyJlbWFpbCI6InNhaWFpLWxvY2FsLXByb3h5QGludmFsaWQiLCJleHAiOjQxMDI0NDQ4MDAs'' @
     ''Imh0dHBzOi8vYXBpLm9wZW5haS5jb20vYXV0aCI6eyJjaGF0Z3B0X3BsYW5fdHlwZSI6InBsdXMiLCJjaGF0Z3B0X3VzZXJfaWQiOiJzYWlhaS1sb2Nh'' @
     ''bC1wcm94eS11c2VyIiwiY2hhdGdwdF9hY2NvdW50X2lkIjoic2FpYWktbG9jYWwtcHJveHktYWNjb3VudCJ9fQ.c2FpYWktbG9jYWwtcHJveHk''"

definition codex_placeholder_access_token :: string where
  "codex_placeholder_access_token = codex_placeholder_id_token"

definition is_codex_placeholder_access_token :: "string \<Rightarrow> bool" where
  "is_codex_placeholder_access_token token \<longleftrightarrow>
     starts_with token ''saiai-local-proxy-placeholder-'' \<or> token = codex_placeholder_access_token"

section \<open>Reading a login\<close>

definition codex_jwt_expiry :: "auth_library \<Rightarrow> string \<Rightarrow> int option" where
  "codex_jwt_expiry L token =
     (case split_on ((=) CHR ''.'') token of
        [_, payload, _] \<Rightarrow>
          Option.bind (base64url_decode L payload) (\<lambda>decoded.
          Option.bind (ok_of (read_json (auth_json L) decoded)) (\<lambda>claims.
          Option.bind (json_get claims ''exp'') (json_i64 L)))
      | _ \<Rightarrow> None)"

definition map_str :: "json_map \<Rightarrow> string \<Rightarrow> string" where
  "map_str m key = (case Option.bind (map_of m key) as_str of None \<Rightarrow> [] | Some s \<Rightarrow> s)"

definition access_token_of :: "json_map \<Rightarrow> string" where
  "access_token_of auth =
     (case Option.bind (map_of auth ''tokens'') as_object of None \<Rightarrow> [] | Some tokens \<Rightarrow> map_str tokens ''access_token'')"

definition is_chatgpt_mode :: "json_map \<Rightarrow> bool" where
  "is_chatgpt_mode auth \<longleftrightarrow> map_str auth ''auth_mode'' = ''chatgpt'' \<or> map_str auth ''auth_mode'' = ''chatgptAuthTokens''"

definition real_codex_oauth_expiry :: "auth_library \<Rightarrow> json_map \<Rightarrow> int option option" where
  "real_codex_oauth_expiry L auth =
     (let token = access_token_of auth in
      if \<not> is_chatgpt_mode auth \<or> trim token = [] \<or> is_codex_placeholder_access_token token then None
      else Some (codex_jwt_expiry L token))"

section \<open>Saving an expired login\<close>

definition expired_backup_name :: "string \<Rightarrow> string \<Rightarrow> nat \<Rightarrow> string" where
  "expired_backup_name name stamp attempt =
     name @ ''.bak-expired-login-'' @ stamp @ (if attempt = 0 then [] else ''-'' @ decimal attempt)"

definition expired_backup :: "path \<Rightarrow> string \<Rightarrow> nat \<Rightarrow> path" where
  "expired_backup p stamp attempt = butlast p @ [expired_backup_name (last p) stamp attempt]"

primrec save_expired_login :: "env \<Rightarrow> path \<Rightarrow> string \<Rightarrow> string \<Rightarrow> nat list \<Rightarrow> path cli" where
  "save_expired_login E p stamp bytes [] = throw (''could not find a free backup name for '' @ show_path p)"
| "save_expired_login E p stamp bytes (attempt # attempts) =
     (let backup = expired_backup p stamp attempt in
      bind_io (try_io (create_new_file E backup 384)) (\<lambda>opened.
        case opened of
          Inl e \<Rightarrow> if io_kind e = AlreadyExists then save_expired_login E p stamp bytes attempts
                   else throw (context_of (''failed to create backup '' @ show_path backup) (io_message e))
        | Inr _ \<Rightarrow> bind_io (try_io (then_io (write_all E backup bytes) (sync_all E backup))) (\<lambda>wrote.
            case wrote of
              Inl e \<Rightarrow> then_io (ignore_io (remove_file E backup))
                (throw (context_of (''failed to write backup '' @ show_path backup) (io_message e)))
            | Inr _ \<Rightarrow> ret backup)))"

definition write_expired_login_backup :: "env \<Rightarrow> auth_library \<Rightarrow> path \<Rightarrow> string \<Rightarrow> int \<Rightarrow> path cli" where
  "write_expired_login_backup E L p bytes now = save_expired_login E p (compact_stamp L now) bytes [0..<100]"

section \<open>Writing the placeholder\<close>

datatype auth_action = LeaveAuth | SaveThenReplace int | ReplaceNow

definition auth_action_for :: "auth_library \<Rightarrow> existing_codex_auth \<Rightarrow> int \<Rightarrow> json_map \<Rightarrow> auth_action" where
  "auth_action_for L existing now auth =
     (if existing = ReplaceAuth then ReplaceNow
      else case real_codex_oauth_expiry L auth of
          None \<Rightarrow> ReplaceNow
        | Some (Some expires_at) \<Rightarrow>
            if expires_at \<le> now then (if existing = KeepAuth then LeaveAuth else SaveThenReplace expires_at) else LeaveAuth
        | Some None \<Rightarrow> LeaveAuth)"

definition placeholder_auth :: "auth_library \<Rightarrow> json_map \<Rightarrow> json_map" where
  "placeholder_auth L auth =
     AList.update ''last_refresh'' (JString (rfc3339_now L))
    (AList.update ''OPENAI_API_KEY'' JNull
    (AList.update ''tokens'' (JObject [(''id_token'', JString codex_placeholder_id_token),
        (''access_token'', JString codex_placeholder_access_token), (''refresh_token'', JString []),
        (''account_id'', JString codex_placeholder_account_id)])
    (AList.update ''auth_mode'' (JString ''chatgptAuthTokens'') auth)))"

definition write_placeholder :: "env \<Rightarrow> auth_library \<Rightarrow> string \<Rightarrow> path \<Rightarrow> json_map \<Rightarrow> unit cli" where
  "write_placeholder E L process p auth =
     map_err (context_of (''failed to create local-proxy OAuth auth file '' @ show_path p @
         ''; the placeholder is only safe when the local proxy is active''))
       (write_json_object E (auth_json L) process p (JObject (placeholder_auth L auth)))"

definition changed_login_message :: "path \<Rightarrow> string" where
  "changed_login_message p = show_path p @ '' changed while SAIAI was replacing its expired login and was left unchanged; '' @
     ''quit Codex and rerun `saiai init-codex`''"

definition write_codex_local_proxy_auth_at ::
  "env \<Rightarrow> auth_library \<Rightarrow> string \<Rightarrow> path \<Rightarrow> existing_codex_auth \<Rightarrow> int \<Rightarrow> unit cli" where
  "write_codex_local_proxy_auth_at E L process p existing now =
     bind_io (path_exists E p) (\<lambda>existed.
     bind_io (if existed then bind_io (os_context ''failed to read '' p (read_file E p)) (\<lambda>bytes. ret (Some bytes)) else ret None)
       (\<lambda>original.
     bind_io (lift_io (case original of Some bytes \<Rightarrow> parse_json_object_bytes (auth_json L) p bytes | None \<Rightarrow> Inr []))
       (\<lambda>auth.
     case auth_action_for L existing now auth of
       LeaveAuth \<Rightarrow> ret ()
     | ReplaceNow \<Rightarrow> write_placeholder E L process p auth
     | SaveThenReplace _ \<Rightarrow>
         let original = (case original of None \<Rightarrow> [] | Some bytes \<Rightarrow> bytes) in
         bind_io (write_expired_login_backup E L p original now) (\<lambda>_.
         bind_io (os_context ''failed to re-read '' p (read_file E p)) (\<lambda>current.
           if current \<noteq> original then throw (changed_login_message p)
           else write_placeholder E L process p auth)))))"

definition ensure_codex_local_proxy_auth :: "env \<Rightarrow> auth_library \<Rightarrow> string \<Rightarrow> path \<Rightarrow> int \<Rightarrow> unit cli" where
  "ensure_codex_local_proxy_auth E L process p now = write_codex_local_proxy_auth_at E L process p KeepAuth now"

definition migrate_codex_local_proxy_auth :: "env \<Rightarrow> auth_library \<Rightarrow> string \<Rightarrow> path \<Rightarrow> int \<Rightarrow> unit cli" where
  "migrate_codex_local_proxy_auth E L process p now = write_codex_local_proxy_auth_at E L process p ReplaceExpired now"

definition replace_codex_local_proxy_auth :: "env \<Rightarrow> auth_library \<Rightarrow> string \<Rightarrow> path \<Rightarrow> int \<Rightarrow> unit cli" where
  "replace_codex_local_proxy_auth E L process p now = write_codex_local_proxy_auth_at E L process p ReplaceAuth now"

section \<open>Checking a login\<close>

definition codex_auth_expiry_warning :: "env \<Rightarrow> auth_library \<Rightarrow> path \<Rightarrow> int \<Rightarrow> string option cli" where
  "codex_auth_expiry_warning E L p now =
     bind_io (os_context ''failed to read '' p (read_file E p)) (\<lambda>raw.
     bind_io (lift_io (parse_json_object_bytes (auth_json L) p raw)) (\<lambda>auth.
       ret (case real_codex_oauth_expiry L auth of
          Some (Some expires_at) \<Rightarrow>
            if expires_at \<le> now then
              Some (''the ChatGPT access token in '' @ show_path p @ '' expired at '' @ epoch_text L expires_at @
                ''; Codex shows its sign-in page if the login can no longer be refreshed. '' @
                ''Quit Codex and run `saiai init-codex` to switch to the SAIAI local-proxy login.'')
            else None
        | _ \<Rightarrow> None)))"

definition validate_codex_oauth_auth :: "env \<Rightarrow> auth_library \<Rightarrow> path \<Rightarrow> unit cli" where
  "validate_codex_oauth_auth E L p =
     bind_io (map_err (context_of (''failed to load OAuth auth file '' @ show_path p)) (load_json_object E (auth_json L) p)) (\<lambda>auth.
       if \<not> is_chatgpt_mode auth then
         throw (show_path p @ '' is not in ChatGPT token mode; first-phase `saiai codex` does not accept API-key-only auth'')
       else if trim (access_token_of auth) = [] then
         throw (show_path p @ '' has no ChatGPT OAuth access token; run `codex login` before `saiai codex`'')
       else ret ())"

definition codex_access_token_is_expired :: "auth_library \<Rightarrow> string \<Rightarrow> int \<Rightarrow> bool" where
  "codex_access_token_is_expired L token now =
     (case split_on ((=) CHR ''.'') token of
        _ # payload # _ \<Rightarrow>
          (case Option.bind (base64url_decode L payload) (\<lambda>decoded.
             Option.bind (ok_of (read_json (auth_json L) decoded)) (\<lambda>claims.
             Option.bind (json_get claims ''exp'') (json_i64 L))) of
             None \<Rightarrow> False
           | Some expires_at \<Rightarrow> expires_at \<le> min (now + 60) (2 ^ 63 - 1))
      | _ \<Rightarrow> False)"

definition is_file_path :: "env \<Rightarrow> path \<Rightarrow> ('e, bool) io" where
  "is_file_path E p = bind_io (try_io (metadata E p)) (\<lambda>r. ret (case r of Inr n \<Rightarrow> is_file_node n | Inl _ \<Rightarrow> False))"

definition copy_real_codex_oauth_auth :: "env \<Rightarrow> auth_library \<Rightarrow> string \<Rightarrow> path \<Rightarrow> path \<Rightarrow> int \<Rightarrow> bool cli" where
  "copy_real_codex_oauth_auth E L process source target now =
     bind_io (is_file_path E source) (\<lambda>present.
       if \<not> present then ret False
       else bind_io (try_io (load_json_object E (auth_json L) source)) (\<lambda>loaded.
         case loaded of
           Inl _ \<Rightarrow> ret False
         | Inr auth \<Rightarrow>
             let token = access_token_of auth in
             if trim token = [] \<or> is_codex_placeholder_access_token token \<or> codex_access_token_is_expired L token now
             then ret False
             else then_io (validate_codex_oauth_auth E L source)
                 (bind_io (os_context ''failed to read OAuth auth file '' source (read_file E source)) (\<lambda>bytes.
                  then_io (map_err (context_of (''failed to copy OAuth auth file to '' @ show_path target))
                      (write_bytes_atomic E process target bytes 384))
                    (ret True)))))"

definition write_desktop_account_id :: "env \<Rightarrow> auth_library \<Rightarrow> string \<Rightarrow> path \<Rightarrow> path \<Rightarrow> unit cli" where
  "write_desktop_account_id E L process auth_path desktop_root =
     bind_io (load_json_object E (auth_json L) auth_path) (\<lambda>auth.
       case Option.bind (Option.bind (Option.bind (map_of auth ''tokens'') as_object) (\<lambda>tokens. map_of tokens ''account_id'')) as_str of
         None \<Rightarrow> throw ''Desktop OAuth auth.json has no account_id''
       | Some account \<Rightarrow>
           if trim account = [] then throw ''Desktop OAuth auth.json has no account_id''
           else let p = desktop_root @ [''account-id''] in
             map_err (context_of (''failed to write Desktop account identity '' @ show_path p))
               (write_bytes_atomic E process p account 384))"

section \<open>A real login is not lost\<close>

definition new_backup :: "auth_library \<Rightarrow> path \<Rightarrow> int \<Rightarrow> world \<Rightarrow> path \<Rightarrow> bool" where
  "new_backup L p now w q \<longleftrightarrow> node_at w q = None \<and> (\<exists>attempt < 100. q = expired_backup p (compact_stamp L now) attempt)"

lemma create_new_file_nodes:
  "create_new_file E p m w = (r, w') \<Longrightarrow>
     (case r of Inl _ \<Rightarrow> node_at w' = node_at w
      | Inr _ \<Rightarrow> node_at w p = None \<and> (\<exists>a. node_at w' = (node_at w)(p \<mapsto> File [] a)))"
  by (auto simp: create_new_file_def syscall_def split: option.splits if_splits prod.splits)

lemma save_expired_login_effect:
  assumes "save_expired_login E p stamp bytes attempts w = (r, w')"
  shows "(\<forall>q. contents_at w' q = contents_at w q \<or> node_at w q = None \<and> (\<exists>a \<in> set attempts. q = expired_backup p stamp a)) \<and>
    (\<forall>b. r = Inr b \<longrightarrow> node_at w b = None \<and> (\<exists>a \<in> set attempts. b = expired_backup p stamp a) \<and> contents_at w' b = Some bytes)"
  using assms
proof (induction attempts arbitrary: w)
  case Nil then show ?case by (auto simp: throw_def)
next
  case (Cons a as)
  let ?b = "expired_backup p stamp a"
  obtain c w1 where create: "create_new_file E ?b 384 w = (c, w1)" by fastforce
  note nodes = create_new_file_nodes [OF create]
  show ?case
  proof (cases c)
    case (Inl e)
    with nodes have same: "node_at w1 = node_at w" by simp
    show ?thesis
    proof (cases "io_kind e = AlreadyExists")
      case True
      with Cons.prems create Inl have "save_expired_login E p stamp bytes as w1 = (r, w')" by (simp add: Let_def run_try)
      from Cons.IH [OF this] show ?thesis unfolding contents_at_def same by auto
    next
      case False
      with Cons.prems create Inl same have "node_at w' = node_at w" "\<exists>e. r = Inl e"
        by (auto simp: Let_def run_try throw_def)
      then show ?thesis by (auto simp: contents_at_def)
    qed
  next
    case (Inr u)
    with nodes obtain m where m: "node_at w ?b = None" "node_at w1 = (node_at w)(?b \<mapsto> File [] m)" by auto
    obtain d w2 where wrote: "then_io (write_all E ?b bytes) (sync_all E ?b) w1 = (d, w2)" by fastforce
    have "touches ((=) ?b) (then_io (write_all E ?b bytes) (sync_all E ?b))" by (intro frame_intros touches_write_all) simp
    from frame_result [OF this wrote] have same2: "node_at w2 q = node_at w q" if "q \<noteq> ?b" for q using that m(2) by simp
    show ?thesis
    proof (cases d)
      case (Inl e)
      with Cons.prems create Inr wrote have r: "w' = snd (remove_file E ?b w2)" "\<exists>e. r = Inl e"
        by (auto simp: Let_def run_try run_pure throw_def)
      have "touches ((=) ?b) (remove_file E ?b)" by (rule touches_remove_file) simp
      from frameD [OF this] r same2 have "node_at w' q = node_at w q" if "q \<noteq> ?b" for q using that by simp
      then have "contents_at w' q = contents_at w q \<or> node_at w q = None \<and> q = ?b" for q
        using m(1) by (cases "q = ?b") (simp_all add: contents_at_def)
      then show ?thesis using r(2) by auto
    next
      case (Inr x)
      with Cons.prems create \<open>c = Inr u\<close> wrote have r: "w' = w2" "r = Inr ?b" by (auto simp: Let_def run_try ret_def)
      from wrote Inr obtain w3 where w3: "write_all E ?b bytes w1 = (Inr (), w3)" "sync_all E ?b w3 = (Inr x, w2)"
        by (auto simp: io_eqs)
      have "node_at w2 ?b = Some (File bytes m)"
        using write_all_Inr [OF w3(1), of m] sync_all_result [OF w3(2)] m(2) by simp
      moreover have "contents_at w2 q = contents_at w q \<or> node_at w q = None \<and> q = ?b" for q
        using same2 m(1) by (cases "q = ?b") (simp_all add: contents_at_def)
      ultimately show ?thesis using m(1) r by (auto simp: contents_at_def contents_of_def)
    qed
  qed
qed

lemma path_exists_file:
  "contents_at w p = Some bytes \<Longrightarrow> fault E (steps w) = None \<Longrightarrow> path_exists E p w = (Inr True, tick w)"
  by (auto simp: path_exists_def bind_io_def try_io_def metadata_def syscall_def ret_def eval_nat_numeral contents_at_def contents_of_def
      split: option.splits node.splits)

lemma read_file_contents: "contents_at w p = Some bytes \<Longrightarrow> read_file E p w = (Inr x, w') \<Longrightarrow> x = bytes"
  by (auto simp: read_file_def syscall_def eval_nat_numeral contents_at_def contents_of_def split: option.splits node.splits)

lemma backup_is_not_temporary:
  assumes "last p = ''auth.json''" and "p \<noteq> []"
  shows "\<not> starts_with (expired_backup p stamp a) p" "\<not> cli_temporary E process p (expired_backup p stamp a)"
    "\<not> cli_temporary E process p p"
proof -
  obtain d where p: "p = d @ [''auth.json'']" using assms by (metis append_butlast_last_id)
  have utf8: "valid_utf8 ''auth.json''" by code_simp
  show "\<not> starts_with (expired_backup p stamp a) p"
    by (simp add: p expired_backup_def expired_backup_name_def starts_with_iff)
  show "\<not> cli_temporary E process p (expired_backup p stamp a)" "\<not> cli_temporary E process p p"
    by (simp_all add: p expired_backup_def expired_backup_name_def cli_temporary_def utf8 starts_with_iff cli_temporary_name_def)
qed

lemma write_placeholder_effect:
  assumes "p \<noteq> []" "write_placeholder E L process p auth w = (r, w')"
  shows "\<forall>q. contents_at w' q = contents_at w q \<or> cli_temporary E process p q \<or> starts_with q p"
proof -
  obtain r' where run: "write_json_object E (auth_json L) process p (JObject (placeholder_auth L auth)) w = (r', w')"
    using assms(2) by (auto simp: write_placeholder_def map_err_def split: prod.splits sum.splits)
  from write_bytes_atomic_effect [OF assms(1) run [unfolded write_json_object_def]] show ?thesis
    by (auto simp: written_def same_outside_def)
qed


end
