(* ===== verification/Text_Lines.thy ===== *)
theory Text_Lines
  imports Prelude
begin

text \<open>
  Lines of a text file as \<open>str::split_inclusive\<close> and \<open>str::lines\<close> yield them, and how they interact with
  trimming.
\<close>

abbreviation LF :: char where "LF \<equiv> CHR 0x0A"
abbreviation CR :: char where "CR \<equiv> CHR 0x0D"

fun split_inclusive :: "'a \<Rightarrow> 'a list \<Rightarrow> 'a list list" where
  "split_inclusive d [] = []"
| "split_inclusive d (c # s) =
     (if c = d then [c] # split_inclusive d s
      else (case split_inclusive d s of [] \<Rightarrow> [[c]] | x # xs \<Rightarrow> (c # x) # xs))"

definition strip_newline :: "string \<Rightarrow> string" where
  "strip_newline line =
     (case strip_suffix [LF] line of
        None \<Rightarrow> line
      | Some l \<Rightarrow> (case strip_suffix [CR] l of None \<Rightarrow> l | Some l' \<Rightarrow> l'))"

definition lines :: "string \<Rightarrow> string list" where
  "lines s = map strip_newline (split_inclusive LF s)"

definition with_newline :: "string \<Rightarrow> string" where
  "with_newline l = l @ [LF]"

definition is_blank :: "string \<Rightarrow> bool" where
  "is_blank l \<longleftrightarrow> trim l = []"

section \<open>Splitting\<close>

text \<open>A split text: every part but the last ends in the separator, which occurs nowhere else.\<close>

fun is_split :: "'a \<Rightarrow> 'a list list \<Rightarrow> bool" where
  "is_split d [] = True"
| "is_split d [l] = (l \<noteq> [] \<and> d \<notin> set (butlast l))"
| "is_split d (l # ls) = (l \<noteq> [] \<and> last l = d \<and> d \<notin> set (butlast l) \<and> is_split d ls)"

lemma is_split_Cons: "is_split d (l # ls) \<longleftrightarrow> l \<noteq> [] \<and> d \<notin> set (butlast l) \<and> (ls = [] \<or> last l = d) \<and> is_split d ls"
  by (cases ls) auto

lemma concat_split_inclusive [simp]: "concat (split_inclusive d s) = s"
  by (induction s) (auto split: list.splits)

lemma split_inclusive_Nil_iff [simp]: "split_inclusive d s = [] \<longleftrightarrow> s = []"
  by (cases s) (auto split: list.splits)

lemma is_split_split_inclusive: "is_split d (split_inclusive d s)"
proof (induction s)
  case (Cons c s)
  then show ?case by (cases "split_inclusive d s") (auto simp: is_split_Cons)
qed simp

lemma split_inclusive_append: "d \<notin> set l \<Longrightarrow> split_inclusive d (l @ d # s) = (l @ [d]) # split_inclusive d s"
  by (induction l) auto

lemma split_inclusive_single: "l \<noteq> [] \<Longrightarrow> d \<notin> set l \<Longrightarrow> split_inclusive d l = [l]"
proof (induction l)
  case (Cons c l)
  then show ?case by (cases l) auto
qed simp

lemma split_inclusive_concat: "is_split d ls \<Longrightarrow> split_inclusive d (concat ls) = ls"
proof (induction ls)
  case (Cons l ls)
  then have l: "l \<noteq> []" "d \<notin> set (butlast l)" "ls = [] \<or> last l = d" "is_split d ls" by (auto simp: is_split_Cons)
  show ?case
  proof (cases "last l = d")
    case True
    then have "l = butlast l @ [d]" using l(1) by (metis append_butlast_last_id)
    then show ?thesis using split_inclusive_append [OF l(2), of "concat ls"] Cons.IH [OF l(4)]
      by (metis append.assoc append_Cons append_Nil concat.simps(2))
  next
    case False
    then have "d \<notin> set l" using l(1,2) by (metis append_butlast_last_id in_set_conv_decomp last_snoc set_append Un_iff empty_iff
      insert_iff list.set(1) list.set(2))
    then show ?thesis using False l(1,3) by (simp add: split_inclusive_single)
  qed
qed simp

lemma is_split_filter: "is_split d ls \<Longrightarrow> is_split d (filter P ls)"
proof (induction ls)
  case (Cons l ls)
  then show ?case by (cases "filter P ls") (auto simp: is_split_Cons)
qed simp

lemma is_split_with_newline: "\<forall>l \<in> set ls. LF \<notin> set l \<Longrightarrow> is_split LF (map with_newline ls)"
  by (induction ls) (auto simp: is_split_Cons with_newline_def)

lemma strip_newline_with_newline: "l = [] \<or> last l \<noteq> CR \<Longrightarrow> strip_newline (with_newline l) = l"
  by (auto simp: strip_newline_def with_newline_def strip_suffix_Some_iff split: option.split)

lemma lines_with_newline:
  assumes "\<forall>l \<in> set ls. LF \<notin> set l \<and> (l = [] \<or> last l \<noteq> CR)"
  shows "lines (concat (map with_newline ls)) = ls"
proof -
  have "split_inclusive LF (concat (map with_newline ls)) = map with_newline ls"
    using assms by (intro split_inclusive_concat is_split_with_newline) simp
  then show ?thesis using assms by (auto simp: lines_def strip_newline_with_newline intro!: map_idI)
qed

lemma strip_newline_cases:
  obtains (plain) "strip_newline l = l" "l = [] \<or> last l \<noteq> LF" | (newline) "l = strip_newline l @ [LF]"
  | (return) "l = strip_newline l @ [CR, LF]"
proof (cases "strip_suffix [LF] l")
  case None
  then have "l = [] \<or> last l \<noteq> LF" by (metis append_butlast_last_id option.distinct(1) strip_suffix_append)
  with None show ?thesis by (intro plain) (simp_all add: strip_newline_def)
next
  case (Some l')
  then have l: "l = l' @ [LF]" by (simp add: strip_suffix_Some_iff)
  show ?thesis
  proof (cases "strip_suffix [CR] l'")
    case None then show ?thesis using Some l by (intro newline) (simp add: strip_newline_def)
  next
    case (Some m)
    then have "l' = m @ [CR]" by (simp add: strip_suffix_Some_iff)
    moreover have "strip_newline l = m" using Some \<open>strip_suffix [LF] l = Some l'\<close> by (simp add: strip_newline_def)
    ultimately show ?thesis using l by (intro return) simp
  qed
qed

lemma is_split_member: "is_split d ls \<Longrightarrow> l \<in> set ls \<Longrightarrow> l \<noteq> [] \<and> d \<notin> set (butlast l)"
  by (induction ls) (auto simp: is_split_Cons)

lemma lines_no_LF:
  assumes "l \<in> set (lines s)" shows "LF \<notin> set l"
proof -
  obtain m where m: "m \<in> set (split_inclusive LF s)" "l = strip_newline m" using assms by (auto simp: lines_def)
  have b: "LF \<notin> set (butlast m)" using is_split_member [OF is_split_split_inclusive m(1)] by simp
  show ?thesis
  proof (cases m rule: strip_newline_cases)
    case plain
    then show ?thesis using b m(2) by (metis Un_iff append_butlast_last_id empty_iff insert_iff list.set set_append)
  next
    case newline then show ?thesis using b m(2) by (metis butlast_snoc)
  next
    case return
    then have "butlast m = l @ [CR]" using m(2) by (metis append.assoc append_Cons append_Nil butlast_snoc)
    then show ?thesis using b by simp
  qed
qed

lemma lines_subset: "l \<in> set (lines s) \<Longrightarrow> set l \<subseteq> set s"
proof -
  assume "l \<in> set (lines s)"
  then obtain m where m: "m \<in> set (split_inclusive LF s)" "l = strip_newline m" by (auto simp: lines_def)
  have "set l \<subseteq> set m" unfolding m(2) by (cases m rule: strip_newline_cases) (metis Un_upper1 order_refl set_append)+
  moreover have "set m \<subseteq> set s" using m(1) by (metis UN_upper concat_split_inclusive set_concat)
  ultimately show ?thesis by simp
qed

lemma join_newlines: "ls \<noteq> [] \<Longrightarrow> join [LF] ls @ [LF] = concat (map with_newline ls)"
proof (induction ls)
  case (Cons l ls) then show ?case by (cases "ls = []") (auto simp: with_newline_def join_Cons)
qed simp

section \<open>Trimming\<close>

lemma newline_unit:
  "find (\<lambda>u. u \<noteq> [] \<and> starts_with (LF # s) u) (map rev whitespace_units) = Some [LF]"
  "find (\<lambda>u. u \<noteq> [] \<and> starts_with (CR # s) u) (map rev whitespace_units) = Some [CR]"
  "find (\<lambda>u. u \<noteq> [] \<and> starts_with (LF # s) u) whitespace_units = Some [LF]"
  "find (\<lambda>u. u \<noteq> [] \<and> starts_with (CR # s) u) whitespace_units = Some [CR]"
  by (simp_all add: whitespace_units_def starts_with_iff)

lemma trim_end_newline [simp]: "trim_end (s @ [LF]) = trim_end s" "trim_end (s @ [CR]) = trim_end s"
  unfolding trim_end_def by (simp_all add: strip_units.simps [of _ "x # xs" for x xs] newline_unit)

lemma unit_with_newline:
  assumes "u \<in> set whitespace_units" "s \<noteq> []" "c = LF \<or> c = CR"
  shows "starts_with (s @ [c]) u \<longleftrightarrow> starts_with s u"
proof
  assume "starts_with (s @ [c]) u"
  then obtain r where r: "s @ [c] = u @ r" by (auto simp: starts_with_iff)
  show "starts_with s u"
  proof (cases r rule: rev_cases)
    case Nil
    then have "c \<in> set u" "length u > 1" using r assms(2) by (metis append_Nil2 in_set_conv_decomp) (use r Nil assms(2) in \<open>cases s; auto\<close>)
    then show ?thesis using assms(1,3) by (auto simp: whitespace_units_def)
  next
    case (snoc r' x)
    then show ?thesis using r by (auto simp: starts_with_iff)
  qed
qed (auto simp: starts_with_iff)

lemma trim_start_newline:
  "c = LF \<or> c = CR \<Longrightarrow> trim_start (s @ [c]) = (if trim_start s = [] then [] else trim_start s @ [c])"
proof -
  assume c: "c = LF \<or> c = CR"
  have "strip_units us (s @ [c]) = (if strip_units us s = [] then [] else strip_units us s @ [c])"
    if "us = whitespace_units" for us
    using that
  proof (induction us s rule: strip_units.induct)
    case (1 us s)
    show ?case
    proof (cases "s = []")
      case True
      have "strip_units us [c] = []" using c newline_unit(3,4) [of "[]"] "1.prems"
        by (auto simp: strip_units.simps [of _ "x # xs" for x xs] strip_units_fixed starts_with_iff)
      then show ?thesis using True by (simp add: strip_units_fixed starts_with_iff)
    next
      case False
      have same: "find (\<lambda>u. u \<noteq> [] \<and> starts_with (s @ [c]) u) us = find (\<lambda>u. u \<noteq> [] \<and> starts_with s u) us"
        using unit_with_newline [OF _ False c] "1.prems" by (intro find_cong) auto
      show ?thesis
      proof (cases "find (\<lambda>u. u \<noteq> [] \<and> starts_with s u) us")
        case None
        then show ?thesis using same False by (subst (1 2 3) strip_units.simps) simp
      next
        case (Some u)
        then have "length u \<le> length s" by (auto simp: find_Some_iff starts_with_iff)
        then show ?thesis using same Some "1.IH" [OF Some "1.prems"]
          by (subst (1 2 3) strip_units.simps) simp
      qed
    qed
  qed
  then show ?thesis by (simp add: trim_start_def)
qed

lemma trim_newline [simp]: "trim (s @ [LF]) = trim s" "trim (s @ [CR]) = trim s"
  by (simp_all add: trim_def trim_start_newline)

lemma trim_strip_newline [simp]: "trim (strip_newline l) = trim l"
proof (cases l rule: strip_newline_cases)
  case return
  then have "trim l = trim ((strip_newline l @ [CR]) @ [LF])" by simp
  then show ?thesis by (simp only: trim_newline)
qed (metis trim_newline)+

lemma trim_with_newline [simp]: "trim (with_newline l) = trim l"
  by (simp add: with_newline_def)

lemma trim_first:
  assumes "\<forall>u \<in> set whitespace_units. u \<noteq> [] \<longrightarrow> hd u \<noteq> c" "trim (c # s) = x" "x \<noteq> []"
  shows "hd x = c"
proof -
  have "trim_start (c # s) = c # s"
    unfolding trim_start_def using assms(1) by (intro strip_units_fixed) (metis hd_append2 list.sel(1) starts_with_iff)
  moreover obtain q where "c # s = trim_end (c # s) @ q" using trim_end_prefix by blast
  ultimately show ?thesis using assms(2,3) by (cases x) (auto simp: trim_def)
qed

end
