(* ===== verification/Codex_Env.thy ===== *)
theory Codex_Env
  imports Text_Lines
begin

text \<open>
  The environment of Codex in \<open>main.rs\<close>: the managed block of the \<open>.env\<close> file the IDE extension reads
  (\<open>merge_codex_ide_env\<close>, \<open>strip_codex_ide_env_block\<close>) and the arguments \<open>saiai codex\<close> puts in front of the
  ones it was given (\<open>codex_launcher_args\<close>).  The JSON writer of strings is a parameter.
\<close>

section \<open>Managed variables\<close>

definition codex_managed_env :: "string list" where
  "codex_managed_env =
     [''OPENAI_API_KEY'', ''OPENAI_BASE_URL'', ''OPENAI_API_BASE'', ''CODEX_ACCESS_TOKEN'', ''CODEX_CA_CERTIFICATE'',
      ''SSL_CERT_FILE'', ''HTTP_PROXY'', ''HTTPS_PROXY'', ''ALL_PROXY'', ''NO_PROXY'',
      ''http_proxy'', ''https_proxy'', ''all_proxy'', ''no_proxy'']"

definition codex_local_proxy_no_proxy :: string where
  "codex_local_proxy_no_proxy =
     ''localhost,127.0.0.1,::1,10.0.0.0/8,172.16.0.0/12,192.168.0.0/16,169.254.0.0/16,fc00::/7,fe80::/10,.local''"

definition codex_ide_env_begin :: string where
  "codex_ide_env_begin = ''# BEGIN SAIAI CODEX IDE (managed)''"

definition codex_ide_env_end :: string where
  "codex_ide_env_end = ''# END SAIAI CODEX IDE (managed)''"

definition is_managed_codex_env :: "string \<Rightarrow> bool" where
  "is_managed_codex_env key = list_ex (eq_ignore_ascii_case key) codex_managed_env"

definition dotenv_assignment_key :: "string \<Rightarrow> string option" where
  "dotenv_assignment_key line =
     (let assignment = trim_start line;
          assignment = (case strip_prefix ''export '' assignment of None \<Rightarrow> assignment | Some rest \<Rightarrow> trim_start rest)
      in case split_once CHR ''='' assignment of
           None \<Rightarrow> None
         | Some (key, _) \<Rightarrow>
             let key = trim key in
             if key = [] \<or> \<not> list_all (\<lambda>c. c = CHR ''_'' \<or> is_ascii_alphanumeric c) key then None else Some key)"

section \<open>The managed block\<close>

record block_scan =
  in_managed_block :: bool
  last_begin :: "nat option"
  last_end :: "nat option"
  keep :: "bool list"

definition scan_block_line :: "nat \<times> string \<Rightarrow> block_scan \<Rightarrow> block_scan" where
  "scan_block_line = (\<lambda>(index, line) s.
     if trim line = codex_ide_env_begin
     then s\<lparr>in_managed_block := True, last_begin := Some index, keep := keep s @ [False]\<rparr>
     else if trim line = codex_ide_env_end
     then s\<lparr>in_managed_block := False, last_end := Some index, keep := keep s @ [False]\<rparr>
     else s\<lparr>keep := keep s @ [\<not> in_managed_block s]\<rparr>)"

definition scan_block :: "string list \<Rightarrow> block_scan" where
  "scan_block ls = fold scan_block_line (enumerate 0 ls)
     \<lparr>in_managed_block = False, last_begin = None, last_end = None, keep = []\<rparr>"

definition trailing_block :: "string list \<Rightarrow> block_scan \<Rightarrow> nat option" where
  "trailing_block ls s =
     (case last_begin s of
        None \<Rightarrow> None
      | Some b \<Rightarrow>
          if in_managed_block s then Some b
          else (case last_end s of
              None \<Rightarrow> None
            | Some e \<Rightarrow> if list_all is_blank (drop (e + 1) ls) then Some b else None))"

definition drop_separator :: "string list \<Rightarrow> block_scan \<Rightarrow> bool list" where
  "drop_separator ls s =
     (case trailing_block ls s of
        None \<Rightarrow> keep s
      | Some b \<Rightarrow> if b > 0 \<and> keep s ! (b - 1) \<and> is_blank (ls ! (b - 1)) then (keep s)[b - 1 := False] else keep s)"

record stripped_env =
  stripped_content :: string
  stripped_complete :: bool

definition strip_codex_ide_env_block :: "string \<Rightarrow> stripped_env" where
  "strip_codex_ide_env_block raw =
     (let ls = split_inclusive LF raw; s = scan_block ls
      in \<lparr>stripped_content = concat (map fst (filter snd (zip ls (drop_separator ls s)))),
          stripped_complete = \<not> in_managed_block s\<rparr>)"

definition kept_lines :: "string \<Rightarrow> string list" where
  "kept_lines raw =
     (let kept = filter (\<lambda>line. \<not> (case dotenv_assignment_key line of Some key \<Rightarrow> is_managed_codex_env key | None \<Rightarrow> False))
                   (lines (stripped_content (strip_codex_ide_env_block raw)))
      in rev (dropWhile is_blank (rev kept)))"

definition codex_ide_assignments :: "string \<Rightarrow> string \<Rightarrow> (string \<times> string) list" where
  "codex_ide_assignments listen ca_cert_path =
     (let proxy = ''http://'' @ listen in
      [(''SSL_CERT_FILE'', ca_cert_path), (''HTTP_PROXY'', proxy), (''HTTPS_PROXY'', proxy), (''ALL_PROXY'', proxy),
       (''NO_PROXY'', codex_local_proxy_no_proxy), (''http_proxy'', proxy), (''https_proxy'', proxy),
       (''all_proxy'', proxy), (''no_proxy'', codex_local_proxy_no_proxy)])"

definition merge_codex_ide_env :: "(string \<Rightarrow> string) \<Rightarrow> string \<Rightarrow> string \<Rightarrow> string \<Rightarrow> string" where
  "merge_codex_ide_env json_string raw listen ca_cert_path =
     (let kept = kept_lines raw;
          kept = (if kept \<noteq> [] then kept @ [[]] else kept) @ [codex_ide_env_begin]
      in join [LF] kept @
         List.maps (\<lambda>(key, value). [LF] @ key @ ''='' @ json_string value) (codex_ide_assignments listen ca_cert_path) @
         [LF] @ codex_ide_env_end @ [LF])"

section \<open>Arguments of the launcher\<close>

definition codex_environment_context_time_key :: string where
  "codex_environment_context_time_key = ''include_environment_context_time''"

definition override_key :: "string \<Rightarrow> string" where
  "override_key value = trim (case split_once CHR ''='' value of None \<Rightarrow> value | Some (key, _) \<Rightarrow> key)"

definition stripped_flag :: "string list \<Rightarrow> string \<Rightarrow> string option" where
  "stripped_flag flags arg =
     (case List.map_filter (\<lambda>flag. strip_prefix (flag @ ''='') arg) flags of [] \<Rightarrow> None | v # _ \<Rightarrow> Some v)"

fun args_override :: "string list \<Rightarrow> string list \<Rightarrow> (string \<Rightarrow> bool) \<Rightarrow> string list \<Rightarrow> bool" where
  "args_override flags prefixes matches [] = False"
| "args_override flags prefixes matches (arg # rest) =
     (if arg = ''--'' then False
      else if List.member flags arg then
        (case rest of [] \<Rightarrow> False
         | value # rest' \<Rightarrow> matches (override_key value) \<or> args_override flags prefixes matches rest')
      else (case stripped_flag prefixes arg of Some value \<Rightarrow> matches (override_key value) | None \<Rightarrow> False) \<or>
           args_override flags prefixes matches rest)"

definition codex_args_override_feature :: "string list \<Rightarrow> string \<Rightarrow> bool" where
  "codex_args_override_feature args feature =
     args_override [''-c'', ''--config'', ''--enable'', ''--disable''] [''--config'', ''--enable'', ''--disable'']
       (\<lambda>key. key = feature \<or> key = ''features.'' @ feature) args"

definition codex_args_override_config_key :: "string list \<Rightarrow> string \<Rightarrow> bool" where
  "codex_args_override_config_key args expected =
     args_override [''-c'', ''--config''] [''--config''] ((=) expected) args"

definition codex_respect_system_proxy_enabled :: bool where
  "codex_respect_system_proxy_enabled = False"

definition codex_launcher_args :: "string list \<Rightarrow> string list" where
  "codex_launcher_args args =
     (if codex_args_override_feature args ''respect_system_proxy'' then []
      else [''-c'', ''features.respect_system_proxy='' @
              (if codex_respect_system_proxy_enabled then ''true'' else ''false'')]) @
     (if codex_args_override_config_key args ''otel.metrics_exporter'' then []
      else [''-c'', ''otel.metrics_exporter=\"none\"'']) @
     (if codex_args_override_feature args ''apps'' then [] else [''-c'', ''features.apps=false'']) @
     (if codex_args_override_config_key args codex_environment_context_time_key then []
      else [''-c'', ''include_environment_context_time=false'']) @ args"

section \<open>Reading the file back\<close>

definition marker :: "string \<Rightarrow> bool" where
  "marker line \<longleftrightarrow> trim line = codex_ide_env_begin \<or> trim line = codex_ide_env_end"

definition assigns_managed :: "string \<Rightarrow> bool" where
  "assigns_managed line \<longleftrightarrow> (\<exists>key. dotenv_assignment_key line = Some key \<and> is_managed_codex_env key)"

definition without_trailing_blanks :: "string list \<Rightarrow> string list" where
  "without_trailing_blanks ls = rev (dropWhile is_blank (rev ls))"

lemma kept_lines_alt:
  "kept_lines raw = without_trailing_blanks
     (filter (\<lambda>l. \<not> assigns_managed l) (lines (stripped_content (strip_codex_ide_env_block raw))))"
proof -
  have "(case dotenv_assignment_key l of Some key \<Rightarrow> is_managed_codex_env key | None \<Rightarrow> False) = assigns_managed l" for l
    by (auto simp: assigns_managed_def split: option.split)
  then show ?thesis by (simp add: kept_lines_def without_trailing_blanks_def Let_def)
qed

lemma without_trailing_blanks_subset: "set (without_trailing_blanks ls) \<subseteq> set ls"
  using set_dropWhileD by (fastforce simp: without_trailing_blanks_def)

lemma without_trailing_blanks_last:
  "without_trailing_blanks ls \<noteq> [] \<Longrightarrow> \<not> is_blank (last (without_trailing_blanks ls))"
  unfolding without_trailing_blanks_def by (metis hd_dropWhile last_rev rev_is_Nil_conv)

lemma without_trailing_blanks_id: "ls = [] \<or> \<not> is_blank (last ls) \<Longrightarrow> without_trailing_blanks ls = ls"
  by (cases ls rule: rev_cases) (auto simp: without_trailing_blanks_def)

lemma scan_plain_lines:
  "\<forall>l \<in> set ls. \<not> marker l \<Longrightarrow>
     fold scan_block_line (enumerate i ls) s = s\<lparr>keep := keep s @ replicate (length ls) (\<not> in_managed_block s)\<rparr>"
  by (induction ls arbitrary: i s) (auto simp: scan_block_line_def marker_def)

lemma scan_block_flags:
  "\<exists>fs. keep (fold scan_block_line (enumerate i ls) s) = keep s @ fs \<and> length fs = length ls \<and>
     (\<forall>j < length ls. fs ! j \<longrightarrow> \<not> marker (ls ! j))"
proof (induction ls arbitrary: i s)
  case (Cons l ls)
  let ?s = "scan_block_line (i, l) s"
  have k: "\<exists>f. keep ?s = keep s @ [f] \<and> (f \<longrightarrow> \<not> marker l)" by (auto simp: scan_block_line_def marker_def)
  then obtain f where f: "keep ?s = keep s @ [f]" "f \<longrightarrow> \<not> marker l" by blast
  obtain fs where "keep (fold scan_block_line (enumerate (Suc i) ls) ?s) = keep ?s @ fs" "length fs = length ls"
    "\<forall>j < length ls. fs ! j \<longrightarrow> \<not> marker (ls ! j)" using Cons.IH [of "Suc i" ?s] by blast
  then show ?case using f by (intro exI [of _ "f # fs"]) (auto simp: nth_Cons split: nat.split)
qed simp

lemma list_update_False: "(fs[i := False]) ! j \<Longrightarrow> fs ! j"
  by (cases "i = j"; cases "j < length fs") (auto simp: not_less list_update_beyond)

lemma drop_separator_flags:
  "length (drop_separator ls (scan_block ls)) = length ls \<and>
     (\<forall>j < length ls. drop_separator ls (scan_block ls) ! j \<longrightarrow> \<not> marker (ls ! j))"
  using scan_block_flags [of 0 ls "\<lparr>in_managed_block = False, last_begin = None, last_end = None, keep = []\<rparr>"]
  by (auto simp: drop_separator_def scan_block_def dest: list_update_False split: option.split)

lemma is_split_selected: "is_split d ls \<Longrightarrow> is_split d (map fst (filter snd (zip ls fs)))"
proof (induction ls arbitrary: fs)
  case (Cons l ls)
  show ?case
  proof (cases fs)
    case (Cons f fs')
    have ls: "is_split d (map fst (filter snd (zip ls fs')))" using "Cons.IH" "Cons.prems" by (simp add: is_split_Cons)
    show ?thesis
    proof (cases "map fst (filter snd (zip ls fs')) = []")
      case False
      then have "ls \<noteq> []" by auto
      then show ?thesis using Cons.prems ls Cons by (auto simp: is_split_Cons)
    qed (use Cons.prems Cons in \<open>auto simp: is_split_Cons\<close>)
  qed simp
qed simp

lemma stripped_lines:
  "lines (stripped_content (strip_codex_ide_env_block raw)) =
     map strip_newline (map fst (filter snd (zip (split_inclusive LF raw)
       (drop_separator (split_inclusive LF raw) (scan_block (split_inclusive LF raw))))))"
  by (simp add: strip_codex_ide_env_block_def Let_def lines_def split_inclusive_concat
      is_split_selected is_split_split_inclusive del: map_map)

lemma marker_strip [simp]: "marker (strip_newline l) = marker l" "marker (with_newline l) = marker l"
  by (simp_all add: marker_def)

lemma kept_lines_properties:
  assumes "k \<in> set (kept_lines raw)"
  shows "LF \<notin> set k" "\<not> marker k" "\<not> assigns_managed k" "k \<in> set (lines raw)"
proof -
  let ?ls = "split_inclusive LF raw"
  have k: "k \<in> set (lines (stripped_content (strip_codex_ide_env_block raw)))" "\<not> assigns_managed k"
    using assms without_trailing_blanks_subset unfolding kept_lines_alt by fastforce+
  then obtain l where l: "(l, True) \<in> set (zip ?ls (drop_separator ?ls (scan_block ?ls)))" "k = strip_newline l"
    unfolding stripped_lines by auto
  then have "\<not> marker l" using drop_separator_flags [of ?ls] by (auto simp: in_set_zip)
  with l(2) show "\<not> marker k" by simp
  show "\<not> assigns_managed k" by fact
  show "k \<in> set (lines raw)" using l by (auto simp: lines_def dest: set_zip_leftD)
  then show "LF \<notin> set k" by (rule lines_no_LF)
qed

lemma strip_unmarked:
  assumes "\<forall>l \<in> set (lines raw). \<not> marker l"
  shows "strip_codex_ide_env_block raw = \<lparr>stripped_content = raw, stripped_complete = True\<rparr>"
proof -
  have plain: "\<forall>l \<in> set (split_inclusive LF raw). \<not> marker l" using assms by (auto simp: lines_def)
  have "map fst (filter snd (zip ls (replicate (length ls) True))) = ls" for ls :: "string list"
    by (induction ls) auto
  then show ?thesis
    unfolding strip_codex_ide_env_block_def Let_def
    by (simp add: scan_block_def scan_plain_lines [OF plain] drop_separator_def trailing_block_def)
qed

section \<open>The merged file\<close>

definition managed_block :: "(string \<Rightarrow> string) \<Rightarrow> string \<Rightarrow> string \<Rightarrow> string list" where
  "managed_block json_string listen ca_cert_path =
     codex_ide_env_begin # map (\<lambda>(key, value). key @ ''='' @ json_string value) (codex_ide_assignments listen ca_cert_path)
       @ [codex_ide_env_end]"

definition separated :: "string list \<Rightarrow> string list" where
  "separated kept = kept @ (if kept = [] then [] else [[]])"

lemma maps_lines: "List.maps (\<lambda>(key, value). [LF] @ key @ ''='' @ f value) as @ [LF] =
    [LF] @ concat (map with_newline (map (\<lambda>(key, value). key @ ''='' @ f value) as))"
  by (induction as) (auto simp: with_newline_def)

lemma merge_lines:
  "merge_codex_ide_env js raw listen ca = concat (map with_newline (separated (kept_lines raw) @ managed_block js listen ca))"
proof -
  let ?kept = "separated (kept_lines raw) @ [codex_ide_env_begin]"
  have "merge_codex_ide_env js raw listen ca =
      join [LF] ?kept @ (List.maps (\<lambda>(key, value). [LF] @ key @ ''='' @ js value) (codex_ide_assignments listen ca) @ [LF])
        @ codex_ide_env_end @ [LF]"
    by (simp add: merge_codex_ide_env_def Let_def separated_def)
  also have "\<dots> = (join [LF] ?kept @ [LF]) @
      concat (map with_newline (map (\<lambda>(key, value). key @ ''='' @ js value) (codex_ide_assignments listen ca)))
        @ codex_ide_env_end @ [LF]" unfolding maps_lines by simp
  also have "join [LF] ?kept @ [LF] = concat (map with_newline ?kept)" by (rule join_newlines) simp
  finally show ?thesis by (simp add: managed_block_def with_newline_def [abs_def] comp_def)
qed

lemma markers: "marker codex_ide_env_begin" "trim codex_ide_env_begin = codex_ide_env_begin"
  "trim codex_ide_env_end = codex_ide_env_end" "codex_ide_env_begin \<noteq> codex_ide_env_end"
  "LF \<notin> set codex_ide_env_begin" "LF \<notin> set codex_ide_env_end"
  unfolding marker_def by code_simp+

lemma assignment_not_marker: "l \<in> set (map (\<lambda>(key, value). key @ ''='' @ js value) (codex_ide_assignments listen ca)) \<Longrightarrow>
  \<not> marker l"
proof
  assume l: "l \<in> set (map (\<lambda>(key, value). key @ ''='' @ js value) (codex_ide_assignments listen ca))" "marker l"
  then obtain c s where cs: "l = c # s" "c \<in> set ''SHANhan''" by (auto simp: codex_ide_assignments_def Let_def)
  have "list_all (\<lambda>c. list_all (\<lambda>u. u \<noteq> [] \<longrightarrow> hd u \<noteq> c) whitespace_units) ''SHANhan''" by code_simp
  then have c: "\<forall>u \<in> set whitespace_units. u \<noteq> [] \<longrightarrow> hd u \<noteq> c" using cs(2) unfolding list_all_iff by blast
  have "trim l \<noteq> []" "hd (trim l) = CHR ''#''"
    using l(2) by (auto simp: marker_def codex_ide_env_begin_def codex_ide_env_end_def)
  with trim_first [OF c, of s "trim l"] cs show False by auto
qed

lemma scan_block_line_marker:
  "trim l = codex_ide_env_begin \<Longrightarrow>
     scan_block_line (i, l) s = s\<lparr>in_managed_block := True, last_begin := Some i, keep := keep s @ [False]\<rparr>"
  "trim l = codex_ide_env_end \<Longrightarrow>
     scan_block_line (i, l) s = s\<lparr>in_managed_block := False, last_end := Some i, keep := keep s @ [False]\<rparr>"
  using markers(4) by (simp_all add: scan_block_line_def)

lemma scan_merged:
  assumes K: "\<forall>l \<in> set K. \<not> marker l" and A: "\<forall>l \<in> set A. \<not> marker l"
    and b: "trim b = codex_ide_env_begin" and e: "trim e = codex_ide_env_end"
  shows "scan_block (K @ b # A @ [e]) =
    \<lparr>in_managed_block = False, last_begin = Some (length K), last_end = Some (Suc (length K + length A)),
     keep = replicate (length K) True @ replicate (Suc (Suc (length A))) False\<rparr>"
  by (simp add: scan_block_def enumerate_append_eq scan_plain_lines [OF K] scan_plain_lines [OF A]
      scan_block_line_marker(1) [OF b] scan_block_line_marker(2) [OF e] replicate_append_same)

lemma selected_prefix: "map fst (filter snd (zip (K @ M) (replicate (length K) True @ replicate n False))) = K"
proof -
  have "filter snd (zip M (replicate n False)) = []" by (auto simp: filter_empty_conv dest: set_zip_rightD)
  moreover have "map fst (filter snd (zip K (replicate (length K) True))) = K"
    by (induction K) auto
  ultimately show ?thesis by simp
qed

lemma strip_merged:
  assumes js: "\<And>v. LF \<notin> set (js v)" and kept: "\<And>k. k \<in> set kept \<Longrightarrow> LF \<notin> set k \<and> \<not> marker k"
    and address: "LF \<notin> set listen" "LF \<notin> set ca"
  shows "strip_codex_ide_env_block (concat (map with_newline (separated kept @ managed_block js listen ca))) =
    \<lparr>stripped_content = concat (map with_newline kept), stripped_complete = True\<rparr>"
proof -
  let ?A = "map (\<lambda>(key, value). key @ ''='' @ js value) (codex_ide_assignments listen ca)"
  let ?K = "map with_newline (separated kept)" and ?M = "map with_newline ?A"
  let ?b = "with_newline codex_ide_env_begin" and ?e = "with_newline codex_ide_env_end"
  let ?ls = "map with_newline (separated kept @ managed_block js listen ca)"
  have "LF \<notin> set l" if "l \<in> set ?A" for l
    using that js by (auto simp: codex_ide_assignments_def Let_def)
  then have whole: "split_inclusive LF (concat ?ls) = ?ls"
    using kept markers(5,6)
    by (intro split_inclusive_concat is_split_with_newline) (auto simp: separated_def managed_block_def split: if_splits)
  have ls: "?ls = ?K @ ?b # ?M @ [?e]" by (simp add: managed_block_def)
  have blank: "\<not> marker []" by (simp add: marker_def codex_ide_env_begin_def codex_ide_env_end_def)
  have scan: "scan_block ?ls = \<lparr>in_managed_block = False, last_begin = Some (length ?K),
      last_end = Some (Suc (length ?K + length ?M)),
      keep = replicate (length ?K) True @ replicate (Suc (Suc (length ?M))) False\<rparr>"
    unfolding ls
  proof (rule scan_merged)
    show "\<forall>l \<in> set ?K. \<not> marker l" using kept blank by (auto simp: separated_def split: if_splits)
    show "\<forall>l \<in> set ?M. \<not> marker l" using assignment_not_marker by fastforce
  qed (simp_all add: markers)
  have trailing: "trailing_block ?ls (scan_block ?ls) = Some (length ?K)"
  proof -
    have "drop (Suc (length ?K + length ?M) + 1) ?ls = []" unfolding ls by simp
    then show ?thesis unfolding scan trailing_block_def by (simp del: map_append drop_map)
  qed
  have flags: "drop_separator ?ls (scan_block ?ls) =
      replicate (length kept) True @ replicate (length (separated kept) - length kept + length ?M + 2) False"
  proof (cases "kept = []")
    case True
    then show ?thesis unfolding drop_separator_def trailing unfolding scan by (simp add: separated_def)
  next
    case False
    have "is_blank [LF]" using trim_newline(1) [of "[]"] by (simp add: is_blank_def)
    then have "is_blank (?ls ! (length ?K - 1))" using False
      by (simp add: ls separated_def nth_append with_newline_def)
    then show ?thesis using False unfolding drop_separator_def trailing unfolding scan
      by (simp add: separated_def nth_append list_update_append replicate_append_same [symmetric])
  qed
  have shape: "?ls = map with_newline kept @ ((if kept = [] then [] else [[LF]]) @ ?b # ?M @ [?e])"
    by (simp add: managed_block_def separated_def with_newline_def)
  have "map fst (filter snd (zip ?ls (drop_separator ?ls (scan_block ?ls)))) = map with_newline kept"
    by (subst flags, subst shape, rule selected_prefix [of "map with_newline kept", unfolded length_map])
  then show ?thesis
    unfolding strip_codex_ide_env_block_def Let_def whole by (simp only: scan block_scan.simps not_False_eq_True)
qed

text \<open>
  C13: the managed block of the environment file of Codex can be written and removed again.  Whatever the file
  holds, merging writes the lines that are kept, a blank line and the block; removing the block gives back
  the kept lines and finds the block complete; and merging again, with any other address, only replaces
  the block.  When the file has no marker, every line that does not assign a managed variable is kept, in
  its order, up to blank lines at the end.
\<close>

theorem codex_env_round_trip:
  assumes json: "\<And>v. LF \<notin> set (js v)" and addresses: "LF \<notin> set listen" "LF \<notin> set ca"
  shows "strip_codex_ide_env_block (merge_codex_ide_env js raw listen ca) =
      \<lparr>stripped_content = concat (map with_newline (kept_lines raw)), stripped_complete = True\<rparr> \<and>
    (CR \<notin> set raw \<longrightarrow> merge_codex_ide_env js (merge_codex_ide_env js raw listen ca) listen' ca' =
      merge_codex_ide_env js raw listen' ca') \<and>
    (list_all (\<lambda>l. \<not> marker l) (lines raw) \<longrightarrow>
      kept_lines raw = without_trailing_blanks (filter (\<lambda>l. \<not> assigns_managed l) (lines raw)))"
proof (intro conjI impI)
  show strip: "strip_codex_ide_env_block (merge_codex_ide_env js raw listen ca) =
      \<lparr>stripped_content = concat (map with_newline (kept_lines raw)), stripped_complete = True\<rparr>"
    unfolding merge_lines by (rule strip_merged) (auto simp: json addresses kept_lines_properties)
  show "merge_codex_ide_env js (merge_codex_ide_env js raw listen ca) listen' ca' = merge_codex_ide_env js raw listen' ca'"
    if raw: "CR \<notin> set raw"
  proof -
    have "k = [] \<or> last k \<noteq> CR" if "k \<in> set (kept_lines raw)" for k
    proof -
      have "set k \<subseteq> set raw" using kept_lines_properties(4) [OF that] by (rule lines_subset)
      then show ?thesis using raw by (metis last_in_set subsetD)
    qed
    then have "lines (concat (map with_newline (kept_lines raw))) = kept_lines raw"
      by (intro lines_with_newline) (auto simp: kept_lines_properties)
    moreover have "without_trailing_blanks (kept_lines raw) = kept_lines raw"
      using without_trailing_blanks_last by (intro without_trailing_blanks_id) (auto simp: kept_lines_alt)
    moreover have "filter (\<lambda>l. \<not> assigns_managed l) (kept_lines raw) = kept_lines raw"
      by (rule filter_True) (simp add: kept_lines_properties)
    ultimately have "kept_lines (merge_codex_ide_env js raw listen ca) = kept_lines raw"
      unfolding kept_lines_alt [of "merge_codex_ide_env js raw listen ca"] strip by simp
    then show ?thesis by (simp add: merge_lines)
  qed
  show "kept_lines raw = without_trailing_blanks (filter (\<lambda>l. \<not> assigns_managed l) (lines raw))"
    if "list_all (\<lambda>l. \<not> marker l) (lines raw)"
    unfolding kept_lines_alt strip_unmarked [OF that [unfolded list_all_iff]] by simp
qed

theorem codex_env_round_trip_witness:
  "let js = (\<lambda>v. CHR 0x22 # v @ [CHR 0x22]);
       raw = concat (map with_newline [''KEY=1'', ''export HTTP_PROXY=old'', ''OTHER=2'', [], []])
   in kept_lines raw = [''KEY=1'', ''OTHER=2''] \<and>
     strip_codex_ide_env_block (merge_codex_ide_env (filter ((\<noteq>) LF) \<circ> js) raw ''127.0.0.1:1'' ''/ca'') =
      \<lparr>stripped_content = concat (map with_newline [''KEY=1'', ''OTHER=2'']), stripped_complete = True\<rparr>"
proof -
  let ?raw = "concat (map with_newline [''KEY=1'', ''export HTTP_PROXY=old'', ''OTHER=2'', [], []])"
  have "kept_lines ?raw = [''KEY=1'', ''OTHER=2'']" by code_simp
  moreover have "LF \<notin> set ((filter ((\<noteq>) LF) \<circ> (\<lambda>v. CHR 0x22 # v @ [CHR 0x22])) v)" for v by simp
  note codex_env_round_trip [of "filter ((\<noteq>) LF) \<circ> (\<lambda>v. CHR 0x22 # v @ [CHR 0x22])" "''127.0.0.1:1''" "''/ca''" ?raw, OF this]
  ultimately show ?thesis by (simp add: Let_def)
qed

end
