(* ===== verification/Codex_Config.thy ===== *)
theory Codex_Config
  imports Codex_Auth Codex_Env
begin

text \<open>
  The configuration files of Codex (\<open>prepare_codex_oauth_files\<close> and the functions it calls in \<open>main.rs\<close>): every
  profile uses the built-in provider, reports no local time and leaves proxy discovery off.  A \<open>toml_edit\<close>
  document is the list of its entries; parsing and printing, with comments and layout, are parameters.
\<close>

section \<open>Documents\<close>

datatype toml_item = ItemBool bool | ItemString string | ItemOther string | ItemTable "(string \<times> toml_item) list"

type_synonym toml_document = "(string \<times> toml_item) list"

record toml_library =
  parse_document :: "string \<Rightarrow> (string, toml_document) result"
  document_text :: "toml_document \<Rightarrow> string"

fun item_as_bool :: "toml_item \<Rightarrow> bool option" where
  "item_as_bool (ItemBool b) = Some b"
| "item_as_bool _ = None"

fun item_as_table :: "toml_item \<Rightarrow> toml_document option" where
  "item_as_table (ItemTable t) = Some t"
| "item_as_table _ = None"

datatype codex_environment_context_time = TimeDisabled | TimeMissing | TimeEnabled | TimeInvalid

definition codex_environment_context_time :: "toml_document \<Rightarrow> codex_environment_context_time" where
  "codex_environment_context_time doc =
     (case map_of doc codex_environment_context_time_key of
        None \<Rightarrow> TimeMissing
      | Some i \<Rightarrow> (case item_as_bool i of Some False \<Rightarrow> TimeDisabled | Some True \<Rightarrow> TimeEnabled | None \<Rightarrow> TimeInvalid))"

definition disable_codex_environment_context_time :: "toml_document \<Rightarrow> bool \<times> toml_document" where
  "disable_codex_environment_context_time doc =
     (let previous = codex_environment_context_time doc in
      if previous = TimeDisabled then (False, doc)
      else (previous \<noteq> TimeMissing, AList.update codex_environment_context_time_key (ItemBool False) doc))"

definition features_message :: "path \<Rightarrow> string \<Rightarrow> string" where
  "features_message p suffix = show_path p @ '' has a `features` entry that is not a table'' @ suffix"

definition with_features_table :: "path \<Rightarrow> string \<Rightarrow> toml_document \<Rightarrow> (string, toml_document) result" where
  "with_features_table p suffix doc =
     (case map_of doc ''features'' of
        None \<Rightarrow> Inr []
      | Some i \<Rightarrow> ok_or (features_message p suffix) (item_as_table i))"

definition enable_codex_system_proxy :: "path \<Rightarrow> toml_document \<Rightarrow> (string, toml_document) result" where
  "enable_codex_system_proxy p doc =
     bind_result (with_features_table p ''; refusing to overwrite (backup is preserved)'' doc) (\<lambda>features.
       Inr (AList.update ''features''
         (ItemTable (AList.update ''respect_system_proxy'' (ItemBool codex_respect_system_proxy_enabled) features)) doc))"

definition clean_codex_oauth_document :: "toml_document \<Rightarrow> toml_document" where
  "clean_codex_oauth_document doc =
     (let doc = AList.update ''model_provider'' (ItemString ''openai'') doc;
          doc = fold AList.delete [''base_url'', ''openai_base_url'', ''chatgpt_base_url''] doc;
          doc = AList.delete ''model_providers'' doc
      in case Option.bind (map_of doc ''features'') item_as_table of
           None \<Rightarrow> doc
         | Some features \<Rightarrow>
             let features = AList.delete ''responses_websockets_v2'' (AList.delete ''responses_websockets'' features)
             in if features = [] then AList.delete ''features'' doc
                else AList.update ''features'' (ItemTable features) doc)"

text \<open>What is done to each document, in the order of the loop.\<close>

definition prepare_codex_document :: "bool \<Rightarrow> path \<Rightarrow> toml_document \<Rightarrow> (string, toml_document) result" where
  "prepare_codex_document persist_system_proxy p doc =
     (let doc = snd (disable_codex_environment_context_time (clean_codex_oauth_document doc))
      in if persist_system_proxy then enable_codex_system_proxy p doc else Inr doc)"

section \<open>Files\<close>

definition in_context :: "string \<Rightarrow> (string, 'a) result \<Rightarrow> (string, 'a) result" where
  "in_context what r = (case r of Inl e \<Rightarrow> Inl (context_of what e) | Inr x \<Rightarrow> Inr x)"

text \<open>\<open>fs::read_to_string\<close>: the bytes have to be UTF-8.\<close>

definition read_text :: "env \<Rightarrow> string \<Rightarrow> path \<Rightarrow> string cli" where
  "read_text E what p =
     bind_io (os_context what p (read_file E p)) (\<lambda>raw.
       if valid_utf8 raw then ret raw
       else throw (context_of (what @ show_path p) ''stream did not contain valid UTF-8''))"

definition read_codex_environment_context_time ::
  "env \<Rightarrow> toml_library \<Rightarrow> path \<Rightarrow> codex_environment_context_time cli" where
  "read_codex_environment_context_time E D p =
     bind_io (read_text E ''failed to read '' p) (\<lambda>raw.
     bind_io (lift_io (in_context (''failed to parse '' @ show_path p @ '' as TOML'') (parse_document D raw)))
       (\<lambda>doc. ret (codex_environment_context_time doc)))"

definition unmodified_context :: "path \<Rightarrow> string" where
  "unmodified_context p = ''failed to parse '' @ show_path p @ '' as TOML; no file was modified''"

definition read_main_document :: "env \<Rightarrow> toml_library \<Rightarrow> path \<Rightarrow> toml_document cli" where
  "read_main_document E D p =
     bind_io (path_exists E p) (\<lambda>present.
     bind_io (if present then read_text E ''failed to read '' p else ret []) (\<lambda>raw.
       if trim raw = [] then ret []
       else lift_io (in_context (unmodified_context p) (parse_document D raw))))"

primrec read_profiles :: "env \<Rightarrow> toml_library \<Rightarrow> path \<Rightarrow> string list \<Rightarrow> (path \<times> toml_document) list cli" where
  "read_profiles E D codex_dir [] = ret []"
| "read_profiles E D codex_dir (name # names) =
     (let p = codex_dir @ [name] in
      if name = ''config.toml'' then read_profiles E D codex_dir names
      else bind_io (is_file_path E p) (\<lambda>file.
        if \<not> file \<or> \<not> (valid_utf8 name \<and> ends_with name ''.config.toml'')
        then read_profiles E D codex_dir names
        else bind_io (read_text E ''failed to read '' p) (\<lambda>raw.
             bind_io (lift_io (in_context (unmodified_context p) (parse_document D raw))) (\<lambda>doc.
             bind_io (read_profiles E D codex_dir names) (\<lambda>rest. ret ((p, doc) # rest))))))"

definition write_document :: "env \<Rightarrow> toml_library \<Rightarrow> string \<Rightarrow> bool \<Rightarrow> path \<times> toml_document \<Rightarrow> unit cli" where
  "write_document E D process persist_system_proxy = (\<lambda>(p, doc).
     bind_io (lift_io (prepare_codex_document persist_system_proxy p doc)) (\<lambda>prepared.
       write_bytes_atomic E process p (document_text D prepared) 384))"

definition prepare_codex_oauth_files ::
  "env \<Rightarrow> json_library \<Rightarrow> toml_library \<Rightarrow> string \<Rightarrow> string \<Rightarrow> path \<Rightarrow> bool \<Rightarrow> path list cli" where
  "prepare_codex_oauth_files E J D process stamp codex_dir persist_system_proxy =
     (let config_path = codex_dir @ [''config.toml'']; auth_path = codex_dir @ [''auth.json''] in
      bind_io (read_main_document E D config_path) (\<lambda>main.
      bind_io (is_dir_path E codex_dir) (\<lambda>directory.
      bind_io (if directory
               then bind_io (os_context ''failed to list '' codex_dir (read_dir E codex_dir)) (read_profiles E D codex_dir)
               else ret []) (\<lambda>profiles.
      then_io (backup_if_exists E config_path stamp)
     (then_io (backup_if_exists E auth_path stamp)
     (then_io (iter_io (\<lambda>(p, _). backup_if_exists E p stamp) profiles)
     (then_io (iter_io (write_document E D process persist_system_proxy) ((config_path, main) # profiles))
     (bind_io (load_json_object E J auth_path) (\<lambda>auth.
      then_io (write_json_object E J process auth_path (JObject (AList.update ''OPENAI_API_KEY'' JNull auth)))
              (ret (config_path # map fst profiles)))))))))))"

definition disable_codex_apps :: "env \<Rightarrow> toml_library \<Rightarrow> string \<Rightarrow> path \<Rightarrow> unit cli" where
  "disable_codex_apps E D process p =
     bind_io (read_text E ''failed to read Desktop config '' p) (\<lambda>raw.
     bind_io (lift_io (in_context (''failed to parse Desktop config '' @ show_path p @ '' as TOML'') (parse_document D raw))) (\<lambda>doc.
     bind_io (lift_io (with_features_table p [] doc)) (\<lambda>features.
       write_bytes_atomic E process p
         (document_text D (AList.update ''features'' (ItemTable (AList.update ''apps'' (ItemBool False) features)) doc)) 384)))"

definition write_codex_ide_env :: "env \<Rightarrow> (string \<Rightarrow> string) \<Rightarrow> string \<Rightarrow> string \<Rightarrow> path \<Rightarrow> string \<Rightarrow> string \<Rightarrow> unit cli" where
  "write_codex_ide_env E json_string process stamp p listen ca_cert_path =
     bind_io (path_exists E p) (\<lambda>present.
     bind_io (if present then read_text E ''failed to read '' p else ret []) (\<lambda>raw.
     then_io (backup_if_exists E p stamp)
       (write_bytes_atomic E process p (merge_codex_ide_env json_string raw listen ca_cert_path) 384)))"

text \<open>The last steps of \<open>init-codex\<close> on the directory of Codex.\<close>

definition configure_codex_oauth_local_proxy ::
  "env \<Rightarrow> auth_library \<Rightarrow> toml_library \<Rightarrow> (string \<Rightarrow> string) \<Rightarrow> string \<Rightarrow> string \<Rightarrow> int \<Rightarrow> path \<Rightarrow> string \<Rightarrow> string \<Rightarrow> path list cli" where
  "configure_codex_oauth_local_proxy E L D json_string process stamp now codex_dir listen ca_cert_path =
     then_io (migrate_codex_local_proxy_auth E L process (codex_dir @ [''auth.json'']) now)
    (then_io (validate_codex_oauth_auth E L (codex_dir @ [''auth.json'']))
    (bind_io (prepare_codex_oauth_files E (auth_json L) D process stamp codex_dir True) (\<lambda>files.
     then_io (write_codex_ide_env E json_string process stamp (codex_dir @ [''.env'']) listen ca_cert_path)
             (ret files))))"

text \<open>The migration of a value older clients left in the configuration this listener manages.\<close>

definition migrate_legacy_codex_system_proxy ::
  "env \<Rightarrow> toml_library \<Rightarrow> (string \<Rightarrow> string) \<Rightarrow> string \<Rightarrow> string \<Rightarrow> path \<Rightarrow> string \<Rightarrow> string \<Rightarrow> unit cli" where
  "migrate_legacy_codex_system_proxy E D json_string process stamp codex_dir listen ca_cert_path =
     (let p = codex_dir @ [''config.toml''] in
      bind_io (try_io (read_text E [] (codex_dir @ [''.env'']))) (\<lambda>text.
        if \<not> contains_text (case text of Inr t \<Rightarrow> t | Inl _ \<Rightarrow> []) (trim (merge_codex_ide_env json_string [] listen ca_cert_path))
        then ret ()
        else bind_io (try_io (read_text E [] p)) (\<lambda>raw.
          case Option.bind (ok_of raw) (\<lambda>original. ok_of (parse_document D original)) of
            None \<Rightarrow> ret ()
          | Some doc \<Rightarrow>
            (case Option.bind (map_of doc ''features'') item_as_table of
               None \<Rightarrow> ret ()
             | Some features \<Rightarrow>
                 if Option.bind (map_of features ''respect_system_proxy'') item_as_bool \<noteq> Some True then ret ()
                 else bind_io (try_io (read_text E [] p)) (\<lambda>again.
                   if ok_of again \<noteq> ok_of raw then ret ()
                   else then_io (backup_if_exists E p stamp)
                     (write_bytes_atomic E process p (document_text D
                       (AList.update ''features'' (ItemTable (AList.update ''respect_system_proxy'' (ItemBool False) features)) doc))
                       384))))))"

section \<open>A prepared document\<close>

definition prepared_document :: "bool \<Rightarrow> toml_document \<Rightarrow> toml_document \<Rightarrow> bool" where
  "prepared_document persist before after \<longleftrightarrow>
     map_of after ''model_provider'' = Some (ItemString ''openai'') \<and>
     (\<forall>k \<in> {''base_url'', ''openai_base_url'', ''chatgpt_base_url'', ''model_providers''}. map_of after k = None) \<and>
     codex_environment_context_time after = TimeDisabled \<and>
     (\<forall>features. Option.bind (map_of after ''features'') item_as_table = Some features \<longrightarrow>
        map_of features ''responses_websockets'' = None \<and> map_of features ''responses_websockets_v2'' = None) \<and>
     (persist \<longrightarrow> (\<exists>features. map_of after ''features'' = Some (ItemTable features) \<and>
        map_of features ''respect_system_proxy'' = Some (ItemBool False))) \<and>
     (\<forall>k. k \<in> {''model_provider'', ''base_url'', ''openai_base_url'', ''chatgpt_base_url'', ''model_providers'', ''features'',
          codex_environment_context_time_key} \<or> map_of after k = map_of before k)"

lemma update_same: "map_of xs k = Some v \<Longrightarrow> AList.update k v xs = xs"
  by (induction xs) auto

lemma delete_absent: "map_of xs k = None \<Longrightarrow> AList.delete k xs = xs"
  by (simp add: map_of_eq_None_iff)

lemma clean_document:
  "map_of (clean_codex_oauth_document doc) =
     (map_of doc)(''model_provider'' \<mapsto> ItemString ''openai'', ''base_url'' := None, ''openai_base_url'' := None,
        ''chatgpt_base_url'' := None, ''model_providers'' := None,
        ''features'' := (case map_of doc ''features'' of
            Some (ItemTable t) \<Rightarrow>
              (let t' = AList.delete ''responses_websockets_v2'' (AList.delete ''responses_websockets'' t)
               in if t' = [] then None else Some (ItemTable t'))
          | i \<Rightarrow> i))"
  by (cases "map_of doc ''features''"; cases "the (map_of doc ''features'')")
    (simp_all add: clean_codex_oauth_document_def Let_def update_conv' delete_conv' fun_upd_idem fun_upd_twist)

lemma disable_document:
  "map_of (snd (disable_codex_environment_context_time doc)) = (map_of doc)(codex_environment_context_time_key \<mapsto> ItemBool False)"
proof (cases "codex_environment_context_time doc = TimeDisabled")
  case True
  then obtain i where "map_of doc codex_environment_context_time_key = Some i" "item_as_bool i = Some False"
    by (auto simp: codex_environment_context_time_def split: option.splits bool.splits)
  then have "map_of doc codex_environment_context_time_key = Some (ItemBool False)" by (cases i) auto
  then show ?thesis using True by (simp add: disable_codex_environment_context_time_def fun_upd_idem)
qed (simp add: disable_codex_environment_context_time_def Let_def update_conv')

lemma time_disabled_iff:
  "codex_environment_context_time doc = TimeDisabled \<longleftrightarrow> map_of doc codex_environment_context_time_key = Some (ItemBool False)"
  by (auto simp: codex_environment_context_time_def split: option.splits bool.splits elim: item_as_bool.elims)

definition clean_features :: "toml_item option \<Rightarrow> bool" where
  "clean_features i \<longleftrightarrow> (\<forall>t. i = Some (ItemTable t) \<longrightarrow>
     t \<noteq> [] \<and> map_of t ''responses_websockets'' = None \<and> map_of t ''responses_websockets_v2'' = None)"

lemma clean_fixed:
  assumes "map_of doc ''model_provider'' = Some (ItemString ''openai'')" "map_of doc ''model_providers'' = None"
    "map_of doc ''base_url'' = None" "map_of doc ''openai_base_url'' = None" "map_of doc ''chatgpt_base_url'' = None"
    and features: "clean_features (map_of doc ''features'')"
  shows "clean_codex_oauth_document doc = doc"
proof (cases "Option.bind (map_of doc ''features'') item_as_table")
  case None
  then show ?thesis using assms by (simp add: clean_codex_oauth_document_def Let_def update_same delete_absent)
next
  case (Some t)
  then have t: "map_of doc ''features'' = Some (ItemTable t)" by (auto elim: item_as_table.elims split: bind_splits)
  then show ?thesis using assms
    by (simp add: clean_codex_oauth_document_def Let_def update_same delete_absent clean_features_def)
qed

lemma cleaned_features: "clean_features (map_of (clean_codex_oauth_document doc) ''features'')"
  by (auto simp: clean_document clean_features_def Let_def delete_conv' split: option.splits toml_item.splits if_splits)

definition settled :: "toml_document \<Rightarrow> toml_document \<Rightarrow> bool" where
  "settled doc d \<longleftrightarrow> map_of d ''model_provider'' = Some (ItemString ''openai'') \<and>
     map_of d ''base_url'' = None \<and> map_of d ''openai_base_url'' = None \<and> map_of d ''chatgpt_base_url'' = None \<and>
     map_of d ''model_providers'' = None \<and> map_of d codex_environment_context_time_key = Some (ItemBool False) \<and>
     clean_features (map_of d ''features'') \<and>
     (\<forall>k. k \<in> {''model_provider'', ''base_url'', ''openai_base_url'', ''chatgpt_base_url'', ''model_providers'', ''features'',
          codex_environment_context_time_key} \<or> map_of d k = map_of doc k)"

lemma settled_document: "settled doc (snd (disable_codex_environment_context_time (clean_codex_oauth_document doc)))"
  using cleaned_features [of doc] unfolding settled_def
  by (simp add: disable_document clean_document [of doc] codex_environment_context_time_key_def)

lemma settled_fixed:
  "settled doc d \<Longrightarrow> snd (disable_codex_environment_context_time (clean_codex_oauth_document d)) = d"
  using clean_fixed [of d] by (simp add: settled_def disable_codex_environment_context_time_def time_disabled_iff)

lemma settled_features:
  assumes "settled doc d" "clean_features (Some i)"
  shows "settled doc (AList.update ''features'' i d)"
proof -
  have key: "codex_environment_context_time_key \<noteq> ''features''" by (simp add: codex_environment_context_time_key_def)
  have same: "map_of (AList.update ''features'' i d) k = map_of d k" if "k \<noteq> ''features''" for k
    using that by (simp add: update_conv')
  have "map_of (AList.update ''features'' i d) ''features'' = Some i" by (simp add: update_conv')
  moreover have "k \<in> {''model_provider'', ''base_url'', ''openai_base_url'', ''chatgpt_base_url'', ''model_providers'', ''features'',
      codex_environment_context_time_key} \<or> map_of (AList.update ''features'' i d) k = map_of doc k" for k
  proof (cases "k = ''features''")
    case False
    have "k \<in> {''model_provider'', ''base_url'', ''openai_base_url'', ''chatgpt_base_url'', ''model_providers'', ''features'',
      codex_environment_context_time_key} \<or> map_of d k = map_of doc k"
      using assms(1) unfolding settled_def by (elim conjE) (erule spec)
    then show ?thesis unfolding same [OF False] .
  qed (simp only: insert_iff simp_thms)
  ultimately show ?thesis
    using assms key unfolding settled_def by (simp only: same key list.inject char.inject simp_thms)
qed

lemma settled_prepared:
  "settled doc d \<Longrightarrow> (persist \<Longrightarrow> \<exists>t. map_of d ''features'' = Some (ItemTable t) \<and> map_of t ''respect_system_proxy'' = Some (ItemBool False)) \<Longrightarrow>
     prepared_document persist doc d"
  by (auto simp: settled_def prepared_document_def time_disabled_iff clean_features_def elim!: item_as_table.elims split: bind_splits)


end
