(* ===== verification/Claude_Settings.thy ===== *)
theory Claude_Settings
  imports Client_Files
begin

text \<open>
  The settings of Claude Code in \<open>main.rs\<close>: which variables the client owns in \<open>settings.json\<close>, what an
  initialisation puts there, the migration of an old value, and the checks for values that would bypass
  the local proxy.
\<close>

section \<open>Managed variables\<close>

definition claude_managed_routing_env :: "string list" where
  "claude_managed_routing_env =
     [''CLAUDE_CONFIG_DIR'', ''CLAUDE_CODE_PROVIDER_MANAGED_BY_HOST'', ''ANTHROPIC_AUTH_TOKEN'',
      ''ANTHROPIC_API_KEY'', ''CLAUDE_CODE_API_KEY_FILE_DESCRIPTOR'',
      ''CLAUDE_CODE_OAUTH_TOKEN_FILE_DESCRIPTOR'', ''ANTHROPIC_CUSTOM_HEADERS'', ''AWS_BEARER_TOKEN_BEDROCK'',
      ''CLAUDE_CODE_USE_BEDROCK'', ''CLAUDE_CODE_SKIP_BEDROCK_AUTH'', ''ANTHROPIC_BEDROCK_BASE_URL'',
      ''CLAUDE_CODE_USE_VERTEX'', ''CLAUDE_CODE_SKIP_VERTEX_AUTH'', ''ANTHROPIC_VERTEX_BASE_URL'',
      ''ANTHROPIC_VERTEX_PROJECT_ID'', ''CLOUD_ML_REGION'', ''CLAUDE_CODE_USE_FOUNDRY'',
      ''CLAUDE_CODE_SKIP_FOUNDRY_AUTH'', ''ANTHROPIC_FOUNDRY_BASE_URL'', ''ANTHROPIC_FOUNDRY_RESOURCE'',
      ''ANTHROPIC_FOUNDRY_API_KEY'', ''ANTHROPIC_MODEL'', ''ANTHROPIC_DEFAULT_OPUS_MODEL'',
      ''ANTHROPIC_DEFAULT_OPUS_MODEL_DESCRIPTION'', ''ANTHROPIC_DEFAULT_OPUS_MODEL_NAME'',
      ''ANTHROPIC_DEFAULT_OPUS_MODEL_SUPPORTED_CAPABILITIES'', ''ANTHROPIC_DEFAULT_SONNET_MODEL'',
      ''ANTHROPIC_DEFAULT_SONNET_MODEL_DESCRIPTION'', ''ANTHROPIC_DEFAULT_SONNET_MODEL_NAME'',
      ''ANTHROPIC_DEFAULT_SONNET_MODEL_SUPPORTED_CAPABILITIES'', ''ANTHROPIC_DEFAULT_HAIKU_MODEL'',
      ''ANTHROPIC_DEFAULT_HAIKU_MODEL_DESCRIPTION'', ''ANTHROPIC_DEFAULT_HAIKU_MODEL_NAME'',
      ''ANTHROPIC_DEFAULT_HAIKU_MODEL_SUPPORTED_CAPABILITIES'', ''ANTHROPIC_SMALL_FAST_MODEL'',
      ''ANTHROPIC_SMALL_FAST_MODEL_AWS_REGION'', ''ANTHROPIC_CUSTOM_MODEL_OPTION'',
      ''ANTHROPIC_CUSTOM_MODEL_OPTION_DESCRIPTION'', ''ANTHROPIC_CUSTOM_MODEL_OPTION_NAME'',
      ''CLAUDE_CODE_SUBAGENT_MODEL'', ''CLAUDE_CODE_EFFORT_LEVEL'', ''CLAUDE_CODE_ENTRYPOINT'',
      ''CLAUDE_CODE_ATTRIBUTION_HEADER'', ''API_TIMEOUT_MS'', ''HTTP_PROXY'', ''HTTPS_PROXY'', ''ALL_PROXY'',
      ''NO_PROXY'', ''CLAUDE_CODE_PROXY_RESOLVES_HOSTS'', ''NODE_EXTRA_CA_CERTS'',
      ''NODE_TLS_REJECT_UNAUTHORIZED'', ''SSL_CERT_FILE'', ''SSL_CERT_DIR'', ''CLAUDE_CODE_CLIENT_CERT'',
      ''CLAUDE_CODE_CLIENT_KEY'', ''CLAUDE_CODE_CLIENT_KEY_PASSPHRASE'', ''http_proxy'', ''https_proxy'',
      ''all_proxy'', ''no_proxy'']"

definition claude_managed_routing_env_prefixes :: "string list" where
  "claude_managed_routing_env_prefixes = [''VERTEX_REGION_CLAUDE_'']"

definition claude_proxy_env_vars :: "string list" where
  "claude_proxy_env_vars =
     [''HTTP_PROXY'', ''HTTPS_PROXY'', ''ALL_PROXY'', ''NO_PROXY'', ''http_proxy'', ''https_proxy'',
      ''all_proxy'', ''no_proxy'']"

definition conflicting_env_vars :: "string list" where
  "conflicting_env_vars = [''ANTHROPIC_BASE_URL'', ''CLAUDE_CODE_OAUTH_TOKEN'', ''CLAUDE_CODE_ATTRIBUTION_HEADER'']"

definition claude_settings_legacy_env_overrides :: "string list" where
  "claude_settings_legacy_env_overrides =
     [''ANTHROPIC_DEFAULT_HAIKU_MODEL'', ''ANTHROPIC_DEFAULT_OPUS_MODEL'', ''ANTHROPIC_DEFAULT_SONNET_MODEL'',
      ''ANTHROPIC_MODEL'', ''ANTHROPIC_SMALL_FAST_MODEL'', ''API_TIMEOUT_MS'',
      ''CLAUDE_CODE_ATTRIBUTION_HEADER'', ''CLAUDE_CODE_EFFORT_LEVEL'', ''CLAUDE_CODE_SUBAGENT_MODEL'']"

definition claude_stream_idle_timeout_ms :: string where "claude_stream_idle_timeout_ms = ''600000''"

definition default_no_proxy :: string where
  "default_no_proxy =
     ''localhost,127.0.0.1,::1,10.0.0.0/8,172.16.0.0/12,192.168.0.0/16,169.254.0.0/16,fc00::/7,fe80::/10,.local''"

definition legacy_default_no_proxy :: string where
  "legacy_default_no_proxy =
     ''localhost,127.0.0.1,::1,10.0.0.0/8,172.16.0.0/12,192.168.0.0/16,169.254.0.0/16,fc00::/7,fe80::/10,.local,'' @
     ''downloads.claude.ai''"

definition is_managed_claude_env :: "string \<Rightarrow> bool" where
  "is_managed_claude_env key \<longleftrightarrow>
     list_ex (eq_ignore_ascii_case key) claude_managed_routing_env \<or>
     list_ex (starts_with (to_ascii_uppercase key)) claude_managed_routing_env_prefixes"

section \<open>What an initialisation writes\<close>

definition apply_common_claude_env :: "string \<Rightarrow> json_map \<Rightarrow> json_map" where
  "apply_common_claude_env api_key env =
     AList.update ''CLAUDE_STREAM_IDLE_TIMEOUT_MS'' (JString claude_stream_idle_timeout_ms)
    (AList.update ''CLAUDE_CODE_OAUTH_TOKEN'' (JString api_key)
    (AList.update ''ENABLE_TOOL_SEARCH'' (JString ''true'')
    (AList.update ''ENABLE_PROMPT_CACHING_1H'' (JString ''1'')
    (AList.update ''CLAUDE_CODE_DISABLE_NONESSENTIAL_TRAFFIC'' (JString ''1'')
    (filter (\<lambda>(key, _). \<not> is_managed_claude_env key) env)))))"

definition apply_claude_local_proxy_env :: "string \<Rightarrow> string \<Rightarrow> json_map \<Rightarrow> json_map" where
  "apply_claude_local_proxy_env listen ca_path env =
     (let proxy_url = JString (''http://'' @ listen) in
      AList.update ''NODE_EXTRA_CA_CERTS'' (JString ca_path)
     (AList.update ''no_proxy'' (JString default_no_proxy)
     (AList.update ''all_proxy'' proxy_url
     (AList.update ''https_proxy'' proxy_url
     (AList.update ''http_proxy'' proxy_url
     (AList.delete ''ANTHROPIC_BASE_URL'' env))))))"

definition clean_claude_settings :: "json_map \<Rightarrow> json_map" where
  "clean_claude_settings settings = AList.delete ''oauthAccount'' settings"

definition clean_claude_state :: "json_map \<Rightarrow> json_map" where
  "clean_claude_state state = AList.delete ''oauthAccount'' state"

definition settings_env :: "json_map \<Rightarrow> json_map" where
  "settings_env settings = (case Option.bind (map_of settings ''env'') as_object of None \<Rightarrow> [] | Some env \<Rightarrow> env)"

text \<open>The settings and the state as \<open>init_claude\<close> writes them back.\<close>

definition configured_claude_settings :: "string \<Rightarrow> string \<Rightarrow> string \<Rightarrow> json_map \<Rightarrow> json_map" where
  "configured_claude_settings api_key listen ca_path settings =
     (let settings = clean_claude_settings settings;
          env = apply_claude_local_proxy_env listen ca_path (apply_common_claude_env api_key (settings_env settings))
      in AList.update ''env'' (JObject env) (AList.delete ''env'' settings))"

definition configured_claude_state :: "json_map \<Rightarrow> json_map" where
  "configured_claude_state state = AList.update ''hasCompletedOnboarding'' (JBool True) (clean_claude_state state)"

section \<open>Values that bypass the proxy\<close>

fun json_value_is_set :: "json option \<Rightarrow> bool" where
  "json_value_is_set None = False"
| "json_value_is_set (Some JNull) = False"
| "json_value_is_set (Some (JString s)) = (trim s \<noteq> [])"
| "json_value_is_set (Some _) = True"

definition claude_settings_override_locations :: "json_map \<Rightarrow> string list" where
  "claude_settings_override_locations settings =
     (case Option.bind (map_of settings ''env'') as_object of
        None \<Rightarrow> []
      | Some env \<Rightarrow> map (\<lambda>key. ''env.'' @ key)
          (filter (\<lambda>key. json_value_is_set (map_of env key)) claude_settings_legacy_env_overrides))"

definition format_claude_settings_override_locations :: "string list \<Rightarrow> string" where
  "format_claude_settings_override_locations locations =
     (let limit = 8
      in join '', '' (take limit locations @
           (if length locations > limit then [''and '' @ decimal (length locations - limit) @ '' more''] else [])))"

definition claude_settings_override_locations_from_disk ::
  "env \<Rightarrow> json_library \<Rightarrow> path \<Rightarrow> string list cli" where
  "claude_settings_override_locations_from_disk E J settings_path =
     bind_io (path_exists E settings_path) (\<lambda>present.
       if \<not> present then ret []
       else bind_io (load_json_object E J settings_path) (\<lambda>settings. ret (claude_settings_override_locations settings)))"

definition proxy_value_conflicts :: "string \<Rightarrow> string \<Rightarrow> string \<Rightarrow> bool" where
  "proxy_value_conflicts key value expected_proxy =
     (if eq_ignore_ascii_case key ''NO_PROXY''
      then \<not> list_ex (\<lambda>item. trim item \<in> {''127.0.0.1'', ''localhost'', ''::1''}) (split_on ((=) CHR '','') value)
      else trim value \<noteq> expected_proxy)"

text \<open>The environment of the process: the values that are valid UTF-8 for \<open>env::var\<close>.\<close>

definition process_env_conflicts :: "(string \<Rightarrow> string option) \<Rightarrow> string list" where
  "process_env_conflicts getenv =
     filter (\<lambda>key. case getenv key of None \<Rightarrow> False | Some v \<Rightarrow> v \<noteq> []) conflicting_env_vars"

definition process_proxy_env_conflicts :: "(string \<Rightarrow> string option) \<Rightarrow> string \<Rightarrow> string list" where
  "process_proxy_env_conflicts getenv expected_proxy =
     filter (\<lambda>key. case getenv key of
         None \<Rightarrow> False
       | Some v \<Rightarrow> valid_utf8 v \<and> trim v \<noteq> [] \<and> proxy_value_conflicts key v expected_proxy) claude_proxy_env_vars"

section \<open>Migrating an old value\<close>

definition migrate_legacy_claude_no_proxy ::
  "env \<Rightarrow> json_library \<Rightarrow> string \<Rightarrow> string \<Rightarrow> path \<Rightarrow> string \<Rightarrow> unit cli" where
  "migrate_legacy_claude_no_proxy E J process stamp settings_path listen =
     bind_io (try_io (read_file E settings_path)) (\<lambda>original.
     bind_io (load_json_object E J settings_path) (\<lambda>settings.
       case Option.bind (map_of settings ''env'') as_object of
         None \<Rightarrow> ret ()
       | Some env \<Rightarrow>
           if Option.bind (map_of env ''no_proxy'') as_str \<noteq> Some legacy_default_no_proxy \<or>
              Option.bind (map_of env ''https_proxy'') as_str \<noteq> Some (''http://'' @ listen)
           then ret ()
           else bind_io (try_io (read_file E settings_path)) (\<lambda>again.
             if ok_of again \<noteq> ok_of original then ret ()
             else then_io (backup_if_exists E settings_path stamp)
               (write_json_object E J process settings_path
                  (JObject (AList.update ''env'' (JObject (AList.update ''no_proxy'' (JString default_no_proxy) env)) settings))))))"

section \<open>The environment that results\<close>

text \<open>The variables an initialisation sets, as a map.\<close>

definition claude_route :: "string \<Rightarrow> string \<Rightarrow> string \<Rightarrow> string \<rightharpoonup> json" where
  "claude_route api_key listen ca_path =
     [''CLAUDE_CODE_DISABLE_NONESSENTIAL_TRAFFIC'' \<mapsto> JString ''1'', ''ENABLE_PROMPT_CACHING_1H'' \<mapsto> JString ''1'',
      ''ENABLE_TOOL_SEARCH'' \<mapsto> JString ''true'', ''CLAUDE_CODE_OAUTH_TOKEN'' \<mapsto> JString api_key,
      ''CLAUDE_STREAM_IDLE_TIMEOUT_MS'' \<mapsto> JString ''600000'', ''http_proxy'' \<mapsto> JString (''http://'' @ listen),
      ''https_proxy'' \<mapsto> JString (''http://'' @ listen), ''all_proxy'' \<mapsto> JString (''http://'' @ listen),
      ''no_proxy'' \<mapsto> JString default_no_proxy, ''NODE_EXTRA_CA_CERTS'' \<mapsto> JString ca_path]"

definition user_env :: "json_map \<Rightarrow> string \<rightharpoonup> json" where
  "user_env env key = (if is_managed_claude_env key \<or> key = ''ANTHROPIC_BASE_URL'' then None else map_of env key)"

lemma map_of_filter_keys: "map_of (filter (\<lambda>(k, _). P k) xs) k = (if P k then map_of xs k else None)"
  by (induction xs) auto

lemma update_none: "a \<noteq> k \<Longrightarrow> (m(k \<mapsto> v))(a := None) = (m(a := None))(k \<mapsto> v)"
  by (simp add: fun_eq_iff)

lemma claude_env_route:
  "map_of (apply_claude_local_proxy_env listen ca (apply_common_claude_env key env)) = user_env env ++ claude_route key listen ca"
proof -
  let ?kept = "map_of (filter (\<lambda>(k, _). \<not> is_managed_claude_env k) env)"
  have kept: "?kept(''ANTHROPIC_BASE_URL'' := None) = user_env env"
    by (simp add: fun_eq_iff user_env_def map_of_filter_keys)
  have "map_of (AList.delete ''ANTHROPIC_BASE_URL'' (apply_common_claude_env key env)) =
      (?kept(''ANTHROPIC_BASE_URL'' := None))(''CLAUDE_CODE_DISABLE_NONESSENTIAL_TRAFFIC'' \<mapsto> JString ''1'',
        ''ENABLE_PROMPT_CACHING_1H'' \<mapsto> JString ''1'', ''ENABLE_TOOL_SEARCH'' \<mapsto> JString ''true'',
        ''CLAUDE_CODE_OAUTH_TOKEN'' \<mapsto> JString key, ''CLAUDE_STREAM_IDLE_TIMEOUT_MS'' \<mapsto> JString ''600000'')"
    unfolding apply_common_claude_env_def claude_stream_idle_timeout_ms_def update_conv' delete_conv'
    by (simp add: update_none)
  then show ?thesis
    unfolding apply_claude_local_proxy_env_def Let_def update_conv' kept claude_route_def by (simp only: map_add_upd map_add_empty)
qed

lemma claude_route_dom: "dom (claude_route key listen ca) = dom (claude_route key' listen' ca')"
  unfolding claude_route_def by (simp only: dom_fun_upd option.distinct simp_thms if_False dom_empty)

lemma listed_is_managed: "key \<in> set claude_managed_routing_env \<Longrightarrow> is_managed_claude_env key"
  by (auto simp: is_managed_claude_env_def list_ex_iff intro: bexI [of _ key])

lemma managed_overrides:
  "set claude_settings_legacy_env_overrides \<subseteq> set claude_managed_routing_env"
  "set claude_settings_legacy_env_overrides \<inter> dom (claude_route key listen ca) = {}"
  unfolding claude_settings_legacy_env_overrides_def claude_managed_routing_env_def claude_route_def by simp_all

lemma configured_settings_env:
  "map_of (settings_env (configured_claude_settings key listen ca settings)) =
     user_env (settings_env settings) ++ claude_route key listen ca"
proof -
  have "settings_env (clean_claude_settings settings) = settings_env settings"
    by (simp add: settings_env_def clean_claude_settings_def delete_conv')
  then show ?thesis
    using claude_env_route by (simp add: configured_claude_settings_def Let_def settings_env_def [of "AList.update k v m" for k v m] update_conv')
qed

text \<open>
  C11: the settings an initialisation of Claude Code writes.  The environment is exactly the one of the user
  without the variables the client owns, in any case, overridden by the route through the local proxy;
  every other setting but the stored account is kept; initialising again with other values gives what
  initialising once with them gives; and none of the overrides the client warns about is left.
\<close>

theorem claude_settings_are_routed:
  "let configured = configured_claude_settings key listen ca settings in
     map_of (settings_env configured) = user_env (settings_env settings) ++ claude_route key listen ca \<and>
     (\<forall>k. k \<in> {''env'', ''oauthAccount''} \<or> map_of configured k = map_of settings k) \<and>
     map_of (settings_env (configured_claude_settings key' listen' ca' configured)) =
       map_of (settings_env (configured_claude_settings key' listen' ca' settings)) \<and>
     claude_settings_override_locations configured = []"
proof -
  let ?c = "configured_claude_settings key listen ca settings"
  note env = configured_settings_env [of key listen ca settings]
  have "map_of ?c k = map_of settings k" if "k \<notin> {''env'', ''oauthAccount''}" for k
    using that by (simp add: configured_claude_settings_def Let_def clean_claude_settings_def update_conv' delete_conv')
  then have "\<forall>k. k \<in> {''env'', ''oauthAccount''} \<or> map_of ?c k = map_of settings k" by blast
  moreover have "user_env (settings_env ?c) ++ claude_route key' listen' ca' =
      user_env (settings_env settings) ++ claude_route key' listen' ca'"
  proof
    fix k
    show "(user_env (settings_env ?c) ++ claude_route key' listen' ca') k =
        (user_env (settings_env settings) ++ claude_route key' listen' ca') k"
    proof (cases "claude_route key' listen' ca' k")
      case None
      then have "claude_route key listen ca k = None" using claude_route_dom [of key listen ca key' listen' ca'] by (auto simp: domIff)
      then show ?thesis by (simp add: map_add_def None user_env_def env)
    qed (simp add: map_add_def)
  qed
  moreover have "claude_settings_override_locations ?c = []"
  proof -
    have "map_of (settings_env ?c) k = None" if "k \<in> set claude_settings_legacy_env_overrides" for k
    proof -
      have "claude_route key listen ca k = None" using that managed_overrides(2) [of key listen ca] by (auto simp: domIff)
      moreover have "is_managed_claude_env k" using that managed_overrides(1) listed_is_managed by blast
      ultimately show ?thesis by (simp add: env map_add_def user_env_def)
    qed
    then show ?thesis
      unfolding claude_settings_override_locations_def settings_env_def
      by (auto simp: filter_empty_conv split: option.split)
  qed
  ultimately show ?thesis using env by (simp add: Let_def configured_settings_env)
qed

end
