(* ===== verification/Command_Line.thy ===== *)
theory Command_Line
  imports Cli_Files Gateway
begin

text \<open>
  The arguments of the command line client: \<open>parse_command\<close> and the functions below it in \<open>main.rs\<close>,
  \<open>uninstall::parse_args\<close>, \<open>DesktopProduct::parse\<close> and the environment selector in front of the
  command.  The \<open>url\<close> crate is a parameter.
\<close>

section \<open>Commands\<close>

datatype build_target = Linux | Windows | Macos

datatype desktop_product = DesktopCodex | DesktopChatGPT | DesktopClaude | DesktopGemini

datatype doctor_target = DoctorAll | DoctorClaude | DoctorCodex

record init_args =
  init_base_url :: string
  init_api_key :: string
  init_websockets :: bool
  configure_vscode_editor :: bool
  trust_vscode_ca :: bool

record uninstall_args =
  assume_yes :: bool
  dry_run :: bool
  forget_unknown :: bool
  relaunched_from :: "string option"

datatype cli_command =
  Help | RunProxy bool | Start | Stop | Status | Logs | Update | Restart | Doctor doctor_target | Version
| Init init_args | InitCodex init_args | RunClaude "string list" | RunCodex "string list" | ConfigureVSCode
| Desktop desktop_product "string list" | Uninstall uninstall_args | UpstreamProxy "string option"
| RunBackgroundProxy

record url_library =
  url_parse :: "string \<Rightarrow> (string, url) result"
  url_set_path :: "string \<Rightarrow> url \<Rightarrow> url"
  url_text :: "url \<Rightarrow> string"

definition usage :: string where
  "usage = join [CHR 0x0A]
     [''Usage:'',
      ''  saiai --environment claude|codex|default <command>              # select a proxy environment'',
      ''  saiai                                                           # run the local proxy (Claude Code and Codex)'',
      ''  saiai --verbose                                                 # run local proxy with request logs'',
      ''  saiai start                                                     # install and start user service'',
      ''  saiai stop                                                      # stop and disable user service'',
      ''  saiai status                                                    # show user service status'',
      ''  saiai logs                                                      # follow user service logs'',
      ''  saiai update                                                    # update this client binary'',
      ''  saiai restart                                                   # restart user service'',
      ''  saiai doctor [claude|codex]                                    # check proxy and product config'',
      ''  saiai --version                                                 # print version'',
      ''  saiai init <base_url> <api_key>                                 # initialize Claude Code'',
      ''  saiai init-codex <base_url> <api_key> [--websockets]            # initialize Codex CLI'',
      ''  saiai claude [-- <claude arguments>]                            # launch Claude with a child-only SAIAI environment'',
      ''  saiai codex [-- <codex arguments>]                              # launch Codex through SAIAI local proxy'',
      ''  saiai vscode                                                    # configure the Codex VSCode extension for SAIAI'',
      ''  saiai desktop [codex] [-- <Desktop arguments>]                # launch Codex Desktop through SAIAI'',
      ''  saiai uninstall [--yes] [--dry-run] [--forget-unknown-environments]  # remove SAIAI services, settings, data and program'',
      ''  saiai upstream-proxy [system|direct|http://host:port]         # show or set the proxy SAIAI itself uses'',
      ''  saiai init       --base-url <base_url> --api-key <api_key>      # initialize Claude Code'',
      ''  saiai init-codex --base-url <base_url> --api-key <api_key> [--websockets]'',
      ''Initialization uses provider-specific CA files and preserves VSCode editor settings.'',
      ''Use --configure-vscode-editor with init/init-codex to opt into the editor-wide proxy.'',
      ''On Windows, --trust-vscode-ca also opts into CurrentUser Root trust and editor setup;'',
      ''use it only after consenting to this user-wide trust.'']"

definition with_usage :: "string \<Rightarrow> string" where
  "with_usage message = message @ [CHR 0x0A, CHR 0x0A] @ usage"

section \<open>Checked arguments\<close>

definition normalize_base_url :: "url_library \<Rightarrow> string \<Rightarrow> (string, string) result" where
  "normalize_base_url U raw =
     (if trim raw \<noteq> raw \<or> raw = [] then Inl ''The base URL must be non-empty and contain no surrounding whitespace''
      else case url_parse U raw of
          Inl e \<Rightarrow> Inl (context_of ''The base URL is not a valid absolute URL'' e)
        | Inr u \<Rightarrow>
            if url_scheme u \<notin> {''http'', ''https''} then Inl ''The base URL scheme must be http or https''
            else if url_host u = None then Inl ''The base URL must include a host''
            else if url_username u \<noteq> [] \<or> url_password u \<noteq> None then Inl ''The base URL must not contain credentials''
            else if url_query u \<noteq> None \<or> url_fragment u \<noteq> None
            then Inl ''The base URL must not contain a query or fragment''
            else let p = trim_end_char CHR ''/'' (url_path u) in
              Inr (trim_end_char CHR ''/'' (url_text U (url_set_path U (if p = [] then ''/'' else p) u))))"

definition validate_api_key :: "string \<Rightarrow> (string, unit) result" where
  "validate_api_key api_key =
     (if trim api_key = [] then Inl ''The API key must not be empty''
      else if CHR 0x0D \<in> set api_key \<or> CHR 0x0A \<in> set api_key then Inl ''The API key must be a single line''
      else Inr ())"

definition parse_no_arg_command :: "string \<Rightarrow> string list \<Rightarrow> cli_command \<Rightarrow> (string, cli_command) result" where
  "parse_no_arg_command cmd rest parsed =
     (case rest of [] \<Rightarrow> Inr parsed
      | x # _ \<Rightarrow> Inl (with_usage (''Unexpected argument after '' @ cmd @ '': '' @ x)))"

record named_args =
  named_base_url :: string
  named_api_key :: string
  named_websockets :: bool
  named_editor :: bool
  named_trust :: bool
  positionals :: "string list"

fun scan_named_args :: "build_target \<Rightarrow> string \<Rightarrow> string list \<Rightarrow> named_args \<Rightarrow> (string, named_args) result" where
  "scan_named_args T cmd [] s = Inr s"
| "scan_named_args T cmd (arg # rest) s =
     (if arg = ''--base-url'' then
        (case rest of [] \<Rightarrow> Inl ''Missing value for --base-url''
         | v # rest' \<Rightarrow> scan_named_args T cmd rest' (s\<lparr>named_base_url := v\<rparr>))
      else if arg = ''--api-key'' then
        (case rest of [] \<Rightarrow> Inl ''Missing value for --api-key''
         | v # rest' \<Rightarrow> scan_named_args T cmd rest' (s\<lparr>named_api_key := v\<rparr>))
      else if arg = ''--websockets'' \<and> cmd = ''init-codex'' then scan_named_args T cmd rest (s\<lparr>named_websockets := True\<rparr>)
      else if arg = ''--trust-vscode-ca'' \<and> T = Windows then scan_named_args T cmd rest (s\<lparr>named_trust := True\<rparr>)
      else if arg = ''--configure-vscode-editor'' then scan_named_args T cmd rest (s\<lparr>named_editor := True\<rparr>)
      else if arg = ''-h'' \<or> arg = ''--help'' then Inl usage
      else if starts_with arg ''-'' then Inl (''Unknown option for `'' @ cmd @ ''`: '' @ arg)
      else scan_named_args T cmd rest (s\<lparr>positionals := positionals s @ [arg]\<rparr>))"

definition take_positional :: "string \<Rightarrow> string list \<Rightarrow> string \<times> string list" where
  "take_positional named rest =
     (if named = [] then (case rest of [] \<Rightarrow> (named, []) | v # rest' \<Rightarrow> (v, rest')) else (named, rest))"

definition parse_named_args :: "build_target \<Rightarrow> url_library \<Rightarrow> string \<Rightarrow> string list \<Rightarrow> (string, init_args) result" where
  "parse_named_args T U cmd args =
     bind_result (scan_named_args T cmd args
       \<lparr>named_base_url = [], named_api_key = [], named_websockets = False, named_editor = False, named_trust = False,
        positionals = []\<rparr>) (\<lambda>s.
       let (base_url, rest) = take_positional (named_base_url s) (positionals s);
           (api_key, rest) = take_positional (named_api_key s) rest
       in case rest of
            extra # _ \<Rightarrow> Inl (''Unexpected positional argument for `'' @ cmd @ ''`: '' @ extra)
          | [] \<Rightarrow>
              if base_url = [] \<or> api_key = [] then Inl usage
              else bind_result (normalize_base_url U base_url) (\<lambda>base_url.
                   bind_result (validate_api_key api_key) (\<lambda>_.
                     Inr \<lparr>init_base_url = base_url, init_api_key = api_key, init_websockets = named_websockets s,
                          configure_vscode_editor = named_editor s, trust_vscode_ca = named_trust s\<rparr>)))"

definition parse_desktop_product :: "string \<Rightarrow> (string, desktop_product) result" where
  "parse_desktop_product value =
     (let name = to_ascii_lowercase (trim value) in
      if name = ''codex'' then Inr DesktopCodex
      else if name = ''chatgpt'' \<or> name = ''openai'' then Inr DesktopChatGPT
      else if name = ''claude'' \<or> name = ''anthropic'' then Inr DesktopClaude
      else if name = ''gemini'' \<or> name = ''google'' then Inr DesktopGemini
      else Inl (''unknown Desktop product '' @ name @ ''; expected codex, chatgpt, claude, or gemini''))"

fun desktop_label :: "desktop_product \<Rightarrow> string" where
  "desktop_label DesktopCodex = ''Codex''"
| "desktop_label DesktopChatGPT = ''ChatGPT''"
| "desktop_label DesktopClaude = ''Claude''"
| "desktop_label DesktopGemini = ''Gemini''"

definition has_adapter :: "desktop_product \<Rightarrow> bool" where
  "has_adapter p \<longleftrightarrow> p = DesktopCodex"

fun scan_uninstall_args :: "build_target \<Rightarrow> string list \<Rightarrow> uninstall_args \<Rightarrow> (string, uninstall_args) result" where
  "scan_uninstall_args T [] s = Inr s"
| "scan_uninstall_args T (arg # rest) s =
     (if arg = ''--yes'' \<or> arg = ''-y'' then scan_uninstall_args T rest (s\<lparr>assume_yes := True\<rparr>)
      else if arg = ''--dry-run'' then scan_uninstall_args T rest (s\<lparr>dry_run := True\<rparr>)
      else if arg = ''--forget-unknown-environments'' then scan_uninstall_args T rest (s\<lparr>forget_unknown := True\<rparr>)
      else if T = Windows \<and> arg = ''--relaunched-from'' then
        (case rest of [] \<Rightarrow> Inl ''missing value for an internal flag''
         | v # rest' \<Rightarrow> scan_uninstall_args T rest' (s\<lparr>relaunched_from := Some v\<rparr>))
      else Inl (with_usage (''Unexpected argument for `uninstall`: '' @ arg)))"

definition parse_uninstall_args :: "build_target \<Rightarrow> string list \<Rightarrow> (string, uninstall_args) result" where
  "parse_uninstall_args T args =
     scan_uninstall_args T args \<lparr>assume_yes = False, dry_run = False, forget_unknown = False, relaunched_from = None\<rparr>"

section \<open>The command\<close>

definition background_command :: string where "background_command = ''__run-background-proxy''"

definition without_separator :: "string list \<Rightarrow> string list" where
  "without_separator args = (case args of a # rest \<Rightarrow> if a = ''--'' then rest else args | [] \<Rightarrow> [])"

definition parse_doctor :: "string list \<Rightarrow> (string, cli_command) result" where
  "parse_doctor rest =
     (case rest of
        [] \<Rightarrow> Inr (Doctor DoctorAll)
      | v # further \<Rightarrow>
          if v = ''claude'' \<and> further = [] then Inr (Doctor DoctorClaude)
          else if v = ''codex'' \<and> further = [] then Inr (Doctor DoctorCodex)
          else Inl (with_usage (''Unexpected doctor target: '' @ v)))"

definition parse_upstream :: "string list \<Rightarrow> (string, cli_command) result" where
  "parse_upstream rest =
     (case rest of
        [] \<Rightarrow> Inr (UpstreamProxy None)
      | [v] \<Rightarrow> Inr (UpstreamProxy (Some v))
      | _ # extra # _ \<Rightarrow> Inl (with_usage (''Unexpected argument after upstream-proxy: '' @ extra)))"

definition parse_desktop :: "string \<Rightarrow> string list \<Rightarrow> (string, cli_command) result" where
  "parse_desktop cmd rest =
     bind_result
       (if cmd = ''chatgpt'' then Inr (DesktopChatGPT, rest)
        else case rest of
            v # further \<Rightarrow> if v \<noteq> ''--'' \<and> \<not> starts_with v ''-'' then bind_result (parse_desktop_product v) (\<lambda>p. Inr (p, further))
                        else Inr (DesktopCodex, rest)
          | [] \<Rightarrow> Inr (DesktopCodex, rest))
       (\<lambda>(p, args). Inr (Desktop p (without_separator args)))"

definition parse_background :: "build_target \<Rightarrow> string list \<Rightarrow> (string, cli_command) result" where
  "parse_background T rest =
     (if T = Windows \<and> rest = [''--instance-v2''] then Inr RunBackgroundProxy
      else parse_no_arg_command background_command rest RunBackgroundProxy)"

definition parse_command :: "build_target \<Rightarrow> url_library \<Rightarrow> string list \<Rightarrow> (string, cli_command) result" where
  "parse_command T U args =
     (case args of
        [] \<Rightarrow> Inr (RunProxy False)
      | cmd # rest \<Rightarrow>
          if cmd \<in> {''-h'', ''--help'', ''help''} \<and> rest = [] then Inr Help
          else if cmd \<in> {''-v'', ''--verbose''} then parse_no_arg_command cmd rest (RunProxy True)
          else if cmd = ''start'' then parse_no_arg_command cmd rest Start
          else if cmd = ''stop'' then parse_no_arg_command cmd rest Stop
          else if cmd = ''status'' then parse_no_arg_command cmd rest Status
          else if cmd = ''logs'' then parse_no_arg_command cmd rest Logs
          else if cmd = ''update'' then parse_no_arg_command cmd rest Update
          else if cmd = ''restart'' then parse_no_arg_command cmd rest Restart
          else if cmd = ''doctor'' then parse_doctor rest
          else if cmd \<in> {''-V'', ''--version'', ''version''} then Inr Version
          else if cmd = ''init'' then bind_result (parse_named_args T U cmd rest) (\<lambda>a. Inr (Init a))
          else if cmd = ''init-codex'' then bind_result (parse_named_args T U cmd rest) (\<lambda>a. Inr (InitCodex a))
          else if cmd = ''claude'' then Inr (RunClaude (without_separator rest))
          else if cmd = ''codex'' then Inr (RunCodex (without_separator rest))
          else if cmd = ''vscode'' then parse_no_arg_command cmd rest ConfigureVSCode
          else if cmd = ''uninstall'' then bind_result (parse_uninstall_args T rest) (\<lambda>a. Inr (Uninstall a))
          else if cmd = ''upstream-proxy'' then parse_upstream rest
          else if cmd \<in> {''desktop'', ''chatgpt''} then parse_desktop cmd rest
          else if cmd = background_command \<and> T \<noteq> Macos then parse_background T rest
          else Inl (with_usage (''Unknown command: '' @ cmd)))"

section \<open>The selector in front of the command\<close>

definition parse_selector :: "string list \<Rightarrow> (string, (string \<times> string) option \<times> string list) result" where
  "parse_selector args =
     (case args of
        flag # rest \<Rightarrow>
          if flag = ''--environment'' \<or> flag = ''--instance-dir'' then
            (case rest of [] \<Rightarrow> Inl ''environment selector requires a value''
             | v # further \<Rightarrow> Inr (Some (flag, v), further))
          else Inr (None, args)
      | [] \<Rightarrow> Inr (None, args))"

definition parse_invocation ::
  "build_target \<Rightarrow> url_library \<Rightarrow> string list \<Rightarrow> (string, (string \<times> string) option \<times> cli_command) result" where
  "parse_invocation T U args =
     bind_result (parse_selector args) (\<lambda>(selector, rest).
     bind_result (parse_command T U rest) (\<lambda>cmd.
       if (case cmd of Uninstall _ \<Rightarrow> True | _ \<Rightarrow> False) \<and> selector \<noteq> None
       then Inl (with_usage ''`saiai uninstall` covers every SAIAI environment; remove the environment selector'')
       else Inr (selector, cmd)))"

section \<open>What an initialisation is given\<close>

definition named_from :: "string set \<Rightarrow> named_args \<Rightarrow> bool" where
  "named_from A s \<longleftrightarrow> named_base_url s \<in> insert [] A \<and> named_api_key s \<in> insert [] A \<and> set (positionals s) \<subseteq> A"

lemma scan_named_args_from:
  "scan_named_args T cmd args s = Inr s' \<Longrightarrow> named_from A s \<Longrightarrow> set args \<subseteq> A \<Longrightarrow> named_from A s'"
proof (induction T cmd args s rule: scan_named_args.induct)
  case (2 T cmd arg rest s)
  note scan = "2.prems"(1) and s = "2.prems"(2) and IH = "2.IH"
  have A: "arg \<in> A" "set rest \<subseteq> A" using "2.prems"(3) by auto
  consider "arg = ''--base-url''" | "arg = ''--api-key''" "arg \<noteq> ''--base-url''"
    | "arg \<noteq> ''--base-url''" "arg \<noteq> ''--api-key''" by blast
  then show ?case
  proof cases
    case 1
    then obtain v rest' where r: "rest = v # rest'" using scan by (cases rest) auto
    show ?thesis using IH(1) [OF 1 r] scan 1 r A s by (auto simp: named_from_def)
  next
    case 2
    then obtain v rest' where r: "rest = v # rest'" using scan by (cases rest) auto
    show ?thesis using IH(2) [OF 2(2,1) r] scan 2 r A s by (auto simp: named_from_def)
  next
    case 3
    then show ?thesis using IH(3-6) scan A s by (auto simp: named_from_def split: if_splits)
  qed
qed simp

lemma take_positional_from:
  "take_positional x rest = (y, rest') \<Longrightarrow> x \<in> insert [] A \<Longrightarrow> set rest \<subseteq> A \<Longrightarrow>
     y \<in> insert [] A \<and> set rest' \<subseteq> A"
  by (auto simp: take_positional_def split: if_splits list.splits)

definition usable_url :: "url_library \<Rightarrow> string \<Rightarrow> string \<Rightarrow> bool" where
  "usable_url U raw text \<longleftrightarrow> (\<exists>u.
     url_parse U raw = Inr u \<and> url_scheme u \<in> {''http'', ''https''} \<and> url_host u \<noteq> None \<and> url_username u = [] \<and>
     url_password u = None \<and> url_query u = None \<and> url_fragment u = None \<and>
     (\<exists>p. text = trim_end_char CHR ''/'' (url_text U (url_set_path U p u)) \<and> (p = ''/'' \<or> p \<noteq> [] \<and> last p \<noteq> CHR ''/'')) \<and>
     \<not> ends_with text ''/'')"

lemma trim_end_char_not_end: "\<not> ends_with (trim_end_char c s) [c]"
  using trim_end_char_last [of c s] by (auto simp: ends_with_iff)

lemma normalize_base_url_usable: "normalize_base_url U raw = Inr text \<Longrightarrow> usable_url U raw text"
  using trim_end_char_last [of "CHR ''/''"]
  unfolding normalize_base_url_def usable_url_def
  by (auto simp: Let_def trim_end_char_not_end split: if_splits sum.splits)

lemma parse_named_args_usable:
  assumes "parse_named_args T U cmd args = Inr a"
  shows "\<exists>raw \<in> set args. usable_url U raw (init_base_url a) \<and> init_api_key a \<in> set args \<and>
    trim (init_api_key a) \<noteq> [] \<and> CHR 0x0D \<notin> set (init_api_key a) \<and> CHR 0x0A \<notin> set (init_api_key a)"
proof -
  let ?s0 = "\<lparr>named_base_url = [], named_api_key = [], named_websockets = False, named_editor = False, named_trust = False,
        positionals = []\<rparr>"
  from assms obtain s where s: "scan_named_args T cmd args ?s0 = Inr s"
    by (auto simp: parse_named_args_def bind_result_Inr_iff)
  obtain url rest key rest' where
    1: "take_positional (named_base_url s) (positionals s) = (url, rest)" and
    2: "take_positional (named_api_key s) rest = (key, rest')" by fastforce
  from assms have 3: "url \<noteq> []" "key \<noteq> []" "normalize_base_url U url = Inr (init_base_url a)"
      "validate_api_key key = Inr ()" "init_api_key a = key"
    by (auto simp: parse_named_args_def s 1 2 bind_result_Inr_iff split: list.splits if_splits)
  have "named_from (set args) s" by (rule scan_named_args_from [OF s]) (simp_all add: named_from_def)
  then have "url \<in> set args" "key \<in> set args"
    using take_positional_from [OF 1, of "set args"] take_positional_from [OF 2, of "set args"] 3(1,2)
    by (auto simp: named_from_def)
  then show ?thesis using normalize_base_url_usable [OF 3(3)] 3(4,5)
    by (auto simp: validate_api_key_def split: if_splits)
qed

text \<open>
  C14: whatever the command line, an initialisation that is accepted has as base URL the text, without a
  trailing slash, of an argument that parses as an http or https URL with a host and without credentials,
  query and fragment, and as API key an argument that is one line and not blank.
\<close>

theorem initialisation_is_usable:
  assumes "parse_invocation T U args = Inr (selector, cmd)" and "cmd = Init a \<or> cmd = InitCodex a"
  shows "\<exists>raw \<in> set args. usable_url U raw (init_base_url a) \<and> init_api_key a \<in> set args \<and>
    trim (init_api_key a) \<noteq> [] \<and> CHR 0x0D \<notin> set (init_api_key a) \<and> CHR 0x0A \<notin> set (init_api_key a)"
proof -
  from assms(1) obtain rest where rest: "parse_command T U rest = Inr cmd" "set rest \<subseteq> set args"
    by (auto simp: parse_invocation_def bind_result_Inr_iff parse_selector_def split: list.splits if_splits)
  then obtain c args' where 1: "rest = c # args'" using assms(2) by (cases rest) (auto simp: parse_command_def)
  have "\<exists>c. parse_named_args T U c args' = Inr a"
    using rest(1) assms(2) unfolding 1 parse_command_def
    by (auto simp: bind_result_Inr_iff parse_no_arg_command_def parse_doctor_def parse_upstream_def parse_desktop_def
        parse_background_def split: list.splits if_splits)
  with parse_named_args_usable rest(2) show ?thesis unfolding 1 by fastforce
qed

end
