(* ===== verification/Cli_Examples.thy ===== *)
theory Cli_Examples
  imports Codex_Config Claude_Settings Command_Line "HOL-Library.Code_Target_Nat"
begin

text \<open>The operations of the command line client evaluated by the kernel on small inputs.\<close>

section \<open>A login that has expired\<close>

definition auth_path :: path where "auth_path = [''h'', ''auth.json'']"

definition auth_world :: world where
  "auth_world = world_of [([''h''], private_dir 1), (auth_path, private_file ''login'' 2)]"

definition example_login :: json_map where
  "example_login = [(''auth_mode'', JString ''chatgpt''), (''tokens'', JObject [(''access_token'', JString ''h.claims.s'')])]"

definition auth_example :: auth_library where
  "auth_example = \<lparr>auth_json = \<lparr>read_json = (\<lambda>t. if t = ''login'' then Inr (JObject example_login)
       else if t = ''claims'' then Inr (JObject [(''exp'', JNumber ''5'')]) else Inl ''bad''), pretty_text = (\<lambda>_. ''{}'')\<rparr>,
     base64url_decode = Some, json_i64 = (\<lambda>v. if v = JNumber ''5'' then Some 5 else None),
     epoch_text = (\<lambda>_. []), compact_stamp = (\<lambda>_. ''s''), rfc3339_now = ''now''\<rparr>"


section \<open>A command line\<close>

definition example_urls :: url_library where
  "example_urls = \<lparr>url_parse = (\<lambda>t. if t = ''https://gw.test/base/'' then Inr \<lparr>url_scheme = ''https'', url_username = [], url_password = None,
       url_host = Some ''gw.test'', url_port = None, url_path = ''/base/'', url_query = None, url_fragment = None\<rparr> else Inl ''relative URL without a base''),
     url_set_path = (\<lambda>p u. u\<lparr>url_path := p\<rparr>), url_text = (\<lambda>u. url_scheme u @ ''://'' @ the (url_host u) @ url_path u)\<rparr>"

theorem initialisation_is_usable_witness:
  "\<exists>a. parse_invocation Linux example_urls
      [''--environment'', ''codex'', ''init-codex'', ''--api-key'', ''key'', ''https://gw.test/base/''] =
        Inr (Some (''--environment'', ''codex''), InitCodex a) \<and>
     init_base_url a = ''https://gw.test/base'' \<and> usable_url example_urls ''https://gw.test/base/'' (init_base_url a)"
proof -
  let ?args = "[''--environment'', ''codex'', ''init-codex'', ''--api-key'', ''key'', ''https://gw.test/base/'']"
  let ?a = "\<lparr>init_base_url = ''https://gw.test/base'', init_api_key = ''key'', init_websockets = False,
     configure_vscode_editor = False, trust_vscode_ca = False\<rparr>"
  have run: "parse_invocation Linux example_urls ?args = Inr (Some (''--environment'', ''codex''), InitCodex ?a)" by code_simp
  from initialisation_is_usable [OF run disjI2 [OF refl]] obtain raw where raw: "raw \<in> set ?args" "usable_url example_urls raw ''https://gw.test/base''"
    by (auto simp del: list.set)
  then have "is_ok (url_parse example_urls raw)" by (auto simp: usable_url_def is_ok_def)
  then have "raw = ''https://gw.test/base/''" by (simp add: example_urls_def is_ok_def split: if_splits)
  with raw(2) run show ?thesis by (intro exI [of _ ?a]) (simp only: init_args.select_convs simp_thms)
qed
end
