(* ===== verification/Ip_Address.thy ===== *)
theory Ip_Address
  imports Gateway "HOL-Library.Word"
begin

text \<open>
  IP addresses as the client uses them: the textual forms of \<open>std::net\<close>, which the proxy settings are
  matched against, and the address classes and prefixes of \<open>upstream_proxy.rs\<close>.  Addresses are machine
  words; the parser follows the one of the standard library, group by group.
\<close>

unbundle bit_operations_syntax

datatype ip = V4 "32 word" | V6 "128 word"

section \<open>Reading an address\<close>

definition digit_of :: "nat \<Rightarrow> char \<Rightarrow> nat option" where
  "digit_of radix c = (case hex_value c of Some d \<Rightarrow> if d < radix then Some d else None | None \<Rightarrow> None)"

definition is_digit_of :: "nat \<Rightarrow> char \<Rightarrow> bool" where
  "is_digit_of radix c \<longleftrightarrow> digit_of radix c \<noteq> None"

definition number_of :: "nat \<Rightarrow> string \<Rightarrow> int" where
  "number_of radix ds = foldl (\<lambda>n c. n * int radix + int (the (digit_of radix c))) 0 ds"

text \<open>A number of at most \<open>most\<close> digits that fits in \<open>limit\<close>, and the text after it.\<close>

definition read_number :: "nat \<Rightarrow> nat \<Rightarrow> bool \<Rightarrow> int \<Rightarrow> string \<Rightarrow> (int \<times> string) option" where
  "read_number radix most zero_prefix limit s =
     (let ds = takeWhile (is_digit_of radix) s; r = dropWhile (is_digit_of radix) s; n = number_of radix ds
      in if length ds > most \<or> ds = [] \<or> limit < n then None
         else if \<not> zero_prefix \<and> hd ds = CHR ''0'' \<and> length ds > 1 then None
         else Some (n, r))"

primrec read_octets :: "nat \<Rightarrow> string \<Rightarrow> (int list \<times> string) option" where
  "read_octets 0 s = Some ([], s)"
| "read_octets (Suc n) s =
     (case read_number 10 3 False 255 s of
        None \<Rightarrow> None
      | Some (v, r) \<Rightarrow>
          if n = 0 then Some ([v], r)
          else (case r of
              [] \<Rightarrow> None
            | c # r' \<Rightarrow> if c = CHR ''.'' then map_option (\<lambda>(vs, x). (v # vs, x)) (read_octets n r') else None))"

definition read_separator :: "bool \<Rightarrow> string \<Rightarrow> string option" where
  "read_separator first s =
     (if first then Some s else case s of [] \<Rightarrow> None | c # r \<Rightarrow> if c = CHR '':'' then Some r else None)"

text \<open>Groups of an IPv6 address, ending early before a text that is none; an embedded IPv4 address is two groups.\<close>

primrec read_groups :: "nat \<Rightarrow> bool \<Rightarrow> string \<Rightarrow> int list \<times> bool \<times> string" where
  "read_groups 0 first s = ([], False, s)"
| "read_groups (Suc n) first s =
     (case (if n = 0 then None else Option.bind (read_separator first s) (read_octets 4)) of
        Some (os, r) \<Rightarrow> ([os ! 0 * 256 + os ! 1, os ! 2 * 256 + os ! 3], True, r)
      | None \<Rightarrow>
          (case Option.bind (read_separator first s) (read_number 16 4 True 65535) of
             None \<Rightarrow> ([], False, s)
           | Some (g, r) \<Rightarrow> (case read_groups n False r of (gs, embedded, r') \<Rightarrow> (g # gs, embedded, r'))))"

definition read_ipv6 :: "string \<Rightarrow> (int list \<times> string) option" where
  "read_ipv6 s =
     (case read_groups 8 True s of (front, embedded, r) \<Rightarrow>
        if length front = 8 then Some (front, r)
        else if embedded then None
        else case strip_prefix ''::'' r of
            None \<Rightarrow> None
          | Some r' \<Rightarrow> (case read_groups (8 - (length front + 1)) True r' of (back, _, r'') \<Rightarrow>
              Some (front @ replicate (8 - length front - length back) 0 @ back, r'')))"

definition word_of_digits :: "int \<Rightarrow> int list \<Rightarrow> 'a::len word" where
  "word_of_digits radix ds = of_int (foldl (\<lambda>n d. n * radix + d) 0 ds)"

definition parse_ip :: "string \<Rightarrow> ip option" where
  "parse_ip s =
     (case read_octets 4 s of
        Some (os, r) \<Rightarrow> if r = [] then Some (V4 (word_of_digits 256 os)) else None
      | None \<Rightarrow>
          (case read_ipv6 s of
             Some (gs, r) \<Rightarrow> if r = [] then Some (V6 (word_of_digits 65536 gs)) else None
           | None \<Rightarrow> None))"

section \<open>Writing an address\<close>

definition octets :: "32 word \<Rightarrow> nat list" where
  "octets a = map (\<lambda>i. unat (drop_bit (8 * i) a AND 255)) [3, 2, 1, 0]"

definition groups :: "128 word \<Rightarrow> nat list" where
  "groups a = map (\<lambda>i. unat (drop_bit (16 * i) a AND 65535)) [7, 6, 5, 4, 3, 2, 1, 0]"

definition show_ipv4 :: "32 word \<Rightarrow> string" where
  "show_ipv4 a = join ''.'' (map decimal (octets a))"

definition hex_digit :: "nat \<Rightarrow> char" where
  "hex_digit d = (if d < 10 then char_of (48 + d) else char_of (87 + d))"

fun hexadecimal :: "nat \<Rightarrow> string" where
  "hexadecimal n = (if n < 16 then [hex_digit n] else hexadecimal (n div 16) @ [hex_digit (n mod 16)])"

declare hexadecimal.simps [simp del]

text \<open>The first of the longest runs of zero groups: where it starts and how long it is.\<close>

fun longest_zeros :: "nat \<Rightarrow> nat \<times> nat \<Rightarrow> nat \<times> nat \<Rightarrow> nat list \<Rightarrow> nat \<times> nat" where
  "longest_zeros i best run [] = best"
| "longest_zeros i best run (g # gs) =
     (if g = 0 then
        (let run' = (if snd run = 0 then i else fst run, snd run + 1)
         in longest_zeros (i + 1) (if snd best < snd run' then run' else best) run' gs)
      else longest_zeros (i + 1) best (0, 0) gs)"

definition show_groups :: "nat list \<Rightarrow> string" where
  "show_groups gs = join '':'' (map hexadecimal gs)"

definition ipv4_mapped :: "128 word \<Rightarrow> 32 word option" where
  "ipv4_mapped a = (if drop_bit 32 a = 0xFFFF then Some (ucast a) else None)"

definition show_ipv6 :: "128 word \<Rightarrow> string" where
  "show_ipv6 a =
     (case ipv4_mapped a of
        Some v4 \<Rightarrow> ''::ffff:'' @ show_ipv4 v4
      | None \<Rightarrow>
          (let gs = groups a; (start, len) = longest_zeros 0 (0, 0) (0, 0) gs
           in if 1 < len then show_groups (take start gs) @ ''::'' @ show_groups (drop (start + len) gs)
              else show_groups gs))"

fun show_ip :: "ip \<Rightarrow> string" where
  "show_ip (V4 a) = show_ipv4 a"
| "show_ip (V6 a) = show_ipv6 a"

section \<open>Classes of addresses\<close>

fun to_canonical :: "ip \<Rightarrow> ip" where
  "to_canonical (V4 a) = V4 a"
| "to_canonical (V6 a) = (case ipv4_mapped a of Some v4 \<Rightarrow> V4 v4 | None \<Rightarrow> V6 a)"

fun is_loopback :: "ip \<Rightarrow> bool" where
  "is_loopback (V4 a) \<longleftrightarrow> drop_bit 24 a = 127"
| "is_loopback (V6 a) \<longleftrightarrow> a = 1"

fun is_unspecified :: "ip \<Rightarrow> bool" where
  "is_unspecified (V4 a) \<longleftrightarrow> a = 0"
| "is_unspecified (V6 a) \<longleftrightarrow> a = 0"

text \<open>\<open>checked_shl\<close>: no result when the shift is as wide as the word.\<close>

definition checked_shl :: "nat \<Rightarrow> 'a::len word \<Rightarrow> 'a word option" where
  "checked_shl n a = (if n < LENGTH('a) then Some (push_bit n a) else None)"

definition prefix_mask :: "nat \<Rightarrow> 'a::len word" where
  "prefix_mask prefix = (case checked_shl (LENGTH('a) - prefix) (- 1) of Some m \<Rightarrow> m | None \<Rightarrow> 0)"

fun ip_in_network :: "ip \<Rightarrow> ip \<Rightarrow> nat \<Rightarrow> bool" where
  "ip_in_network (V4 a) (V4 n) prefix \<longleftrightarrow> a AND prefix_mask prefix = n AND prefix_mask prefix"
| "ip_in_network (V6 a) (V6 n) prefix \<longleftrightarrow> a AND prefix_mask prefix = n AND prefix_mask prefix"
| "ip_in_network _ _ prefix \<longleftrightarrow> False"

section \<open>Prefixes are leading bits\<close>

lemma bit_prefix_mask:
  "bit (prefix_mask p :: 'a::len word) i \<longleftrightarrow> i < LENGTH('a) \<and> LENGTH('a) - p \<le> i"
  by (auto simp: prefix_mask_def checked_shl_def bit_not_iff bit_mask_iff dest: bit_imp_le_length)

lemma masked_eq_iff:
  fixes a n :: "'a::len word"
  shows "a AND prefix_mask p = n AND prefix_mask p \<longleftrightarrow>
     (\<forall>i < LENGTH('a). LENGTH('a) - p \<le> i \<longrightarrow> bit a i = bit n i)"
  by (auto simp: bit_eq_iff bit_and_iff bit_prefix_mask)

fun ip_width :: "ip \<Rightarrow> nat" where
  "ip_width (V4 _) = 32"
| "ip_width (V6 _) = 128"

fun ip_bit :: "ip \<Rightarrow> nat \<Rightarrow> bool" where
  "ip_bit (V4 a) i = bit a i"
| "ip_bit (V6 a) i = bit a i"

text \<open>
  Membership in a network is agreement on the leading bits: an address is in \<open>n/p\<close> exactly when it
  is of the same family and its first \<open>p\<close> bits are those of \<open>n\<close>.  At \<open>p = 0\<close>, where the shift would be as
  wide as the word, every address of the family is in the network.
\<close>

theorem network_is_leading_bits:
  "ip_in_network a n p = (ip_width a = ip_width n \<and>
     list_all (\<lambda>i. ip_bit a (ip_width a - 1 - i) = ip_bit n (ip_width n - 1 - i)) [0..<min p (ip_width a)])"
proof -
  have shift: "(\<forall>i < w. w - p \<le> i \<longrightarrow> P i) = (\<forall>i < min p w. P (w - 1 - i))" for w :: nat and P
  proof safe
    fix i assume all: "\<forall>i < w. w - p \<le> i \<longrightarrow> P i" and i: "i < min p w"
    then have "w - 1 - i < w" "w - p \<le> w - 1 - i" by auto
    with all show "P (w - 1 - i)" by blast
  next
    fix i assume all: "\<forall>i < min p w. P (w - 1 - i)" and i: "i < w" "w - p \<le> i"
    then have "w - 1 - i < min p w" "w - 1 - (w - 1 - i) = i" by auto
    with all show "P i" by metis
  qed
  show ?thesis
    by (cases a; cases n) (simp_all add: masked_eq_iff shift list_all_iff Ball_def)
qed

end
