(* ===== verification/Proxy_Endpoint.thy ===== *)
theory Proxy_Endpoint
  imports Ip_Address
begin

text \<open>
  Upstream proxy endpoints of \<open>upstream_proxy.rs\<close>: reading a proxy URL, its credentials, recognising the
  client's own listener, and the three modes of the setting.  The \<open>url\<close> and \<open>base64\<close> crates are
  parameters; a URL is the record of what the code reads from it.  An error is its text, with the
  contexts in front, as the alternate form of \<open>anyhow\<close> prints it.
\<close>

section \<open>Errors\<close>

definition with_context :: "string \<Rightarrow> (string, 'a) result \<Rightarrow> (string, 'a) result" where
  "with_context c r = (case r of Inl e \<Rightarrow> Inl (c @ '': '' @ e) | Inr x \<Rightarrow> Inr x)"

lemma with_context_Inr [simp]: "with_context c r = Inr x \<longleftrightarrow> r = Inr x"
  by (cases r) (simp_all add: with_context_def)

section \<open>Percent decoding\<close>

text \<open>\<open>u8::from_str_radix(hex, 16)\<close>: a plus sign in front of a digit is accepted.\<close>

definition u8_from_hex :: "string \<Rightarrow> char option" where
  "u8_from_hex s =
     (let ds = (case s of [] \<Rightarrow> [] | c # r \<Rightarrow> if c = CHR ''+'' \<and> r \<noteq> [] then r else s)
      in if ds = [] \<or> \<not> list_all (\<lambda>c. hex_value c \<noteq> None) ds then None
         else (let n = foldl (\<lambda>n c. n * 16 + the (hex_value c)) 0 ds in if n < 256 then Some (char_of n) else None))"

function percent_decode_from :: "string \<Rightarrow> nat \<Rightarrow> string option" where
  "percent_decode_from bytes index =
     (if index < length bytes then
        if bytes ! index = CHR ''%'' then
          (if length bytes < index + 3 then None
           else let hex = take 2 (drop (index + 1) bytes) in
             if \<not> valid_utf8 hex then None
             else (case u8_from_hex hex of
                 None \<Rightarrow> None
               | Some c \<Rightarrow> map_option ((#) c) (percent_decode_from bytes (index + 3))))
        else map_option ((#) (bytes ! index)) (percent_decode_from bytes (index + 1))
      else Some [])"
  by pat_completeness auto
termination by (relation "measure (\<lambda>(bytes, index). length bytes - index)") auto

declare percent_decode_from.simps [simp del]

definition percent_decode :: "string \<Rightarrow> string option" where
  "percent_decode value =
     (case percent_decode_from value 0 of
        None \<Rightarrow> None
      | Some decoded \<Rightarrow> if valid_utf8 decoded then Some decoded else None)"

section \<open>Endpoints\<close>

definition host_port :: "string \<Rightarrow> nat \<Rightarrow> string" where
  "host_port host port =
     (if CHR '':'' \<in> set host then ''['' @ host @ '']:'' @ decimal port else host @ '':'' @ decimal port)"

definition normalize_host :: "string \<Rightarrow> string" where
  "normalize_host host =
     to_ascii_lowercase (trim_end_char CHR ''.'' (trim_end_char CHR '']'' (trim_start_char CHR ''['' (trim host))))"

datatype url_host = DomainHost string | Ipv4Host "32 word" | Ipv6Host "128 word"

record proxy_url = url +
  parsed_host :: "url_host option"
  known_port :: "nat option"

record endpoint =
  proxy_host :: string
  proxy_port :: nat
  proxy_username :: string
  proxy_password :: "string option"

type_synonym url_parser = "string \<Rightarrow> proxy_url option"

fun host_text :: "url_host \<Rightarrow> string" where
  "host_text (DomainHost h) = h"
| "host_text (Ipv4Host a) = show_ip (V4 a)"
| "host_text (Ipv6Host a) = show_ip (V6 a)"

definition decode_credential :: "string \<Rightarrow> (string, string) result" where
  "decode_credential part = ok_or ''has invalid credential encoding'' (percent_decode part)"

definition endpoint_parse :: "url_parser \<Rightarrow> string \<Rightarrow> (string, endpoint) result" where
  "endpoint_parse parse_url input =
     (let value = trim input;
          candidate = (if contains_text value ''://'' then value else ''http://'' @ value)
      in case parse_url candidate of
          None \<Rightarrow> Inl ''is not a valid proxy URL''
        | Some u \<Rightarrow>
            if url_scheme u = ''https'' then Inl ''is an https:// proxy; only http:// proxies are supported''
            else if starts_with (url_scheme u) ''socks''
              then Inl ''is a SOCKS proxy; only http:// proxies are supported''
            else if url_scheme u \<noteq> ''http'' then Inl ''is not an http:// proxy URL''
            else (case parsed_host u of
                None \<Rightarrow> Inl ''has no proxy host''
              | Some h \<Rightarrow>
                  if url_path u \<notin> {'''', ''/''} \<or> url_query u \<noteq> None
                  then Inl ''must not contain a path or query''
                  else bind_result (decode_credential (url_username u)) (\<lambda>name.
                    bind_result (case url_password u of None \<Rightarrow> Inr None
                      | Some p \<Rightarrow> map_sum id Some (decode_credential p)) (\<lambda>password.
                    Inr \<lparr>proxy_host = host_text h,
                         proxy_port = (case known_port u of Some p \<Rightarrow> p | None \<Rightarrow> 80),
                         proxy_username = name, proxy_password = password\<rparr>))))"

definition has_credentials :: "endpoint \<Rightarrow> bool" where
  "has_credentials e \<longleftrightarrow> proxy_username e \<noteq> [] \<or> proxy_password e \<noteq> None"

definition endpoint_authority :: "endpoint \<Rightarrow> string" where
  "endpoint_authority e = host_port (proxy_host e) (proxy_port e)"

definition proxy_authorization :: "(string \<Rightarrow> string) \<Rightarrow> endpoint \<Rightarrow> string option" where
  "proxy_authorization base64 e =
     (if has_credentials e
      then Some (''Basic '' @ base64 (proxy_username e @ '':'' @ (case proxy_password e of Some p \<Rightarrow> p | None \<Rightarrow> [])))
      else None)"

type_synonym socket_addr = "ip \<times> nat"

definition is_listener :: "endpoint \<Rightarrow> socket_addr option \<Rightarrow> bool" where
  "is_listener e listen =
     (case listen of
        None \<Rightarrow> False
      | Some (listen_ip, listen_port) \<Rightarrow>
          if proxy_port e \<noteq> listen_port then False
          else let host = normalize_host (proxy_host e) in
            host = ''localhost'' \<or> ends_with host ''.localhost'' \<or>
            (case parse_ip host of
               None \<Rightarrow> False
             | Some a \<Rightarrow> let ip = to_canonical a in is_loopback ip \<or> is_unspecified ip \<or> ip = listen_ip))"

definition show_endpoint :: "endpoint \<Rightarrow> string" where
  "show_endpoint e = ''http://'' @ endpoint_authority e @ (if has_credentials e then '' (with credentials)'' else [])"

datatype proxy_route = DirectRoute | ProxyRoute endpoint

fun show_route :: "proxy_route \<Rightarrow> string" where
  "show_route DirectRoute = ''direct''"
| "show_route (ProxyRoute e) = ''via '' @ show_endpoint e"

section \<open>The setting\<close>

datatype proxy_mode = ModeSystem | ModeDirect | ModeFixed endpoint

definition parse_mode :: "url_parser \<Rightarrow> string \<Rightarrow> (string, proxy_mode) result" where
  "parse_mode parse_url value =
     (let word = to_ascii_lowercase (trim value) in
      if word \<in> {'''', ''system''} then Inr ModeSystem
      else if word \<in> {''direct'', ''none''} then Inr ModeDirect
      else map_sum id ModeFixed (endpoint_parse parse_url value))"

definition describe_setting :: "url_parser \<Rightarrow> string option \<Rightarrow> string" where
  "describe_setting parse_url setting =
     (case setting of
        None \<Rightarrow> ''system (default)''
      | Some value \<Rightarrow> (case parse_mode parse_url value of
            Inr ModeSystem \<Rightarrow> ''system''
          | Inr ModeDirect \<Rightarrow> ''direct''
          | Inr (ModeFixed e) \<Rightarrow> show_endpoint e
          | Inl _ \<Rightarrow> ''invalid''))"

definition validate_setting :: "url_parser \<Rightarrow> string \<Rightarrow> (string, unit) result" where
  "validate_setting parse_url value =
     map_sum (\<lambda>e. ''upstream proxy '' @ e) (\<lambda>_. ()) (parse_mode parse_url value)"

section \<open>Encoded credentials decode to themselves\<close>

definition encode_byte :: "char \<Rightarrow> string" where
  "encode_byte c = [CHR ''%'', hex_digit (code c div 16), hex_digit (code c mod 16)]"

text \<open>Userinfo encoding with any choice of the bytes left as they are, the percent sign excepted.\<close>

definition percent_encode :: "(char \<Rightarrow> bool) \<Rightarrow> string \<Rightarrow> string" where
  "percent_encode plain s = concat (map (\<lambda>c. if plain c \<and> c \<noteq> CHR ''%'' then [c] else encode_byte c) s)"

lemma hex_value_digit: "d < 16 \<Longrightarrow> hex_value (hex_digit d) = Some d"
  by (auto simp: hex_value_def hex_digit_def)

lemma code_hex_digit: "d < 16 \<Longrightarrow> code (hex_digit d) = (if d < 10 then 48 + d else 87 + d)"
  by (simp add: hex_digit_def)

lemma hex_digit_not_plus: "d < 16 \<Longrightarrow> hex_digit d \<noteq> CHR ''+''"
  by (rule notI) (use code_hex_digit [of d] in \<open>simp split: if_splits\<close>)

lemma code_digits: "code c div 16 < 16" "code c mod 16 < 16"
  using less_mult_imp_div_less [of "code c" 16 16] code_less [of c] by simp_all

lemma u8_from_hex_encoded: "u8_from_hex [hex_digit (code c div 16), hex_digit (code c mod 16)] = Some c"
proof -
  have d: "code c div 16 < 16" "code c mod 16 < 16" by (rule code_digits)+
  then have "code c div 16 * 16 + code c mod 16 = code c" by simp
  then show ?thesis using d
    by (simp add: u8_from_hex_def hex_digit_not_plus hex_value_digit Let_def)
qed

lemma encoded_pair_utf8: "valid_utf8 [hex_digit (code c div 16), hex_digit (code c mod 16)]"
  by (rule ascii_utf8) (use code_digits [of c] in \<open>auto simp: code_hex_digit\<close>)

lemma percent_decode_shift: "percent_decode_from (p @ s) (length p + i) = percent_decode_from s i"
proof (induction s i rule: percent_decode_from.induct)
  case (1 s i)
  have "take 2 (drop (length p + i + 1) (p @ s)) = take 2 (drop (i + 1) s)" by simp
  with 1 show ?case
    by (subst (1 2) percent_decode_from.simps) (auto simp: nth_append Let_def add.assoc split: option.split)
qed

lemma percent_decode_encoded: "percent_decode_from (percent_encode plain s) 0 = Some s"
proof (induction s)
  case Nil
  then show ?case by (simp add: percent_encode_def percent_decode_from.simps)
next
  case (Cons c s)
  let ?r = "percent_encode plain s"
  show ?case
  proof (cases "plain c \<and> c \<noteq> CHR ''%''")
    case True
    then have "percent_encode plain (c # s) = [c] @ ?r" by (simp add: percent_encode_def)
    then show ?thesis using True Cons percent_decode_shift [of "[c]" ?r 0]
      by (subst percent_decode_from.simps) simp
  next
    case False
    then have "percent_encode plain (c # s) = encode_byte c @ ?r" unfolding percent_encode_def by (simp only: list.map concat.simps if_False)
    then show ?thesis using Cons percent_decode_shift [of "encode_byte c" ?r 0] encoded_pair_utf8 [of c] u8_from_hex_encoded [of c]
      by (subst percent_decode_from.simps) (simp add: encode_byte_def Let_def numeral_3_eq_3)
  qed
qed

text \<open>
  Credentials of a proxy URL survive percent encoding: whatever set of bytes is left unencoded, a
  UTF-8 user name or password decodes to itself.
\<close>

theorem encoded_credentials_decode:
  assumes "valid_utf8 s"
  shows "percent_decode (percent_encode plain s) = Some s"
  using assms by (simp add: percent_decode_def percent_decode_encoded)

theorem encoded_credentials_decode_witness:
  "percent_decode (percent_encode is_ascii_alphanumeric ''p@ss%'') = Some ''p@ss%'' \<and>
   percent_encode is_ascii_alphanumeric ''p@ss%'' = ''p%40ss%25''"
proof -
  have "valid_utf8 ''p@ss%''" by code_simp
  moreover have "percent_encode is_ascii_alphanumeric ''p@ss%'' = ''p%40ss%25''" by code_simp
  ultimately show ?thesis using encoded_credentials_decode by blast
qed

section \<open>A decoder quirk\<close>

text \<open>A percent sign followed by a plus sign and one digit is accepted, since the standard library's
  integer parser takes a sign.\<close>

lemma signed_escape_accepted: "percent_decode ''a%+fb'' = Some [CHR ''a'', CHR 0x0F, CHR ''b'']"
  by code_simp

end
