(* ===== verification/Proxy_Bypass.thy ===== *)
theory Proxy_Bypass
  imports Proxy_Endpoint
begin

text \<open>
  Bypass rules of \<open>upstream_proxy.rs\<close>: reading a list of exceptions and deciding whether a target matches
  one.  The glob matcher is the loop of the source over indices, with its saved backtracking point; it is
  shown to return on every input and to agree with the recursive definition of a glob.
\<close>

section \<open>The glob matcher\<close>

text \<open>\<open>star\<close> is the index of the last star seen, \<open>resume\<close> where in the text its match was last extended to.\<close>

partial_function (option) glob_loop ::
  "string \<Rightarrow> string \<Rightarrow> nat \<Rightarrow> nat \<Rightarrow> nat option \<Rightarrow> nat \<Rightarrow> bool option" where
  "glob_loop pattern s p t star resume =
     (if t < length s then
        if p < length pattern \<and> (pattern ! p = s ! t \<or> pattern ! p = CHR ''?'')
          then glob_loop pattern s (p + 1) (t + 1) star resume
        else if p < length pattern \<and> pattern ! p = CHR ''*''
          then glob_loop pattern s (p + 1) t (Some p) t
        else (case star of
            Some i \<Rightarrow> glob_loop pattern s (i + 1) (resume + 1) star (resume + 1)
          | None \<Rightarrow> Some False)
      else Some (list_all ((=) CHR ''*'') (drop p pattern)))"

definition glob_result :: "string \<Rightarrow> string \<Rightarrow> bool option" where
  "glob_result pattern s = glob_loop pattern s 0 0 None 0"

definition glob_matches :: "string \<Rightarrow> string \<Rightarrow> bool" where
  "glob_matches pattern s \<longleftrightarrow> glob_result pattern s = Some True"

text \<open>What a glob means.\<close>

fun glob_spec :: "string \<Rightarrow> string \<Rightarrow> bool" where
  "glob_spec [] s \<longleftrightarrow> s = []"
| "glob_spec (c # p) s \<longleftrightarrow>
     (if c = CHR ''*'' then glob_spec p s \<or> (case s of [] \<Rightarrow> False | _ # s' \<Rightarrow> glob_spec (c # p) s')
      else (case s of [] \<Rightarrow> False | d # s' \<Rightarrow> (c = d \<or> c = CHR ''?'') \<and> glob_spec p s'))"

lemma glob_spec_star: "glob_spec (CHR ''*'' # p) s \<longleftrightarrow> (\<exists>k \<le> length s. glob_spec p (drop k s))"
proof (induction s)
  case (Cons d s)
  have "(\<exists>k \<le> length (d # s). glob_spec p (drop k (d # s))) \<longleftrightarrow>
      glob_spec p (d # s) \<or> (\<exists>k \<le> length s. glob_spec p (drop k s))"
    by (metis Suc_le_mono drop0 drop_Suc_Cons length_Cons not0_implies_Suc zero_le)
  with Cons show ?case by simp
qed simp

lemma glob_spec_empty: "glob_spec p [] \<longleftrightarrow> list_all ((=) CHR ''*'') p"
  by (induction p) auto

text \<open>A segment without stars consumes as many characters as it has.\<close>

lemma glob_spec_segment:
  "CHR ''*'' \<notin> set q \<Longrightarrow> glob_spec (q @ p) s \<Longrightarrow> length q \<le> length s \<and> glob_spec p (drop (length q) s)"
proof (induction q arbitrary: s)
  case (Cons c q)
  then show ?case by (cases s) auto
qed simp

lemma glob_spec_star_drop: "glob_spec (CHR ''*'' # p) (drop k s) \<Longrightarrow> t \<le> k \<Longrightarrow> k \<le> length s \<Longrightarrow> glob_spec (CHR ''*'' # p) (drop t s)"
  unfolding glob_spec_star
  by (elim exE conjE, rename_tac j, rule_tac x = "j + (k - t)" in exI) (auto simp: add.commute)

section \<open>The loop returns and agrees\<close>

text \<open>
  The pattern between the last star and \<open>p\<close> has no star and was matched against the text from
  \<open>resume\<close> to \<open>t\<close>; the answer is that of the rest from here or of a later extension of the star.
\<close>

definition glob_state :: "string \<Rightarrow> string \<Rightarrow> nat \<Rightarrow> nat \<Rightarrow> nat option \<Rightarrow> nat \<Rightarrow> bool" where
  "glob_state pattern s p t star resume \<longleftrightarrow> p \<le> length pattern \<and> t \<le> length s \<and>
     (case star of None \<Rightarrow> True
      | Some i \<Rightarrow> i < p \<and> resume \<le> t \<and> p - (i + 1) = t - resume \<and>
          CHR ''*'' \<notin> set (take (p - (i + 1)) (drop (i + 1) pattern)))"

definition glob_answer :: "string \<Rightarrow> string \<Rightarrow> nat \<Rightarrow> nat \<Rightarrow> nat option \<Rightarrow> nat \<Rightarrow> bool" where
  "glob_answer pattern s p t star resume \<longleftrightarrow> glob_spec (drop p pattern) (drop t s) \<or>
     (case star of None \<Rightarrow> False
      | Some i \<Rightarrow> \<exists>k. resume < k \<and> k \<le> length s \<and> glob_spec (drop (i + 1) pattern) (drop k s))"

text \<open>A later extension of the star leaves the segment behind it no room before \<open>t\<close>.\<close>

lemma glob_later_extension:
  assumes "glob_state pattern s p t (Some i) resume" "resume < k" "k \<le> length s"
    and "glob_spec (drop (i + 1) pattern) (drop k s)"
  shows "\<exists>k' > t. k' \<le> length s \<and> glob_spec (drop p pattern) (drop k' s)"
proof -
  let ?q = "take (p - (i + 1)) (drop (i + 1) pattern)"
  from assms(1) have inv: "i < p" "resume \<le> t" "p - (i + 1) = t - resume" "CHR ''*'' \<notin> set ?q" "p \<le> length pattern"
    by (auto simp: glob_state_def)
  have "drop (i + 1) pattern = ?q @ drop p pattern"
    using inv(1) by (metis append_take_drop_id drop_drop le_add_diff_inverse2 Suc_eq_plus1 Suc_leI)
  with assms(4) glob_spec_segment [OF inv(4)] have
    *: "length ?q \<le> length (drop k s)" "glob_spec (drop p pattern) (drop (length ?q) (drop k s))" by metis+
  have "length ?q = t - resume" using inv by simp
  then have "k + length ?q > t" using assms(2) inv(2) by linarith
  moreover have "k + length ?q \<le> length s" using *(1) assms(3) by simp
  moreover have "glob_spec (drop p pattern) (drop (k + length ?q) s)" using *(2) by (simp add: add.commute)
  ultimately show ?thesis by blast
qed

lemma glob_segment_extend:
  assumes "i < p" "p < length pattern"
  shows "take (p - i) (drop (Suc i) pattern) = take (p - Suc i) (drop (Suc i) pattern) @ [pattern ! p]"
proof -
  have "p - i = Suc (p - Suc i)" using assms(1) by simp
  moreover have "p - Suc i < length (drop (Suc i) pattern)" using assms by auto
  ultimately show ?thesis using assms by (simp add: take_Suc_conv_app_nth)
qed

lemma ex_above_split:
  fixes r n :: nat
  assumes "r < n"
  shows "(\<exists>k. r < k \<and> k \<le> n \<and> Q k) \<longleftrightarrow> Q (r + 1) \<or> (\<exists>k. r + 1 < k \<and> k \<le> n \<and> Q k)"
proof
  assume "\<exists>k. r < k \<and> k \<le> n \<and> Q k"
  then obtain k where k: "r < k" "k \<le> n" "Q k" by blast
  then show "Q (r + 1) \<or> (\<exists>k. r + 1 < k \<and> k \<le> n \<and> Q k)" by (cases "k = r + 1") auto
qed (use assms in \<open>auto intro: Suc_lessD\<close>)

definition glob_measure :: "string \<Rightarrow> string \<Rightarrow> nat \<Rightarrow> nat option \<Rightarrow> nat \<Rightarrow> nat \<times> nat \<times> nat" where
  "glob_measure pattern s t star resume =
     ((case star of None \<Rightarrow> length pattern + 1 | Some i \<Rightarrow> length pattern - i), length s - resume, length s - t)"

definition glob_order :: "((nat \<times> nat \<times> nat) \<times> (nat \<times> nat \<times> nat)) set" where
  "glob_order = less_than <*lex*> less_than <*lex*> less_than"

lemma wf_glob_order: "wf glob_order"
  by (simp add: glob_order_def wf_lex_prod)

lemma glob_loop_answer:
  assumes "glob_state pattern s p t star resume" and "CHR ''*'' \<notin> set s"
  shows "glob_loop pattern s p t star resume = Some (glob_answer pattern s p t star resume)"
  using assms(1)
proof (induction "glob_measure pattern s t star resume" arbitrary: p t star resume
    rule: wf_induct_rule [OF wf_glob_order])
  case (1 t star resume p)
  note IH = "1.hyps"
  note inv = "1.prems"
  show ?case
  proof (cases "t < length s")
    case False
    then have t: "t = length s" using inv by (simp add: glob_state_def)
    have "\<not> (\<exists>i k. star = Some i \<and> resume < k \<and> k \<le> length s \<and> glob_spec (drop (i + 1) pattern) (drop k s))"
      using glob_later_extension [of pattern s p t _ resume] inv t by fastforce
    then show ?thesis using t
      by (subst glob_loop.simps) (auto simp: glob_answer_def glob_spec_empty split: option.splits)
  next
    case True
    then have s: "drop t s = s ! t # drop (t + 1) s" "s ! t \<noteq> CHR ''*''"
      using assms(2) True by (simp_all add: Cons_nth_drop_Suc) (metis nth_mem)
    consider (same) "p < length pattern" "pattern ! p = s ! t \<or> pattern ! p = CHR ''?''"
      | (star) "p < length pattern" "pattern ! p = CHR ''*''"
      | (other) "p < length pattern \<longrightarrow> pattern ! p \<noteq> s ! t \<and> pattern ! p \<noteq> CHR ''?'' \<and> pattern ! p \<noteq> CHR ''*''"
      by blast
    then show ?thesis
    proof cases
      case same
      then have p: "drop p pattern = pattern ! p # drop (p + 1) pattern" "pattern ! p \<noteq> CHR ''*''"
        using s(2) by (auto simp: Cons_nth_drop_Suc)
      have "glob_state pattern s (p + 1) (t + 1) star resume"
        using inv True same(1) p(2)
        by (auto simp: glob_state_def glob_segment_extend Suc_diff_le split: option.splits)
      then have "glob_loop pattern s (p + 1) (t + 1) star resume = Some (glob_answer pattern s (p + 1) (t + 1) star resume)"
        using True by (intro IH) (auto simp: glob_measure_def glob_order_def)
      moreover have "glob_answer pattern s (p + 1) (t + 1) star resume = glob_answer pattern s p t star resume"
        using same p s by (auto simp: glob_answer_def)
      ultimately show ?thesis using True same by (subst glob_loop.simps) simp
    next
      case star
      then have p: "drop p pattern = CHR ''*'' # drop (p + 1) pattern"
        by (metis Cons_nth_drop_Suc Suc_eq_plus1)
      have "glob_state pattern s (p + 1) t (Some p) t" using inv star by (auto simp: glob_state_def)
      moreover have "(glob_measure pattern s t (Some p) t, glob_measure pattern s t star resume)
          \<in> glob_order"
        using inv star by (auto simp: glob_measure_def glob_order_def glob_state_def split: option.split)
      ultimately have run: "glob_loop pattern s (p + 1) t (Some p) t = Some (glob_answer pattern s (p + 1) t (Some p) t)"
        by (intro IH)
      have "glob_answer pattern s (p + 1) t (Some p) t \<longleftrightarrow> (\<exists>k. t \<le> k \<and> k \<le> length s \<and> glob_spec (drop (p + 1) pattern) (drop k s))"
        using True by (auto simp: glob_answer_def le_less)
      also have "\<dots> \<longleftrightarrow> glob_spec (drop p pattern) (drop t s)"
        unfolding p glob_spec_star
      proof
        assume "\<exists>k. t \<le> k \<and> k \<le> length s \<and> glob_spec (drop (p + 1) pattern) (drop k s)"
        then obtain k where "t \<le> k" "k \<le> length s" "glob_spec (drop (p + 1) pattern) (drop k s)" by blast
        then show "\<exists>j \<le> length (drop t s). glob_spec (drop (p + 1) pattern) (drop j (drop t s))"
          by (intro exI [of _ "k - t"]) auto
      next
        assume "\<exists>j \<le> length (drop t s). glob_spec (drop (p + 1) pattern) (drop j (drop t s))"
        then obtain j where "j \<le> length (drop t s)" "glob_spec (drop (p + 1) pattern) (drop j (drop t s))" by blast
        then show "\<exists>k. t \<le> k \<and> k \<le> length s \<and> glob_spec (drop (p + 1) pattern) (drop k s)"
          using True by (intro exI [of _ "j + t"]) auto
      qed
      also have "\<dots> \<longleftrightarrow> glob_answer pattern s p t star resume"
      proof -
        have "glob_spec (drop p pattern) (drop t s)"
          if "star = Some i" "resume < k" "k \<le> length s" "glob_spec (drop (i + 1) pattern) (drop k s)" for i k
          using glob_later_extension [of pattern s p t i resume k] inv that p glob_spec_star_drop
          by (metis less_imp_le)
        then show ?thesis by (auto simp: glob_answer_def split: option.split)
      qed
      finally show ?thesis using run True star s(2) by (subst glob_loop.simps) auto
    next
      case other
      then have no: "\<not> glob_spec (drop p pattern) (drop t s)"
        using s by (cases "p < length pattern") (auto simp: Cons_nth_drop_Suc [symmetric])
      show ?thesis
      proof (cases star)
        case None
        then show ?thesis using other True no by (subst glob_loop.simps) (auto simp: glob_answer_def)
      next
        case (Some i)
        have state: "glob_state pattern s (i + 1) (resume + 1) star (resume + 1)"
          using inv True Some by (auto simp: glob_state_def)
        have "(glob_measure pattern s (resume + 1) star (resume + 1), glob_measure pattern s t star resume)
            \<in> glob_order"
          using inv True Some by (auto simp: glob_measure_def glob_order_def glob_state_def)
        with state have run: "glob_loop pattern s (i + 1) (resume + 1) star (resume + 1) =
            Some (glob_answer pattern s (i + 1) (resume + 1) star (resume + 1))" by (intro IH)
        have "glob_answer pattern s (i + 1) (resume + 1) star (resume + 1) = glob_answer pattern s p t star resume"
          using no inv True ex_above_split [of resume "length s" "\<lambda>k. glob_spec (drop (i + 1) pattern) (drop k s)"]
          by (simp add: glob_answer_def glob_state_def Some)
        with run show ?thesis using other True Some by (subst glob_loop.simps) auto
      qed
    qed
  qed
qed



text \<open>With a star in the text the matcher can miss: it consumes a pattern star as a literal.\<close>

lemma glob_literal_star: "glob_result ''*'' ''*a'' = Some False" "glob_spec ''*'' ''*a''"
  by (simp_all add: glob_result_def glob_loop.simps)

section \<open>Rules\<close>

datatype bypass_rule = BypassAll | SimpleHostnames | Glob string | Domain string | Network ip nat

record bypass_entry =
  entry_rule :: bypass_rule
  entry_port :: "nat option"

record bypass =
  bypass_rules :: "bypass_entry list"
  bypass_subdomains :: bool

definition parse_u16 :: "string \<Rightarrow> nat option" where
  "parse_u16 s = parse_unsigned 65535 s"

definition split_entry_port :: "string \<Rightarrow> (string \<times> nat option) option" where
  "split_entry_port entry =
     (case strip_prefix ''['' entry of
        Some rest \<Rightarrow>
          (case split_once CHR '']'' rest of
             None \<Rightarrow> None
           | Some (host, tail) \<Rightarrow>
               if tail = [] then Some (host, None)
               else (case strip_prefix '':'' tail of
                   None \<Rightarrow> None
                 | Some p \<Rightarrow> map_option (\<lambda>n. (host, Some n)) (parse_u16 p)))
      | None \<Rightarrow>
          (case rsplit_once CHR '':'' entry of
             Some (host, port) \<Rightarrow>
               if CHR '':'' \<notin> set host then map_option (\<lambda>n. (host, Some n)) (parse_u16 port)
               else Some (entry, None)
           | None \<Rightarrow> Some (entry, None)))"

primrec all_some :: "'a option list \<Rightarrow> 'a list option" where
  "all_some [] = Some []"
| "all_some (x # xs) = (case x of None \<Rightarrow> None | Some y \<Rightarrow> map_option ((#) y) (all_some xs))"

definition abbreviated_ipv4 :: "string \<Rightarrow> ip option" where
  "abbreviated_ipv4 address =
     (case all_some (map (parse_unsigned 255) (split_on ((=) CHR ''.'') address)) of
        None \<Rightarrow> None
      | Some os \<Rightarrow>
          if os = [] \<or> length os > 4 then None
          else Some (V4 (word_of_digits 256 (map int (os @ replicate (4 - length os) 0)))))"

definition parse_network :: "string \<Rightarrow> bypass_rule option" where
  "parse_network entry =
     (case (case split_once CHR ''/'' entry of
              Some (address, prefix) \<Rightarrow> map_option (\<lambda>n. (address, Some n)) (parse_unsigned 255 prefix)
            | None \<Rightarrow> Some (entry, None)) of
        None \<Rightarrow> None
      | Some (address, prefix) \<Rightarrow>
          (case (case parse_ip address of
                   Some a \<Rightarrow> Some a
                 | None \<Rightarrow> if prefix \<noteq> None then abbreviated_ipv4 address else None) of
             None \<Rightarrow> None
           | Some a \<Rightarrow>
               let most = ip_width a; n = (case prefix of Some n \<Rightarrow> n | None \<Rightarrow> most)
               in if n \<le> most then Some (Network a n) else None))"

definition parse_rule :: "string \<Rightarrow> bypass_rule" where
  "parse_rule entry =
     (if entry = ''*'' then BypassAll
      else if eq_ignore_ascii_case entry ''<local>'' then SimpleHostnames
      else case parse_network entry of
          Some network \<Rightarrow> network
        | None \<Rightarrow> if CHR ''*'' \<in> set entry then Glob (to_ascii_lowercase entry)
                  else Domain (normalize_host entry))"

definition parse_entry :: "string \<Rightarrow> bypass_entry option" where
  "parse_entry raw =
     (let entry = trim raw;
          entry = (case strip_prefix ''http://'' entry of Some r \<Rightarrow> r
                   | None \<Rightarrow> (case strip_prefix ''https://'' entry of Some r \<Rightarrow> r | None \<Rightarrow> entry))
      in if entry = [] then None
         else map_option (\<lambda>(host, port). \<lparr>entry_rule = parse_rule host, entry_port = port\<rparr>) (split_entry_port entry))"

definition bypass_parse :: "string list \<Rightarrow> bool \<Rightarrow> bypass" where
  "bypass_parse entries subdomains =
     \<lparr>bypass_rules = List.map_filter parse_entry entries, bypass_subdomains = subdomains\<rparr>"

definition no_bypass :: bypass where
  "no_bypass = \<lparr>bypass_rules = [], bypass_subdomains = False\<rparr>"

definition rule_matches :: "bool \<Rightarrow> bypass_rule \<Rightarrow> string \<Rightarrow> bool" where
  "rule_matches subdomains rule host =
     (let address = parse_ip host in
      case rule of
        BypassAll \<Rightarrow> True
      | SimpleHostnames \<Rightarrow> address = None \<and> CHR ''.'' \<notin> set host
      | Glob pattern \<Rightarrow> glob_matches pattern host
      | Domain domain \<Rightarrow>
          let bare = trim_start_char CHR ''.'' domain in
          host = bare \<or> ((subdomains \<or> starts_with domain ''.'') \<and> ends_with host (''.'' @ bare))
      | Network network prefix \<Rightarrow> (case address of None \<Rightarrow> False | Some a \<Rightarrow> ip_in_network a network prefix))"

definition bypass_matches :: "bypass \<Rightarrow> string \<Rightarrow> nat \<Rightarrow> bool" where
  "bypass_matches b raw port =
     (let host = normalize_host raw in
      list_ex (\<lambda>e. (case entry_port e of None \<Rightarrow> True | Some only \<Rightarrow> only = port) \<and>
                   rule_matches (bypass_subdomains b) (entry_rule e) host) (bypass_rules b))"

definition is_loopback_target :: "string \<Rightarrow> bool" where
  "is_loopback_target raw =
     (let host = normalize_host raw in
      host = ''localhost'' \<or> ends_with host ''.localhost'' \<or>
      (case parse_ip host of None \<Rightarrow> False | Some a \<Rightarrow> is_loopback (to_canonical a)))"

section \<open>What the rules of a list can be\<close>

text \<open>Every network of a parsed list has a prefix no longer than its addresses.\<close>

lemma parse_network_bound: "parse_network entry = Some r \<Longrightarrow> \<exists>a n. r = Network a n \<and> n \<le> ip_width a"
  by (auto simp: parse_network_def Let_def split: option.splits if_splits prod.splits)

lemma parsed_entry_bound:
  assumes "e \<in> set (bypass_rules (bypass_parse entries subdomains))" "entry_rule e = Network a n"
  shows "n \<le> ip_width a"
proof -
  from assms obtain host where "parse_rule host = Network a n"
    by (auto simp: bypass_parse_def map_filter_def parse_entry_def Let_def split: if_splits option.splits)
  then show ?thesis
    by (auto simp: parse_rule_def dest!: parse_network_bound split: if_splits option.splits)
qed

lemma whitespace_not_graphic:
  "list_all (\<lambda>u. u \<noteq> [] \<and> \<not> is_ascii_graphic (hd u) \<and> \<not> is_ascii_graphic (last u)) whitespace_units"
  by code_simp

lemma strip_graphic:
  assumes "list_all is_ascii_graphic s" "list_all (\<lambda>u. u \<noteq> [] \<and> \<not> is_ascii_graphic (hd u)) us"
  shows "strip_units us s = s"
proof (rule strip_units_fixed)
  fix u assume u: "u \<in> set us" "u \<noteq> []"
  then have "\<not> is_ascii_graphic (hd u)" using assms(2) by (simp add: list_all_iff)
  moreover have "hd u \<in> set s" if "starts_with s u"
    using that u(2) by (auto simp: starts_with_iff)
  ultimately show "\<not> starts_with s u" using assms(1) by (auto simp: list_all_iff)
qed

lemma trim_graphic: "list_all is_ascii_graphic s \<Longrightarrow> trim s = s"
proof -
  assume s: "list_all is_ascii_graphic s"
  have "trim_start s = s" unfolding trim_start_def
    by (rule strip_graphic [OF s]) (use whitespace_not_graphic in \<open>simp add: list_all_iff\<close>)
  moreover have "strip_units (map rev whitespace_units) (rev s) = rev s"
    by (rule strip_graphic) (use s whitespace_not_graphic in \<open>auto simp: list_all_iff hd_rev\<close>)
  ultimately show ?thesis by (simp add: trim_def trim_end_def)
qed

definition name_char :: "char \<Rightarrow> bool" where
  "name_char c \<longleftrightarrow> is_ascii_lower c \<or> is_ascii_digit c \<or> c = CHR ''.'' \<or> c = CHR ''-''"

lemma name_char_facts:
  assumes "name_char c"
  shows "is_ascii_graphic c" "ascii_lower c = c"
    "c \<noteq> CHR ''*''" "c \<noteq> CHR ''['' " "c \<noteq> CHR '']''" "c \<noteq> CHR '':''" "c \<noteq> CHR ''<''" "c \<noteq> CHR ''/''"
  using assms by (auto simp: name_char_def is_ascii_graphic_def is_ascii_lower_def is_ascii_digit_def ascii_lower_def is_ascii_upper_def)

lemma trim_end_char_other: "s = [] \<or> last s \<noteq> c \<Longrightarrow> trim_end_char c s = s"
  by (cases s rule: rev_cases) (auto simp: trim_end_char_def)

lemma trim_start_char_other: "s = [] \<or> hd s \<noteq> c \<Longrightarrow> trim_start_char c s = s"
  by (cases s) (auto simp: trim_start_char_def)

lemma normalize_host_name:
  assumes "list_all name_char s" "s \<noteq> []" "last s \<noteq> CHR ''.''"
  shows "normalize_host s = s"
proof -
  have c: "name_char (hd s)" "name_char (last s)" using assms by (auto simp: list_all_iff)
  have "trim s = s" using assms(1) by (intro trim_graphic) (auto simp: list_all_iff name_char_facts)
  moreover have "map ascii_lower s = s" using assms(1) by (intro map_idI) (auto simp: list_all_iff name_char_facts)
  ultimately show ?thesis using assms(3) c
    by (simp add: normalize_host_def to_ascii_lowercase_def trim_start_char_other trim_end_char_other name_char_facts)
qed

text \<open>
  An entry of a \<open>NO_PROXY\<close> list that names a domain exempts that domain and its subdomains, and no
  other host: for a name of lower-case letters, digits, dots and
  hyphens that is no network, a target is bypassed exactly when its
  normalised host is the name or ends in a dot and the name.
\<close>
theorem no_proxy_domain_entry:
  assumes name: "list_all name_char name" "name \<noteq> []" "hd name \<noteq> CHR ''.''" "last name \<noteq> CHR ''.''"
    and no_network: "parse_network name = None"
  shows "bypass_matches (bypass_parse [name] True) host port \<longleftrightarrow>
     normalize_host host = name \<or> ends_with (normalize_host host) (CHR ''.'' # name)"
proof -
  have chars: "c \<in> set name \<Longrightarrow> name_char c" for c using name(1) by (simp add: list_all_iff)
  have no: "CHR ''*'' \<notin> set name" "CHR ''['' \<notin> set name" "CHR '':'' \<notin> set name" "CHR ''<'' \<notin> set name"
    using chars name_char_facts by blast+
  have "trim name = name" using chars by (intro trim_graphic) (auto simp: list_all_iff name_char_facts)
  moreover have "strip_prefix p name = None" if "set p \<inter> {CHR '':'', CHR ''[''} \<noteq> {}" for p
    using that no by (auto simp: strip_prefix_def starts_with_iff)
  ultimately have entry: "parse_entry name = map_option (\<lambda>(host, port). \<lparr>entry_rule = parse_rule host, entry_port = port\<rparr>)
      (split_entry_port name)" using name(2) by (simp add: parse_entry_def)
  have "split_entry_port name = Some (name, None)"
    using no by (auto simp: split_entry_port_def strip_prefix_def starts_with_iff rsplit_once_None_iff [THEN iffD2])
  moreover have "parse_rule name = Domain name"
  proof -
    have "\<not> eq_ignore_ascii_case name ''<local>''"
      using chars name(2) name_char_facts(2,7)
      by (cases name) (auto simp: eq_ignore_ascii_case_def to_ascii_lowercase_def ascii_lower_def is_ascii_upper_def)
    then show ?thesis using no no_network normalize_host_name [OF name(1,2,4)] by (auto simp: parse_rule_def)
  qed
  ultimately have "parse_entry name = Some \<lparr>entry_rule = Domain name, entry_port = None\<rparr>"
    using entry by simp
  then show ?thesis using name(3)
    by (simp add: bypass_matches_def bypass_parse_def map_filter_def rule_matches_def Let_def trim_start_char_other)
qed

theorem no_proxy_domain_entry_witness:
  "bypass_matches (bypass_parse [''corp.test''] True) ''WWW.corp.test.'' 443 \<and>
   \<not> bypass_matches (bypass_parse [''corp.test''] True) ''evilcorp.test'' 443"
proof -
  have "list_all name_char ''corp.test''" "parse_network ''corp.test'' = None" by code_simp+
  note rule = no_proxy_domain_entry [OF this(1) _ _ _ this(2)]
  have "ends_with (normalize_host ''WWW.corp.test.'') ''.corp.test''" by code_simp
  moreover have "normalize_host ''evilcorp.test'' \<noteq> ''corp.test''" "\<not> ends_with (normalize_host ''evilcorp.test'') ''.corp.test''"
    by code_simp+
  ultimately show ?thesis by (simp add: rule)
qed

end
