(* ===== verification/Proxy_Policy.thy ===== *)
theory Proxy_Policy
  imports Proxy_Bypass
begin

text \<open>
  From the settings to a policy: the environment variables, the proxy settings of Windows and macOS as
  \<open>upstream_proxy.rs\<close> reads them, and the policy computed from one reading.  The captured list of
  ignored variables of the source's closures is passed along explicitly.
\<close>

section \<open>Static proxies\<close>

record static_proxies =
  static_http :: "endpoint option"
  static_https :: "endpoint option"
  http_error :: "string option"
  https_error :: "string option"
  static_bypass :: bypass

definition static_route :: "static_proxies \<Rightarrow> bool \<Rightarrow> string \<Rightarrow> nat \<Rightarrow> (string, proxy_route) result" where
  "static_route S https host port =
     (if bypass_matches (static_bypass S) host port then Inr DirectRoute
      else case (if https then (static_https S, https_error S) else (static_http S, http_error S)) of
          (Some e, _) \<Rightarrow> Inr (ProxyRoute e)
        | (None, Some error) \<Rightarrow> Inl error
        | (None, None) \<Rightarrow> Inr DirectRoute)"

datatype policy =
    PolicyDirect
  | PolicyStatic static_proxies
  | PolicyAuto bool "string option" static_proxies
  | PolicyUnavailable string

section \<open>The environment\<close>

record env_proxies =
  env_https :: "(string \<times> string) option"
  env_http :: "(string \<times> string) option"
  env_all :: "(string \<times> string) option"
  env_no_proxy :: "string option"

primrec first_variable :: "(string \<Rightarrow> string option) \<Rightarrow> string list \<Rightarrow> (string \<times> string) option" where
  "first_variable lookup [] = None"
| "first_variable lookup (name # names) =
     (case lookup name of
        Some value \<Rightarrow> if trim value \<noteq> [] then Some (name, value) else first_variable lookup names
      | None \<Rightarrow> first_variable lookup names)"

definition env_from_lookup :: "(string \<Rightarrow> string option) \<Rightarrow> env_proxies" where
  "env_from_lookup lookup =
     \<lparr>env_https = first_variable lookup [''https_proxy'', ''HTTPS_PROXY''],
      env_http = first_variable lookup [''http_proxy'', ''HTTP_PROXY''],
      env_all = first_variable lookup [''all_proxy'', ''ALL_PROXY''],
      env_no_proxy = map_option snd (first_variable lookup [''no_proxy'', ''NO_PROXY''])\<rparr>"

definition parse_env ::
  "url_parser \<Rightarrow> socket_addr option \<Rightarrow> (string \<times> string) option \<Rightarrow> string list \<Rightarrow>
     (string, endpoint option) result \<times> string list" where
  "parse_env parse_url listen entry ignored =
     (case entry of
        None \<Rightarrow> (Inr None, ignored)
      | Some (name, value) \<Rightarrow>
          (case with_context (name @ '' in the SAIAI environment'') (endpoint_parse parse_url value) of
             Inl e \<Rightarrow> (Inl e, ignored)
           | Inr e \<Rightarrow> if is_listener e listen then (Inr None, ignored @ [name]) else (Inr (Some e), ignored)))"

definition env_scheme ::
  "url_parser \<Rightarrow> socket_addr option \<Rightarrow> (string \<times> string) option \<Rightarrow> (string \<times> string) option \<Rightarrow> string list \<Rightarrow>
     (string, endpoint option) result \<times> string list" where
  "env_scheme parse_url listen own fallback ignored =
     (case parse_env parse_url listen own ignored of
        (Inl e, ignored') \<Rightarrow> (Inl e, ignored')
      | (Inr (Some e), ignored') \<Rightarrow> (Inr (Some e), ignored')
      | (Inr None, ignored') \<Rightarrow> parse_env parse_url listen fallback ignored')"

section \<open>Descriptions\<close>

definition describe_endpoint :: "endpoint option \<Rightarrow> string" where
  "describe_endpoint e = (case e of None \<Rightarrow> ''direct'' | Some e \<Rightarrow> show_endpoint e)"

definition describe_static :: "static_proxies \<Rightarrow> string" where
  "describe_static S =
     (if static_https S = None \<and> static_http S = None then ''direct''
      else ''https '' @ describe_endpoint (static_https S) @ '', http '' @ describe_endpoint (static_http S))"

fun describe_scheme :: "(string, endpoint option) result \<Rightarrow> string" where
  "describe_scheme (Inr e) = describe_endpoint e"
| "describe_scheme (Inl message) = ''unavailable ('' @ message @ '')''"

section \<open>Windows\<close>

record windows_slots =
  slot_all :: "endpoint option"
  slot_http :: "endpoint option"
  slot_https :: "endpoint option"
  slot_socks :: bool

definition fill_slot :: "string option \<Rightarrow> endpoint \<Rightarrow> windows_slots \<Rightarrow> windows_slots" where
  "fill_slot scheme e slots =
     (if scheme = None then (if slot_all slots = None then slots\<lparr>slot_all := Some e\<rparr> else slots)
      else if scheme = Some ''http'' then (if slot_http slots = None then slots\<lparr>slot_http := Some e\<rparr> else slots)
      else (if slot_https slots = None then slots\<lparr>slot_https := Some e\<rparr> else slots))"

definition windows_entry ::
  "url_parser \<Rightarrow> socket_addr option \<Rightarrow> string \<Rightarrow> windows_slots \<Rightarrow> (string, windows_slots) result" where
  "windows_entry parse_url listen entry slots =
     (let (scheme, value) =
            (case split_once CHR ''='' entry of
               Some (scheme, value) \<Rightarrow> (Some (to_ascii_lowercase (trim scheme)), value)
             | None \<Rightarrow> (None, entry))
      in if scheme = Some ''socks'' then Inr (slots\<lparr>slot_socks := True\<rparr>)
         else if scheme \<notin> {None, Some ''http'', Some ''https''} then Inr slots
         else bind_result (with_context ''ProxyServer entry'' (endpoint_parse parse_url value)) (\<lambda>e.
           Inr (if is_listener e listen then slots else fill_slot scheme e slots)))"

primrec windows_entries ::
  "url_parser \<Rightarrow> socket_addr option \<Rightarrow> string list \<Rightarrow> windows_slots \<Rightarrow> (string, windows_slots) result" where
  "windows_entries parse_url listen [] slots = Inr slots"
| "windows_entries parse_url listen (entry # entries) slots =
     bind_result (windows_entry parse_url listen entry slots) (windows_entries parse_url listen entries)"

definition or_else :: "'a option \<Rightarrow> 'a option \<Rightarrow> 'a option" where
  "or_else x y = (case x of Some _ \<Rightarrow> x | None \<Rightarrow> y)"

definition text_or_empty :: "string option \<Rightarrow> string" where
  "text_or_empty s = (case s of Some t \<Rightarrow> t | None \<Rightarrow> [])"

definition windows_static_proxies ::
  "url_parser \<Rightarrow> string option \<Rightarrow> string option \<Rightarrow> socket_addr option \<Rightarrow> (string, static_proxies) result" where
  "windows_static_proxies parse_url proxy exceptions listen =
     (let separator = (\<lambda>c. c \<in> {CHR '';'', CHR '' '', CHR 0x09, CHR 0x0D, CHR 0x0A});
          entries = filter (\<lambda>entry. trim entry \<noteq> []) (split_on separator (text_or_empty proxy))
      in bind_result (windows_entries parse_url listen entries
           \<lparr>slot_all = None, slot_http = None, slot_https = None, slot_socks = False\<rparr>) (\<lambda>slots.
         let https = or_else (slot_https slots) (slot_all slots);
             http = or_else (slot_http slots) (slot_all slots);
             socks_error = (if slot_socks slots
               then Some ''Windows SOCKS proxy is not supported; only HTTP proxies are'' else None)
         in if slot_socks slots \<and> https = None \<and> http = None
            then Inl ''is a SOCKS proxy; only HTTP proxies are supported''
            else Inr \<lparr>static_http = http, static_https = https,
              http_error = (if http = None then socks_error else None),
              https_error = (if https = None then socks_error else None),
              static_bypass = bypass_parse
                (split_on (\<lambda>c. c = CHR '';'' \<or> c = CHR '' '') (text_or_empty exceptions)) False\<rparr>))"

section \<open>macOS\<close>

text \<open>\<open>str::lines\<close>, for lines that are trimmed afterwards, and \<open>str::split_once\<close> with a text.\<close>

definition text_lines :: "string \<Rightarrow> string list" where
  "text_lines s = (let ls = split_on ((=) CHR 0x0A) s in if last ls = [] then butlast ls else ls)"

fun split_once_text :: "string \<Rightarrow> string \<Rightarrow> (string \<times> string) option" where
  "split_once_text p [] = (if p = [] then Some ([], []) else None)"
| "split_once_text p (c # s) =
     (if starts_with (c # s) p then Some ([], drop (length p) (c # s))
      else map_option (\<lambda>(a, b). (c # a, b)) (split_once_text p s))"

record scutil_state =
  scutil_values :: "(string \<times> string) list"
  scutil_exceptions :: "string list"
  in_exceptions :: bool

definition scutil_line :: "string \<Rightarrow> scutil_state \<Rightarrow> scutil_state" where
  "scutil_line raw st =
     (let line = trim raw; parts = split_once_text '' : '' line in
      if in_exceptions st then
        (if line = ''}'' then st\<lparr>in_exceptions := False\<rparr>
         else (case parts of
             Some (_, value) \<Rightarrow> st\<lparr>scutil_exceptions := scutil_exceptions st @ [trim value]\<rparr>
           | None \<Rightarrow> st))
      else (case parts of
          None \<Rightarrow> st
        | Some (key, value) \<Rightarrow>
            if key = ''ExceptionsList'' then st\<lparr>in_exceptions := starts_with (trim value) ''<array>''\<rparr>
            else st\<lparr>scutil_values := (trim key, trim value) # scutil_values st\<rparr>))"

definition read_scutil :: "string \<Rightarrow> scutil_state" where
  "read_scutil s = fold scutil_line (text_lines s) \<lparr>scutil_values = [], scutil_exceptions = [], in_exceptions = False\<rparr>"

definition scutil_get :: "scutil_state \<Rightarrow> string \<Rightarrow> string option" where
  "scutil_get st key = map_of (scutil_values st) key"

definition scutil_enabled :: "scutil_state \<Rightarrow> string \<Rightarrow> bool" where
  "scutil_enabled st key \<longleftrightarrow> scutil_get st key = Some ''1''"

definition macos_endpoint ::
  "url_parser \<Rightarrow> socket_addr option \<Rightarrow> scutil_state \<Rightarrow> string \<Rightarrow> (string, endpoint option) result" where
  "macos_endpoint parse_url listen st name =
     (if \<not> scutil_enabled st (name @ ''Enable'') then Inr None
      else (case scutil_get st (name @ ''Proxy'') of
          Some (c # host) \<Rightarrow>
            (let port = (case scutil_get st (name @ ''Port'') of None \<Rightarrow> ''80'' | Some p \<Rightarrow> p);
                 number = (case parse_u16 port of Some n \<Rightarrow> n | None \<Rightarrow> 80)
             in bind_result (with_context (name @ '' proxy'') (endpoint_parse parse_url (host_port (c # host) number)))
                  (\<lambda>e. Inr (if is_listener e listen then None else Some e)))
        | _ \<Rightarrow> Inl (name @ '' proxy has no host'')))"

definition macos_policy :: "url_parser \<Rightarrow> string \<Rightarrow> socket_addr option \<Rightarrow> policy \<times> string" where
  "macos_policy parse_url scutil listen =
     (let st = read_scutil scutil in
      if scutil_enabled st ''ProxyAutoConfigEnable'' \<or> scutil_enabled st ''ProxyAutoDiscoveryEnable''
      then (PolicyDirect, ''direct (macOS automatic proxy configuration is not evaluated)'')
      else (case (macos_endpoint parse_url listen st ''HTTPS'', macos_endpoint parse_url listen st ''HTTP'') of
          (Inl e, _) \<Rightarrow> (PolicyUnavailable (''macOS system proxy: '' @ e), ''macOS system proxy: '' @ e)
        | (_, Inl e) \<Rightarrow> (PolicyUnavailable (''macOS system proxy: '' @ e), ''macOS system proxy: '' @ e)
        | (Inr https, Inr http) \<Rightarrow>
            if https = None \<and> http = None then
              (if scutil_enabled st ''SOCKSEnable''
               then (let message = ''macOS system proxy is a SOCKS proxy; only HTTP proxies are supported''
                     in (PolicyUnavailable message, message))
               else (PolicyDirect, ''direct (no proxy configured)''))
            else (let b = bypass_parse (scutil_exceptions st) True;
                      b = (if scutil_enabled st ''ExcludeSimpleHostnames''
                           then b\<lparr>bypass_rules := bypass_rules b @ [\<lparr>entry_rule = SimpleHostnames, entry_port = None\<rparr>]\<rparr>
                           else b);
                      S = \<lparr>static_http = http, static_https = https, http_error = None, https_error = None,
                           static_bypass = b\<rparr>
                  in (PolicyStatic S, ''macOS system proxy: '' @ describe_static S))))"

section \<open>The policy of one reading\<close>

datatype os_proxy =
    OsNone
  | OsWindows bool "string option" "string option" "string option"
  | OsMac string
  | OsUnreadable string

record proxy_inputs =
  inputs_mode :: "(string, proxy_mode) result"
  inputs_env :: env_proxies
  inputs_os :: os_proxy

definition unavailable_policy :: "string \<Rightarrow> policy \<times> string" where
  "unavailable_policy message = (PolicyUnavailable message, message)"

fun os_policy :: "url_parser \<Rightarrow> os_proxy \<Rightarrow> socket_addr option \<Rightarrow> policy \<times> string" where
  "os_policy parse_url OsNone listen = (PolicyDirect, ''direct (no proxy configured)'')"
| "os_policy parse_url (OsUnreadable error) listen = unavailable_policy (''failed to read the system proxy: '' @ error)"
| "os_policy parse_url (OsWindows auto_detect config_url proxy exceptions) listen =
     (case windows_static_proxies parse_url proxy exceptions listen of
        Inl e \<Rightarrow> unavailable_policy (''Windows proxy '' @ e)
      | Inr fallback \<Rightarrow>
          if auto_detect \<or> config_url \<noteq> None
          then (PolicyAuto auto_detect config_url fallback,
                if config_url \<noteq> None then ''Windows automatic configuration script''
                else ''Windows automatic proxy detection, else '' @ describe_static fallback)
          else (PolicyStatic fallback, ''Windows system proxy: '' @ describe_static fallback))"
| "os_policy parse_url (OsMac scutil) listen = macos_policy parse_url scutil listen"

definition system_policy ::
  "url_parser \<Rightarrow> env_proxies \<Rightarrow> os_proxy \<Rightarrow> socket_addr option \<Rightarrow> policy \<times> string" where
  "system_policy parse_url env os listen =
     (let (https, ignored) = env_scheme parse_url listen (env_https env) (env_all env) [];
          (http, ignored) = env_scheme parse_url listen (env_http env) (env_all env) ignored
      in if \<not> is_ok https \<and> \<not> is_ok http
         then unavailable_policy (case https of Inl message \<Rightarrow> message | Inr _ \<Rightarrow> [])
         else let note = (if ignored = [] then []
                    else '' (ignored '' @ join '', '' ignored @ '' pointing at this SAIAI proxy)'')
           in if https \<noteq> Inr None \<or> http \<noteq> Inr None
              then (PolicyStatic
                     \<lparr>static_http = Option.bind (ok_of http) id, static_https = Option.bind (ok_of https) id,
                      http_error = (case http of Inl e \<Rightarrow> Some e | Inr _ \<Rightarrow> None),
                      https_error = (case https of Inl e \<Rightarrow> Some e | Inr _ \<Rightarrow> None),
                      static_bypass = bypass_parse (split_on ((=) CHR '','') (text_or_empty (env_no_proxy env))) True\<rparr>,
                    ''environment: https '' @ describe_scheme https @ '', http '' @ describe_scheme http @ note)
              else (case os_policy parse_url os listen of (p, description) \<Rightarrow> (p, description @ note)))"

definition policy_from_inputs :: "url_parser \<Rightarrow> proxy_inputs \<Rightarrow> socket_addr option \<Rightarrow> policy \<times> string" where
  "policy_from_inputs parse_url inputs listen =
     (case inputs_mode inputs of
        Inl error \<Rightarrow> unavailable_policy error
      | Inr ModeDirect \<Rightarrow> (PolicyDirect, ''direct (configured)'')
      | Inr (ModeFixed e) \<Rightarrow>
          if is_listener e listen
          then unavailable_policy ''the configured upstream proxy is this SAIAI proxy itself''
          else (PolicyStatic \<lparr>static_http = Some e, static_https = Some e, http_error = None,
                  https_error = None, static_bypass = no_bypass\<rparr>, show_endpoint e @ '' (configured)'')
      | Inr ModeSystem \<Rightarrow> system_policy parse_url (inputs_env inputs) (inputs_os inputs) listen)"

end
