(* ===== verification/Proxy_Resolver.thy ===== *)
theory Proxy_Resolver
  imports Proxy_Policy
begin

text \<open>
  Snapshots of the policy and the routes taken under them: \<open>Snapshot\<close>, \<open>UpstreamProxy\<close> and
  \<open>HttpClients\<close> of \<open>upstream_proxy.rs\<close>, and the decision after a Windows automatic configuration.
  The state of \<open>UpstreamProxy\<close> behind its locks is the record \<open>upstream\<close>; one call is one step.
\<close>

section \<open>Snapshots\<close>

record snapshot =
  snapshot_generation :: nat
  snapshot_description :: string
  snapshot_policy :: policy
  snapshot_listen :: "socket_addr option"

definition snapshot_unavailable :: "snapshot \<Rightarrow> string option" where
  "snapshot_unavailable S = (case snapshot_policy S of PolicyUnavailable message \<Rightarrow> Some message | _ \<Rightarrow> None)"

definition unavailable :: "(string, 'a) result \<Rightarrow> (string, 'a) result" where
  "unavailable r = (case r of Inl message \<Rightarrow> Inl (''upstream proxy unavailable: '' @ message) | Inr x \<Rightarrow> Inr x)"

text \<open>The Unix build: automatic configuration is not evaluated, its static settings apply.\<close>

definition route_blocking :: "snapshot \<Rightarrow> bool \<Rightarrow> string \<Rightarrow> nat \<Rightarrow> (string, proxy_route) result" where
  "route_blocking S https host port =
     (if is_loopback_target host then Inr DirectRoute
      else case snapshot_policy S of
          PolicyDirect \<Rightarrow> Inr DirectRoute
        | PolicyStatic proxies \<Rightarrow> unavailable (static_route proxies https host port)
        | PolicyUnavailable message \<Rightarrow> unavailable (Inl message)
        | PolicyAuto _ _ fallback \<Rightarrow> unavailable (static_route fallback https host port))"

section \<open>Publishing\<close>

record upstream =
  upstream_mode :: "(string, proxy_mode) result"
  upstream_listen :: "socket_addr option"
  current :: snapshot
  last_inputs :: "proxy_inputs option"

definition setting_mode :: "url_parser \<Rightarrow> string option \<Rightarrow> string option \<Rightarrow> (string, proxy_mode) result" where
  "setting_mode parse_url env_setting setting =
     (case (env_setting, setting) of
        (Some value, _) \<Rightarrow> map_sum (\<lambda>e. ''SAIAI_UPSTREAM_PROXY '' @ e) id (parse_mode parse_url value)
      | (None, Some value) \<Rightarrow> map_sum (\<lambda>e. ''upstream_proxy setting '' @ e) id (parse_mode parse_url value)
      | (None, None) \<Rightarrow> Inr ModeSystem)"

text \<open>What is read: environment and system only when the mode is to follow them.\<close>

definition read_inputs :: "upstream \<Rightarrow> (string \<Rightarrow> string option) \<Rightarrow> os_proxy \<Rightarrow> proxy_inputs" where
  "read_inputs U variable os =
     \<lparr>inputs_mode = upstream_mode U,
      inputs_env = (if upstream_mode U = Inr ModeSystem then env_from_lookup variable
        else \<lparr>env_https = None, env_http = None, env_all = None, env_no_proxy = None\<rparr>),
      inputs_os = (if upstream_mode U = Inr ModeSystem then os else OsNone)\<rparr>"

definition publish :: "url_parser \<Rightarrow> proxy_inputs \<Rightarrow> upstream \<Rightarrow> bool \<times> upstream" where
  "publish parse_url inputs U =
     (if last_inputs U = Some inputs then (False, U)
      else (case policy_from_inputs parse_url inputs (upstream_listen U) of (p, description) \<Rightarrow>
        (True, U\<lparr>last_inputs := Some inputs,
          current := \<lparr>snapshot_generation = snapshot_generation (current U) + 1,
            snapshot_description = description, snapshot_policy = p, snapshot_listen = upstream_listen U\<rparr>\<rparr>)))"

definition refresh :: "url_parser \<Rightarrow> (string \<Rightarrow> string option) \<Rightarrow> os_proxy \<Rightarrow> upstream \<Rightarrow> bool \<times> upstream" where
  "refresh parse_url variable os U = publish parse_url (read_inputs U variable os) U"

definition upstream_new ::
  "url_parser \<Rightarrow> string option \<Rightarrow> socket_addr option \<Rightarrow> (string \<Rightarrow> string option) \<Rightarrow> os_proxy \<Rightarrow> upstream" where
  "upstream_new parse_url setting listen variable os =
     (let env_setting = (case variable ''SAIAI_UPSTREAM_PROXY'' of
            Some value \<Rightarrow> if trim value \<noteq> [] then Some value else None | None \<Rightarrow> None)
      in snd (refresh parse_url variable os
        \<lparr>upstream_mode = setting_mode parse_url env_setting setting, upstream_listen = listen,
         current = \<lparr>snapshot_generation = 0, snapshot_description = ''not resolved yet'',
           snapshot_policy = PolicyUnavailable ''not resolved yet'', snapshot_listen = listen\<rparr>,
         last_inputs = None\<rparr>))"

section \<open>The client's own listener is never an upstream\<close>

definition static_safe :: "socket_addr option \<Rightarrow> static_proxies \<Rightarrow> bool" where
  "static_safe listen S \<longleftrightarrow>
     (\<forall>e \<in> set_option (static_http S) \<union> set_option (static_https S). \<not> is_listener e listen)"

fun policy_safe :: "socket_addr option \<Rightarrow> policy \<Rightarrow> bool" where
  "policy_safe listen (PolicyStatic S) \<longleftrightarrow> static_safe listen S"
| "policy_safe listen (PolicyAuto _ _ S) \<longleftrightarrow> static_safe listen S"
| "policy_safe listen _ \<longleftrightarrow> True"

lemma parse_env_safe: "parse_env parse_url listen entry ignored = (Inr (Some e), ignored') \<Longrightarrow> \<not> is_listener e listen"
  by (auto simp: parse_env_def split: option.splits sum.splits if_splits)

lemma env_scheme_safe: "env_scheme parse_url listen own all ignored = (Inr (Some e), ignored') \<Longrightarrow> \<not> is_listener e listen"
  by (auto simp: env_scheme_def dest: parse_env_safe split: prod.splits sum.splits option.splits)

definition slots_safe :: "socket_addr option \<Rightarrow> windows_slots \<Rightarrow> bool" where
  "slots_safe listen s \<longleftrightarrow> (\<forall>e \<in> set_option (slot_all s) \<union> set_option (slot_http s) \<union> set_option (slot_https s).
     \<not> is_listener e listen)"

lemma fill_slot_safe: "slots_safe listen s \<Longrightarrow> \<not> is_listener e listen \<Longrightarrow> slots_safe listen (fill_slot scheme e s)"
  by (simp add: slots_safe_def fill_slot_def)

lemma windows_entry_safe:
  assumes "windows_entry parse_url listen entry s = Inr s'" "slots_safe listen s"
  shows "slots_safe listen s'"
proof -
  obtain scheme v where entry: "(case split_once CHR ''='' entry of
      Some (scheme, value) \<Rightarrow> (Some (to_ascii_lowercase (trim scheme)), value) | None \<Rightarrow> (None, entry)) = (scheme, v)"
    by fastforce
  have "slots_safe listen (s\<lparr>slot_socks := True\<rparr>)" using assms(2) by (simp add: slots_safe_def)
  moreover have "(if scheme = Some ''socks'' then Inr (s\<lparr>slot_socks := True\<rparr>)
      else if scheme \<notin> {None, Some ''http'', Some ''https''} then Inr s
      else bind_result (with_context ''ProxyServer entry'' (endpoint_parse parse_url v)) (\<lambda>e.
        Inr (if is_listener e listen then s else fill_slot scheme e s))) = Inr s'"
    using assms(1) unfolding windows_entry_def entry Let_def prod.case .
  ultimately show ?thesis using assms(2) fill_slot_safe
    by (fastforce simp only: bind_result_Inr_iff sum.inject split: if_split_asm)
qed

lemma windows_entries_safe:
  "windows_entries parse_url listen es s = Inr s' \<Longrightarrow> slots_safe listen s \<Longrightarrow> slots_safe listen s'"
  by (induction es arbitrary: s) (auto simp: bind_result_Inr_iff dest: windows_entry_safe)

lemma windows_static_safe: "windows_static_proxies parse_url proxy exceptions listen = Inr S \<Longrightarrow> static_safe listen S"
  by (auto simp: windows_static_proxies_def Let_def bind_result_Inr_iff static_safe_def or_else_def slots_safe_def
      dest!: windows_entries_safe split: if_splits option.splits)

lemma macos_endpoint_safe: "macos_endpoint parse_url listen st name = Inr (Some e) \<Longrightarrow> \<not> is_listener e listen"
  by (auto simp: macos_endpoint_def Let_def bind_result_Inr_iff split: option.splits list.splits if_splits)

lemma macos_policy_safe: "policy_safe listen (fst (macos_policy parse_url scutil listen))"
  by (auto simp: macos_policy_def Let_def static_safe_def dest: macos_endpoint_safe split: sum.split)

lemma os_policy_safe: "policy_safe listen (fst (os_policy parse_url os listen))"
  by (cases os) (auto simp: unavailable_policy_def macos_policy_safe dest: windows_static_safe split: sum.split)

lemma system_policy_safe: "policy_safe listen (fst (system_policy parse_url env os listen))"
proof -
  obtain https i1 where 1: "env_scheme parse_url listen (env_https env) (env_all env) [] = (https, i1)" by fastforce
  obtain http i2 where 2: "env_scheme parse_url listen (env_http env) (env_all env) i1 = (http, i2)" by fastforce
  have "\<not> is_listener e listen" if "https = Inr (Some e) \<or> http = Inr (Some e)" for e
    using that 1 2 env_scheme_safe by blast
  then show ?thesis using os_policy_safe [of listen parse_url os]
    by (cases https; cases http) (auto simp: system_policy_def 1 2 Let_def unavailable_policy_def static_safe_def split: prod.split)
qed

lemma policy_from_inputs_safe: "policy_safe listen (fst (policy_from_inputs parse_url inputs listen))"
  by (auto simp: policy_from_inputs_def unavailable_policy_def system_policy_safe static_safe_def
      split: sum.split proxy_mode.split)

lemma static_route_safe: "static_safe listen S \<Longrightarrow> static_route S https host port = Inr (ProxyRoute e) \<Longrightarrow> \<not> is_listener e listen"
  by (auto simp: static_route_def static_safe_def split: if_splits option.splits)

text \<open>The published snapshot is the policy of the last reading, and safe for the listener.\<close>

definition upstream_ok :: "url_parser \<Rightarrow> upstream \<Rightarrow> bool" where
  "upstream_ok parse_url U \<longleftrightarrow>
     (case last_inputs U of
        None \<Rightarrow> False
      | Some inputs \<Rightarrow> (snapshot_policy (current U), snapshot_description (current U)) =
          policy_from_inputs parse_url inputs (upstream_listen U)) \<and>
     snapshot_listen (current U) = upstream_listen U"

lemma publish_ok:
  assumes "last_inputs U = None \<or> upstream_ok parse_url U"
  shows "upstream_ok parse_url (snd (publish parse_url inputs U)) \<and>
    last_inputs (snd (publish parse_url inputs U)) = Some inputs \<and>
    upstream_listen (snd (publish parse_url inputs U)) = upstream_listen U"
  using assms by (auto simp: publish_def upstream_ok_def split: prod.split)

inductive upstream_reachable :: "url_parser \<Rightarrow> upstream \<Rightarrow> bool" for parse_url where
  created: "upstream_reachable parse_url (upstream_new parse_url setting listen variable os)"
| refreshed: "upstream_reachable parse_url U \<Longrightarrow> upstream_reachable parse_url (snd (refresh parse_url variable os U))"

lemma reachable_ok: "upstream_reachable parse_url U \<Longrightarrow> upstream_ok parse_url U"
proof (induction rule: upstream_reachable.induct)
  case (created setting listen variable os)
  show ?case unfolding upstream_new_def Let_def refresh_def by (rule publish_ok [THEN conjunct1]) simp
next
  case (refreshed U variable os)
  then show ?case unfolding refresh_def by (blast intro: publish_ok [THEN conjunct1])
qed

lemma reachable_route_safe:
  assumes "upstream_reachable parse_url U" "route_blocking (current U) https host port = Inr (ProxyRoute e)"
  shows "\<not> is_listener e (upstream_listen U)"
proof -
  obtain inputs where "(snapshot_policy (current U), snapshot_description (current U)) =
      policy_from_inputs parse_url inputs (upstream_listen U)"
    using reachable_ok [OF assms(1)] by (auto simp: upstream_ok_def split: option.splits)
  then have "policy_safe (upstream_listen U) (snapshot_policy (current U))"
    using policy_from_inputs_safe by (metis fst_conv)
  with assms(2) show ?thesis
    by (cases "snapshot_policy (current U)")
      (auto simp: route_blocking_def unavailable_def dest: static_route_safe split: if_splits sum.splits)
qed

text \<open>
  C27: The client is never its own upstream: in every state reachable by creating the resolver and
  refreshing it with any readings of environment and system, no route of the published snapshot is a
  proxy that is the client's listener.
\<close>

theorem listener_is_no_upstream:
  assumes "upstream_reachable parse_url U" "route_blocking (current U) https host port = Inr (ProxyRoute e)"
  shows "\<not> is_listener e (upstream_listen U)"
  using assms by (rule reachable_route_safe)


section \<open>A configured proxy is used or fails\<close>

lemma static_route_https:
  assumes "\<not> bypass_matches (static_bypass S) host port" "static_https S = Some e"
  shows "static_route S True host port = Inr (ProxyRoute e)"
  using assms by (simp add: static_route_def)

lemma static_route_https_error:
  assumes "\<not> bypass_matches (static_bypass S) host port" "static_https S = None" "https_error S = Some m"
  shows "static_route S True host port = Inl m"
  using assms by (simp add: static_route_def)


section \<open>Generations count the changes\<close>

definition publish_all :: "url_parser \<Rightarrow> proxy_inputs list \<Rightarrow> upstream \<Rightarrow> upstream" where
  "publish_all parse_url readings U = fold (\<lambda>inputs U. snd (publish parse_url inputs U)) readings U"

lemma publish_all_generation:
  assumes "last_inputs U = Some i"
  shows "snapshot_generation (current (publish_all parse_url is U)) + 1 =
    snapshot_generation (current U) + length (remdups_adj (i # is))"
  using assms
proof (induction "is" arbitrary: U i)
  case (Cons j "is")
  have last: "last_inputs (snd (publish parse_url j U)) = Some j"
    using Cons.prems by (auto simp: publish_def split: prod.split)
  have gen: "snapshot_generation (current (snd (publish parse_url j U))) =
      snapshot_generation (current U) + (if i = j then 0 else 1)"
    using Cons.prems by (auto simp: publish_def split: prod.split)
  have "publish_all parse_url (j # is) U = publish_all parse_url is (snd (publish parse_url j U))"
    by (simp add: publish_all_def)
  then show ?case using Cons.IH [OF last] gen by simp
qed (simp add: publish_all_def)

text \<open>
  The generation counts the changes of the configuration: after any sequence of readings it has
  grown by the number of times a reading differed from the one before it, and the snapshot is the policy
  of the last reading.
\<close>

theorem generation_counts_changes:
  assumes "upstream_reachable parse_url U" "last_inputs U = Some i"
  shows "snapshot_generation (current (publish_all parse_url is U)) + 1 =
      snapshot_generation (current U) + length (remdups_adj (i # is)) \<and>
    snapshot_policy (current (publish_all parse_url is U)) =
      fst (policy_from_inputs parse_url (last (i # is)) (upstream_listen U))"
proof -
  have kept: "upstream_ok parse_url (publish_all parse_url is U) \<and>
      last_inputs (publish_all parse_url is U) = Some (last (i # is)) \<and>
      upstream_listen (publish_all parse_url is U) = upstream_listen U"
    using reachable_ok [OF assms(1)] assms(2)
  proof (induction "is" arbitrary: U i)
    case (Cons j "is")
    have "publish_all parse_url (j # is) U = publish_all parse_url is (snd (publish parse_url j U))"
      by (simp add: publish_all_def)
    then show ?case using Cons.IH publish_ok [of U parse_url j] Cons.prems by simp
  qed (simp add: publish_all_def)
  then have last: "last_inputs (publish_all parse_url is U) = Some (last (i # is))"
    and listen: "upstream_listen (publish_all parse_url is U) = upstream_listen U" by blast+
  have "(snapshot_policy (current (publish_all parse_url is U)),
        snapshot_description (current (publish_all parse_url is U))) =
      policy_from_inputs parse_url (last (i # is)) (upstream_listen U)"
    using kept unfolding upstream_ok_def last listen option.case by blast
  from arg_cong [OF this, of fst]
  have "snapshot_policy (current (publish_all parse_url is U)) =
      fst (policy_from_inputs parse_url (last (i # is)) (upstream_listen U))" by simp
  then show ?thesis using publish_all_generation [OF assms(2)] by simp
qed

section \<open>Examples\<close>

definition example_proxy_url :: url_parser where
  "example_proxy_url s =
     (let u = (\<lambda>host port. \<lparr>url_scheme = ''http'', url_username = [], url_password = None, url_host = Some host,
            url_port = port, url_path = ''/'', url_query = None, url_fragment = None,
            parsed_host = Some (DomainHost host), known_port = port\<rparr>)
      in if s = ''http://proxy.test:8'' then Some (u ''proxy.test'' (Some 8))
         else if s = ''http://127.0.0.1:9'' then Some (u ''127.0.0.1'' (Some 9))
         else if s = ''http://sub.proxy.test'' then Some (u ''sub.proxy.test'' (Some 80)) else None)"

definition example_variables :: "string \<Rightarrow> string option" where
  "example_variables name =
     (if name = ''HTTPS_PROXY'' then Some ''http://proxy.test:8''
      else if name = ''http_proxy'' then Some ''http://127.0.0.1:9'' else None)"

definition example_listen :: socket_addr where
  "example_listen = (V4 0x7F000001, 9)"

definition example_upstream :: upstream where
  "example_upstream = upstream_new example_proxy_url None (Some example_listen) example_variables OsNone"

theorem listener_is_no_upstream_witness:
  "\<exists>e. route_blocking (current example_upstream) True ''gw.test'' 443 = Inr (ProxyRoute e) \<and>
     \<not> is_listener e (upstream_listen example_upstream) \<and>
     route_blocking (current example_upstream) False ''gw.test'' 80 = Inr DirectRoute"
proof -
  have "upstream_reachable example_proxy_url example_upstream"
    unfolding example_upstream_def by (rule upstream_reachable.created)
  moreover have "route_blocking (current example_upstream) True ''gw.test'' 443 =
      Inr (ProxyRoute \<lparr>proxy_host = ''proxy.test'', proxy_port = 8, proxy_username = [], proxy_password = None\<rparr>)"
    by code_simp
  moreover have "route_blocking (current example_upstream) False ''gw.test'' 80 = Inr DirectRoute" by code_simp
  ultimately show ?thesis using listener_is_no_upstream by blast
qed

lemma example_snapshot: "snapshot_policy (current example_upstream) = fst (policy_from_inputs example_proxy_url
    (read_inputs example_upstream example_variables OsNone) (Some example_listen))"
  by (simp add: example_upstream_def upstream_new_def Let_def refresh_def publish_def read_inputs_def split: prod.split)


theorem generation_counts_changes_witness:
  "\<exists>U. snapshot_generation (current U) = 3 \<and> snapshot_policy (current U) = PolicyDirect \<and>
     U = publish_all example_proxy_url
       [\<lparr>inputs_mode = Inr ModeDirect, inputs_env = env_from_lookup (\<lambda>_. None), inputs_os = OsNone\<rparr>,
        \<lparr>inputs_mode = Inl ''e'', inputs_env = env_from_lookup (\<lambda>_. None), inputs_os = OsNone\<rparr>,
        \<lparr>inputs_mode = Inl ''e'', inputs_env = env_from_lookup (\<lambda>_. None), inputs_os = OsNone\<rparr>,
        \<lparr>inputs_mode = Inr ModeDirect, inputs_env = env_from_lookup (\<lambda>_. None), inputs_os = OsNone\<rparr>]
       (upstream_new example_proxy_url (Some ''direct'') None (\<lambda>_. None) OsNone)"
proof -
  let ?direct = "\<lparr>inputs_mode = Inr ModeDirect, inputs_env = env_from_lookup (\<lambda>_. None), inputs_os = OsNone\<rparr>"
  let ?error = "\<lparr>inputs_mode = Inl ''e'', inputs_env = env_from_lookup (\<lambda>_. None), inputs_os = OsNone\<rparr>"
  let ?U = "upstream_new example_proxy_url (Some ''direct'') None (\<lambda>_. None) OsNone"
  have U: "last_inputs ?U = Some ?direct" "snapshot_generation (current ?U) = 1" "upstream_listen ?U = None" by code_simp+
  have "upstream_reachable example_proxy_url ?U" by (rule upstream_reachable.created)
  note rule = generation_counts_changes [OF this U(1), of "[?direct, ?error, ?error, ?direct]"]
  have "fst (policy_from_inputs example_proxy_url ?direct None) = PolicyDirect" by code_simp
  then show ?thesis using rule U by (intro exI conjI, rule_tac [3] refl) simp_all
qed

end
