(* ===== verification/Proxy_Clients.thy ===== *)
theory Proxy_Clients
  imports Proxy_Resolver "HOL-Library.AList"
begin

text \<open>
  The two caches of \<open>upstream_proxy.rs\<close>: HTTP clients by policy generation and route, and the routes
  that the Windows automatic configuration decided, by target with their age.  Building a client and
  asking WinHTTP are parameters.
\<close>

section \<open>HTTP clients\<close>

datatype client_proxy = NoProxy | AllProxy string "string option"

definition client_builder_for_route :: "(string \<Rightarrow> string) \<Rightarrow> proxy_route \<Rightarrow> client_proxy" where
  "client_builder_for_route base64 route =
     (case route of
        DirectRoute \<Rightarrow> NoProxy
      | ProxyRoute e \<Rightarrow> AllProxy (''http://'' @ endpoint_authority e) (proxy_authorization base64 e))"

definition url_target :: "url_parser \<Rightarrow> string \<Rightarrow> (string, bool \<times> string \<times> nat) result" where
  "url_target parse_url text =
     (case parse_url text of
        None \<Rightarrow> Inl ''invalid upstream URL''
      | Some u \<Rightarrow>
          bind_result (ok_or ''upstream URL has no host'' (url_host u)) (\<lambda>host.
          bind_result (ok_or ''upstream URL has no port'' (known_port u)) (\<lambda>port.
            Inr (url_scheme u \<in> {''https'', ''wss''}, host, port))))"

record 'c http_clients =
  cache_generation :: nat
  cached_clients :: "(proxy_route \<times> 'c) list"

text \<open>\<open>build\<close> is the configured builder with one proxy setting; its first argument numbers the calls.\<close>

definition http_client ::
  "(nat \<Rightarrow> client_proxy \<Rightarrow> (string, 'c) result) \<Rightarrow> (string \<Rightarrow> string) \<Rightarrow> nat \<Rightarrow> nat \<Rightarrow> proxy_route \<Rightarrow>
     'c http_clients \<Rightarrow> (string, 'c) result \<times> 'c http_clients" where
  "http_client build base64 n generation route H =
     (let H = (if generation > cache_generation H
               then \<lparr>cache_generation = generation, cached_clients = []\<rparr> else H)
      in case (if generation = cache_generation H then map_of (cached_clients H) route else None) of
          Some client \<Rightarrow> (Inr client, H)
        | None \<Rightarrow>
            (case build n (client_builder_for_route base64 route) of
               Inl e \<Rightarrow> (Inl e, H)
             | Inr client \<Rightarrow>
                 (Inr client, if generation = cache_generation H
                    then H\<lparr>cached_clients := (route, client) # cached_clients H\<rparr> else H)))"

primrec http_client_calls ::
  "(nat \<Rightarrow> client_proxy \<Rightarrow> (string, 'c) result) \<Rightarrow> (string \<Rightarrow> string) \<Rightarrow> nat \<Rightarrow> (nat \<times> proxy_route) list \<Rightarrow>
     'c http_clients \<Rightarrow> (string, 'c) result list" where
  "http_client_calls build base64 n [] H = []"
| "http_client_calls build base64 n (call # calls) H =
     (case http_client build base64 n (fst call) (snd call) H of
        (r, H') \<Rightarrow> r # http_client_calls build base64 (Suc n) calls H')"

definition no_clients :: "'c http_clients" where
  "no_clients = \<lparr>cache_generation = 0, cached_clients = []\<rparr>"

text \<open>Every cached client was built by an earlier call for the same generation and route.\<close>

definition clients_from ::
  "(nat \<Rightarrow> client_proxy \<Rightarrow> (string, 'c) result) \<Rightarrow> (string \<Rightarrow> string) \<Rightarrow> (nat \<times> proxy_route) list \<Rightarrow>
     'c http_clients \<Rightarrow> bool" where
  "clients_from build base64 history H \<longleftrightarrow>
     (\<forall>(route, client) \<in> set (cached_clients H). \<exists>j < length history.
        history ! j = (cache_generation H, route) \<and> build j (client_builder_for_route base64 route) = Inr client)"

lemma http_client_step:
  assumes "clients_from build base64 history H"
    and "http_client build base64 (length history) g route H = (r, H')"
  shows "clients_from build base64 (history @ [(g, route)]) H' \<and>
    (\<forall>client. r = Inr client \<longrightarrow> (\<exists>j \<le> length history. (history @ [(g, route)]) ! j = (g, route) \<and>
       build j (client_builder_for_route base64 route) = Inr client))"
proof -
  let ?h = "history @ [(g, route)]"
  define K where "K = (if g > cache_generation H then \<lparr>cache_generation = g, cached_clients = []\<rparr> else H)"
  have more: "clients_from build base64 ?h K"
    using assms(1) unfolding clients_from_def K_def
    by (auto simp: nth_append; metis (no_types, lifting) case_prodD less_SucI nth_append)
  have run: "(case (if g = cache_generation K then map_of (cached_clients K) route else None) of
          Some client \<Rightarrow> (Inr client, K)
        | None \<Rightarrow> (case build (length history) (client_builder_for_route base64 route) of
               Inl e \<Rightarrow> (Inl e, K)
             | Inr client \<Rightarrow> (Inr client, if g = cache_generation K
                    then K\<lparr>cached_clients := (route, client) # cached_clients K\<rparr> else K))) = (r, H')"
    using assms(2) unfolding http_client_def Let_def K_def [symmetric] by assumption
  have self: "?h ! length history = (g, route)" by simp
  show ?thesis
  proof (cases "if g = cache_generation K then map_of (cached_clients K) route else None")
    case (Some client)
    then have "g = cache_generation K" "(route, client) \<in> set (cached_clients K)"
      by (auto split: if_splits dest: map_of_SomeD)
    with more obtain j where "j < length ?h" "?h ! j = (g, route)" "build j (client_builder_for_route base64 route) = Inr client"
      by (fastforce simp: clients_from_def)
    then show ?thesis using run Some more by (auto simp: less_Suc_eq_le)
  next
    case None
    then show ?thesis
    proof (cases "build (length history) (client_builder_for_route base64 route)")
      case (Inl e)
      then show ?thesis using run None more by (auto split: if_split_asm)
    next
      case (Inr client)
      then have res: "r = Inr client" and H': "H' = (if g = cache_generation K
          then K\<lparr>cached_clients := (route, client) # cached_clients K\<rparr> else K)"
        using run None by auto
      have "clients_from build base64 ?h H'"
      proof (cases "g = cache_generation K")
        case True
        have "\<exists>j < length ?h. ?h ! j = (cache_generation K, route) \<and>
            build j (client_builder_for_route base64 route) = Inr client"
          using Inr True self by (intro exI [of _ "length history"]) simp
        then show ?thesis using more True H' by (simp add: clients_from_def)
      qed (simp add: H' more)
      then show ?thesis using res Inr self by (metis Inr_inject order_refl)
    qed
  qed
qed

lemma http_client_calls_from:
  assumes "clients_from build base64 history H" "i < length calls"
    and "http_client_calls build base64 (length history) calls H ! i = Inr client"
  shows "\<exists>j \<le> length history + i. (history @ calls) ! j = calls ! i \<and>
    build j (client_builder_for_route base64 (snd (calls ! i))) = Inr client"
  using assms
proof (induction calls arbitrary: history H i)
  case (Cons call calls)
  obtain g route where call: "call = (g, route)" by fastforce
  obtain r H' where run: "http_client build base64 (length history) g route H = (r, H')" by fastforce
  note step = http_client_step [OF Cons.prems(1) run]
  show ?case
  proof (cases i)
    case 0
    then have "r = Inr client" using Cons.prems(3) run call by simp
    then obtain j where "j \<le> length history" "(history @ [call]) ! j = call"
      "build j (client_builder_for_route base64 route) = Inr client" using step call by blast
    then show ?thesis using 0 call by (intro exI [of _ j]) (auto simp: nth_append split: if_splits)
  next
    case (Suc k)
    have "http_client_calls build base64 (length (history @ [call])) calls H' ! k = Inr client"
      using Cons.prems(3) run call Suc by simp
    then show ?thesis
      using Cons.IH [of "history @ [call]" H' k] step Cons.prems(2) call Suc by auto
  qed
qed simp

text \<open>
  C31: A change of route or policy never reuses a client built under another: in any sequence of
  requests, a client handed out for a generation and a route was built for exactly that route by this or
  an earlier request of the same generation.
\<close>

theorem clients_belong_to_their_route:
  assumes "i < length calls" "http_client_calls build base64 0 calls no_clients ! i = Inr client"
  shows "\<exists>j \<le> i. calls ! j = calls ! i \<and> build j (client_builder_for_route base64 (snd (calls ! i))) = Inr client"
  using http_client_calls_from [of build base64 "[]" no_clients i calls client] assms
  by (simp add: clients_from_def no_clients_def)

theorem clients_belong_to_their_route_witness:
  "http_client_calls (\<lambda>n s. Inr n) id 0 [(1, DirectRoute), (1, DirectRoute), (2, DirectRoute), (1, DirectRoute)] no_clients
     = [Inr (0::nat), Inr 0, Inr 2, Inr 3] \<and>
   (\<exists>j \<le> 1. [(1::nat, DirectRoute), (1, DirectRoute), (2, DirectRoute), (1, DirectRoute)] ! j = (1, DirectRoute) \<and> j = 0)"
proof -
  have run: "http_client_calls (\<lambda>n s. Inr n) id 0 [(1, DirectRoute), (1, DirectRoute), (2, DirectRoute), (1, DirectRoute)] no_clients
     = [Inr (0::nat), Inr 0, Inr 2, Inr 3]" by code_simp
  from clients_belong_to_their_route [of 1 "[(1, DirectRoute), (1, DirectRoute), (2, DirectRoute), (1, DirectRoute)]"
      "\<lambda>n s. Inr n" id 0] run
  show ?thesis by auto
qed

section \<open>Windows automatic configuration\<close>

definition error_autodetection_failed :: nat where
  "error_autodetection_failed = 12180"

primrec find_map :: "('a \<Rightarrow> 'b option) \<Rightarrow> 'a list \<Rightarrow> 'b option" where
  "find_map f [] = None"
| "find_map f (x # xs) = (case f x of Some y \<Rightarrow> Some y | None \<Rightarrow> find_map f xs)"

definition first_proxy :: "url_parser \<Rightarrow> string \<Rightarrow> endpoint option" where
  "first_proxy parse_url proxies =
     find_map (\<lambda>entry. case split_once CHR ''='' entry of
         Some (scheme, value) \<Rightarrow>
           if \<not> eq_ignore_ascii_case scheme ''socks'' then ok_of (endpoint_parse parse_url value) else None
       | None \<Rightarrow> ok_of (endpoint_parse parse_url entry))
       (filter (\<lambda>entry. entry \<noteq> []) (map trim (split_on (\<lambda>c. c = CHR '';'' \<or> c = CHR '' '') proxies)))"

definition pac_decision ::
  "url_parser \<Rightarrow> (nat, string option) result \<Rightarrow> bool \<Rightarrow> static_proxies \<Rightarrow> socket_addr option \<Rightarrow> bool \<Rightarrow> string \<Rightarrow> nat \<Rightarrow>
     (string, proxy_route) result \<times> bool" where
  "pac_decision parse_url outcome has_script fallback listen https host port =
     (case outcome of
        Inr None \<Rightarrow> (Inr DirectRoute, False)
      | Inr (Some proxies) \<Rightarrow>
          (case first_proxy parse_url proxies of
             Some e \<Rightarrow> if is_listener e listen
               then Inl ''proxy auto-configuration returned this SAIAI proxy itself'' else Inr (ProxyRoute e)
           | None \<Rightarrow> Inl ''proxy auto-configuration returned no usable HTTP proxy'', False)
      | Inl status \<Rightarrow>
          if status = error_autodetection_failed \<and> \<not> has_script then (static_route fallback https host port, True)
          else (Inl (''proxy auto-configuration failed (WinHTTP error '' @ decimal status @ '')''), False))"

type_synonym pac_key = "bool \<times> string \<times> nat"

record pac_state =
  pac_cache :: "(pac_key \<times> nat \<times> (string, proxy_route) result) list"
  auto_detect_failed_at :: "nat option"

definition pac_cache_limit :: nat where "pac_cache_limit = 1024"
definition pac_cache_ttl :: nat where "pac_cache_ttl = 300"
definition pac_error_ttl :: nat where "pac_error_ttl = 30"
definition auto_detect_retry :: nat where "auto_detect_retry = 300"

text \<open>Times are seconds of the monotonic clock; \<open>now\<close> is the time of the call.\<close>

definition pac_cached :: "nat \<Rightarrow> pac_key \<Rightarrow> pac_state \<Rightarrow> (string, proxy_route) result option" where
  "pac_cached now key S =
     (case map_of (pac_cache S) key of
        None \<Rightarrow> None
      | Some (at, route) \<Rightarrow>
          let ttl = (if is_ok route then pac_cache_ttl else pac_error_ttl)
          in if now - at < ttl then Some route else None)"

definition pac_evaluate ::
  "url_parser \<Rightarrow> (string \<Rightarrow> bool \<Rightarrow> string option \<Rightarrow> (nat, string option) result) \<Rightarrow> nat \<Rightarrow> bool \<Rightarrow> string option \<Rightarrow>
     static_proxies \<Rightarrow> socket_addr option \<Rightarrow> bool \<Rightarrow> string \<Rightarrow> nat \<Rightarrow> pac_state \<Rightarrow> (string, proxy_route) result \<times> pac_state" where
  "pac_evaluate parse_url winhttp now auto_detect config_url fallback listen https host port S =
     (let auto_detect = (auto_detect \<and> (case auto_detect_failed_at S of None \<Rightarrow> True
            | Some at \<Rightarrow> now - at \<ge> auto_detect_retry))
      in if \<not> auto_detect \<and> config_url = None then (static_route fallback https host port, S)
         else let url = (if https then ''https'' else ''http'') @ ''://'' @ host_port (normalize_host host) port @ ''/''
           in case pac_decision parse_url (winhttp url auto_detect config_url) (config_url \<noteq> None) fallback listen
                https host port of
               (route, discovery_failed) \<Rightarrow>
                 (route, if discovery_failed then S\<lparr>auto_detect_failed_at := Some now\<rparr> else S))"

definition pac_route ::
  "url_parser \<Rightarrow> (string \<Rightarrow> bool \<Rightarrow> string option \<Rightarrow> (nat, string option) result) \<Rightarrow> nat \<Rightarrow> bool \<Rightarrow> string option \<Rightarrow>
     static_proxies \<Rightarrow> socket_addr option \<Rightarrow> bool \<Rightarrow> string \<Rightarrow> nat \<Rightarrow> pac_state \<Rightarrow> (string, proxy_route) result \<times> pac_state" where
  "pac_route parse_url winhttp now auto_detect config_url fallback listen https host port S =
     (let key = (https, normalize_host host, port) in
      case pac_cached now key S of
        Some route \<Rightarrow> (route, S)
      | None \<Rightarrow>
          let (route, S) = (if bypass_matches (static_bypass fallback) host port then (Inr DirectRoute, S)
                else pac_evaluate parse_url winhttp now auto_detect config_url fallback listen https host port S);
              cache = (if length (pac_cache S) \<ge> pac_cache_limit then [] else pac_cache S)
          in (route, S\<lparr>pac_cache := AList.update key (now, route) cache\<rparr>))"

text \<open>The cache has one entry per target and never more than its limit.\<close>

definition pac_bounded :: "pac_state \<Rightarrow> bool" where
  "pac_bounded S \<longleftrightarrow> distinct (map fst (pac_cache S)) \<and> length (pac_cache S) \<le> pac_cache_limit"

lemma length_alist_update: "length (AList.update k v xs) \<le> Suc (length xs)"
  by (induction xs) auto

text \<open>
  The cache of automatically configured routes stays bounded: one entry per target and at most
  1024 of them, whatever is asked and whenever.
\<close>

theorem pac_cache_bounded:
  assumes "pac_bounded S"
  shows "pac_bounded (snd (pac_route parse_url winhttp now auto_detect config_url fallback listen https host port S))"
proof -
  have kept: "pac_cache (snd (pac_evaluate parse_url winhttp now auto_detect config_url fallback listen https host port S)) = pac_cache S"
    by (simp add: pac_evaluate_def Let_def split: prod.split)
  have bound: "length (AList.update k v (if length xs \<ge> pac_cache_limit then [] else xs)) \<le> pac_cache_limit" for k v
    and xs :: "(pac_key \<times> nat \<times> (string, proxy_route) result) list"
    using length_alist_update [of k v xs] by (auto simp: pac_cache_limit_def)
  show ?thesis using assms kept bound
    by (auto simp: pac_route_def Let_def pac_bounded_def distinct_update split: option.split prod.split)
qed

theorem pac_cache_bounded_witness:
  "pac_bounded (snd (pac_route example_proxy_url (\<lambda>_ _ _. Inl 5) 7 True None
     \<lparr>static_http = None, static_https = None, http_error = None, https_error = None, static_bypass = no_bypass\<rparr>
     None True ''h'' 1 \<lparr>pac_cache = [], auto_detect_failed_at = None\<rparr>))"
  by (rule pac_cache_bounded) (simp add: pac_bounded_def)



end
