(* ===== verification/Proxy_Tunnel.thy ===== *)
theory Proxy_Tunnel
  imports Proxy_Resolver
begin

text \<open>
  Opening a connection through an upstream proxy: \<open>connect_direct\<close>, \<open>open_tunnel\<close>, \<open>read_response_head\<close>
  and \<open>parse_status\<close> of \<open>upstream_proxy.rs\<close>.  Name resolution and the connection attempts are
  parameters; the proxy's side of the stream is the list of the bytes it sends before it closes.
\<close>

section \<open>Direct connections\<close>

primrec connect_first :: "('a \<Rightarrow> (string, 's) result) \<Rightarrow> 'a list \<Rightarrow> string option \<Rightarrow> (string option, 's) result" where
  "connect_first connect [] last_err = Inl last_err"
| "connect_first connect (addr # addrs) last_err =
     (case connect addr of Inr stream \<Rightarrow> Inr stream | Inl e \<Rightarrow> connect_first connect addrs (Some e))"

definition connect_direct ::
  "(string \<Rightarrow> nat \<Rightarrow> (string, 'a list) result) \<Rightarrow> ('a \<Rightarrow> (string, 's) result) \<Rightarrow> string \<Rightarrow> nat \<Rightarrow> (string, 's) result" where
  "connect_direct lookup connect raw port =
     (let host = trim_end_char CHR '']'' (trim_start_char CHR ''['' raw); target = host @ '':'' @ decimal port
      in bind_result (with_context (''failed to resolve '' @ target) (lookup host port)) (\<lambda>addrs.
         if addrs = [] then Inl (''no addresses resolved for '' @ target)
         else (case connect_first connect addrs None of
             Inr stream \<Rightarrow> Inr stream
           | Inl (Some e) \<Rightarrow> with_context (''failed to connect to '' @ target) (Inl e)
           | Inl None \<Rightarrow> Inl (''no usable addresses resolved for '' @ target))))"

section \<open>The response head\<close>

definition crlf :: string where
  "crlf = [CHR 0x0D, CHR 0x0A]"

definition max_proxy_response_head :: nat where
  "max_proxy_response_head = 16 * 1024"

fun read_head :: "string \<Rightarrow> string \<Rightarrow> (string, string \<times> string) result" where
  "read_head head incoming =
     (if length head \<ge> max_proxy_response_head then Inl ''CONNECT response head exceeds 16384 bytes''
      else case incoming of
          [] \<Rightarrow> Inl ''proxy closed the connection during CONNECT''
        | byte # rest \<Rightarrow>
            if ends_with (head @ [byte]) (crlf @ crlf) then Inr (head @ [byte], rest)
            else read_head (head @ [byte]) rest)"

declare read_head.simps [simp del]

definition read_response_head :: "string \<Rightarrow> (string, string \<times> string) result" where
  "read_response_head incoming = read_head [] incoming"

definition split_space3 :: "string \<Rightarrow> string list" where
  "split_space3 s =
     (case split_once CHR '' '' s of
        None \<Rightarrow> [s]
      | Some (a, r) \<Rightarrow> (case split_once CHR '' '' r of None \<Rightarrow> [a, r] | Some (b, c) \<Rightarrow> [a, b, c]))"

definition parse_status :: "string \<Rightarrow> (string, nat) result" where
  "parse_status head =
     (let line = hd (split_on ((=) CHR 0x0A) head) in
      if \<not> valid_utf8 line then Inl ''status line is not UTF-8''
      else let parts = split_space3 (trim_end_char CHR 0x0D line);
               status = (case parts of _ # s # _ \<Rightarrow> s | _ \<Rightarrow> [])
           in if \<not> starts_with (hd parts) ''HTTP/1.'' then Inl ''unexpected protocol''
              else if length status \<noteq> 3 then Inl ''malformed status code''
              else ok_or ''malformed status code'' (parse_u16 status))"

section \<open>The tunnel\<close>

definition tunnel_request :: "(string \<Rightarrow> string) \<Rightarrow> endpoint \<Rightarrow> string \<Rightarrow> string" where
  "tunnel_request base64 e target =
     ''CONNECT '' @ target @ '' HTTP/1.1'' @ crlf @ ''Host: '' @ target @ crlf @
     (case proxy_authorization base64 e of None \<Rightarrow> [] | Some a \<Rightarrow> ''Proxy-Authorization: '' @ a @ crlf) @ crlf"

text \<open>
  \<open>exchange\<close> sends the request on the connected stream and gives the bytes the proxy sends, or the error
  of the write or of the time-out.  On success the result is what the tunnel still has to read.
\<close>

definition open_tunnel ::
  "(string \<Rightarrow> string) \<Rightarrow> (string \<Rightarrow> nat \<Rightarrow> (string, 's) result) \<Rightarrow> ('s \<Rightarrow> string \<Rightarrow> (string, string) result) \<Rightarrow>
     endpoint \<Rightarrow> string \<Rightarrow> nat \<Rightarrow> (string, 's \<times> string) result" where
  "open_tunnel base64 connect exchange e host port =
     (let shown = show_endpoint e; target = host_port (normalize_host host) port in
      bind_result (with_context (''upstream proxy '' @ shown @ '' is unreachable'')
          (connect (proxy_host e) (proxy_port e))) (\<lambda>stream.
      bind_result (with_context (''upstream proxy '' @ shown @ '' failed to open a tunnel to '' @ target)
          (bind_result (exchange stream (tunnel_request base64 e target)) read_response_head)) (\<lambda>(head, rest).
      bind_result (with_context (''upstream proxy '' @ shown @ '' sent an invalid CONNECT response'')
          (parse_status head)) (\<lambda>status.
        if 200 \<le> status \<and> status \<le> 299 then Inr (stream, rest)
        else if status = 407 then Inl (''upstream proxy '' @ shown @
          '' requires authentication (407); SAIAI supports Basic credentials in the proxy URL'')
        else Inl (''upstream proxy '' @ shown @ '' refused the tunnel to '' @ target @ '' (HTTP '' @ decimal status @ '')'')))))"

section \<open>What reading the head consumes\<close>

lemma read_head_iff:
  assumes "length head \<le> max_proxy_response_head"
  shows "read_head head incoming = Inr (h, rest) \<longleftrightarrow>
    (\<exists>t. t \<noteq> [] \<and> h = head @ t \<and> incoming = t @ rest \<and> length h \<le> max_proxy_response_head \<and>
       ends_with h (crlf @ crlf) \<and>
       (\<forall>n. length head < n \<longrightarrow> n < length h \<longrightarrow> \<not> ends_with (take n h) (crlf @ crlf)))"
  using assms
proof (induction incoming arbitrary: head)
  case Nil
  then show ?case by (subst read_head.simps) auto
next
  case (Cons b bs)
  show ?case
  proof (cases "length head \<ge> max_proxy_response_head")
    case True
    then show ?thesis using Cons.prems by (subst read_head.simps) (auto simp: neq_Nil_conv)
  next
    case full: False
    show ?thesis
    proof (cases "ends_with (head @ [b]) (crlf @ crlf)")
      case True
      have "t = [b]" if "t \<noteq> []" "b # bs = t @ rest"
        "\<forall>n. length head < n \<longrightarrow> n < length (head @ t) \<longrightarrow> \<not> ends_with (take n (head @ t)) (crlf @ crlf)" for t
      proof (rule ccontr)
        assume "t \<noteq> [b]"
        with that(1,2) obtain c t' where t: "t = b # c # t'" by (cases t; cases "tl t") auto
        then have "take (length head + 1) (head @ t) = head @ [b]" by simp
        with that(3) [rule_format, of "length head + 1"] True t show False by simp
      qed
      with True full show ?thesis
        by (subst read_head.simps) (force intro: exI [of _ "[b]"])
    next
      case False
      have "(\<exists>t. t \<noteq> [] \<and> h = head @ t \<and> b # bs = t @ rest \<and> length h \<le> max_proxy_response_head \<and>
            ends_with h (crlf @ crlf) \<and> (\<forall>n. length head < n \<longrightarrow> n < length h \<longrightarrow> \<not> ends_with (take n h) (crlf @ crlf))) \<longleftrightarrow>
          (\<exists>t. t \<noteq> [] \<and> h = (head @ [b]) @ t \<and> bs = t @ rest \<and> length h \<le> max_proxy_response_head \<and>
            ends_with h (crlf @ crlf) \<and> (\<forall>n. length (head @ [b]) < n \<longrightarrow> n < length h \<longrightarrow> \<not> ends_with (take n h) (crlf @ crlf)))"
        (is "?L \<longleftrightarrow> ?R")
      proof
        assume ?L
        then obtain t where t: "t \<noteq> []" "h = head @ t" "b # bs = t @ rest" "length h \<le> max_proxy_response_head"
          "ends_with h (crlf @ crlf)" "\<forall>n. length head < n \<longrightarrow> n < length h \<longrightarrow> \<not> ends_with (take n h) (crlf @ crlf)" by blast
        then obtain t' where "t = b # t'" by (cases t) auto
        with t False show ?R by (intro exI [of _ t']) auto
      next
        assume ?R
        then obtain t where t: "t \<noteq> []" "h = (head @ [b]) @ t" "bs = t @ rest" "length h \<le> max_proxy_response_head"
          "ends_with h (crlf @ crlf)" "\<forall>n. length (head @ [b]) < n \<longrightarrow> n < length h \<longrightarrow> \<not> ends_with (take n h) (crlf @ crlf)" by blast
        have "\<not> ends_with (take n h) (crlf @ crlf)" if "length head < n" "n < length h" for n
          using that t(2,6) False by (cases "n = length head + 1") auto
        with t show ?L by (intro exI [of _ "b # t"]) auto
      qed
      then show ?thesis using Cons.IH [of "head @ [b]"] full False
        by (subst read_head.simps) simp
    qed
  qed
qed

lemma response_head_exact:
  "read_response_head incoming = Inr (head, rest) \<longleftrightarrow>
     incoming = head @ rest \<and> length head \<le> 16384 \<and> ends_with head (crlf @ crlf) \<and>
     (\<forall>n < length head. \<not> ends_with (take n head) (crlf @ crlf))"
proof -
  have "\<not> ends_with [] (crlf @ crlf)" by (simp add: ends_with_iff crlf_def)
  then have zero: "(\<forall>n < length head. \<not> ends_with (take n head) (crlf @ crlf)) \<longleftrightarrow>
      (\<forall>n. 0 < n \<longrightarrow> n < length head \<longrightarrow> \<not> ends_with (take n head) (crlf @ crlf))"
    by (metis gr0I take0)
  show ?thesis
    using zero unfolding read_response_head_def
    by (subst read_head_iff) (auto simp: max_proxy_response_head_def ends_with_iff crlf_def)
qed

text \<open>
  C32: Reading the head of the proxy's response takes exactly the bytes up to the first empty line and not
  one more: it succeeds exactly when such a head of at most 16384 bytes is there, and what follows it is
  left for the tunnel untouched.
\<close>

theorem response_head_is_exact:
  "read_response_head incoming = Inr (head, rest) \<longleftrightarrow>
     incoming = head @ rest \<and> length head \<le> 16384 \<and> ends_with head (crlf @ crlf) \<and>
     list_all (\<lambda>n. \<not> ends_with (take n head) (crlf @ crlf)) [0..<length head]"
  by (simp add: response_head_exact list_all_iff Ball_def)

lemma digits_value_bound: "digits_value n s = Some m \<Longrightarrow> m < (n + 1) * 10 ^ length s"
proof (induction s arbitrary: n)
  case (Cons c s)
  then obtain d where d: "digit_value c = Some d" "digits_value (10 * n + d) s = Some m"
    by (auto split: option.splits)
  then have "d \<le> 9" by (auto simp: digit_value_def is_ascii_digit_def split: if_splits)
  then have "(10 * n + d + 1) * 10 ^ length s \<le> (n + 1) * 10 * 10 ^ length s"
    by (intro mult_right_mono) simp_all
  from order.strict_trans2 [OF Cons.IH [OF d(2)] this] show ?case by (simp add: distrib_right mult.assoc mult.left_commute)
qed simp

lemma parse_unsigned_length: "parse_unsigned k s = Some m \<Longrightarrow> m < 10 ^ length s"
proof -
  assume p: "parse_unsigned k s = Some m"
  define ds where "ds = (case s of [] \<Rightarrow> [] | c # r \<Rightarrow> if c = CHR ''+'' then r else s)"
  have ds: "digits_value 0 ds = Some m" "length ds \<le> length s"
    using p unfolding parse_unsigned_def Let_def ds_def [symmetric]
    by (auto simp: ds_def split: if_splits option.splits list.splits)
  then have "m < 10 ^ length ds" using digits_value_bound [OF ds(1)] by simp
  also have "\<dots> \<le> (10 :: nat) ^ length s" using ds(2) by (intro power_increasing) simp_all
  finally show ?thesis .
qed

text \<open>
  A status code the client acts on has at most three digits: whatever bytes the proxy sends as its
  status line, a parsed status is below 1000.
\<close>

theorem status_below_thousand:
  assumes "parse_status head = Inr n"
  shows "n < 1000"
proof -
  from assms obtain s where "parse_u16 s = Some n" "length s = 3"
    by (auto simp: parse_status_def Let_def ok_or_Inr_iff split: if_splits)
  then show ?thesis using parse_unsigned_length [of 65535 s n] by (simp add: parse_u16_def)
qed

text \<open>
  C30: A tunnel is open only after the proxy accepted it: if opening succeeds, the connection is the one
  made to the endpoint, the bytes the proxy sent start with a complete head whose status is between 200
  and 299, and the tunnel starts with the byte after that head.
\<close>

theorem open_tunnel_was_accepted:
  assumes "open_tunnel base64 connect exchange e host port = Inr (stream, rest)"
  shows "\<exists>head status. connect (proxy_host e) (proxy_port e) = Inr stream \<and>
    exchange stream (tunnel_request base64 e (host_port (normalize_host host) port)) = Inr (head @ rest) \<and>
    ends_with head (crlf @ crlf) \<and> parse_status head = Inr status \<and> 200 \<le> status \<and> status \<le> 299"
proof -
  from assms obtain reply head status where
    "connect (proxy_host e) (proxy_port e) = Inr stream"
    "exchange stream (tunnel_request base64 e (host_port (normalize_host host) port)) = Inr reply"
    "read_response_head reply = Inr (head, rest)" "parse_status head = Inr status" "200 \<le> status" "status \<le> 299"
    by (auto simp: open_tunnel_def Let_def bind_result_Inr_iff split: if_splits)
  moreover then have "reply = head @ rest \<and> ends_with head (crlf @ crlf)"
    using read_head_iff [of "[]" reply head rest] by (auto simp: read_response_head_def)
  ultimately show ?thesis by blast
qed

section \<open>Examples\<close>

definition example_head :: string where
  "example_head = ''HTTP/1.1 200 OK'' @ crlf @ crlf"

definition example_reply :: string where
  "example_reply = example_head @ ''hi''"

definition example_endpoint :: endpoint where
  "example_endpoint = \<lparr>proxy_host = ''p'', proxy_port = 8, proxy_username = ''u'', proxy_password = None\<rparr>"

lemma example_status: "parse_status example_head = Inr 200"
proof -
  have "parse_u16 ''200'' = Some 200"
    by (simp add: parse_u16_def parse_unsigned_def digit_value_def is_ascii_digit_def)
  moreover have "valid_utf8 (''HTTP/1.1 200 OK'' @ [CHR 0x0D])" by code_simp
  ultimately show ?thesis
    by (simp add: example_head_def parse_status_def crlf_def Let_def trim_end_char_def split_space3_def starts_with_def)
qed

lemma example_tunnel:
  "open_tunnel id (\<lambda>_ _. Inr ()) (\<lambda>_ _. Inr example_reply) example_endpoint ''t'' 4 = Inr ((), ''hi'')"
proof -
  have "list_all (\<lambda>n. \<not> ends_with (take n example_head) (crlf @ crlf)) [0..<19]"
    "ends_with example_head (crlf @ crlf)" by code_simp+
  moreover have "length example_head = 19" by (simp add: example_head_def crlf_def)
  ultimately have "read_response_head example_reply = Inr (example_head, ''hi'')"
    unfolding response_head_exact by (simp add: example_reply_def list_all_iff)
  then show ?thesis by (simp add: open_tunnel_def Let_def example_status with_context_def)
qed

theorem open_tunnel_was_accepted_witness:
  "\<exists>head. example_reply = head @ ''hi'' \<and> ends_with head (crlf @ crlf) \<and>
     (\<exists>status. parse_status head = Inr status \<and> status \<le> 299)"
  using open_tunnel_was_accepted [OF example_tunnel] by auto

theorem status_below_thousand_witness: "parse_status example_head = Inr 200 \<and> (200 :: nat) < 1000"
  using status_below_thousand [OF example_status] example_status by simp

end
