(* ===== verification/Http_Message.thy ===== *)
theory Http_Message
  imports Proxy_Tunnel
begin

text \<open>
  Reading HTTP requests, as \<open>local_proxy.rs\<close> does: the request line, the headers and the body, framed
  by \<open>Content-Length\<close> or in chunks.  A connection is the bytes that arrive before the deadline and what
  happens after them: the peer closes, nothing more comes, or the read fails.  A read that waits for
  bytes that do not come is \<open>None\<close>; the time-outs of the code turn it into an error.
\<close>

section \<open>Connections\<close>

datatype net_kind = ConnectionReset | ConnectionAborted | BrokenPipe | UnexpectedEof | OtherNetError

datatype stream_end = Closed | Stalled | Broken net_kind string

record stream =
  unread :: string
  ending :: stream_end

text \<open>
  An error: its text in the alternate form (outermost context first), the status a \<open>RequestReadFailure\<close>
  in it carries, and the kinds of the I/O errors in its chain.
\<close>

record failure =
  failure_text :: string
  failure_status :: "nat option"
  failure_kinds :: "net_kind list"

definition bail :: "string \<Rightarrow> failure" where
  "bail t = \<lparr>failure_text = t, failure_status = None, failure_kinds = []\<rparr>"

definition read_failure :: "nat \<Rightarrow> string \<Rightarrow> failure" where
  "read_failure status t = \<lparr>failure_text = t, failure_status = Some status, failure_kinds = []\<rparr>"

definition net_failure :: "net_kind \<Rightarrow> string \<Rightarrow> failure" where
  "net_failure k t = \<lparr>failure_text = t, failure_status = None, failure_kinds = [k]\<rparr>"

definition in_context :: "string \<Rightarrow> failure \<Rightarrow> failure" where
  "in_context c e = e\<lparr>failure_text := c @ '': '' @ failure_text e\<rparr>"

definition request_read_error_status :: "failure \<Rightarrow> nat" where
  "request_read_error_status e = (case failure_status e of None \<Rightarrow> 400 | Some s \<Rightarrow> s)"

text \<open>A read: \<open>None\<close> while it waits for ever, otherwise an error or a value and the rest.\<close>

type_synonym 'a reading = "stream \<Rightarrow> (failure, 'a \<times> stream) result option"

definition done_with :: "'a \<Rightarrow> 'a reading" where
  "done_with x s = Some (Inr (x, s))"

definition fail_with :: "failure \<Rightarrow> 'a reading" where
  "fail_with e s = Some (Inl e)"

definition and_then :: "'a reading \<Rightarrow> ('a \<Rightarrow> 'b reading) \<Rightarrow> 'b reading" where
  "and_then m f s = (case m s of None \<Rightarrow> None | Some (Inl e) \<Rightarrow> Some (Inl e) | Some (Inr (x, s')) \<Rightarrow> f x s')"

text \<open>\<open>timeout\<close> and \<open>timeout_at\<close>.\<close>

definition or_timeout :: "failure \<Rightarrow> 'a reading \<Rightarrow> stream \<Rightarrow> (failure, 'a \<times> stream) result" where
  "or_timeout e m s = (case m s of None \<Rightarrow> Inl e | Some r \<Rightarrow> r)"

section \<open>Lines\<close>

definition line_feed :: char where "line_feed = CHR 0x0A"

definition max_header_line :: nat where "max_header_line = 32 * 1024"
definition max_header_bytes :: nat where "max_header_bytes = 256 * 1024"
definition max_request_body_bytes :: nat where "max_request_body_bytes = 256 * 1024 * 1024"

text \<open>\<open>read_line\<close>: up to and with the line feed, or everything when the peer closes first.\<close>

definition next_line :: "string reading" where
  "next_line s =
     (case split_once line_feed (unread s) of
        Some (a, b) \<Rightarrow>
          if valid_utf8 (a @ [line_feed]) then Some (Inr (a @ [line_feed], s\<lparr>unread := b\<rparr>))
          else Some (Inl (net_failure OtherNetError ''stream did not contain valid UTF-8''))
      | None \<Rightarrow>
          (case ending s of
             Stalled \<Rightarrow> None
           | Broken k t \<Rightarrow> Some (Inl (net_failure k t))
           | Closed \<Rightarrow>
               if valid_utf8 (unread s) then Some (Inr (unread s, s\<lparr>unread := []\<rparr>))
               else Some (Inl (net_failure OtherNetError ''stream did not contain valid UTF-8''))))"

definition read_line_limited :: "string reading" where
  "read_line_limited s =
     (case next_line s of
        None \<Rightarrow> None
      | Some (Inl e) \<Rightarrow> Some (Inl (in_context ''failed to read header line'' e))
      | Some (Inr (line, s')) \<Rightarrow>
          if line = [] then Some (Inl (bail ''connection closed while reading header line''))
          else if length line > max_header_line then Some (Inl (bail ''header line is too large''))
          else Some (Inr (line, s')))"

lemma read_line_consumes:
  assumes "read_line_limited s = Some (Inr (line, s'))"
  shows "unread s = line @ unread s'" and "line \<noteq> []" and "length line \<le> max_header_line" and "ending s' = ending s"
  using assms
  by (auto simp: read_line_limited_def next_line_def split_once_Some_iff
      split: option.splits sum.splits prod.splits if_splits stream_end.splits)

lemma read_line_shorter: "read_line_limited s = Some (Inr (line, s')) \<Longrightarrow> length (unread s') < length (unread s)"
  using read_line_consumes [of s line s'] by (cases line) auto

definition is_blank_line :: "string \<Rightarrow> bool" where
  "is_blank_line line \<longleftrightarrow> line = crlf \<or> line = [line_feed] \<or> trim line = []"

definition trim_crlf :: "string \<Rightarrow> string" where
  "trim_crlf line = rev (dropWhile (\<lambda>c. c = CHR 0x0D \<or> c = CHR 0x0A) (rev line))"

section \<open>Headers\<close>

type_synonym header = "string \<times> string"

record incoming_request =
  request_method :: string
  request_target :: string
  http_version :: string
  request_headers :: "header list"
  request_body :: string

definition header_value :: "header list \<Rightarrow> string \<Rightarrow> string option" where
  "header_value headers name = map_option snd (find (\<lambda>(n, _). eq_ignore_ascii_case n name) headers)"

definition header_contains :: "header list \<Rightarrow> string \<Rightarrow> string \<Rightarrow> bool" where
  "header_contains headers name token =
     (case header_value headers name of
        None \<Rightarrow> False
      | Some v \<Rightarrow> list_ex (\<lambda>part. eq_ignore_ascii_case (trim part) token) (split_on ((=) CHR '','') v))"

definition header_timeout :: failure where
  "header_timeout = read_failure 408 ''408 Request Timeout''"

definition parse_header_line :: "string \<Rightarrow> (failure, header) result" where
  "parse_header_line line =
     (case split_once CHR '':'' (trim_crlf line) of
        None \<Rightarrow> Inl (bail ''invalid HTTP header line'')
      | Some (name, val) \<Rightarrow> Inr (trim name, trim val))"

text \<open>The header loop; every line takes at least one byte.\<close>

function read_headers :: "nat \<Rightarrow> stream \<Rightarrow> (failure, header list \<times> stream) result" where
  "read_headers header_bytes s =
     (case or_timeout header_timeout read_line_limited s of
        Inl e \<Rightarrow> Inl e
      | Inr (line, s') \<Rightarrow>
          if header_bytes + length line > max_header_bytes then Inl (bail ''HTTP headers are too large'')
          else if is_blank_line line then Inr ([], s')
          else (case parse_header_line line of
              Inl e \<Rightarrow> Inl e
            | Inr h \<Rightarrow>
                (case read_headers (header_bytes + length line) s' of
                   Inl e \<Rightarrow> Inl e
                 | Inr (hs, s'') \<Rightarrow> Inr (h # hs, s''))))"
  by pat_completeness auto
termination
  by (relation "measure (\<lambda>(n, s). length (unread s))")
    (auto simp: or_timeout_def read_line_shorter split: option.splits)

declare read_headers.simps [simp del]

section \<open>Bodies\<close>

definition usize_max :: nat where "usize_max = 18446744073709551615"

definition hex_number :: "nat \<Rightarrow> string \<Rightarrow> nat" where
  "hex_number n s = foldl (\<lambda>n c. n * 16 + the (hex_value c)) n s"

text \<open>\<open>usize::from_str_radix(s, 16)\<close>.\<close>

definition parse_hex_usize :: "string \<Rightarrow> nat option" where
  "parse_hex_usize s =
     (let ds = (case s of [] \<Rightarrow> [] | c # r \<Rightarrow> if c = CHR ''+'' then r else s)
      in if ds = [] \<or> \<not> list_all (\<lambda>c. hex_value c \<noteq> None) ds then None
         else if hex_number 0 ds \<le> usize_max then Some (hex_number 0 ds) else None)"

text \<open>\<open>reader.take(n).read_to_end\<close>: fewer than \<open>n\<close> bytes only when the peer closes.\<close>

definition take_bytes :: "string \<Rightarrow> nat \<Rightarrow> string reading" where
  "take_bytes context n s =
     (if n \<le> length (unread s) then Some (Inr (take n (unread s), s\<lparr>unread := drop n (unread s)\<rparr>))
      else case ending s of
          Closed \<Rightarrow> Some (Inr (unread s, s\<lparr>unread := []\<rparr>))
        | Stalled \<Rightarrow> None
        | Broken k t \<Rightarrow> Some (Inl (in_context context (net_failure k t))))"

definition read_exact :: "string \<Rightarrow> nat \<Rightarrow> string reading" where
  "read_exact context n = and_then (take_bytes context n) (\<lambda>bytes.
     if length bytes < n then fail_with (in_context context (net_failure UnexpectedEof ''early eof'')) else done_with bytes)"

definition payload_too_large :: failure where
  "payload_too_large = read_failure 413 ''413 Payload Too Large''"

lemma take_bytes_consumes:
  "take_bytes c n s = Some (Inr (b, s')) \<Longrightarrow>
     unread s = b @ unread s' \<and> length b \<le> n \<and> ending s' = ending s \<and> (n \<le> length (unread s) \<longrightarrow> length b = n)"
  by (auto simp: take_bytes_def split: if_splits stream_end.splits)

lemma and_then_Inr:
  "and_then m f s = Some (Inr (y, s'')) \<longleftrightarrow> (\<exists>x s'. m s = Some (Inr (x, s')) \<and> f x s' = Some (Inr (y, s'')))"
  by (auto simp: and_then_def split: option.split sum.split prod.split)

lemma read_exact_consumes:
  "read_exact c n s = Some (Inr (b, s')) \<Longrightarrow> unread s = b @ unread s' \<and> length b = n \<and> ending s' = ending s"
  using take_bytes_consumes [of c n s b s']
  by (auto simp: read_exact_def and_then_Inr done_with_def fail_with_def split: if_splits)

text \<open>The trailers of the last chunk.\<close>

function read_trailers :: "nat \<Rightarrow> unit reading" where
  "read_trailers trailer_bytes s =
     (case read_line_limited s of
        None \<Rightarrow> None
      | Some (Inl e) \<Rightarrow> Some (Inl e)
      | Some (Inr (trailer, s')) \<Rightarrow>
          if trailer_bytes + length trailer > max_header_bytes then Some (Inl (bail ''HTTP trailers are too large''))
          else if is_blank_line trailer then Some (Inr ((), s'))
          else read_trailers (trailer_bytes + length trailer) s')"
  by pat_completeness auto
termination
  by (relation "measure (\<lambda>(n, s). length (unread s))") (auto simp: read_line_shorter)

declare read_trailers.simps [simp del]

definition chunk_size :: "string \<Rightarrow> (failure, nat) result" where
  "chunk_size size_line =
     (let size_hex = trim (hd (split_on ((=) CHR '';'') (trim_crlf size_line)))
      in ok_or (bail (''invalid chunk size '' @ size_hex)) (parse_hex_usize size_hex))"

text \<open>One chunk after its size line: the bytes and the line end behind them.\<close>

definition read_chunk :: "nat \<Rightarrow> nat \<Rightarrow> nat \<Rightarrow> string reading" where
  "read_chunk limit start len =
     (if start + len \<le> usize_max \<and> start + len \<le> limit then
        and_then (take_bytes ''failed to read chunk body'' len) (\<lambda>bytes.
          if length bytes \<noteq> len then fail_with (bail ''incomplete chunk body'')
          else and_then (read_exact ''failed to read chunk terminator'' 2) (\<lambda>terminator.
            if terminator \<noteq> crlf then fail_with (bail ''invalid chunk terminator'') else done_with bytes))
      else fail_with payload_too_large)"

lemma read_chunk_consumes:
  assumes "read_chunk limit start len s = Some (Inr (b, s'))"
  shows "unread s = b @ crlf @ unread s'" and "length b = len" and "start + len \<le> limit" and "ending s' = ending s"
  using assms take_bytes_consumes read_exact_consumes
  by (force simp: read_chunk_def and_then_Inr done_with_def fail_with_def split: if_splits)+

function read_chunked_body_with_limit :: "nat \<Rightarrow> string \<Rightarrow> string reading" where
  "read_chunked_body_with_limit limit body s =
     (case read_line_limited s of
        None \<Rightarrow> None
      | Some (Inl e) \<Rightarrow> Some (Inl e)
      | Some (Inr (size_line, s')) \<Rightarrow>
          (case chunk_size size_line of
             Inl e \<Rightarrow> Some (Inl e)
           | Inr len \<Rightarrow>
               if len = 0 then and_then (read_trailers 0) (\<lambda>_. done_with body) s'
               else (case read_chunk limit (length body) len s' of
                   None \<Rightarrow> None
                 | Some (Inl e) \<Rightarrow> Some (Inl e)
                 | Some (Inr (bytes, s'')) \<Rightarrow> read_chunked_body_with_limit limit (body @ bytes) s'')))"
  by pat_completeness auto
termination
  by (relation "measure (\<lambda>(l, b, s). length (unread s))")
    (auto dest!: read_line_shorter read_chunk_consumes(1))

declare read_chunked_body_with_limit.simps [simp del]

definition read_request_body_with_limit :: "header list \<Rightarrow> nat \<Rightarrow> string reading" where
  "read_request_body_with_limit headers limit =
     (if header_contains headers ''transfer-encoding'' ''chunked'' then read_chunked_body_with_limit limit []
      else (case header_value headers ''content-length'' of
          None \<Rightarrow> done_with []
        | Some content_length \<Rightarrow>
            (case parse_unsigned usize_max content_length of
               None \<Rightarrow> fail_with (bail (''invalid content-length '' @ content_length))
             | Some n \<Rightarrow>
                 if n > limit then fail_with payload_too_large
                 else and_then (take_bytes ''failed to read request body'' n) (\<lambda>body.
                   if length body \<noteq> n then fail_with (bail ''incomplete request body'') else done_with body))))"

definition read_request_body :: "header list \<Rightarrow> string reading" where
  "read_request_body headers = read_request_body_with_limit headers max_request_body_bytes"

section \<open>Requests\<close>

text \<open>\<open>str::split_whitespace\<close>.\<close>

definition flush_word :: "string \<Rightarrow> string list" where
  "flush_word word = (if word = [] then [] else [word])"

function split_words :: "string \<Rightarrow> string \<Rightarrow> string list" where
  "split_words word s =
     (case s of
        [] \<Rightarrow> flush_word word
      | c # r \<Rightarrow>
          (case find (starts_with s) whitespace_units of
             None \<Rightarrow> split_words (word @ [c]) r
           | Some u \<Rightarrow> flush_word word @ split_words [] (drop (length u) s)))"
  by pat_completeness auto
termination
proof (relation "measure (\<lambda>(w, s). length s)", simp, simp)
  fix s r u :: string and c :: char
  assume s: "s = c # r" and "find (starts_with s) whitespace_units = Some u"
  then have "u \<in> set whitespace_units" by (auto simp: find_Some_iff)
  then have "u \<noteq> []" by (auto simp: whitespace_units_def)
  with s show "(([], drop (length u) s), (w, s)) \<in> measure (\<lambda>(w, s). length s)" for w by (cases u) auto
qed

declare split_words.simps [simp del]

definition split_whitespace :: "string \<Rightarrow> string list" where
  "split_whitespace s = split_words [] s"

text \<open>Whether the error is that of a peer that went away.\<close>

definition is_peer_connection_close :: "failure \<Rightarrow> bool" where
  "is_peer_connection_close e \<longleftrightarrow>
     list_ex (\<lambda>k. k = ConnectionReset \<or> k = ConnectionAborted \<or> k = UnexpectedEof) (failure_kinds e)"

definition read_http_request_line :: "stream \<Rightarrow> (failure, string \<times> stream) result" where
  "read_http_request_line s =
     (if unread s \<noteq> [] then
        or_timeout (in_context ''timed out reading HTTP request line'' (bail ''deadline has elapsed'')) read_line_limited s
      else case ending s of
          Closed \<Rightarrow> Inl (bail ''idle HTTP connection closed before request line'')
        | Stalled \<Rightarrow> Inl (in_context ''idle HTTP connection timed out before request line'' (bail ''deadline has elapsed''))
        | Broken k t \<Rightarrow>
            let e = net_failure k t;
                e' = (if is_peer_connection_close e
                      then in_context ''idle HTTP connection reset before request line'' e else e)
            in Inl (in_context ''failed to read HTTP request start'' e'))"

definition read_http_request :: "stream \<Rightarrow> (failure, incoming_request \<times> stream) result" where
  "read_http_request s =
     (case read_http_request_line s of
        Inl e \<Rightarrow> Inl e
      | Inr (request_line, s1) \<Rightarrow>
          (case split_whitespace request_line of
             [request_word, target, version] \<Rightarrow>
               if \<not> starts_with version ''HTTP/'' then Inl (bail ''invalid HTTP request line'')
               else (case read_headers (length request_line) s1 of
                   Inl e \<Rightarrow> Inl e
                 | Inr (headers, s2) \<Rightarrow>
                     (case or_timeout header_timeout (read_request_body headers) s2 of
                        Inl e \<Rightarrow> Inl e
                      | Inr (body, s3) \<Rightarrow>
                          Inr (\<lparr>request_method = request_word, request_target = target, http_version = version,
                                request_headers = headers, request_body = body\<rparr>, s3)))
           | _ \<Rightarrow> Inl (bail ''invalid HTTP request line'')))"

definition request_wants_close :: "incoming_request \<Rightarrow> bool" where
  "request_wants_close r \<longleftrightarrow>
     header_contains (request_headers r) ''connection'' ''close'' \<or>
     (eq_ignore_ascii_case (http_version r) ''HTTP/1.0'' \<and>
      \<not> header_contains (request_headers r) ''connection'' ''keep-alive'')"

section \<open>Which errors are worth a report\<close>

definition is_idle_http_connection_end :: "failure \<Rightarrow> bool" where
  "is_idle_http_connection_end e \<longleftrightarrow>
     contains_text (failure_text e) ''idle HTTP connection closed before request line'' \<or>
     contains_text (failure_text e) ''idle HTTP connection timed out before request line'' \<or>
     (contains_text (failure_text e) ''idle HTTP connection reset before request line'' \<and> is_peer_connection_close e)"

definition is_benign_direct_tunnel_close :: "failure \<Rightarrow> bool" where
  "is_benign_direct_tunnel_close e \<longleftrightarrow>
     contains_text (failure_text e) ''direct tunnel copy failed for '' \<and>
     (list_ex (\<lambda>k. k = ConnectionReset \<or> k = ConnectionAborted \<or> k = BrokenPipe \<or> k = UnexpectedEof) (failure_kinds e) \<or>
      list_ex (contains_text (failure_text e))
        [''Connection reset by peer'', ''Broken pipe'', ''UnexpectedEof'', ''unexpected end of file'', ''early eof''])"

definition is_benign_client_error :: "failure \<Rightarrow> bool" where
  "is_benign_client_error e \<longleftrightarrow>
     is_idle_http_connection_end e \<or>
     contains_text (failure_text e) ''client disconnected while'' \<or>
     is_benign_direct_tunnel_close e \<or>
     (contains_text (failure_text e) ''client TLS handshake failed for '' \<and> is_peer_connection_close e)"

end
