(* ===== verification/Proxy_Hosts.thy ===== *)
theory Proxy_Hosts
  imports Http_Message
begin

text \<open>
  Whom the local proxy of \<open>local_proxy.rs\<close> talks to: the managed hosts, the refused telemetry hosts, the
  authority of a \<open>CONNECT\<close>, the target of a plain request, the routes to the gateway and the state the
  proxy starts from.  The \<open>url\<close> crate is the parameter \<open>parse_url\<close>; the texts of errors of the
  standard library are shortened.
\<close>

section \<open>Hosts\<close>

definition anthropic_host :: string where "anthropic_host = ''api.anthropic.com''"
definition openai_host :: string where "openai_host = ''api.openai.com''"
definition chatgpt_host :: string where "chatgpt_host = ''chatgpt.com''"
definition chat_openai_host :: string where "chat_openai_host = ''chat.openai.com''"
definition chatgpt_aux_host :: string where "chatgpt_aux_host = ''ab.chatgpt.com''"
definition certificate_control_host :: string where "certificate_control_host = ''certificate.saiai.local''"

definition telemetry_deny_exact_hosts :: "string list" where
  "telemetry_deny_exact_hosts = [''http-intake.logs.us5.datadoghq.com'']"

definition telemetry_deny_host_suffixes :: "string list" where
  "telemetry_deny_host_suffixes = [''.ingest.sentry.io'', ''.ingest.us.sentry.io'']"

definition is_bracket :: "char \<Rightarrow> bool" where
  "is_bracket c \<longleftrightarrow> c = CHR ''['' \<or> c = CHR '']''"

definition canonical_host :: "string \<Rightarrow> string" where
  "canonical_host host =
     to_ascii_lowercase (trim_end_char CHR ''.'' (rev (dropWhile is_bracket (rev (dropWhile is_bracket (trim host))))))"

definition is_managed_host :: "string \<Rightarrow> bool" where
  "is_managed_host host \<longleftrightarrow>
     host = anthropic_host \<or> host = openai_host \<or> host = chatgpt_host \<or> host = chat_openai_host \<or> host = chatgpt_aux_host"

definition telemetry_deny_reason :: "string \<Rightarrow> string option" where
  "telemetry_deny_reason host =
     (if host \<in> set telemetry_deny_exact_hosts then Some ''telemetry_exact_host''
      else if list_ex (\<lambda>suffix. length host > length suffix \<and> ends_with host suffix) telemetry_deny_host_suffixes
        then Some ''telemetry_host_suffix'' else None)"

section \<open>The first request of a connection\<close>

record connect_target =
  connect_host :: string
  connect_port :: nat

datatype initial_request = InitialConnect connect_target | InitialHttp incoming_request

definition connect_port_of :: "string \<Rightarrow> (failure, nat) result" where
  "connect_port_of port_part =
     ok_or (in_context (''invalid CONNECT port '' @ port_part) (bail ''invalid port'')) (parse_u16 port_part)"

definition split_host_port :: "string \<Rightarrow> (failure, string \<times> nat) result" where
  "split_host_port text =
     (let authority = trim text in
      case strip_prefix ''['' authority of
        Some rest \<Rightarrow>
          (case split_once CHR '']'' rest of
             None \<Rightarrow> Inl (bail ''invalid IPv6 authority'')
           | Some (host, behind) \<Rightarrow>
               let port_part = (case strip_prefix '':'' behind of Some p \<Rightarrow> p | None \<Rightarrow> []) in
               if port_part = [] then Inl (bail ''CONNECT authority must include a port'')
               else bind_result (connect_port_of port_part) (\<lambda>port. Inr (host, port)))
      | None \<Rightarrow>
          (case rsplit_once CHR '':'' authority of
             None \<Rightarrow> Inl (bail ''CONNECT authority must include host:port'')
           | Some (host, port_part) \<Rightarrow>
               if host = [] then Inl (bail ''CONNECT host is required'')
               else bind_result (connect_port_of port_part) (\<lambda>port. Inr (host, port))))"

definition parse_http_proxy_target :: "url_parser \<Rightarrow> incoming_request \<Rightarrow> (failure, proxy_url) result" where
  "parse_http_proxy_target parse_url request =
     (if eq_ignore_ascii_case (request_method request) ''CONNECT''
      then Inl (bail ''CONNECT is not an HTTP proxy request'')
      else case parse_url (request_target request) of
          None \<Rightarrow> Inl (in_context ''HTTP proxy target must be an absolute URL'' (bail ''invalid URL''))
        | Some target \<Rightarrow>
            if url_scheme target \<noteq> ''http''
            then Inl (bail (''HTTP proxy request must use the http scheme, got '' @ url_scheme target))
            else if url_host target = None then Inl (bail ''HTTP proxy target host is required'')
            else if url_username target \<noteq> [] \<or> url_password target \<noteq> None
            then Inl (bail ''HTTP proxy target must not contain userinfo'')
            else Inr target)"

definition read_initial_proxy_request :: "url_parser \<Rightarrow> stream \<Rightarrow> (failure, initial_request \<times> stream) result" where
  "read_initial_proxy_request parse_url s =
     bind_result (read_http_request s) (\<lambda>(request, s').
       if eq_ignore_ascii_case (request_method request) ''CONNECT''
       then bind_result (split_host_port (request_target request)) (\<lambda>(host, port).
         Inr (InitialConnect \<lparr>connect_host = canonical_host host, connect_port = port\<rparr>, s'))
       else bind_result (parse_http_proxy_target parse_url request) (\<lambda>_. Inr (InitialHttp request, s')))"

definition target_host :: "proxy_url \<Rightarrow> string" where
  "target_host target = canonical_host (case url_host target of Some h \<Rightarrow> h | None \<Rightarrow> [])"

definition target_port :: "proxy_url \<Rightarrow> nat" where
  "target_port target = (case known_port target of Some p \<Rightarrow> p | None \<Rightarrow> 80)"

section \<open>Routes to the gateway\<close>

record route_config =
  route_base_url :: string
  route_api_key :: string

definition validate_route :: "url_parser \<Rightarrow> string \<Rightarrow> route_config \<Rightarrow> (failure, route_config) result" where
  "validate_route parse_url name route =
     (let base = trim_end_char CHR ''/'' (trim (route_base_url route)) in
      case parse_url base of
        None \<Rightarrow> Inl (in_context (''invalid '' @ name @ '' SAIAI base URL: '' @ base) (bail ''invalid URL''))
      | Some parsed \<Rightarrow>
          if url_scheme parsed \<noteq> ''http'' \<and> url_scheme parsed \<noteq> ''https''
          then Inl (bail (name @ '' SAIAI base URL must use http or https, got '' @ url_scheme parsed))
          else if url_host parsed = None then Inl (bail (name @ '' SAIAI base URL host is required''))
          else if trim (route_api_key route) = [] then Inl (bail (name @ '' SAIAI API key is required''))
          else Inr (route\<lparr>route_base_url := base\<rparr>))"

record proxy_config =
  config_listen :: string
  config_base_url :: string
  config_api_key :: string
  config_claude :: "route_config option"
  config_codex :: "route_config option"
  config_ca_cert :: string
  config_ca_key :: string
  config_verbose :: bool
  config_chat_passthrough :: bool
  config_browser_use :: bool
  config_proof_dir :: "path option"
  config_upstream_proxy :: "string option"

text \<open>What \<open>State\<close> keeps fixed; its caches are threaded through the handlers.\<close>

record proxy_state =
  listen :: string
  default_route :: route_config
  claude_route :: "route_config option"
  codex_route :: "route_config option"
  state_ca_cert :: string
  state_ca_key :: string
  verbose :: bool
  chat_passthrough :: bool
  browser_use :: bool
  state_proof_dir :: "path option"

text \<open>\<open>SocketAddr\<close>: an IPv4 address or an IPv6 address in brackets, and a port in digits only.\<close>

definition parse_port :: "string \<Rightarrow> nat option" where
  "parse_port s = (if s = [] \<or> hd s = CHR ''+'' then None else parse_u16 s)"

definition parse_socket_addr :: "string \<Rightarrow> socket_addr option" where
  "parse_socket_addr s =
     (case strip_prefix ''['' s of
        Some rest \<Rightarrow>
          (case split_once CHR '']'' rest of
             None \<Rightarrow> None
           | Some (address, behind) \<Rightarrow>
               (let (text, scope) = (case split_once CHR ''%'' address of Some (t, z) \<Rightarrow> (t, Some z) | None \<Rightarrow> (address, None)) in
                if (case scope of None \<Rightarrow> False | Some z \<Rightarrow> z = [] \<or> hd z = CHR ''+'' \<or> parse_unsigned 4294967295 z = None) then None
                else case parse_ip text of
                    Some (V6 a) \<Rightarrow> Option.bind (strip_prefix '':'' behind) (\<lambda>p. map_option (Pair (V6 a)) (parse_port p))
                  | _ \<Rightarrow> None))
      | None \<Rightarrow>
          (case split_once CHR '':'' s of
             None \<Rightarrow> None
           | Some (address, p) \<Rightarrow>
               (case parse_ip address of Some (V4 a) \<Rightarrow> map_option (Pair (V4 a)) (parse_port p) | _ \<Rightarrow> None)))"

definition optional_route :: "url_parser \<Rightarrow> string \<Rightarrow> route_config option \<Rightarrow> (failure, route_config option) result" where
  "optional_route parse_url name route =
     (case route of None \<Rightarrow> Inr None | Some r \<Rightarrow> map_sum id Some (validate_route parse_url name r))"

definition switch :: "string option \<Rightarrow> bool \<Rightarrow> bool" where
  "switch setting configured =
     (if setting = Some ''0'' then False else if setting = Some ''1'' then True else configured)"

definition desktop_browser_use_setting :: "string option \<Rightarrow> bool \<Rightarrow> bool" where
  "desktop_browser_use_setting env_value configured = switch env_value configured"

text \<open>\<open>leaf_ok\<close> is the trial issue of a certificate, \<open>trace_ok\<close> the opening of the diagnostic trace.\<close>

definition state_new ::
  "url_parser \<Rightarrow> (string \<Rightarrow> string option) \<Rightarrow> (string \<Rightarrow> string \<Rightarrow> string \<Rightarrow> (failure, unit) result) \<Rightarrow>
     (failure, unit) result \<Rightarrow> proxy_config \<Rightarrow> (failure, proxy_state) result" where
  "state_new parse_url variable leaf_ok trace_ok cfg =
     (if trim (config_listen cfg) = [] then Inl (bail ''local proxy listen address is required'')
      else case parse_socket_addr (config_listen cfg) of
          None \<Rightarrow> Inl (in_context (''invalid local proxy listen address '' @ config_listen cfg) (bail ''invalid socket address syntax''))
        | Some (ip, port) \<Rightarrow>
            if \<not> is_loopback ip
            then Inl (bail (''local proxy listen address must be loopback-only, got '' @ config_listen cfg))
            else
              bind_result (validate_route parse_url ''default''
                \<lparr>route_base_url = config_base_url cfg, route_api_key = config_api_key cfg\<rparr>) (\<lambda>default.
              bind_result (optional_route parse_url ''Claude'' (config_claude cfg)) (\<lambda>claude.
              bind_result (optional_route parse_url ''Codex'' (config_codex cfg)) (\<lambda>codex.
              bind_result (map_sum (in_context ''failed to validate installation-specific SAIAI CA'') id
                (leaf_ok anthropic_host (config_ca_cert cfg) (config_ca_key cfg))) (\<lambda>_.
              bind_result trace_ok (\<lambda>_.
                Inr \<lparr>listen = config_listen cfg, default_route = default, claude_route = claude, codex_route = codex,
                     state_ca_cert = config_ca_cert cfg, state_ca_key = config_ca_key cfg,
                     verbose = config_verbose cfg \<or> variable ''SAIAI_PROXY_VERBOSE'' = Some ''1'',
                     chat_passthrough = switch (variable ''SAIAI_CHATGPT_CHAT_PASSTHROUGH'') (config_chat_passthrough cfg),
                     browser_use = desktop_browser_use_setting (variable ''SAIAI_DESKTOP_BROWSER_USE'') (config_browser_use cfg),
                     state_proof_dir = config_proof_dir cfg\<rparr>))))))"

definition the_route :: "route_config option \<Rightarrow> proxy_state \<Rightarrow> route_config" where
  "the_route route S = (case route of Some r \<Rightarrow> r | None \<Rightarrow> default_route S)"

definition route_for_host :: "proxy_state \<Rightarrow> string \<Rightarrow> route_config" where
  "route_for_host S host =
     (let h = canonical_host host in
      if h = anthropic_host then the_route (claude_route S) S
      else if h = openai_host \<or> h = chatgpt_host \<or> h = chat_openai_host \<or> h = chatgpt_aux_host
        then the_route (codex_route S) S
      else default_route S)"

section \<open>Request targets\<close>

definition path_query_from_target :: "url_parser \<Rightarrow> string \<Rightarrow> (failure, string) result" where
  "path_query_from_target parse_url target =
     (if starts_with target ''/'' then Inr target
      else case parse_url target of
          None \<Rightarrow> Inl (in_context (''invalid request target '' @ target) (bail ''invalid URL''))
        | Some parsed \<Rightarrow>
            Inr ((if url_path parsed = [] then ''/'' else url_path parsed) @
                 (case url_query parsed of None \<Rightarrow> [] | Some q \<Rightarrow> CHR ''?'' # q)))"

definition request_path :: "url_parser \<Rightarrow> string \<Rightarrow> (failure, string) result" where
  "request_path parse_url target =
     map_sum id (\<lambda>path_query. hd (split_on ((=) CHR ''?'') path_query)) (path_query_from_target parse_url target)"

definition upstream_url :: "url_parser \<Rightarrow> string \<Rightarrow> route_config \<Rightarrow> (failure, string) result" where
  "upstream_url parse_url target route =
     map_sum id (\<lambda>path_query. route_base_url route @ path_query) (path_query_from_target parse_url target)"

definition websocket_upstream_url ::
  "url_parser \<Rightarrow> (string \<Rightarrow> proxy_url \<Rightarrow> proxy_url option) \<Rightarrow> string \<Rightarrow> route_config \<Rightarrow> (failure, proxy_url) result" where
  "websocket_upstream_url parse_url set_scheme target route =
     bind_result (upstream_url parse_url target route) (\<lambda>text.
       case parse_url text of
         None \<Rightarrow> Inl (in_context ''failed to parse Gateway WebSocket URL'' (bail ''invalid URL''))
       | Some u \<Rightarrow>
           bind_result
             (if url_scheme u = ''http'' then Inr ''ws'' else if url_scheme u = ''https'' then Inr ''wss''
              else Inl (bail (''unsupported Gateway WebSocket scheme '' @ url_scheme u))) (\<lambda>scheme.
             ok_or (bail ''failed to set Gateway WebSocket scheme'') (set_scheme scheme u)))"

end
