(* ===== verification/Proxy_Headers.thy ===== *)
theory Proxy_Headers
  imports Proxy_Hosts Client_Proof
begin

text \<open>
  Which headers cross the local proxy (\<open>local_proxy.rs\<close>): the filters for requests and responses, the
  headers a \<open>Connection\<close> header nominates, the device cookie, and the requests to the gateway that are
  built from them.  A request of \<open>reqwest\<close> is its parts; names are compared without case.
\<close>

section \<open>Filters\<close>

definition name_in :: "string \<Rightarrow> string list \<Rightarrow> bool" where
  "name_in name names \<longleftrightarrow> to_ascii_lowercase name \<in> set names"

definition is_hop_by_hop_header :: "string \<Rightarrow> bool" where
  "is_hop_by_hop_header name \<longleftrightarrow> name_in name
     [''connection'', ''keep-alive'', ''proxy-authenticate'', ''proxy-authorization'', ''te'', ''trailer'',
      ''transfer-encoding'', ''upgrade'']"

definition should_forward_request_header :: "string \<Rightarrow> bool" where
  "should_forward_request_header name \<longleftrightarrow>
     \<not> is_hop_by_hop_header name \<and> \<not> eq_ignore_ascii_case name proof_header_name \<and>
     \<not> eq_ignore_ascii_case name ''host'' \<and> \<not> eq_ignore_ascii_case name ''content-length'' \<and>
     \<not> eq_ignore_ascii_case name ''transfer-encoding'' \<and> \<not> eq_ignore_ascii_case name ''proxy-authorization'' \<and>
     \<not> eq_ignore_ascii_case name ''proxy-connection''"

definition connection_nominated_headers :: "header list \<Rightarrow> string list" where
  "connection_nominated_headers headers =
     concat (map (\<lambda>(_, val). map (\<lambda>name. to_ascii_lowercase (trim name)) (split_on ((=) CHR '','') val))
       (filter (\<lambda>(name, _). eq_ignore_ascii_case name ''connection'') headers))"

definition should_forward_request_header_to_gateway :: "string \<Rightarrow> bool \<Rightarrow> bool" where
  "should_forward_request_header_to_gateway name replace_authorization \<longleftrightarrow>
     should_forward_request_header name \<and>
     \<not> (replace_authorization \<and> (eq_ignore_ascii_case name ''authorization'' \<or> eq_ignore_ascii_case name ''cookie''))"

text \<open>\<open>name.get(..6)\<close>: \<open>None\<close> when the name is shorter or the cut is inside a character.\<close>

definition char_boundary :: "string \<Rightarrow> nat \<Rightarrow> bool" where
  "char_boundary s n \<longleftrightarrow> n = length s \<or> (n < length s \<and> \<not> (128 \<le> code (s ! n) \<and> code (s ! n) < 192))"

definition should_forward_http_proxy_header :: "string \<Rightarrow> bool \<Rightarrow> bool" where
  "should_forward_http_proxy_header name managed_host \<longleftrightarrow>
     should_forward_request_header name \<and>
     \<not> (char_boundary name 6 \<and> eq_ignore_ascii_case (take 6 name) ''proxy-'') \<and>
     \<not> (managed_host \<and> (eq_ignore_ascii_case name ''authorization'' \<or> eq_ignore_ascii_case name ''cookie''))"

definition should_forward_response_header :: "string \<Rightarrow> bool" where
  "should_forward_response_header name \<longleftrightarrow>
     \<not> is_hop_by_hop_header name \<and> \<not> eq_ignore_ascii_case name ''content-length'' \<and>
     \<not> eq_ignore_ascii_case name ''transfer-encoding''"

definition is_websocket_handshake_header :: "string \<Rightarrow> bool" where
  "is_websocket_handshake_header name \<longleftrightarrow> name_in name
     [''connection'', ''upgrade'', ''sec-websocket-key'', ''sec-websocket-version'', ''sec-websocket-extensions'',
      ''sec-websocket-protocol'']"

definition is_websocket_upgrade :: "incoming_request \<Rightarrow> bool" where
  "is_websocket_upgrade request \<longleftrightarrow>
     header_contains (request_headers request) ''upgrade'' ''websocket'' \<and>
     header_contains (request_headers request) ''connection'' ''upgrade'' \<and>
     header_value (request_headers request) ''sec-websocket-key'' \<noteq> None"

definition bearer_token :: "string \<Rightarrow> string option" where
  "bearer_token authorization =
     (case split_once CHR '' '' (trim authorization) of
        None \<Rightarrow> None
      | Some (scheme, token) \<Rightarrow>
          if eq_ignore_ascii_case scheme ''bearer'' \<and> trim token \<noteq> [] then Some (trim token) else None)"

section \<open>The device cookie\<close>

definition target_path :: "string \<Rightarrow> string" where
  "target_path target = hd (split_on ((=) CHR ''?'') target)"

definition without_chatgpt :: "string \<Rightarrow> string" where
  "without_chatgpt path = (case strip_prefix ''/chatgpt'' path of Some p \<Rightarrow> p | None \<Rightarrow> path)"

definition is_chatgpt_upload_target :: "string \<Rightarrow> bool" where
  "is_chatgpt_upload_target target \<longleftrightarrow> without_chatgpt (target_path target) \<in>
     {''/backend-api/files'', ''/backend-api/files/process_upload_stream'',
      ''/backend-api/estuary/upload_content_bytes'', ''/api/estuary/upload_content_bytes''}"

definition is_chatgpt_device_cookie_target :: "string \<Rightarrow> bool" where
  "is_chatgpt_device_cookie_target target \<longleftrightarrow> without_chatgpt (target_path target) \<in>
     {''/backend-api/devicecheck'', ''/backend-api/models'', ''/backend-api/ios/attestation_challenge'',
      ''/backend-api/f/conversation'', ''/backend-api/f/conversation/prepare'', ''/backend-api/f/conversation/resume'',
      ''/backend-api/conversation/init'', ''/backend-api/sentinel/chat-requirements/prepare''}"

definition valid_cookie_value :: "string \<Rightarrow> bool" where
  "valid_cookie_value v \<longleftrightarrow>
     v \<noteq> [] \<and> length v \<le> 16 * 1024 \<and>
     list_all (\<lambda>c. is_ascii_graphic c \<and> c \<noteq> CHR 0x22 \<and> c \<noteq> CHR '';'' \<and> c \<noteq> CHR '','' \<and> c \<noteq> CHR 0x5C) v"

definition cookie_parts :: "header list \<Rightarrow> (string \<times> string) list" where
  "cookie_parts headers =
     List.map_filter (\<lambda>part. split_once CHR ''='' (trim part))
       (concat (map (\<lambda>(_, raw). split_on ((=) CHR '';'') raw)
         (filter (\<lambda>(name, _). eq_ignore_ascii_case name ''cookie'') headers)))"

fun device_cookie_from :: "bool \<Rightarrow> string option \<Rightarrow> (string \<times> string) list \<Rightarrow> (failure, string option) result" where
  "device_cookie_from seen cookie [] = Inr cookie"
| "device_cookie_from seen cookie ((name, v) # parts) =
     (if name \<noteq> ''_devicecheck'' then device_cookie_from seen cookie parts
      else if seen \<or> \<not> valid_cookie_value v then Inl (bail ''invalid native Chat device proof'')
      else device_cookie_from True
        (if v \<noteq> ''saiai-local-proxy'' then Some (''_devicecheck='' @ v) else cookie) parts)"

definition chatgpt_device_cookie :: "header list \<Rightarrow> (failure, string option) result" where
  "chatgpt_device_cookie headers = device_cookie_from False None (cookie_parts headers)"

section \<open>Requests to other servers\<close>

record upstream_request =
  up_method :: string
  up_url :: string
  up_headers :: "header list"
  up_body :: string

definition insert_header :: "header \<Rightarrow> header list \<Rightarrow> header list" where
  "insert_header h headers = filter (\<lambda>(name, _). \<not> eq_ignore_ascii_case name (fst h)) headers @ [h]"

text \<open>What a plain request to another server keeps of its headers.\<close>

definition http_proxy_headers :: "header list \<Rightarrow> bool \<Rightarrow> header list" where
  "http_proxy_headers headers managed_host =
     filter (\<lambda>(name, _). to_ascii_lowercase name \<notin> set (connection_nominated_headers headers) \<and>
       should_forward_http_proxy_header name managed_host) headers"

definition not_nominated :: "header list \<Rightarrow> header list" where
  "not_nominated headers =
     filter (\<lambda>(name, _). to_ascii_lowercase name \<notin> set (connection_nominated_headers headers)) headers"

definition gateway_headers :: "header list \<Rightarrow> bool \<Rightarrow> header list" where
  "gateway_headers headers replace_authorization =
     filter (\<lambda>(name, _). should_forward_request_header_to_gateway name replace_authorization) (not_nominated headers)"

definition has_authorization :: "header list \<Rightarrow> bool" where
  "has_authorization headers = list_ex (\<lambda>(name, _). eq_ignore_ascii_case name ''authorization'') (not_nominated headers)"

definition forwarded_authorization :: "header list \<Rightarrow> bool \<Rightarrow> string list" where
  "forwarded_authorization headers replace_authorization =
     map snd (filter (\<lambda>(name, _). eq_ignore_ascii_case name ''authorization'') (gateway_headers headers replace_authorization))"

text \<open>The credential that is substituted, and the one the proof is made for.\<close>

definition substitutes :: "header list \<Rightarrow> bool \<Rightarrow> bool" where
  "substitutes headers replace_authorization \<longleftrightarrow> replace_authorization \<or> \<not> has_authorization headers"

definition proof_bearer :: "header list \<Rightarrow> bool \<Rightarrow> string \<Rightarrow> string option" where
  "proof_bearer headers replace_authorization api_key =
     (if substitutes headers replace_authorization then Some api_key
      else case forwarded_authorization headers replace_authorization of [v] \<Rightarrow> bearer_token v | _ \<Rightarrow> None)"

definition device_cookie_headers :: "incoming_request \<Rightarrow> bool \<Rightarrow> (failure, header list) result" where
  "device_cookie_headers request replace_authorization =
     (if replace_authorization \<and> is_chatgpt_device_cookie_target (request_target request) \<and>
         ''cookie'' \<notin> set (connection_nominated_headers (request_headers request))
      then map_sum id (\<lambda>c. case c of Some v \<Rightarrow> [(''Cookie'', v)] | None \<Rightarrow> []) (chatgpt_device_cookie (request_headers request))
      else Inr [])"

definition gateway_request_headers :: "incoming_request \<Rightarrow> bool \<Rightarrow> string \<Rightarrow> (failure, header list) result" where
  "gateway_request_headers request replace_authorization api_key =
     map_sum id (\<lambda>cookie. gateway_headers (request_headers request) replace_authorization @
         (if substitutes (request_headers request) replace_authorization
          then [(''authorization'', ''Bearer '' @ api_key)] else []) @ cookie)
       (device_cookie_headers request replace_authorization)"

section \<open>The handshake of a WebSocket\<close>

text \<open>
  \<open>generated\<close> are the headers tungstenite puts in; the first copy of a name replaces what was there,
  later ones are added.
\<close>

fun copy_handshake :: "(header \<Rightarrow> bool) \<Rightarrow> string list \<Rightarrow> string list \<Rightarrow> header list \<Rightarrow> header list \<Rightarrow> (failure, header list) result" where
  "copy_handshake header_ok nominated copied upstream [] = Inr upstream"
| "copy_handshake header_ok nominated copied upstream ((name, v) # headers) =
     (let lower = to_ascii_lowercase name in
      if lower \<in> set nominated \<and> \<not> is_websocket_handshake_header name
      then copy_handshake header_ok nominated copied upstream headers
      else if eq_ignore_ascii_case name ''sec-websocket-extensions''
      then copy_handshake header_ok nominated copied upstream headers
      else if is_websocket_handshake_header name \<or> should_forward_request_header_to_gateway name True
      then (if \<not> header_ok (name, v) then Inl (bail (''invalid WebSocket header '' @ name))
            else copy_handshake header_ok nominated (lower # copied)
              ((if lower \<in> set copied then upstream
                else filter (\<lambda>(n, _). \<not> eq_ignore_ascii_case n name) upstream) @ [(name, v)]) headers)
      else copy_handshake header_ok nominated copied upstream headers)"

definition build_openai_websocket_request ::
  "(header \<Rightarrow> bool) \<Rightarrow> (proxy_url \<Rightarrow> string) \<Rightarrow> (proxy_url \<Rightarrow> string) \<Rightarrow> (proxy_url \<Rightarrow> (failure, header list) result) \<Rightarrow>
     proxy_url \<Rightarrow> header list \<Rightarrow> string \<Rightarrow> (string \<Rightarrow> string \<Rightarrow> string option) \<Rightarrow> (failure, upstream_request) result" where
  "build_openai_websocket_request header_ok url_text authority generated url incoming_headers gateway_key sign =
     bind_result (map_sum (in_context ''failed to build Gateway WebSocket request'') id (generated url)) (\<lambda>defaults.
     bind_result (copy_handshake header_ok (connection_nominated_headers incoming_headers) [] defaults incoming_headers) (\<lambda>copied.
       let authorization = (''authorization'', ''Bearer '' @ gateway_key); host = (''host'', authority url) in
       if \<not> header_ok authorization then Inl (bail ''failed to build Gateway WebSocket authorization'')
       else if \<not> header_ok host then Inl (bail ''invalid Gateway WebSocket host'')
       else let headers = insert_header host (insert_header authorization copied);
                proof = Option.bind (sign ''GET'' (wire_target url))
                  (\<lambda>v. if header_ok (proof_header_name, v) then Some (proof_header_name, v) else None)
            in Inr \<lparr>up_method = ''GET'', up_url = url_text url,
                    up_headers = (case proof of None \<Rightarrow> headers | Some h \<Rightarrow> insert_header h headers), up_body = []\<rparr>))"

section \<open>Responses\<close>

record upstream_response =
  response_status :: nat
  response_headers :: "header list"
  response_body :: "(string, string) result list"

definition header_values :: "header list \<Rightarrow> string \<Rightarrow> string list" where
  "header_values headers name = map snd (filter (\<lambda>(n, _). eq_ignore_ascii_case n name) headers)"

text \<open>\<open>HeaderValue::to_str\<close>.\<close>

definition visible_text :: "string \<Rightarrow> bool" where
  "visible_text v \<longleftrightarrow> list_all (\<lambda>c. is_ascii_graphic c \<or> c = CHR '' '' \<or> c = CHR 0x09) v"

definition websocket_response_headers :: "header list \<Rightarrow> header list" where
  "websocket_response_headers headers =
     (let nominated = concat (map (\<lambda>v. map (\<lambda>n. to_ascii_lowercase (trim n)) (split_on ((=) CHR '','') v))
            (filter visible_text (header_values headers ''connection'')))
      in filter (\<lambda>(name, _). let lower = to_ascii_lowercase name in
           should_forward_response_header lower \<and> lower \<notin> set nominated \<and>
           lower \<notin> {''authorization'', ''cookie'', ''set-cookie'', ''chatgpt-account-id''} \<and>
           \<not> (starts_with lower ''sec-websocket-'' \<and> lower \<noteq> ''sec-websocket-protocol'')) headers)"

definition response_line :: "header \<Rightarrow> string" where
  "response_line h = fst h @ '': '' @ snd h @ crlf"

definition append_websocket_upstream_headers :: "string \<Rightarrow> header list \<Rightarrow> string" where
  "append_websocket_upstream_headers response headers =
     response @ concat (map (\<lambda>(name, v). response_line (to_ascii_lowercase name, v)) (websocket_response_headers headers))"

definition build_openai_websocket_response :: "string \<Rightarrow> header list \<Rightarrow> string" where
  "build_openai_websocket_response accept_key headers =
     append_websocket_upstream_headers
       (''HTTP/1.1 101 Switching Protocols'' @ crlf @ ''Upgrade: websocket'' @ crlf @ ''Connection: Upgrade'' @ crlf @
        ''Sec-WebSocket-Accept: '' @ accept_key @ crlf) headers @ crlf"

definition max_websocket_rejection_body :: nat where "max_websocket_rejection_body = 64 * 1024"

definition relays_websocket_rejection :: "nat \<Rightarrow> bool" where
  "relays_websocket_rejection status \<longleftrightarrow> status = 400 \<or> status = 426"

definition body_metadata :: "string list" where
  "body_metadata = [''content-type'', ''content-encoding'', ''content-range'', ''content-md5'', ''content-digest'',
     ''repr-digest'', ''digest'', ''etag'', ''last-modified'']"

definition rejection_complete :: "header list \<Rightarrow> string \<Rightarrow> bool" where
  "rejection_complete headers buffered \<longleftrightarrow>
     header_value headers ''transfer-encoding'' = None \<and> header_value headers ''content-encoding'' = None \<and>
     length buffered \<le> max_websocket_rejection_body \<and>
     (case header_values headers ''content-length'' of
        [v] \<Rightarrow> visible_text v \<and> parse_unsigned usize_max (trim v) = Some (length buffered)
      | _ \<Rightarrow> False)"

definition build_openai_websocket_rejection :: "(nat \<Rightarrow> string option) \<Rightarrow> nat \<Rightarrow> header list \<Rightarrow> string option \<Rightarrow> string" where
  "build_openai_websocket_rejection reason_phrase status headers body =
     (let reason = (case reason_phrase status of Some r \<Rightarrow> r | None \<Rightarrow> []);
          buffered = (case body of Some b \<Rightarrow> b | None \<Rightarrow> []);
          complete = rejection_complete headers buffered;
          sent = (if complete then buffered else reason);
          kept = (if complete then headers else filter (\<lambda>(n, _). \<not> name_in n body_metadata) headers)
      in append_websocket_upstream_headers
           (''HTTP/1.1 '' @ decimal status @ '' '' @ reason @ crlf @ ''Connection: close'' @ crlf @
            ''Content-Length: '' @ decimal (length sent) @ crlf) kept @ crlf @ sent)"

end
