(* ===== verification/Proxy_Paths.thy ===== *)
theory Proxy_Paths
  imports Proxy_Headers
begin

text \<open>
  Which requests on the managed hosts are forwarded to the gateway and which are answered locally
  (\<open>local_proxy.rs\<close>): the lists of paths, the rewriting of ChatGPT targets and the fixed answers.
\<close>

section \<open>Forwarded paths\<close>

definition is_forwarded_anthropic_path :: "string \<Rightarrow> bool" where
  "is_forwarded_anthropic_path path \<longleftrightarrow>
     path = ''/v1/messages'' \<or> path = ''/v1/messages/count_tokens'' \<or> path = ''/v1/models'' \<or>
     starts_with path ''/v1/models/''"

definition is_chatgpt_owned_conversation_path :: "string \<Rightarrow> bool" where
  "is_chatgpt_owned_conversation_path path =
     (case (case strip_prefix ''/backend-api/conversation/'' path of
              Some tail \<Rightarrow> Some tail | None \<Rightarrow> strip_prefix ''/backend-api/conversations/'' path) of
        None \<Rightarrow> False
      | Some tail \<Rightarrow>
          let i = (case strip_suffix ''/messages'' tail of Some i \<Rightarrow> i | None \<Rightarrow> tail) in
          i \<noteq> [] \<and> length i \<le> 512 \<and> i \<noteq> ''init'' \<and>
          list_all (\<lambda>c. is_ascii_alphanumeric c \<or> c = CHR ''-'' \<or> c = CHR ''_'') i)"

definition is_forwarded_chatgpt_path :: "string \<Rightarrow> bool" where
  "is_forwarded_chatgpt_path path \<longleftrightarrow>
     path \<in> {''/chatgpt/backend-api/models'', ''/chatgpt/backend-api/devicecheck'',
       ''/chatgpt/backend-api/ios/attestation_challenge'', ''/chatgpt/backend-api/f/conversation''} \<or>
     starts_with path ''/chatgpt/backend-api/f/conversation/'' \<or>
     path \<in> {''/chatgpt/backend-api/conversation/init'', ''/chatgpt/backend-api/sentinel/chat-requirements/prepare'',
       ''/chatgpt/backend-api/files'', ''/chatgpt/backend-api/files/process_upload_stream'',
       ''/chatgpt/backend-api/estuary/upload_content_bytes'', ''/chatgpt/api/estuary/upload_content_bytes''} \<or>
     starts_with path ''/chatgpt/backend-api/files/download/'' \<or>
     path \<in> {''/chatgpt/backend-api/estuary/content'', ''/chatgpt/backend-api/celsius/ws/user'',
       ''/chatgpt/backend-api/saiai/chat-updates''} \<or>
     is_chatgpt_owned_conversation_path (without_chatgpt path)"

definition is_forwarded_openai_path :: "string \<Rightarrow> bool" where
  "is_forwarded_openai_path path \<longleftrightarrow>
     path = ''/v1/responses'' \<or> starts_with path ''/v1/responses/'' \<or> path = ''/v1/models'' \<or>
     starts_with path ''/v1/models/'' \<or> path = ''/v1/codex/images/generations'' \<or> path = ''/v1/codex/images/edits'' \<or>
     is_forwarded_chatgpt_path path"

section \<open>Targets of ChatGPT\<close>

text \<open>\<open>replacen(from, to, 1)\<close>.\<close>

fun replace_first :: "string \<Rightarrow> string \<Rightarrow> string \<Rightarrow> string" where
  "replace_first old new [] = (if old = [] then new else [])"
| "replace_first old new (c # s) =
     (if starts_with (c # s) old then new @ drop (length old) (c # s) else c # replace_first old new s)"

definition codex_target :: "string \<Rightarrow> string \<Rightarrow> (failure, string) result" where
  "codex_target path target =
     (let query = map_option snd (split_once CHR ''?'' target);
          exact = (\<lambda>p. Inr (case query of Some q \<Rightarrow> if q \<noteq> [] then p @ ''?'' @ q else p | None \<Rightarrow> p))
      in if path = ''/backend-api/codex/responses'' then exact ''/v1/responses''
         else if starts_with path ''/backend-api/codex/responses/''
           then Inr (replace_first ''/backend-api/codex/responses'' ''/v1/responses'' target)
         else if path = ''/backend-api/codex/models'' then exact ''/v1/models''
         else if starts_with path ''/backend-api/codex/models/''
           then Inr (replace_first ''/backend-api/codex/models'' ''/v1/models'' target)
         else if path = ''/backend-api/codex/images/generations'' then exact ''/v1/codex/images/generations''
         else if path = ''/backend-api/codex/images/edits'' then exact ''/v1/codex/images/edits''
         else Inl (bail (''unsupported ChatGPT Codex path: '' @ path)))"

definition normalize_chatgpt_gateway_target :: "url_parser \<Rightarrow> string \<Rightarrow> (failure, string) result" where
  "normalize_chatgpt_gateway_target parse_url target =
     bind_result (request_path parse_url target) (\<lambda>path. codex_target path target)"

definition is_chat_path :: "string \<Rightarrow> bool" where
  "is_chat_path path \<longleftrightarrow>
     path \<in> {''/backend-api/models'', ''/backend-api/devicecheck'', ''/backend-api/ios/attestation_challenge'',
       ''/backend-api/f/conversation''} \<or>
     starts_with path ''/backend-api/f/conversation/'' \<or>
     path \<in> {''/backend-api/conversation/init'', ''/backend-api/sentinel/chat-requirements/prepare'', ''/backend-api/files'',
       ''/backend-api/files/process_upload_stream'', ''/backend-api/estuary/upload_content_bytes''} \<or>
     starts_with path ''/backend-api/files/download/'' \<or>
     path \<in> {''/backend-api/estuary/content'', ''/backend-api/celsius/ws/user'', ''/backend-api/saiai/chat-updates''} \<or>
     is_chatgpt_owned_conversation_path path"

definition normalize_chatgpt_chat_target :: "url_parser \<Rightarrow> string \<Rightarrow> (failure, string) result" where
  "normalize_chatgpt_chat_target parse_url target =
     bind_result (request_path parse_url target) (\<lambda>path.
       if path = ''/api/estuary/upload_content_bytes'' then Inr (''/chatgpt'' @ target)
       else if path = ''/celsius/ws/user''
         then Inr (replace_first ''/celsius/ws/user'' ''/chatgpt/backend-api/celsius/ws/user'' target)
       else if \<not> is_chat_path path then Inl (bail (''unsupported ChatGPT ordinary Chat path: '' @ path))
       else Inr (replace_first ''/backend-api/'' ''/chatgpt/backend-api/'' target))"

section \<open>Fixed answers\<close>

record static_response =
  static_status :: nat
  content_type :: string
  static_body :: string
  static_reason :: string

definition json_answer :: "nat \<Rightarrow> string \<Rightarrow> string \<Rightarrow> static_response" where
  "json_answer status body reason =
     \<lparr>static_status = status, content_type = ''application/json'', static_body = body, static_reason = reason\<rparr>"

definition empty_answer :: "string \<Rightarrow> static_response" where
  "empty_answer reason = \<lparr>static_status = 204, content_type = ''text/plain'', static_body = [], static_reason = reason\<rparr>"

definition local_sidecar_response :: "url_parser \<Rightarrow> incoming_request \<Rightarrow> static_response option" where
  "local_sidecar_response parse_url request =
     (case request_path parse_url (request_target request) of
        Inl _ \<Rightarrow> Some \<lparr>static_status = 400, content_type = ''text/plain'', static_body = ''bad request'',
                      static_reason = ''invalid_target''\<rparr>
      | Inr path \<Rightarrow>
          (let verb = request_method request in
           if path = ''/api/web/domain_info'' \<and> verb = ''GET''
             then Some (json_answer 200 ''{\"can_fetch\":true}'' ''web_domain_info_allow'')
           else if path = ''/api/hello'' \<and> (verb = ''GET'' \<or> verb = ''HEAD'')
             then Some (json_answer 200 ''{\"message\":\"hello\"}'' ''api_hello'')
           else if path = ''/api/claude_code/policy_limits''
             then Some (json_answer 200 ''{\"restrictions\":{}}'' ''claude_code_policy_limits'')
           else if path = ''/api/claude_code/settings'' then Some (empty_answer ''claude_code_settings'')
           else if starts_with path ''/v1/mcp_servers''
             then Some (json_answer 200 ''{\"data\":[],\"has_more\":false}'' ''mcp_servers_empty'')
           else if starts_with path ''/api/event_logging/'' \<or> starts_with path ''/api/eval/'' \<or>
               starts_with path ''/api/claude_cli/bootstrap'' \<or> starts_with path ''/api/claude_code_penguin_mode'' \<or>
               starts_with path ''/api/claude_code_grove''
             then Some (empty_answer ''nonessential_sidecar_noop'')
           else if starts_with path ''/api/oauth/'' then Some (json_answer 200 ''{}'' ''oauth_sidecar_empty'')
           else None))"

definition desktop_control_unsupported_response :: static_response where
  "desktop_control_unsupported_response =
     json_answer 501 ''{\"error\":{\"type\":\"desktop_control_unsupported\",\"message\":\"This Desktop control endpoint is unavailable through SAIAI.\"}}''
       ''desktop_control_unsupported''"

definition chatgpt_chat_disabled_response :: "url_parser \<Rightarrow> incoming_request \<Rightarrow> static_response option" where
  "chatgpt_chat_disabled_response parse_url request =
     (case normalize_chatgpt_chat_target parse_url (request_target request) of
        Inl _ \<Rightarrow> None
      | Inr _ \<Rightarrow> Some (json_answer 501
          ''{\"error\":{\"type\":\"chat_mode_temporarily_disabled\",\"message\":\"Chat mode is temporarily unsupported; switch to Codex mode.\"}}''
          ''chat_mode_temporarily_disabled''))"

definition desktop_statsig_max_request_bytes :: nat where
  "desktop_statsig_max_request_bytes = 1024 * 1024"

definition desktop_statsig_local_payload :: string where
  "desktop_statsig_local_payload = ''{\"feature_gates\":{},\"dynamic_configs\":{},\"layer_configs\":{\"72216192\":{\"name\":\"72216192\",\"value\":{\"enable_i18n\":true},\"rule_id\":\"saiai-local-i18n\",\"secondary_exposures\":[],\"is_user_in_experiment\":false,\"is_experiment_active\":false,\"allocated_experiment_name\":\"\",\"explicit_parameters\":[\"enable_i18n\"],\"undelegated_secondary_exposures\":[]}},\"has_updates\":true,\"time\":0,\"user\":{\"userID\":\"saiai-local-proxy-user\",\"customIDs\":{\"stableID\":\"saiai-local-proxy\"}}}''"

definition plugin_paths :: "string list" where
  "plugin_paths = [''/backend-api/plugins/featured'', ''/backend-api/ps/plugins/home'', ''/ps/plugins/home'',
     ''/backend-api/ps/plugins/suggested/codex'', ''/backend-api/ps/plugins/list'']"

definition plugin_response :: "string \<Rightarrow> static_response option" where
  "plugin_response path =
     (if path = ''/backend-api/plugins/featured'' \<or> path = ''/backend-api/ps/plugins/list''
        then Some (json_answer 200 ''{\"plugins\":[],\"pagination\":{\"total\":0,\"limit\":200,\"offset\":0}}'' ''desktop_plugins_empty'')
      else if path = ''/backend-api/ps/plugins/home'' \<or> path = ''/ps/plugins/home''
        then Some (json_answer 200 ''{\"sections\":[]}'' ''desktop_plugin_home_empty'')
      else if path = ''/backend-api/ps/plugins/suggested/codex''
        then Some (json_answer 200 ''{\"plugins\":[],\"enabled\":false}'' ''desktop_recommended_plugins_disabled'')
      else None)"

definition notification_response :: "bool \<Rightarrow> static_response" where
  "notification_response is_get =
     (if is_get then json_answer 200 ''{\"settings\":[]}'' ''desktop_notification_settings_empty''
      else json_answer 501
        ''{\"error\":{\"type\":\"desktop_notification_settings_unsupported\",\"message\":\"Notification settings are unavailable through SAIAI Desktop.\"}}''
        ''desktop_notification_settings_unsupported'')"

text \<open>\<open>payload\<close> is the text of the local bootstrap document with the features that are on.\<close>

definition initialize_response :: "string \<Rightarrow> incoming_request \<Rightarrow> static_response" where
  "initialize_response payload request =
     (if \<not> eq_ignore_ascii_case (request_method request) ''POST''
        then json_answer 405 ''{\"error\":\"method_not_allowed\"}'' ''desktop_statsig_method_not_allowed''
      else if length (request_body request) > desktop_statsig_max_request_bytes
        then json_answer 413 ''{\"error\":\"payload_too_large\"}'' ''desktop_statsig_payload_too_large''
      else json_answer 200 payload ''desktop_statsig_local_bootstrap'')"

definition metrics_response :: "incoming_request \<Rightarrow> static_response" where
  "metrics_response request =
     (let json = (case header_value (request_headers request) ''content-type'' of
            None \<Rightarrow> False | Some v \<Rightarrow> starts_with v ''application/json'')
      in \<lparr>static_status = 200, content_type = (if json then ''application/json'' else ''application/x-protobuf''),
          static_body = (if json then ''{}'' else []), static_reason = ''desktop_metrics_noop''\<rparr>)"

definition is_control_path :: "string \<Rightarrow> bool" where
  "is_control_path path \<longleftrightarrow>
     starts_with path ''/backend-api/wham/'' \<or> starts_with path ''/backend-api/'' \<or> starts_with path ''/wham/'' \<or>
     starts_with path ''/accounts/'' \<or> path = ''/me'' \<or> starts_with path ''/settings/'' \<or> starts_with path ''/beacons/'' \<or>
     path = ''/settings/user'' \<or> path = ''/automations''"

definition chatgpt_sidecar_response_with ::
  "url_parser \<Rightarrow> string \<Rightarrow> incoming_request \<Rightarrow> bool \<Rightarrow> static_response option" where
  "chatgpt_sidecar_response_with parse_url browser_payload request features =
     (case request_path parse_url (request_target request) of
        Inl _ \<Rightarrow> None
      | Inr path \<Rightarrow>
          (let is_post = eq_ignore_ascii_case (request_method request) ''POST'';
               is_get = eq_ignore_ascii_case (request_method request) ''GET''
           in if path \<in> set plugin_paths \<and> \<not> is_get then Some desktop_control_unsupported_response
              else if path = ''/backend-api/celsius/ws/user'' \<or> path = ''/celsius/ws/user''
                then Some (json_answer 501
                  ''{\"error\":{\"type\":\"native_chat_updates_unsupported\",\"message\":\"Background Chat updates are not supported yet.\"}}''
                  ''native_chat_updates_unsupported'')
              else if path = ''/v1/initialize''
                then Some (initialize_response (if features then browser_payload else desktop_statsig_local_payload) request)
              else if path = ''/ces/statsc/flush'' \<and> is_post
                then Some (json_answer 200 ''{\"success\":true}'' ''desktop_statsc_noop'')
              else if path = ''/otlp/v1/metrics'' \<and> is_post then Some (metrics_response request)
              else if path = ''/ces/v1/rgstr'' \<or> path = ''/ces/v1/telemetry/intake''
                then Some (empty_answer ''desktop_telemetry_noop'')
              else if plugin_response path \<noteq> None then plugin_response path
              else if path = ''/backend-api/notifications/settings'' \<or> path = ''/notifications/settings''
                then Some (notification_response is_get)
              else if is_control_path path then Some desktop_control_unsupported_response
              else None))"

end
