(* ===== verification/Proxy_Identity.thy ===== *)
theory Proxy_Identity
  imports Proxy_Paths Json
begin

text \<open>
  The local identity the desktop application is shown (\<open>chatgpt_account_sidecar_response\<close> and its helpers
  in \<open>local_proxy.rs\<close>): which account and user a request speaks for, and the documents that describe them.
  \<open>serde_json\<close>, \<open>base64\<close>, the \<open>url\<close> crate and the file system are parameters.
\<close>

record web =
  web_url :: url_parser
  from_slice :: "string \<Rightarrow> json option"
  to_vec :: "json \<Rightarrow> string option"
  base64_text :: "string \<Rightarrow> string option"
  base64_url_text :: "string \<Rightarrow> string option"
  query_pairs :: "proxy_url \<Rightarrow> (string \<times> string) list"
  env_variable :: "string \<Rightarrow> string option"
  read_text :: "string list \<Rightarrow> string option"

definition saiai_desktop_email :: string where "saiai_desktop_email = ''saiai-local-proxy@example.invalid''"

section \<open>Who is asking\<close>

definition desktop_statsig_identity_value :: "json \<Rightarrow> string option" where
  "desktop_statsig_identity_value v =
     (case as_str v of
        None \<Rightarrow> None
      | Some text \<Rightarrow> if text \<noteq> [] \<and> length text \<le> 512 \<and> \<not> has_control text then Some text else None)"

definition auth_claim :: string where "auth_claim = ''https://api.openai.com/auth''"

definition bearer_claims :: "web \<Rightarrow> string \<Rightarrow> json option" where
  "bearer_claims W token =
     (case split_on ((=) CHR ''.'') token of
        _ # payload # _ \<Rightarrow> Option.bind (base64_url_text W payload) (from_slice W)
      | _ \<Rightarrow> None)"

definition bearer_of :: "header list \<Rightarrow> string option" where
  "bearer_of headers =
     Option.bind (header_value headers ''authorization'') (\<lambda>a. map_option trim (strip_prefix ''Bearer '' a))"

definition oauth_claim_user_id :: "web \<Rightarrow> header list \<Rightarrow> string option" where
  "oauth_claim_user_id W headers =
     Option.bind (bearer_of headers) (\<lambda>token.
       if length token > 32 * 1024 then None
       else Option.bind (bearer_claims W token) (\<lambda>claims.
         Option.bind (get_path claims [auth_claim, ''chatgpt_user_id'']) desktop_statsig_identity_value))"

definition oauth_claim_account_id :: "web \<Rightarrow> header list \<Rightarrow> string option" where
  "oauth_claim_account_id W headers =
     Option.bind (bearer_of headers) (\<lambda>token. Option.bind (bearer_claims W token) (\<lambda>claims.
       case Option.bind (get_path claims [auth_claim, ''chatgpt_account_id'']) as_str of
         Some i \<Rightarrow> Some i
       | None \<Rightarrow> get_str claims ''chatgpt_account_id''))"

definition desktop_account_id_fallback :: "web \<Rightarrow> string option" where
  "desktop_account_id_fallback W =
     Option.bind
       (case env_variable W ''SAIAI_HOME'' of
          Some root \<Rightarrow> Some [root]
        | None \<Rightarrow> map_option (\<lambda>home. [home, ''.saiai'']) (env_variable W ''HOME'')) (\<lambda>root.
     Option.bind (read_text W (root @ [''desktop/account-id''])) (\<lambda>v.
       if trim v = [] then None else Some (trim v)))"

section \<open>Paths of the identity\<close>

definition desktop_identity_path :: "string \<Rightarrow> string" where
  "desktop_identity_path path =
     (case strip_prefix ''/backend-api'' path of
        Some relative \<Rightarrow> if starts_with relative ''/'' then relative else path
      | None \<Rightarrow> path)"

definition is_desktop_full_account_path :: "string \<Rightarrow> bool" where
  "is_desktop_full_account_path path \<longleftrightarrow> desktop_identity_path path = ''/accounts/check/v4-2023-04-27''"

definition desktop_settings_account_id :: "string \<Rightarrow> string option" where
  "desktop_settings_account_id path =
     Option.bind (strip_prefix ''/accounts/'' (desktop_identity_path path)) (\<lambda>r.
     Option.bind (strip_suffix ''/settings'' r) (\<lambda>account_id.
       if account_id \<noteq> [] \<and> CHR ''/'' \<notin> set account_id then Some account_id else None))"

definition is_desktop_identity_read_path :: "string \<Rightarrow> bool" where
  "is_desktop_identity_read_path path \<longleftrightarrow>
     desktop_identity_path path \<in> {''/accounts/optimized/check'', ''/wham/accounts/check'', ''/accounts/verified_access'',
       ''/conversations'', ''/system_hints'', ''/wham/profiles/me'', ''/me'', ''/payments/payment_methods'',
       ''/settings/user'', ''/wham/work/settings''} \<or>
     is_desktop_full_account_path path \<or> desktop_settings_account_id path \<noteq> None"

section \<open>Documents\<close>

abbreviation obj :: "(string \<times> json) list \<Rightarrow> json" where "obj \<equiv> JObject"
abbreviation str :: "string \<Rightarrow> json" where "str \<equiv> JString"
abbreviation false_value :: json where "false_value \<equiv> JBool False"
abbreviation true_value :: json where "true_value \<equiv> JBool True"

definition desktop_account_record :: "string \<Rightarrow> string \<Rightarrow> json" where
  "desktop_account_record account_id user_id =
     obj [(''account'', obj [(''account_id'', str account_id), (''account_user_id'', str user_id),
            (''account_user_role'', str ''standard-user''), (''account_owner_id'', JNull), (''structure'', str ''personal''),
            (''plan_type'', str ''plus''), (''is_zdr'', false_value), (''is_openai_internal'', false_value),
            (''is_deactivated'', false_value), (''is_fedramp_compliant_workspace'', false_value),
            (''is_hipaa_compliant_workspace'', false_value), (''ekm_config'', JNull)]),
          (''entitlement'', obj [(''subscription_id'', JNull), (''subscription_plan'', JNull), (''expires_at'', JNull),
            (''renews_at'', JNull), (''has_active_subscription'', false_value),
            (''is_active_subscription_gratis'', false_value), (''trial'', JNull)]),
          (''last_active_subscription'', obj [(''subscription_id'', JNull), (''purchase_origin_platform'', JNull),
            (''will_renew'', false_value)]),
          (''eligible_offers'', JArray []), (''eligible_promo_campaigns'', obj []), (''features'', JArray []),
          (''can_access_with_session'', true_value)]"

definition desktop_account_catalog :: "string \<Rightarrow> string \<Rightarrow> json" where
  "desktop_account_catalog account_id user_id =
     obj [(''account_ordering'', JArray [str account_id]),
          (''accounts'', obj [(account_id, desktop_account_record account_id user_id)])]"

definition desktop_control_gates :: "string list" where
  "desktop_control_gates = [''410262010'', ''410065390'', ''1506311413'', ''1892382740'', ''1146407612'']"

text \<open>The value \<open>desktop_statsig_local_payload\<close> denotes.\<close>

definition desktop_statsig_local_value :: json where
  "desktop_statsig_local_value =
     obj [(''feature_gates'', obj []), (''dynamic_configs'', obj []),
          (''layer_configs'', obj [(''72216192'', obj [(''name'', str ''72216192''),
            (''value'', obj [(''enable_i18n'', true_value)]), (''rule_id'', str ''saiai-local-i18n''),
            (''secondary_exposures'', JArray []), (''is_user_in_experiment'', false_value),
            (''is_experiment_active'', false_value), (''allocated_experiment_name'', str []),
            (''explicit_parameters'', JArray [str ''enable_i18n'']), (''undelegated_secondary_exposures'', JArray [])])]),
          (''has_updates'', true_value), (''time'', JNumber ''0''),
          (''user'', obj [(''userID'', str ''saiai-local-proxy-user''),
            (''customIDs'', obj [(''stableID'', str ''saiai-local-proxy'')])])]"

definition control_gate :: "string \<Rightarrow> json" where
  "control_gate gate = obj [(''name'', str gate), (''value'', true_value), (''rule_id'', str ''saiai-local-browser-use''),
     (''id_type'', str ''userID''), (''secondary_exposures'', JArray [])]"

definition json_field :: "json \<Rightarrow> string \<Rightarrow> json" where
  "json_field v key = (case json_get v key of Some x \<Rightarrow> x | None \<Rightarrow> JNull)"

definition desktop_statsig_base :: "bool \<Rightarrow> json" where
  "desktop_statsig_base features =
     (if features
      then fold (\<lambda>gate payload. json_set ''feature_gates''
             (json_set gate (control_gate gate) (json_field payload ''feature_gates'')) payload)
             desktop_control_gates desktop_statsig_local_value
      else desktop_statsig_local_value)"

definition desktop_statsig_payload :: "json \<Rightarrow> bool \<Rightarrow> json" where
  "desktop_statsig_payload user features = json_set ''user'' user (desktop_statsig_base features)"

definition statsig_browser_payload :: "(json \<Rightarrow> string) \<Rightarrow> string" where
  "statsig_browser_payload to_text = to_text (desktop_statsig_base True)"

text \<open>Only the identity of the request is kept.\<close>

definition desktop_statsig_user :: "json \<Rightarrow> json option" where
  "desktop_statsig_user input =
     Option.bind (Option.bind (json_get input ''userID'') desktop_statsig_identity_value) (\<lambda>user_id.
       let ids = List.map_filter (\<lambda>key. map_option (\<lambda>v. (key, str v))
                   (Option.bind (get_path input [''customIDs'', key]) desktop_statsig_identity_value))
                   [''account_id'', ''workspace_id'', ''stableID''];
           chatgpt = Option.bind (get_path input [''custom'', ''auth_method'']) as_str = Some ''chatgpt''
       in Some (obj ([(''userID'', str user_id), (''customIDs'', obj ids)] @
            (if chatgpt then [(''custom'', obj [(''auth_method'', str ''chatgpt'')])] else []))))"

definition desktop_statsig_request :: "web \<Rightarrow> incoming_request \<Rightarrow> json option" where
  "desktop_statsig_request W request =
     (if length (request_body request) > desktop_statsig_max_request_bytes then None
      else Option.bind (web_url W (''http://localhost'' @ request_target request)) (\<lambda>u.
        let encoding = filter (\<lambda>(key, _). key = ''se'') (query_pairs W u) in
        if encoding = [] then from_slice W (request_body request)
        else if map snd encoding \<noteq> [''1''] then None
        else Option.bind (base64_text W (rev (request_body request))) (from_slice W)))"

section \<open>Answers\<close>

type_synonym account_answer = "nat \<times> string \<times> string"

definition unsupported_control :: account_answer where
  "unsupported_control = (501, static_body desktop_control_unsupported_response, ''desktop_control_unsupported'')"

definition json_rpc :: "json \<Rightarrow> (string \<times> json) \<Rightarrow> json" where
  "json_rpc i r = obj [(''jsonrpc'', str ''2.0''), (''id'', i), r]"

definition rpc_error :: "string \<Rightarrow> string \<Rightarrow> string \<times> json" where
  "rpc_error number message = (''error'', obj [(''code'', JNumber number), (''message'', str message)])"

definition mcp_response :: "web \<Rightarrow> incoming_request \<Rightarrow> account_answer option" where
  "mcp_response W request =
     Option.bind (from_slice W (request_body request)) (\<lambda>request_json.
       let i = json_field request_json ''id''; verb = get_str request_json ''method'' in
       if i = JNull \<or> (case verb of Some v \<Rightarrow> starts_with v ''notifications/'' | None \<Rightarrow> False)
       then Some (202, [], ''desktop_mcp_notification'')
       else let result =
              (case verb of
                 None \<Rightarrow> rpc_error ''-32600'' ''Invalid Request''
               | Some v \<Rightarrow>
                   if v = ''initialize'' then (''result'', obj [(''protocolVersion'', str ''2025-03-26''),
                     (''capabilities'', obj [(''tools'', obj [])]),
                     (''serverInfo'', obj [(''name'', str ''saiai-local''), (''version'', str ''1'')])])
                   else if v = ''tools/list'' then (''result'', obj [(''tools'', JArray [])])
                   else if v = ''ping'' then (''result'', obj [])
                   else rpc_error ''-32601'' ''Method not found'')
            in map_option (\<lambda>body. (200, body, ''desktop_mcp_response'')) (to_vec W (json_rpc i result)))"

definition statsig_bootstrap :: "web \<Rightarrow> incoming_request \<Rightarrow> bool \<Rightarrow> string \<Rightarrow> string \<Rightarrow> json option" where
  "statsig_bootstrap W request features account_id user_id =
     (let stable = Option.bind (from_slice W (request_body request)) (\<lambda>body.
            Option.bind (json_get body ''stable_id'') desktop_statsig_identity_value);
          ids = [(''account_id'', str account_id), (''workspace_id'', str account_id)] @
            (case stable of Some v \<Rightarrow> [(''stableID'', str v)] | None \<Rightarrow> []);
          user = obj [(''userID'', str user_id), (''custom'', obj [(''auth_method'', str ''chatgpt'')]), (''customIDs'', obj ids)]
      in map_option (\<lambda>text. obj [(''statsigPayload'', str text)]) (to_vec W (desktop_statsig_payload user features)))"

definition wham_account :: "string \<Rightarrow> string \<Rightarrow> json" where
  "wham_account account_id user_id =
     obj [(''id'', str account_id), (''account_user_id'', str user_id), (''account_user_role'', str ''standard-user''),
          (''workspace_backend_origin'', str ''NO_CONSTRAINT''), (''account_routing_override'', str ''NO_CONSTRAINT''),
          (''structure'', str ''personal''), (''plan_type'', str ''plus''), (''is_zdr'', false_value),
          (''is_openai_internal'', false_value), (''can_access_with_session'', true_value),
          (''enable_account_switching'', false_value), (''is_deactivated'', false_value), (''name'', JNull),
          (''profile_picture_url'', JNull)]"

definition empty_profile :: json where
  "empty_profile = obj [(''display_name'', JNull), (''username'', JNull), (''profile_picture_url'', JNull)]"

text \<open>Documents that depend on the path alone.\<close>

definition identity_document :: "string \<Rightarrow> bool \<Rightarrow> bool \<Rightarrow> string \<Rightarrow> string \<Rightarrow> json option" where
  "identity_document relative is_get features account_id user_id =
     (if relative = ''/accounts/optimized/check'' then
        Some (obj [(''account'', obj [(''id'', str account_id), (''is_fedramp_compliant_workspace'', false_value)]),
          (''account_user'', obj [(''account_id'', str account_id), (''user_id'', str user_id),
            (''seat_type'', str ''default''), (''trial_expires_at'', JNull), (''pending_seat_upgrade_request'', false_value)])])
      else if relative = ''/wham/accounts/check'' then
        Some (obj [(''account_ordering'', JArray [str account_id]), (''default_account_id'', str account_id),
          (''accounts'', JArray [wham_account account_id user_id])])
      else if relative = ''/accounts/check/v4-2023-04-27'' then Some (desktop_account_catalog account_id user_id)
      else if relative = ''/accounts/verified_access'' then Some JNull
      else if relative = ''/conversations'' then
        Some (obj [(''items'', JArray []), (''total'', JNumber ''0''), (''limit'', JNumber ''100''), (''offset'', JNumber ''0'')])
      else if relative = ''/system_hints'' \<and> is_get then Some (obj [(''system_hints'', JArray [])])
      else if relative = ''/wham/profiles/me'' then
        Some (obj [(''profile'', empty_profile), (''stats'', obj [(''daily_usage_buckets'', JNull)]),
          (''metadata'', obj [(''stats_error'', JNull)])])
      else if relative = ''/profiles/me'' \<and> is_get then Some (obj [(''profile_details'', empty_profile)])
      else if relative = ''/me'' then
        Some (obj [(''id'', str account_id), (''account_id'', str account_id), (''email'', str saiai_desktop_email)])
      else if relative = ''/payments/payment_methods'' then Some (obj [(''payment_methods'', JArray [])])
      else if relative = ''/settings/user'' then Some (obj [])
      else if relative = ''/wham/work/settings'' \<and> features then Some (obj [(''settings'', JNull)])
      else None)"

definition identity_answer :: "web \<Rightarrow> json \<Rightarrow> account_answer option" where
  "identity_answer W document =
     map_option (\<lambda>body. (200, body, ''desktop_account_identity'')) (to_vec W document)"

definition account_of :: "web \<Rightarrow> incoming_request \<Rightarrow> string" where
  "account_of W request =
     (case header_value (request_headers request) ''chatgpt-account-id'' of
        Some i \<Rightarrow> i
      | None \<Rightarrow>
          (case oauth_claim_account_id W (request_headers request) of
             Some i \<Rightarrow> i
           | None \<Rightarrow>
               (case desktop_account_id_fallback W of Some i \<Rightarrow> i | None \<Rightarrow> ''fixture-chatgpt-account'')))"

definition user_of :: "web \<Rightarrow> incoming_request \<Rightarrow> string" where
  "user_of W request =
     (case oauth_claim_user_id W (request_headers request) of Some i \<Rightarrow> i | None \<Rightarrow> ''saiai-local-proxy-user'')"

text \<open>The match on the relative path.\<close>

definition identity_response :: "web \<Rightarrow> incoming_request \<Rightarrow> bool \<Rightarrow> string \<Rightarrow> account_answer option" where
  "identity_response W request features path =
     (let relative = desktop_identity_path path; is_get = eq_ignore_ascii_case (request_method request) ''GET'';
          account_id = account_of W request; user_id = user_of W request
      in case identity_document relative is_get features account_id user_id of
           Some document \<Rightarrow> identity_answer W document
         | None \<Rightarrow>
             if relative = ''/wham/statsig/bootstrap'' then
               (if length (request_body request) > desktop_statsig_max_request_bytes
                then Some (413, ''{\"error\":\"payload_too_large\"}'', ''desktop_statsig_payload_too_large'')
                else Option.bind (statsig_bootstrap W request features account_id user_id) (identity_answer W))
             else if relative = ''/profiles/me'' then
               Some (501, ''{\"error\":{\"type\":\"desktop_profile_update_unsupported\",\"message\":\"Profile updates are unavailable through SAIAI Desktop.\"}}'',
                 ''desktop_profile_update_unsupported'')
             else (case desktop_settings_account_id path of
                 Some i \<Rightarrow> if i \<noteq> account_id then None
                   else identity_answer W (obj [(''account_id'', str account_id), (''settings'', obj [])])
               | None \<Rightarrow> None))"

definition chatgpt_account_sidecar_response_with :: "web \<Rightarrow> incoming_request \<Rightarrow> bool \<Rightarrow> account_answer option" where
  "chatgpt_account_sidecar_response_with W request features =
     (case request_path (web_url W) (request_target request) of
        Inl _ \<Rightarrow> None
      | Inr path \<Rightarrow>
          (let is_get = eq_ignore_ascii_case (request_method request) ''GET'';
               is_post = eq_ignore_ascii_case (request_method request) ''POST''
           in if is_desktop_identity_read_path path \<and> \<not> is_get then
                Some (501, ''{\"error\":{\"type\":\"desktop_identity_write_unsupported\",\"message\":\"Hosted account changes are unavailable through SAIAI Desktop.\"}}'',
                  ''desktop_identity_write_unsupported'')
              else if path = ''/v1/initialize'' \<and> is_post \<and> length (request_body request) \<le> desktop_statsig_max_request_bytes then
                Option.bind (desktop_statsig_request W request) (\<lambda>body.
                Option.bind (Option.bind (json_get body ''user'') desktop_statsig_user) (\<lambda>user.
                  map_option (\<lambda>bytes. (200, bytes, ''desktop_statsig_identity_bootstrap''))
                    (to_vec W (desktop_statsig_payload user features))))
              else if (path = ''/backend-api/wham/statsig/bootstrap'' \<or> path = ''/wham/statsig/bootstrap'') \<and>
                  request_method request \<noteq> ''GET'' \<and> request_method request \<noteq> ''POST'' then Some unsupported_control
              else if path = ''/backend-api/ps/mcp'' then
                (if \<not> is_post then Some unsupported_control else mcp_response W request)
              else identity_response W request features path))"

end
