(* ===== verification/Proxy_Websocket.thy ===== *)
theory Proxy_Websocket
  imports Proxy_Identity
begin

text \<open>
  The relay between a client's WebSocket and the gateway's (\<open>relay_openai_websocket\<close>).  The messages and
  read errors of both sides come as one list in the order they arrive; a send fails when its event says so.
\<close>

datatype ws_message =
  TextMessage string | BinaryMessage string | PingMessage string | PongMessage string
  | CloseMessage "(nat \<times> string) option" | RawFrame string

datatype ws_input = Received ws_message | CapacityError failure | ReadError failure | SocketEnded

datatype ws_event = FromClient ws_input "failure option" | FromGateway ws_input "failure option"

datatype ws_sent = ToGateway ws_message | ToClient ws_message

datatype ws_handshake =
  HandshakeDone nat "header list" "ws_event list"
  | HandshakeRejected nat "header list" "string option"
  | HandshakeFailed failure

fun is_close :: "ws_message \<Rightarrow> bool" where
  "is_close (CloseMessage _) = True"
| "is_close _ = False"

definition message_too_big_close :: ws_message where
  "message_too_big_close = CloseMessage (Some (1009, ''message too big''))"

fun relay_openai_websocket :: "ws_event list \<Rightarrow> (failure, unit) result \<times> ws_sent list" where
  "relay_openai_websocket [] = (Inr (), [])"
| "relay_openai_websocket (FromClient input failed # events) =
     (case input of
        Received m \<Rightarrow>
          (case failed of
             Some e \<Rightarrow> (Inl (in_context ''failed to forward Codex WebSocket frame to Gateway'' e), [])
           | None \<Rightarrow> if is_close m then (Inr (), [ToGateway m])
                     else apsnd ((#) (ToGateway m)) (relay_openai_websocket events))
      | CapacityError e \<Rightarrow>
          (Inl (in_context ''Codex WebSocket read failed'' e), [ToGateway message_too_big_close, ToClient message_too_big_close])
      | ReadError e \<Rightarrow> (Inl (in_context ''Codex WebSocket read failed'' e), [])
      | SocketEnded \<Rightarrow> (Inr (), []))"
| "relay_openai_websocket (FromGateway input failed # events) =
     (case input of
        Received m \<Rightarrow>
          (case failed of
             Some e \<Rightarrow> (Inl (in_context ''failed to forward Gateway WebSocket frame to Codex'' e), [])
           | None \<Rightarrow> if is_close m then (Inr (), [ToClient m])
                     else apsnd ((#) (ToClient m)) (relay_openai_websocket events))
      | CapacityError e \<Rightarrow> (Inl (in_context ''Gateway WebSocket read failed'' e), [])
      | ReadError e \<Rightarrow> (Inl (in_context ''Gateway WebSocket read failed'' e), [])
      | SocketEnded \<Rightarrow> (Inr (), []))"

end
