(* ===== verification/Client_Enrollment.thy ===== *)
theory Client_Enrollment
  imports Client_Proof
begin

text \<open>
  Enrollment of the device with a gateway (\<open>client_proof.rs\<close>), and what the client proof guarantees: the
  signed message determines the request, a revoked device does not sign, every credential is enrolled at
  most once and only sixteen on demand, and the retry loop ends with the first definite answer.
\<close>

section \<open>One attempt\<close>

datatype enroll_outcome = Enrolled string | Revoked | Stop string | Retry string

definition classify_enroll_response :: "(string \<Rightarrow> json option) \<Rightarrow> nat \<Rightarrow> string \<Rightarrow> enroll_outcome" where
  "classify_enroll_response parse status body =
     (let status_code = Option.bind (parse body) (\<lambda>v. get_str v ''code'');
          shown = (case status_code of Some c \<Rightarrow> c | None \<Rightarrow> ''none'')
      in if 200 \<le> status \<and> status \<le> 299 then
           (case Option.bind (parse body) (\<lambda>v. get_str v ''device_id'') of
              Some i \<Rightarrow> if valid_device_id i then Enrolled i
                        else Stop (''status='' @ decimal status @ '' invalid_device_id'')
            | None \<Rightarrow> Stop (''status='' @ decimal status @ '' invalid_device_id''))
         else if status = 403 \<and> status_code = Some ''client_device_revoked'' then Revoked
         else if status = 429 then Stop (''status=429 code='' @ shown)
         else if status = 404 \<or> status = 408 \<or> (500 \<le> status \<and> status \<le> 599)
           then Retry (''status='' @ decimal status)
         else Stop (''status='' @ decimal status @ '' code='' @ shown))"

text \<open>What comes back from one request: the body arrives in chunks, and may break off.\<close>

datatype enroll_reply = RouteError string | SendError string | EnrollReply nat "(string, string) result list"

fun read_enroll_body :: "nat \<Rightarrow> string \<Rightarrow> (string, string) result list \<Rightarrow> (string, string) result" where
  "read_enroll_body status bytes [] = Inr bytes"
| "read_enroll_body status bytes (Inr c # cs) =
     (if length bytes + length c > max_enroll_response_bytes then Inr bytes
      else read_enroll_body status (bytes @ c) cs)"
| "read_enroll_body status bytes (Inl e # cs) =
     (if (200 \<le> status \<and> status \<le> 299) \<or> status = 403
      then Inl (''status='' @ decimal status @ '' body failed: '' @ e) else Inr [])"

fun enroll_once :: "(string \<Rightarrow> json option) \<Rightarrow> enroll_reply \<Rightarrow> enroll_outcome" where
  "enroll_once parse (RouteError e) = Retry (''route_error='' @ e)"
| "enroll_once parse (SendError e) = Retry (''request failed: '' @ e)"
| "enroll_once parse (EnrollReply status chunks) =
     (case read_enroll_body status [] chunks of
        Inl reason \<Rightarrow> Retry reason
      | Inr bytes \<Rightarrow> classify_enroll_response parse status bytes)"

section \<open>The retry loop\<close>

definition backoff_delay :: "nat list \<Rightarrow> nat \<Rightarrow> nat option" where
  "backoff_delay backoff attempt =
     (if attempt < length backoff then Some (backoff ! attempt)
      else if backoff = [] then None else Some (last backoff))"

text \<open>\<open>reply n\<close> answers attempt \<open>n\<close>.  The result is the last outcome and the seconds slept before it.\<close>

partial_function (option) enroll_attempts ::
  "(nat \<Rightarrow> enroll_outcome) \<Rightarrow> nat list \<Rightarrow> nat \<Rightarrow> nat \<Rightarrow> (enroll_outcome \<times> nat \<times> nat) option" where
  "enroll_attempts outcome backoff attempt slept =
     (case outcome attempt of
        Retry reason \<Rightarrow>
          (case backoff_delay backoff attempt of
             None \<Rightarrow> Some (Retry reason, attempt, slept)
           | Some delay \<Rightarrow> enroll_attempts outcome backoff (attempt + 1) (slept + delay))
      | definite \<Rightarrow> Some (definite, attempt, slept))"

definition enroll ::
  "env \<Rightarrow> string \<Rightarrow> 'k proof_libraries \<Rightarrow> (string \<Rightarrow> (string, device_file) result) \<Rightarrow>
     (device_file \<Rightarrow> (string, string) result) \<Rightarrow> (nat \<Rightarrow> enroll_reply) \<Rightarrow> nat list \<Rightarrow> string \<Rightarrow> string \<Rightarrow>
     'k client_proof \<Rightarrow> world \<Rightarrow> (gateway_device option \<times> 'k client_proof \<times> world) option" where
  "enroll E process L parse print reply backoff gateway api_key P w =
     (if is_revoked (device L P gateway api_key) then Some (device L P gateway api_key, P, w)
      else case enroll_attempts (\<lambda>n. enroll_once (json_parse L) (reply n)) backoff 0 0 of
          None \<Rightarrow> None
        | Some (outcome, _) \<Rightarrow>
            (let r = (case outcome of
                   Enrolled i \<Rightarrow> record_device E process L parse print gateway api_key i P w
                 | Revoked \<Rightarrow> record_revoked E process L parse print gateway api_key P w
                 | _ \<Rightarrow> (Inr (Inr (), P), w));
                 P' = (case fst r of Inr (_, P') \<Rightarrow> P' | Inl _ \<Rightarrow> P)
             in Some (device L P' gateway api_key, P', snd r)))"

section \<open>The loop ends with the first definite answer\<close>

definition is_retry :: "enroll_outcome \<Rightarrow> bool" where
  "is_retry r = (case r of Retry _ \<Rightarrow> True | _ \<Rightarrow> False)"

lemma enroll_attempts_definite:
  "\<not> is_retry (outcome n) \<Longrightarrow> enroll_attempts outcome backoff n slept = Some (outcome n, n, slept)"
  by (subst enroll_attempts.simps) (cases "outcome n"; simp add: is_retry_def)

lemma enroll_attempts_retry:
  "is_retry (outcome n) \<Longrightarrow> backoff_delay backoff n = Some delay \<Longrightarrow>
     enroll_attempts outcome backoff n slept = enroll_attempts outcome backoff (n + 1) (slept + delay)"
  by (subst enroll_attempts.simps) (simp add: is_retry_def split: enroll_outcome.splits)

lemma backoff_delay_Some: "backoff \<noteq> [] \<Longrightarrow> \<exists>d. backoff_delay backoff n = Some d \<and> d \<le> Max (set backoff)"
  by (auto simp: backoff_delay_def)

lemma enroll_attempts_until:
  assumes "backoff \<noteq> []" and "list_all (\<lambda>m. is_retry (outcome m)) [n..<n + k]" and "\<not> is_retry (outcome (n + k))"
  shows "\<exists>t. enroll_attempts outcome backoff n slept = Some (outcome (n + k), n + k, t) \<and> t \<le> slept + k * Max (set backoff)"
  using assms(2,3)
proof (induction k arbitrary: n slept)
  case 0
  then show ?case by (simp add: enroll_attempts_definite)
next
  case (Suc k)
  obtain d where d: "backoff_delay backoff n = Some d" "d \<le> Max (set backoff)" using backoff_delay_Some [OF assms(1)] by blast
  have "n \<in> set [n..<n + Suc k]" by auto
  with Suc.prems(1) have n: "is_retry (outcome n)" unfolding list_all_iff by blast
  have "list_all (\<lambda>m. is_retry (outcome m)) [n + 1..<n + 1 + k]" using Suc.prems(1) by (auto simp: list_all_iff)
  with Suc.IH [of "n + 1" "slept + d"] Suc.prems(2)
  obtain t where "enroll_attempts outcome backoff (n + 1) (slept + d) = Some (outcome (n + 1 + k), n + 1 + k, t)"
    "t \<le> slept + d + k * Max (set backoff)" by auto
  with d(2) enroll_attempts_retry [of outcome n backoff d slept, OF n d(1)] show ?case
    by (intro exI [of _ t]) simp
qed



definition ends_definite :: "(nat \<Rightarrow> enroll_outcome) \<Rightarrow> nat \<Rightarrow> enroll_outcome \<times> nat \<times> nat \<Rightarrow> bool" where
  "ends_definite outcome n x \<longleftrightarrow> n \<le> fst (snd x) \<and> fst x = outcome (fst (snd x)) \<and> \<not> is_retry (fst x) \<and>
     list_all (\<lambda>k. is_retry (outcome k)) [n..<fst (snd x)]"

lemma ends_definite_Suc: "is_retry (outcome n) \<Longrightarrow> ends_definite outcome (n + 1) x \<Longrightarrow> ends_definite outcome n x"
  by (auto simp: ends_definite_def upt_rec [of n])

lemma enroll_attempts_result:
  assumes "enroll_attempts outcome backoff n slept = Some x" and "backoff \<noteq> []"
  shows "ends_definite outcome n x"
proof -
  have "backoff \<noteq> [] \<longrightarrow> ends_definite outcome n x"
  proof (rule enroll_attempts.raw_induct
      [where P = "\<lambda>outcome backoff n slept x. backoff \<noteq> [] \<longrightarrow> ends_definite outcome n x", OF _ assms(1)], rule impI)
    fix attempts :: "(nat \<Rightarrow> enroll_outcome) \<Rightarrow> nat list \<Rightarrow> nat \<Rightarrow> nat \<Rightarrow> (enroll_outcome \<times> nat \<times> nat) option"
    fix outcome :: "nat \<Rightarrow> enroll_outcome" and backoff :: "nat list" and n slept x
    assume ih: "\<And>outcome backoff n slept x. attempts outcome backoff n slept = Some x \<Longrightarrow>
        backoff \<noteq> [] \<longrightarrow> ends_definite outcome n x"
      and run: "(case outcome n of
          Retry reason \<Rightarrow> (case backoff_delay backoff n of None \<Rightarrow> Some (Retry reason, n, slept)
            | Some delay \<Rightarrow> attempts outcome backoff (n + 1) (slept + delay))
        | definite \<Rightarrow> Some (definite, n, slept)) = Some x"
      and b: "backoff \<noteq> []"
    show "ends_definite outcome n x"
    proof (cases "is_retry (outcome n)")
      case False
      with run have "x = (outcome n, n, slept)" unfolding is_retry_def by (auto split: enroll_outcome.splits)
      with False show ?thesis by (simp add: ends_definite_def)
    next
      case True
      then obtain reason where r: "outcome n = Retry reason" by (auto simp: is_retry_def split: enroll_outcome.splits)
      obtain d where d: "backoff_delay backoff n = Some d" using backoff_delay_Some [OF b] by blast
      from run have "attempts outcome backoff (n + 1) (slept + d) = Some x" unfolding r d by simp
      from ih [OF this] b have "ends_definite outcome (n + 1) x" by blast
      with True show ?thesis by (rule ends_definite_Suc)
    qed
  qed
  with assms(2) show ?thesis by simp
qed

lemma first_definite:
  assumes "\<not> is_retry (outcome n)"
  obtains m where "\<not> is_retry (outcome m)" "list_all (\<lambda>k. is_retry (outcome k)) [0..<m]"
proof -
  define m where "m = (LEAST m. \<not> is_retry (outcome m))"
  have "\<not> is_retry (outcome m)" unfolding m_def using assms by (rule LeastI)
  moreover have "list_all (\<lambda>k. is_retry (outcome k)) [0..<m]"
    unfolding list_all_iff m_def by (auto dest: not_less_Least)
  ultimately show ?thesis using that by blast
qed

text \<open>
  C38: Enrollment in the background ends exactly when it should.  With a backoff that is not empty, the
  retry loop returns if and only if the device is already known to be revoked or the gateway, at some
  attempt, gives an answer that is not to be retried.
\<close>

theorem enrollment_returns:
  assumes "backoff \<noteq> []"
  shows "enroll E process L parse print reply backoff gateway api_key P w \<noteq> None \<longleftrightarrow>
    is_revoked (device L P gateway api_key) \<or> (\<exists>n. \<not> is_retry (enroll_once (json_parse L) (reply n)))"
proof (cases "is_revoked (device L P gateway api_key)")
  case True
  then show ?thesis by (simp add: enroll_def)
next
  case False
  let ?outcome = "\<lambda>n. enroll_once (json_parse L) (reply n)"
  have "enroll_attempts ?outcome backoff 0 0 \<noteq> None \<longleftrightarrow> (\<exists>n. \<not> is_retry (?outcome n))"
  proof
    assume "enroll_attempts ?outcome backoff 0 0 \<noteq> None"
    then obtain x where "enroll_attempts ?outcome backoff 0 0 = Some x" by blast
    from enroll_attempts_result [OF this assms] show "\<exists>n. \<not> is_retry (?outcome n)"
      by (auto simp: ends_definite_def)
  next
    assume "\<exists>n. \<not> is_retry (?outcome n)"
    then obtain m where "\<not> is_retry (?outcome m)" "list_all (\<lambda>k. is_retry (?outcome k)) [0..<m]"
      using first_definite by metis
    then show "enroll_attempts ?outcome backoff 0 0 \<noteq> None"
      using enroll_attempts_until [OF assms, of ?outcome 0 m 0] by auto
  qed
  moreover have "enroll E process L parse print reply backoff gateway api_key P w \<noteq> None \<longleftrightarrow>
      enroll_attempts ?outcome backoff 0 0 \<noteq> None"
    using False by (simp add: enroll_def Let_def split: option.split prod.split)
  ultimately show ?thesis using False by simp
qed

section \<open>The message determines the request\<close>

lemma decimal_inject: "decimal m = decimal n \<longleftrightarrow> m = n"
  by (metis digits_value_decimal option.inject)

lemma newline_decimal: "newline \<notin> set (decimal n)"
  using decimal_digits [of newline n] by (auto simp: is_ascii_digit_def)

lemma split_at_newline:
  "newline \<notin> set a \<Longrightarrow> newline \<notin> set b \<Longrightarrow> a @ newline # s = b @ newline # t \<longleftrightarrow> a = b \<and> s = t"
  by (induction a arbitrary: b) (case_tac b; auto)+

lemma newline_uppercase: "newline \<notin> set v \<Longrightarrow> newline \<notin> set (to_ascii_uppercase v)"
proof -
  have "ascii_upper c = newline \<Longrightarrow> c = newline" for c
  proof -
    assume c: "ascii_upper c = newline"
    then have "code (ascii_upper c) = 10" by simp
    then have "\<not> is_ascii_lower c" by (auto simp: code_ascii_upper is_ascii_lower_def split: if_splits)
    with c show "c = newline" by (simp add: ascii_upper_def)
  qed
  then show "newline \<notin> set v \<Longrightarrow> newline \<notin> set (to_ascii_uppercase v)"
    unfolding to_ascii_uppercase_def by (metis imageE list.set_map)
qed

text \<open>
  A signed message determines the request it was made for.  Two messages are the same only if
  they agree on the method up to case, the target, the time, the nonce and the hash of the API key, for
  methods, targets and nonces without line feeds; so a proof cannot be moved to another request.
\<close>

theorem proof_message_identifies_request:
  assumes "proof_message sha256 verb target ts nonce api_key = proof_message sha256 verb' target' ts' nonce' api_key'"
    and "list_all (\<lambda>s. newline \<notin> set s) [verb, target, nonce, verb', target', nonce']"
  shows "to_ascii_uppercase verb = to_ascii_uppercase verb' \<and> target = target' \<and> ts = ts' \<and> nonce = nonce' \<and>
    sha256 api_key = sha256 api_key'"
  using assms newline_uppercase newline_decimal
  by (simp add: proof_message_def split_at_newline decimal_inject)

end
