(* ===== verification/Proxy_Connection.thy ===== *)
theory Proxy_Connection
  imports Proxy_Websocket Client_Enrollment
begin

text \<open>
  One connection of a local client and what its handler does to the world: the bytes written back to the
  client and the contacts made with other servers, in order.  A write or flush fails
  when the list of faults says so, possibly after part of the bytes.  Everything beyond the process is
  the record \<open>network\<close>, asked at consecutive moments, so that it can answer differently each time.
\<close>

section \<open>The state of a handler\<close>

datatype egress =
    Relayed upstream_request
  | Tunnelled string nat
  | ForwardedToGateway route_config upstream_request
  | SocketToGateway route_config upstream_request
  | EnrollmentStarted string string

record 'k conn =
  outgoing :: string
  write_faults :: "(net_kind \<times> string \<times> nat) option list"
  moment :: nat
  contacts :: "egress list"
  device_proof :: "'k client_proof option"

type_synonym ('k, 'a) act = "'k conn \<Rightarrow> (failure, 'a) result \<times> 'k conn"

definition pass :: "'a \<Rightarrow> ('k, 'a) act" where
  "pass x c = (Inr x, c)"

definition abort :: "failure \<Rightarrow> ('k, 'a) act" where
  "abort e c = (Inl e, c)"

definition bind_act :: "('k, 'a) act \<Rightarrow> ('a \<Rightarrow> ('k, 'b) act) \<Rightarrow> ('k, 'b) act" where
  "bind_act m f c = (case m c of (Inl e, c') \<Rightarrow> (Inl e, c') | (Inr x, c') \<Rightarrow> f x c')"

definition then_act :: "('k, 'a) act \<Rightarrow> ('k, 'b) act \<Rightarrow> ('k, 'b) act" where
  "then_act m n = bind_act m (\<lambda>_. n)"

definition lift_act :: "(failure, 'a) result \<Rightarrow> ('k, 'a) act" where
  "lift_act r c = (r, c)"

definition context_act :: "string \<Rightarrow> ('k, 'a) act \<Rightarrow> ('k, 'a) act" where
  "context_act what m c = (case m c of (r, c') \<Rightarrow> (map_sum (in_context what) id r, c'))"

text \<open>A result that is looked at, or dropped with \<open>let _ =\<close>.\<close>

definition attempt :: "('k, 'a) act \<Rightarrow> ('k, (failure, 'a) result) act" where
  "attempt m c = (case m c of (r, c') \<Rightarrow> (Inr r, c'))"

definition ignore_act :: "('k, 'a) act \<Rightarrow> ('k, unit) act" where
  "ignore_act m c = (Inr (), snd (m c))"

primrec iter_act :: "('a \<Rightarrow> ('k, unit) act) \<Rightarrow> 'a list \<Rightarrow> ('k, unit) act" where
  "iter_act f [] = pass ()"
| "iter_act f (x # xs) = then_act (f x) (iter_act f xs)"

section \<open>Bytes to the client\<close>

definition write_all_bytes :: "string \<Rightarrow> ('k, unit) act" where
  "write_all_bytes bytes c =
     (case write_faults c of
        Some (k, t, n) # faults \<Rightarrow>
          (Inl (net_failure k t), c\<lparr>outgoing := outgoing c @ take n bytes, write_faults := faults\<rparr>)
      | faults \<Rightarrow> (Inr (), c\<lparr>outgoing := outgoing c @ bytes, write_faults := tl faults\<rparr>))"

definition flush :: "('k, unit) act" where
  "flush = write_all_bytes []"

definition canonical_reason :: "(nat \<Rightarrow> string option) \<Rightarrow> nat \<Rightarrow> string" where
  "canonical_reason reason_phrase status = (case reason_phrase status of Some r \<Rightarrow> r | None \<Rightarrow> [])"

definition connection_line :: "bool \<Rightarrow> string" where
  "connection_line close_after = (if close_after then ''Connection: close'' else ''Connection: keep-alive'') @ crlf"

definition status_line :: "(nat \<Rightarrow> string option) \<Rightarrow> nat \<Rightarrow> string" where
  "status_line reason_phrase status = ''HTTP/1.1 '' @ decimal status @ '' '' @ canonical_reason reason_phrase status @ crlf"

definition write_static_response ::
  "(nat \<Rightarrow> string option) \<Rightarrow> nat \<Rightarrow> string \<Rightarrow> string \<Rightarrow> bool \<Rightarrow> header list \<Rightarrow> ('k, unit) act" where
  "write_static_response reason_phrase status kind body close_after headers =
     then_act (iter_act write_all_bytes
       ([status_line reason_phrase status, connection_line close_after, ''Content-Length: '' @ decimal (length body) @ crlf] @
        (if body = [] then [] else [''Content-Type: '' @ kind @ crlf]) @ map response_line headers @ [crlf] @
        (if body = [] then [] else [body]))) flush"

definition write_plain_error :: "(nat \<Rightarrow> string option) \<Rightarrow> nat \<Rightarrow> ('k, unit) act" where
  "write_plain_error reason_phrase status =
     write_static_response reason_phrase status ''text/plain''
       (case reason_phrase status of Some r \<Rightarrow> r | None \<Rightarrow> decimal status) True []"

section \<open>Responses of other servers\<close>

record response_outcome =
  outcome_status :: nat
  outcome_bytes :: nat
  outcome_chunks :: nat

definition so_far :: "nat \<Rightarrow> nat \<Rightarrow> string" where
  "so_far bytes chunks = decimal bytes @ '' response bytes in '' @ decimal chunks @ '' chunk(s)''"

definition write_client_bytes :: "string \<Rightarrow> nat \<Rightarrow> nat \<Rightarrow> string \<Rightarrow> ('k, unit) act" where
  "write_client_bytes phase response_bytes chunks bytes =
     context_act (''client disconnected while '' @ phase @ '' after '' @ so_far response_bytes chunks) (write_all_bytes bytes)"

definition has_body :: "nat \<Rightarrow> bool" where
  "has_body status \<longleftrightarrow> status \<noteq> 204 \<and> status \<noteq> 304 \<and> 200 \<le> status"

definition upper_hexadecimal :: "nat \<Rightarrow> string" where
  "upper_hexadecimal n = to_ascii_uppercase (hexadecimal n)"

definition response_head :: "(nat \<Rightarrow> string option) \<Rightarrow> upstream_response \<Rightarrow> bool \<Rightarrow> string list" where
  "response_head reason_phrase response close_after =
     [status_line reason_phrase (response_status response)] @
     concat (map (\<lambda>(name, v). if should_forward_response_header name then [name, '': '', v, crlf] else [])
       (response_headers response)) @
     [connection_line close_after,
      (if has_body (response_status response) then ''Transfer-Encoding: chunked'' else ''Content-Length: 0'') @ crlf, crlf]"

fun write_body_chunks :: "nat \<Rightarrow> nat \<Rightarrow> (string, string) result list \<Rightarrow> ('k, nat \<times> nat) act" where
  "write_body_chunks bytes chunks [] = pass (bytes, chunks)"
| "write_body_chunks bytes chunks (Inl e # rest) =
     abort (in_context (''upstream response stream interrupted after '' @ so_far bytes chunks) (bail e))"
| "write_body_chunks bytes chunks (Inr chunk # rest) =
     (if chunk = [] then write_body_chunks bytes chunks rest
      else then_act (iter_act (write_client_bytes ''streaming upstream response'' bytes chunks)
               [upper_hexadecimal (length chunk) @ crlf, chunk, crlf])
          (then_act (context_act (''client disconnected while flushing upstream response after '' @
                 so_far (bytes + length chunk) (chunks + 1)) flush)
             (write_body_chunks (bytes + length chunk) (chunks + 1) rest)))"

definition write_upstream_response ::
  "(nat \<Rightarrow> string option) \<Rightarrow> upstream_response \<Rightarrow> bool \<Rightarrow> ('k, response_outcome) act" where
  "write_upstream_response reason_phrase response close_after =
     then_act (iter_act (write_client_bytes ''writing response headers'' 0 0) (response_head reason_phrase response close_after))
    (bind_act (if has_body (response_status response)
               then bind_act (write_body_chunks 0 0 (response_body response)) (\<lambda>(bytes, chunks).
                 then_act (write_client_bytes ''finishing upstream response'' bytes chunks (''0'' @ crlf @ crlf))
                          (pass (bytes, chunks)))
               else pass (0, 0)) (\<lambda>(bytes, chunks).
       then_act (context_act (''client disconnected while finishing upstream response after '' @ so_far bytes chunks) flush)
         (pass \<lparr>outcome_status = response_status response, outcome_bytes = bytes, outcome_chunks = chunks\<rparr>)))"

section \<open>The start of a chat\<close>

definition chat_choice_keys :: "string list" where
  "chat_choice_keys = [''conversation_id'', ''conversation_origin'', ''gizmo_id'', ''requested_default_model'', ''model'',
     ''messages'', ''input'', ''prompt'', ''tools'', ''system_hints'']"

definition is_fresh_chat_init :: "web \<Rightarrow> incoming_request \<Rightarrow> bool" where
  "is_fresh_chat_init W request \<longleftrightarrow>
     eq_ignore_ascii_case (request_method request) ''POST'' \<and>
     target_path (request_target request) = ''/chatgpt/backend-api/conversation/init'' \<and>
     (case from_slice W (request_body request) of
        Some (JObject entries) \<Rightarrow> list_all (\<lambda>key. map_of entries key \<in> {None, Some JNull}) chat_choice_keys
      | _ \<Rightarrow> False)"

definition max_desktop_state_bytes :: nat where "max_desktop_state_bytes = 2 * 1024 * 1024"
definition max_chat_init_response_bytes :: nat where "max_chat_init_response_bytes = 64 * 1024"

text \<open>\<open>state\<close> is the content of the preferences file if it is a regular file that can be read.\<close>

definition saved_chat_model_at :: "web \<Rightarrow> string option \<Rightarrow> string option" where
  "saved_chat_model_at W state =
     Option.bind state (\<lambda>bytes.
       if length bytes > max_desktop_state_bytes then None
       else Option.bind (from_slice W bytes) (\<lambda>document.
         Option.bind (get_path document [''electron-persisted-atom-state'', ''chatgpt-last-selected-model-v1'', ''slug'']) (\<lambda>v.
         Option.bind (as_str v) (\<lambda>slug.
           if slug \<noteq> ''auto'' \<and> slug \<noteq> [] \<and> length slug \<le> 128 \<and>
              list_all (\<lambda>c. is_ascii_alphanumeric c \<or> c = CHR ''-'' \<or> c = CHR ''_'' \<or> c = CHR ''.'') slug
           then Some slug else None))))"

definition default_model_keys :: "string list" where
  "default_model_keys = [''default_model_slug'', ''intended_default_model_slug'']"

definition without_account_chat_defaults :: "web \<Rightarrow> string \<Rightarrow> string option" where
  "without_account_chat_defaults W body =
     (case from_slice W body of
        Some (JObject entries) \<Rightarrow>
          if (case map_of entries ''model_limits'' of
                None \<Rightarrow> False | Some JNull \<Rightarrow> False | Some (JArray xs) \<Rightarrow> xs \<noteq> [] | Some _ \<Rightarrow> True) then None
          else if list_ex (\<lambda>key. case map_of entries key of
                None \<Rightarrow> False | Some JNull \<Rightarrow> False | Some (JString _) \<Rightarrow> False | Some _ \<Rightarrow> True) default_model_keys then None
          else if list_ex (\<lambda>key. map_of entries key \<noteq> None) default_model_keys
            then to_vec W (JObject (filter (\<lambda>(key, _). key \<notin> set default_model_keys) entries))
          else None
      | _ \<Rightarrow> None)"

text \<open>Up to the limit the body is collected; beyond it the response goes through unchanged.\<close>

fun collect_body :: "nat \<Rightarrow> string \<Rightarrow> (string, string) result list \<Rightarrow> (string, string option) result" where
  "collect_body limit body [] = Inr (Some body)"
| "collect_body limit body (Inl e # rest) = Inl e"
| "collect_body limit body (Inr chunk # rest) =
     (if length body + length chunk > limit then Inr None else collect_body limit (body @ chunk) rest)"

definition is_json_type :: "string \<Rightarrow> bool" where
  "is_json_type v \<longleftrightarrow> eq_ignore_ascii_case (trim (hd (split_on ((=) CHR '';'') v))) ''application/json''"

definition adjustable :: "upstream_response \<Rightarrow> bool" where
  "adjustable response \<longleftrightarrow>
     response_status response = 200 \<and>
     (case header_value (response_headers response) ''content-type'' of
        None \<Rightarrow> False | Some v \<Rightarrow> visible_text v \<and> is_json_type v) \<and>
     (case header_value (response_headers response) ''content-encoding'' of None \<Rightarrow> True | Some v \<Rightarrow> v = ''identity'')"

definition restored_headers :: "header list \<Rightarrow> header list" where
  "restored_headers headers =
     insert_header (''x-saiai-chat-preference-restored'', ''1'')
       (filter (\<lambda>(n, _). \<not> name_in n [''content-length'', ''etag'', ''content-md5'', ''digest'']) headers)"

definition write_chat_init_response ::
  "(nat \<Rightarrow> string option) \<Rightarrow> web \<Rightarrow> upstream_response \<Rightarrow> bool \<Rightarrow> ('k, response_outcome) act" where
  "write_chat_init_response reason_phrase W response close_after =
     (if \<not> adjustable response then write_upstream_response reason_phrase response close_after
      else case collect_body max_chat_init_response_bytes [] (response_body response) of
          Inl e \<Rightarrow> abort (in_context ''reading native Chat initialization metadata'' (bail e))
        | Inr None \<Rightarrow> write_upstream_response reason_phrase response close_after
        | Inr (Some body) \<Rightarrow>
            (case without_account_chat_defaults W body of
               None \<Rightarrow> write_upstream_response reason_phrase (response\<lparr>response_body := [Inr body]\<rparr>) close_after
             | Some adjusted \<Rightarrow>
                 write_upstream_response reason_phrase
                   (response\<lparr>response_headers := restored_headers (response_headers response),
                            response_body := [Inr adjusted]\<rparr>) close_after))"

section \<open>Requests to the gateway\<close>

record network =
  reason_phrase :: "nat \<Rightarrow> string option"
  method_ok :: "string \<Rightarrow> bool"
  header_ok :: "header \<Rightarrow> bool"
  url_text :: "proxy_url \<Rightarrow> string"
  change_scheme :: "string \<Rightarrow> proxy_url \<Rightarrow> proxy_url option"
  url_authority :: "proxy_url \<Rightarrow> string"
  handshake_defaults :: "proxy_url \<Rightarrow> (failure, header list) result"
  accept_key :: "string \<Rightarrow> string"
  client_for :: "nat \<Rightarrow> string \<Rightarrow> (failure, unit) result"
  send_request :: "nat \<Rightarrow> upstream_request \<Rightarrow> (failure, upstream_response) result"
  connect_upstream :: "nat \<Rightarrow> bool \<Rightarrow> string \<Rightarrow> nat \<Rightarrow> (failure, unit) result"
  copy_tunnel :: "nat \<Rightarrow> string \<times> failure option"
  websocket_handshake :: "nat \<Rightarrow> upstream_request \<Rightarrow> ws_handshake"
  accept_tls :: "nat \<Rightarrow> string \<Rightarrow> (failure, stream) result"
  clock :: "nat \<Rightarrow> nat"
  random_nonce :: "nat \<Rightarrow> string option"

definition ask :: "(nat \<Rightarrow> (failure, 'a) result) \<Rightarrow> ('k, 'a) act" where
  "ask f c = (f (moment c), c\<lparr>moment := Suc (moment c)\<rparr>)"

definition contact :: "egress \<Rightarrow> ('k, unit) act" where
  "contact e c = (Inr (), c\<lparr>contacts := contacts c @ [e]\<rparr>)"

text \<open>\<open>client_proof_header\<close>: starts one enrollment for a credential not seen before, then signs.\<close>

definition client_proof_header ::
  "'k proof_libraries \<Rightarrow> network \<Rightarrow> route_config \<Rightarrow> string \<Rightarrow> string \<Rightarrow> string option \<Rightarrow> ('k, string option) act" where
  "client_proof_header L N route verb target bearer c =
     (case (device_proof c, bearer) of
        (Some P, Some key) \<Rightarrow>
          (case claim_enrollment L (route_base_url route) key True P of
             (claims, P') \<Rightarrow>
               (Inr (sign_request L (clock N (moment c)) (random_nonce N (moment c)) P' (route_base_url route) verb target key),
                c\<lparr>moment := Suc (moment c), device_proof := Some P',
                  contacts := contacts c @ (if claims then [EnrollmentStarted (route_base_url route) key] else [])\<rparr>))
      | _ \<Rightarrow> (Inr None, c))"

text \<open>\<open>build()\<close> of a request: its URL and headers must be valid.\<close>

definition build_request :: "web \<Rightarrow> network \<Rightarrow> upstream_request \<Rightarrow> (failure, proxy_url) result" where
  "build_request W N request =
     (case web_url W (up_url request) of
        None \<Rightarrow> Inl (bail ''builder error: invalid URL'')
      | Some u \<Rightarrow> if list_all (header_ok N) (up_headers request) then Inr u else Inl (bail ''builder error: invalid header''))"

definition with_proof :: "network \<Rightarrow> string option \<Rightarrow> upstream_request \<Rightarrow> upstream_request" where
  "with_proof N signature request =
     (case signature of
        None \<Rightarrow> request
      | Some v \<Rightarrow> if header_ok N (proof_header_name, v)
                  then request\<lparr>up_headers := insert_header (proof_header_name, v) (up_headers request)\<rparr> else request)"

definition execute_to_gateway ::
  "'k proof_libraries \<Rightarrow> web \<Rightarrow> network \<Rightarrow> route_config \<Rightarrow> string option \<Rightarrow> upstream_request \<Rightarrow> ('k, upstream_response) act" where
  "execute_to_gateway L W N route bearer request =
     bind_act (lift_act (build_request W N request)) (\<lambda>u.
     bind_act (client_proof_header L N route (up_method request) (wire_target u) bearer) (\<lambda>signature.
       let signed = with_proof N signature request in
       then_act (contact (ForwardedToGateway route signed)) (ask (\<lambda>n. send_request N n signed))))"

definition gateway_route :: "proxy_state \<Rightarrow> bool \<Rightarrow> route_config" where
  "gateway_route S replace_authorization =
     route_for_host S (if replace_authorization then openai_host else anthropic_host)"

definition without_query :: "string \<Rightarrow> string" where
  "without_query url = hd (split_on ((=) CHR ''?'') url)"

definition forward_to_saiai ::
  "'k proof_libraries \<Rightarrow> web \<Rightarrow> network \<Rightarrow> proxy_state \<Rightarrow> string option \<Rightarrow> incoming_request \<Rightarrow> bool \<Rightarrow> bool \<Rightarrow> ('k, unit) act" where
  "forward_to_saiai L W N S preferences request close_after replace_authorization =
     (let route = gateway_route S replace_authorization;
          upload = is_chatgpt_upload_target (request_target request);
          shown = request_method request @ '' '' @
            (if upload then target_path (request_target request) else request_target request)
      in
      bind_act (lift_act (upstream_url (web_url W) (request_target request) route)) (\<lambda>url.
      if \<not> method_ok N (request_method request)
      then abort (in_context (''unsupported HTTP method '' @ request_method request) (bail ''invalid HTTP method''))
      else
      then_act (ask (\<lambda>n. client_for N n url))
     (bind_act (lift_act (gateway_request_headers request replace_authorization (route_api_key route))) (\<lambda>headers.
      let preserve = chat_passthrough S \<and> replace_authorization \<and> is_fresh_chat_init W request \<and>
            saved_chat_model_at W preferences \<noteq> None
      in
      bind_act (context_act (''request phase failed forwarding '' @ shown @ '' to '' @ (if upload then without_query url else url))
        (execute_to_gateway L W N route (proof_bearer (request_headers request) replace_authorization (route_api_key route))
          \<lparr>up_method = request_method request, up_url = url, up_headers = headers, up_body = request_body request\<rparr>)) (\<lambda>response.
      then_act (context_act (''response phase failed forwarding '' @ shown)
        (if preserve then write_chat_init_response (reason_phrase N) W response close_after
         else write_upstream_response (reason_phrase N) response close_after))
       (pass ()))))))"

end
