(* ===== verification/Http_Framing.thy ===== *)
theory Http_Framing
  imports Http_Message "HOL-Library.Code_Target_Nat"
begin

text \<open>
  What the request reader accepts: it takes a prefix of the connection, keeps within its limits, and
  reads back every request that is written out in the usual way, with either framing of the body, and
  not one byte more.
\<close>

section \<open>Limits\<close>

lemma or_timeout_Inr: "or_timeout e m s = Inr x \<longleftrightarrow> m s = Some (Inr x)"
  by (auto simp: or_timeout_def split: option.split)

lemma trim_crlf_prefix: "\<exists>q. line = trim_crlf line @ q"
proof -
  obtain p where "rev line = p @ dropWhile (\<lambda>c. c = CHR 0x0D \<or> c = CHR 0x0A) (rev line)"
    by (metis takeWhile_dropWhile_id)
  then have "line = trim_crlf line @ rev p" unfolding trim_crlf_def by (metis rev_append rev_rev_ident)
  then show ?thesis ..
qed

lemma length_trim: "length (trim s) \<le> length s"
proof -
  obtain p where p: "s = p @ trim_start s" using trim_start_suffix by blast
  obtain q where q: "trim_start s = trim_end (trim_start s) @ q" using trim_end_prefix by blast
  have "length s = length p + length (trim_end (trim_start s)) + length q"
    by (subst p, subst q) simp
  then show ?thesis by (simp add: trim_def)
qed

lemma parse_header_line_bound:
  assumes "parse_header_line line = Inr (n, v)"
  shows "length n + length v < length line"
proof -
  from assms obtain a b where s: "split_once CHR '':'' (trim_crlf line) = Some (a, b)" "n = trim a" "v = trim b"
    by (auto simp: parse_header_line_def split: option.splits)
  obtain q where "line = trim_crlf line @ q" using trim_crlf_prefix by blast
  moreover have "trim_crlf line = a @ CHR '':'' # b" using s(1) by (simp add: split_once_Some_iff)
  ultimately have "length line = length a + length b + 1 + length q" by (metis add.commute add.left_commute length_Cons length_append plus_1_eq_Suc)
  with s(2,3) length_trim [of a] length_trim [of b] show ?thesis by simp
qed

definition headers_size :: "header list \<Rightarrow> nat" where
  "headers_size hs = sum_list (map (\<lambda>(n, v). length n + length v) hs)"

lemma read_headers_consumes:
  assumes "read_headers m s = Inr (hs, s')"
  shows "(\<exists>wire. unread s = wire @ unread s') \<and> ending s' = ending s \<and> m + headers_size hs \<le> max_header_bytes"
  using assms
proof (induction m s arbitrary: hs rule: read_headers.induct)
  case (1 m s)
  from "1.prems" obtain line s1 where
    l: "or_timeout header_timeout read_line_limited s = Inr (line, s1)" and
    small: "m + length line \<le> max_header_bytes"
    by (subst (asm) read_headers.simps) (auto split: sum.splits if_splits)
  then have line: "read_line_limited s = Some (Inr (line, s1))" by (simp add: or_timeout_Inr)
  note c = read_line_consumes [OF line]
  show ?case
  proof (cases "is_blank_line line")
    case True
    with "1.prems" l small have "hs = []" "s' = s1" by (subst (asm) read_headers.simps; simp)+
    with c small show ?thesis by (auto simp: headers_size_def)
  next
    case False
    with "1.prems" l small obtain n v hs' where h: "parse_header_line line = Inr (n, v)"
      and r: "read_headers (m + length line) s1 = Inr (hs', s')" and hs: "hs = (n, v) # hs'"
      by (subst (asm) read_headers.simps) (auto split: sum.splits)
    from "1.IH" [OF l refl _ False h r] small
    obtain wire where "unread s1 = wire @ unread s'" "ending s' = ending s1"
      "m + length line + headers_size hs' \<le> max_header_bytes" by auto
    with c parse_header_line_bound [OF h] hs show ?thesis by (auto simp: headers_size_def)
  qed
qed

lemma read_trailers_consumes:
  "read_trailers m s = Some (Inr (u, s')) \<Longrightarrow> (\<exists>wire. unread s = wire @ unread s') \<and> ending s' = ending s"
proof (induction m s arbitrary: u rule: read_trailers.induct)
  case (1 m s)
  from "1.prems" obtain line s1 where line: "read_line_limited s = Some (Inr (line, s1))"
    and small: "\<not> m + length line > max_header_bytes"
    by (subst (asm) read_trailers.simps) (auto split: option.splits sum.splits if_splits)
  note c = read_line_consumes [OF line]
  show ?case
  proof (cases "is_blank_line line")
    case True
    with "1.prems" line small have "s' = s1" by (subst (asm) read_trailers.simps) simp
    with c show ?thesis by auto
  next
    case False
    with "1.prems" line small have "read_trailers (m + length line) s1 = Some (Inr (u, s'))"
      by (subst (asm) read_trailers.simps) simp
    from "1.IH" [OF line refl refl small False this] c show ?thesis by auto
  qed
qed

lemma read_chunked_consumes:
  "read_chunked_body_with_limit limit body s = Some (Inr (b, s')) \<Longrightarrow> length body \<le> limit \<Longrightarrow>
     (\<exists>wire. unread s = wire @ unread s') \<and> ending s' = ending s \<and> length b \<le> limit"
proof (induction limit body s arbitrary: b rule: read_chunked_body_with_limit.induct)
  case (1 limit body s)
  from "1.prems" obtain line s1 len where line: "read_line_limited s = Some (Inr (line, s1))"
    and len: "chunk_size line = Inr len"
    by (subst (asm) read_chunked_body_with_limit.simps) (auto split: option.splits sum.splits)
  note c = read_line_consumes [OF line]
  show ?case
  proof (cases "len = 0")
    case True
    with "1.prems" line len have "and_then (read_trailers 0) (\<lambda>_. done_with body) s1 = Some (Inr (b, s'))"
      by (subst (asm) read_chunked_body_with_limit.simps) simp
    then obtain s2 where "read_trailers 0 s1 = Some (Inr ((), s2))" "b = body" "s' = s2"
      by (auto simp: and_then_Inr done_with_def)
    with read_trailers_consumes [of 0 s1 "()" s2] c "1.prems"(2) show ?thesis by auto
  next
    case False
    with "1.prems" line len obtain bytes s2 where
      ch: "read_chunk limit (length body) len s1 = Some (Inr (bytes, s2))" and
      r: "read_chunked_body_with_limit limit (body @ bytes) s2 = Some (Inr (b, s'))"
      by (subst (asm) read_chunked_body_with_limit.simps) (auto split: option.splits sum.splits)
    note k = read_chunk_consumes [OF ch]
    have "length (body @ bytes) \<le> limit" using k by simp
    from "1.IH" [OF line refl refl len False ch refl refl r this] c k show ?thesis by auto
  qed
qed

lemma read_body_consumes:
  assumes "read_request_body_with_limit headers limit s = Some (Inr (b, s'))"
  shows "(\<exists>wire. unread s = wire @ unread s') \<and> ending s' = ending s \<and> length b \<le> limit"
proof (cases "header_contains headers ''transfer-encoding'' ''chunked''")
  case True
  with assms read_chunked_consumes [of limit "[]" s b s'] show ?thesis
    by (simp add: read_request_body_with_limit_def)
next
  case False
  with assms show ?thesis
    by (auto simp: read_request_body_with_limit_def and_then_Inr done_with_def fail_with_def
        dest!: take_bytes_consumes split: option.splits if_splits)
qed

lemma read_http_request_Inr:
  assumes "read_http_request s = Inr (r, s')"
  obtains line s1 s2 where "read_http_request_line s = Inr (line, s1)"
    "split_whitespace line = [request_method r, request_target r, http_version r]"
    "starts_with (http_version r) ''HTTP/''" "read_headers (length line) s1 = Inr (request_headers r, s2)"
    "read_request_body (request_headers r) s2 = Some (Inr (request_body r, s'))"
  using assms
  by (auto simp: read_http_request_def or_timeout_Inr split: sum.splits prod.splits list.splits if_splits)

lemma read_http_request_consumes:
  assumes "read_http_request s = Inr (r, s')"
  shows "(\<exists>wire. wire \<noteq> [] \<and> unread s = wire @ unread s') \<and> length (request_body r) \<le> max_request_body_bytes \<and>
    headers_size (request_headers r) < max_header_bytes"
proof -
  from assms obtain line s1 s2 where
    l: "read_http_request_line s = Inr (line, s1)" and
    h: "read_headers (length line) s1 = Inr (request_headers r, s2)" and
    b: "read_request_body (request_headers r) s2 = Some (Inr (request_body r, s'))"
    by (rule read_http_request_Inr)
  from l have "read_line_limited s = Some (Inr (line, s1))"
    by (auto simp: read_http_request_line_def or_timeout_Inr Let_def split: if_splits stream_end.splits)
  note c = read_line_consumes [OF this]
  from read_headers_consumes [OF h] obtain w1 where
    w1: "unread s1 = w1 @ unread s2" "length line + headers_size (request_headers r) \<le> max_header_bytes" by auto
  from b have "(\<exists>wire. unread s2 = wire @ unread s') \<and> length (request_body r) \<le> max_request_body_bytes"
    using read_body_consumes by (simp add: read_request_body_def)
  then obtain w2 where w2: "unread s2 = w2 @ unread s'" "length (request_body r) \<le> max_request_body_bytes" by auto
  have "unread s = (line @ w1 @ w2) @ unread s'" using c(1) w1(1) w2(1) by simp
  moreover have "0 < length line" using c(2) by simp
  then have "headers_size (request_headers r) < max_header_bytes" using w1(2) by linarith
  ultimately show ?thesis using c(2) w2(2) by (intro conjI exI [of _ "line @ w1 @ w2"]) simp_all
qed

lemma read_http_request_shorter: "read_http_request s = Inr (r, s') \<Longrightarrow> length (unread s') < length (unread s)"
  by (drule read_http_request_consumes) auto

text \<open>
  C35: A request that is read takes a prefix of the connection and nothing behind it; the body has at
  most 256 MiB and the header names and values have less than 256 KiB, however the client frames them.
\<close>

theorem request_is_bounded:
  assumes "read_http_request s = Inr (r, s')"
  shows "(\<exists>wire. wire \<noteq> [] \<and> unread s = wire @ unread s') \<and> length (request_body r) \<le> max_request_body_bytes \<and>
    headers_size (request_headers r) < max_header_bytes"
  using assms by (rule read_http_request_consumes)

section \<open>Writing a request\<close>

definition wire_word :: "string \<Rightarrow> bool" where
  "wire_word w \<longleftrightarrow> w \<noteq> [] \<and> list_all is_ascii_graphic w"

definition wire_text :: "string \<Rightarrow> bool" where
  "wire_text v \<longleftrightarrow> list_all (\<lambda>c. 32 \<le> code c \<and> code c \<le> 126) v \<and> trim v = v"

definition wire_header :: "header \<Rightarrow> bool" where
  "wire_header h \<longleftrightarrow> wire_word (fst h) \<and> CHR '':'' \<notin> set (fst h) \<and> wire_text (snd h)"

definition request_line :: "incoming_request \<Rightarrow> string" where
  "request_line r = request_method r @ '' '' @ request_target r @ '' '' @ http_version r @ crlf"

definition header_line :: "header \<Rightarrow> string" where
  "header_line h = fst h @ '': '' @ snd h @ crlf"

datatype framing = Plain | Chunked "string list"

definition chunk_with :: "(nat \<Rightarrow> string) \<Rightarrow> string \<Rightarrow> string" where
  "chunk_with show_size c = show_size (length c) @ crlf @ c @ crlf"

fun framed :: "framing \<Rightarrow> string \<Rightarrow> string" where
  "framed Plain body = body"
| "framed (Chunked cs) body = concat (map (chunk_with hexadecimal) cs) @ ''0'' @ crlf @ crlf"

definition wire_request :: "framing \<Rightarrow> incoming_request \<Rightarrow> string" where
  "wire_request f r =
     request_line r @ concat (map header_line (request_headers r)) @ crlf @ framed f (request_body r)"

text \<open>The headers that announce the framing.\<close>

fun announced :: "framing \<Rightarrow> incoming_request \<Rightarrow> bool" where
  "announced Plain r =
     (\<not> header_contains (request_headers r) ''transfer-encoding'' ''chunked'' \<and>
      header_value (request_headers r) ''content-length'' = Some (decimal (length (request_body r))))"
| "announced (Chunked cs) r =
     (header_contains (request_headers r) ''transfer-encoding'' ''chunked'' \<and>
      concat cs = request_body r \<and> [] \<notin> set cs)"

definition sendable :: "framing \<Rightarrow> incoming_request \<Rightarrow> bool" where
  "sendable f r \<longleftrightarrow>
     wire_word (request_method r) \<and> wire_word (request_target r) \<and> wire_word (http_version r) \<and>
     starts_with (http_version r) ''HTTP/'' \<and> length (request_line r) \<le> max_header_line \<and>
     list_all (\<lambda>h. wire_header h \<and> length (header_line h) \<le> max_header_line) (request_headers r) \<and>
     length (request_line r) + length (concat (map header_line (request_headers r))) + 2 \<le> max_header_bytes \<and>
     length (request_body r) \<le> max_request_body_bytes \<and> announced f r"

section \<open>Characters\<close>

lemma graphic_no_unit:
  assumes "is_ascii_graphic c"
  shows "find (\<lambda>u. u \<noteq> [] \<and> starts_with (c # r) u) whitespace_units = None"
    and "find (starts_with (c # r)) whitespace_units = None"
proof -
  have "\<not> starts_with (c # r) u" if "u \<in> set whitespace_units" for u
    using that assms by (auto simp: whitespace_units_def starts_with_def is_ascii_graphic_def)
  then show "find (\<lambda>u. u \<noteq> [] \<and> starts_with (c # r) u) whitespace_units = None"
    "find (starts_with (c # r)) whitespace_units = None"
    by (auto simp: find_None_iff)
qed

lemma graphic_no_unit_rev:
  assumes "is_ascii_graphic c"
  shows "find (\<lambda>u. u \<noteq> [] \<and> starts_with (c # r) u) (map rev whitespace_units) = None"
proof -
  have "\<not> starts_with (c # r) u" if "u \<in> set (map rev whitespace_units)" for u
    using that assms by (auto simp: whitespace_units_def starts_with_def is_ascii_graphic_def)
  then show ?thesis by (auto simp: find_None_iff)
qed

lemma trim_start_graphic: "is_ascii_graphic c \<Longrightarrow> trim_start (c # r) = c # r"
  by (simp add: trim_start_def strip_units.simps [of _ "c # r"] graphic_no_unit)

lemma trim_end_graphic: "is_ascii_graphic c \<Longrightarrow> trim_end (r @ [c]) = r @ [c]"
  by (simp add: trim_end_def strip_units.simps [of _ "c # rev r"] graphic_no_unit_rev)

lemma wire_word_trim:
  assumes "wire_word w"
  shows "trim w = w"
proof -
  from assms obtain c r where "w = c # r" "is_ascii_graphic c" by (cases w) (auto simp: wire_word_def)
  then have "trim_start w = w" by (simp add: trim_start_graphic)
  moreover from assms obtain q d where "w = q @ [d]" "is_ascii_graphic d"
    by (cases w rule: rev_cases) (auto simp: wire_word_def)
  then have "trim_end w = w" by (simp add: trim_end_graphic)
  ultimately show ?thesis by (simp add: trim_def)
qed

lemma space_unit: "find (\<lambda>u. u \<noteq> [] \<and> starts_with (CHR '' '' # r) u) whitespace_units = Some '' ''"
  "find (starts_with (CHR '' '' # r)) whitespace_units = Some '' ''"
  by (simp_all add: whitespace_units_def starts_with_def)

lemma trim_space: "trim v = v \<Longrightarrow> trim (CHR '' '' # v) = v"
  by (simp add: trim_def trim_start_def strip_units.simps [of _ "CHR '' '' # v"] space_unit)

lemma split_words_graphic:
  "list_all is_ascii_graphic w \<Longrightarrow> split_words acc (w @ s) = split_words (acc @ w) s"
proof (induction w arbitrary: acc)
  case (Cons c w)
  then show ?case by (simp add: split_words.simps [of acc "c # w @ s"] graphic_no_unit)
qed simp

lemma split_words_space: "split_words w (CHR '' '' # s) = flush_word w @ split_words [] s"
  by (simp add: split_words.simps [of w "CHR '' '' # s"] space_unit)

lemma split_words_crlf: "split_words w crlf = flush_word w"
proof -
  have "find (starts_with (CHR 0x0D # r)) whitespace_units = Some [CHR 0x0D]"
    "find (starts_with [CHR 0x0A]) whitespace_units = Some [CHR 0x0A]" for r
    by (simp_all add: whitespace_units_def starts_with_def)
  then show ?thesis
    by (simp add: crlf_def split_words.simps [of w "[CHR 0x0D, CHR 0x0A]"] split_words.simps [of "[]" "[CHR 0x0A]"]
        split_words.simps [of "[]" "[]"] flush_word_def)
qed

lemma split_request_line:
  assumes "sendable f r"
  shows "split_whitespace (request_line r) = [request_method r, request_target r, http_version r]"
  using assms
  by (simp add: sendable_def wire_word_def split_whitespace_def request_line_def split_words_graphic
      split_words_space split_words_crlf flush_word_def)

definition line_char :: "char \<Rightarrow> bool" where
  "line_char c \<longleftrightarrow> 32 \<le> code c \<and> code c \<le> 126"

lemma graphic_line_char: "is_ascii_graphic c \<Longrightarrow> line_char c"
  by (simp add: is_ascii_graphic_def line_char_def)

lemma line_char_plain: "line_char c \<Longrightarrow> code c < 128 \<and> c \<noteq> CHR 0x0A \<and> c \<noteq> CHR 0x0D"
  by (auto simp: line_char_def)

text \<open>A line of printable characters, line end included, is read whole.\<close>

lemma read_plain_line:
  assumes "list_all line_char l" "length l + 2 \<le> max_header_line"
  shows "read_line_limited \<lparr>unread = l @ crlf @ rest, ending = e\<rparr> = Some (Inr (l @ crlf, \<lparr>unread = rest, ending = e\<rparr>))"
proof -
  have s: "split_once line_feed (l @ crlf @ rest) = Some (l @ [CHR 0x0D], rest)"
    using assms(1) line_char_plain by (auto simp: split_once_Some_iff line_feed_def crlf_def list_all_iff)
  have "list_all (\<lambda>c. (of_char c :: nat) < 128) (l @ crlf)"
    using assms(1) line_char_plain by (auto simp: list_all_iff crlf_def)
  then have "valid_utf8 (l @ crlf)" by (rule ascii_utf8)
  with s assms(2) show ?thesis
    by (simp add: read_line_limited_def next_line_def line_feed_def crlf_def)
qed

lemma trim_crlf_line:
  assumes "list_all line_char l"
  shows "trim_crlf (l @ crlf) = l"
proof (cases l rule: rev_cases)
  case (snoc q c)
  with assms line_char_plain have "c \<noteq> CHR 0x0D" "c \<noteq> CHR 0x0A" by auto
  with snoc show ?thesis by (simp add: trim_crlf_def crlf_def)
qed (simp add: trim_crlf_def crlf_def)

lemma blank_crlf: "is_blank_line crlf"
  by (simp add: is_blank_line_def)

lemma not_blank_graphic:
  assumes "is_ascii_graphic c"
  shows "\<not> is_blank_line (c # r)"
proof -
  have "trim_end (c # r) \<noteq> []"
  proof
    assume e: "trim_end (c # r) = []"
    have keep: "x \<in> set s \<Longrightarrow> (\<forall>u \<in> set us. x \<notin> set u) \<Longrightarrow> x \<in> set (strip_units us s)" for x :: char and us s
    proof (induction us s rule: strip_units.induct)
      case (1 us s)
      show ?case
      proof (cases "find (\<lambda>u. u \<noteq> [] \<and> starts_with s u) us")
        case None
        with "1.prems" show ?thesis by (simp add: strip_units.simps [of us s])
      next
        case (Some u)
        then have u: "u \<in> set us" "starts_with s u" by (auto simp: find_Some_iff)
        with "1.prems" have "x \<in> set (drop (length u) s)" by (auto simp: starts_with_iff)
        with "1.IH" [OF Some] "1.prems" Some show ?thesis by (simp add: strip_units.simps [of us s])
      qed
    qed
    have "\<forall>u \<in> set (map rev whitespace_units). c \<notin> set u"
      using assms by (auto simp: whitespace_units_def is_ascii_graphic_def)
    from keep [of c "rev (c # r)", OF _ this] e show False by (simp add: trim_end_def)
  qed
  then have "trim (c # r) \<noteq> []" using assms by (simp add: trim_def trim_start_graphic)
  with assms show ?thesis by (auto simp: is_blank_line_def crlf_def line_feed_def is_ascii_graphic_def)
qed

section \<open>Reading it back\<close>

lemma read_back_line:
  assumes "sendable f r"
  shows "read_http_request_line \<lparr>unread = request_line r @ rest, ending = e\<rparr> =
    Inr (request_line r, \<lparr>unread = rest, ending = e\<rparr>)"
proof -
  let ?l = "request_method r @ '' '' @ request_target r @ '' '' @ http_version r"
  have "list_all line_char ?l" "?l \<noteq> []" "length ?l + 2 \<le> max_header_line"
    using assms graphic_line_char
    by (auto simp: sendable_def wire_word_def list_all_iff request_line_def crlf_def line_char_def)
  from read_plain_line [OF this(1,3), of rest e] this(2) show ?thesis
    by (simp add: read_http_request_line_def or_timeout_def request_line_def)
qed

lemma read_back_header_line:
  assumes "wire_header h" "length (header_line h) \<le> max_header_line"
  shows "read_line_limited \<lparr>unread = header_line h @ rest, ending = e\<rparr> = Some (Inr (header_line h, \<lparr>unread = rest, ending = e\<rparr>))"
    and "\<not> is_blank_line (header_line h)" and "parse_header_line (header_line h) = Inr h"
proof -
  obtain n v where h: "h = (n, v)" by (cases h)
  let ?l = "n @ '': '' @ v"
  have w: "wire_word n" "CHR '':'' \<notin> set n" "wire_text v" using assms(1) h by (simp_all add: wire_header_def)
  have l: "list_all line_char ?l" "length ?l + 2 \<le> max_header_line" and hl: "header_line h = ?l @ crlf"
    using assms w graphic_line_char h
    by (auto simp: wire_word_def wire_text_def list_all_iff header_line_def crlf_def line_char_def)
  show "read_line_limited \<lparr>unread = header_line h @ rest, ending = e\<rparr> = Some (Inr (header_line h, \<lparr>unread = rest, ending = e\<rparr>))"
    using read_plain_line [OF l, of rest e] by (simp add: hl)
  from w(1) obtain c q where "n = c # q" "is_ascii_graphic c" by (cases n) (auto simp: wire_word_def)
  then show "\<not> is_blank_line (header_line h)" using not_blank_graphic by (simp add: header_line_def h)
  have "split_once CHR '':'' ?l = Some (n, CHR '' '' # v)" using w(2) by (simp add: split_once_Some_iff)
  moreover have "trim n = n" "trim (CHR '' '' # v) = v"
    using w by (simp_all add: wire_word_trim trim_space wire_text_def)
  ultimately show "parse_header_line (header_line h) = Inr h"
    using trim_crlf_line [OF l(1)] hl by (simp add: parse_header_line_def h)
qed

lemma read_back_headers:
  assumes "list_all (\<lambda>h. wire_header h \<and> length (header_line h) \<le> max_header_line) hs"
    and "m + length (concat (map header_line hs)) + 2 \<le> max_header_bytes"
  shows "read_headers m \<lparr>unread = concat (map header_line hs) @ crlf @ rest, ending = e\<rparr> =
    Inr (hs, \<lparr>unread = rest, ending = e\<rparr>)"
  using assms
proof (induction hs arbitrary: m)
  case Nil
  have "read_line_limited \<lparr>unread = [] @ crlf @ rest, ending = e\<rparr> = Some (Inr ([] @ crlf, \<lparr>unread = rest, ending = e\<rparr>))"
    by (rule read_plain_line) (simp_all add: max_header_line_def)
  with Nil show ?case
    by (subst read_headers.simps) (simp add: or_timeout_def blank_crlf, simp add: crlf_def)
next
  case (Cons h hs)
  then have h: "wire_header h" "length (header_line h) \<le> max_header_line" by simp_all
  note l = read_back_header_line [OF h]
  have "read_headers (m + length (header_line h)) \<lparr>unread = concat (map header_line hs) @ crlf @ rest, ending = e\<rparr> =
      Inr (hs, \<lparr>unread = rest, ending = e\<rparr>)"
    using Cons by (intro Cons.IH) simp_all
  with l Cons.prems(2) show ?case
    by (subst read_headers.simps) (simp add: or_timeout_def)
qed

lemma hexadecimal_digits: "list_all (\<lambda>c. is_ascii_graphic c \<and> hex_value c \<noteq> None \<and> c \<noteq> CHR ''+'' \<and> c \<noteq> CHR '';'') (hexadecimal n)"
proof (induction n rule: hexadecimal.induct)
  case (1 n)
  have d: "is_ascii_graphic (hex_digit d) \<and> hex_value (hex_digit d) \<noteq> None \<and> hex_digit d \<noteq> CHR ''+'' \<and> hex_digit d \<noteq> CHR '';''"
    if "d < 16" for d
    using hex_value_digit [OF that] that by (auto simp: hex_digit_def is_ascii_graphic_def code_inject [symmetric] simp del: of_char_eq_iff)
  show ?case using 1 d [of n] d [of "n mod 16"] by (subst hexadecimal.simps) simp
qed

lemma hexadecimal_nonempty: "hexadecimal n \<noteq> []"
  by (subst hexadecimal.simps) simp

lemma hex_number_hexadecimal: "hex_number 0 (hexadecimal n) = n"
proof (induction n rule: hexadecimal.induct)
  case (1 n)
  then show ?case
    by (subst hexadecimal.simps) (simp add: hex_number_def hex_value_digit)
qed

lemma length_hexadecimal: "n < 16 ^ k \<Longrightarrow> 0 < k \<Longrightarrow> length (hexadecimal n) \<le> k"
proof (induction k arbitrary: n)
  case (Suc k)
  show ?case
  proof (cases "n < 16")
    case True
    then show ?thesis by (subst hexadecimal.simps) simp
  next
    case False
    have "n div 16 < 16 ^ k" using Suc.prems(1) by (simp add: less_mult_imp_div_less mult.commute)
    moreover from this False have "0 < k" by (cases k) auto
    ultimately have "length (hexadecimal (n div 16)) \<le> k" by (rule Suc.IH)
    with False show ?thesis by (subst hexadecimal.simps) simp
  qed
qed simp

lemma read_back_chunk:
  assumes "start + length c \<le> limit" "limit \<le> usize_max"
  shows "read_chunk limit start (length c) \<lparr>unread = c @ crlf @ rest, ending = e\<rparr> = Some (Inr (c, \<lparr>unread = rest, ending = e\<rparr>))"
  using assms
  by (simp add: read_chunk_def read_exact_def and_then_def take_bytes_def done_with_def crlf_def)

text \<open>
  A way to write chunk sizes in hexadecimal digits, short enough for a line.  What is read back does not
  depend on which one is used: clients write lower case, the proxy itself upper case.
\<close>

locale chunk_sizes =
  fixes show_size :: "nat \<Rightarrow> string"
  assumes digits: "list_all (\<lambda>c. is_ascii_graphic c \<and> hex_value c \<noteq> None \<and> c \<noteq> CHR ''+'' \<and> c \<noteq> CHR '';'') (show_size n)"
    and nonempty: "show_size n \<noteq> []"
    and number: "hex_number 0 (show_size n) = n"
    and short: "n < 16 ^ 16 \<Longrightarrow> length (show_size n) \<le> 16"
begin

lemma parse_size:
  assumes "n \<le> usize_max"
  shows "parse_hex_usize (show_size n) = Some n"
proof -
  obtain c r where c: "show_size n = c # r" using nonempty by (cases "show_size n") auto
  with digits [of n] number [of n] assms show ?thesis
    by (auto simp: parse_hex_usize_def Let_def list_all_iff)
qed

lemma size_line: "list_all line_char (show_size n)"
  using digits [of n] graphic_line_char by (auto simp: list_all_iff)

lemma chunk_size_read:
  assumes "n \<le> usize_max"
  shows "chunk_size (show_size n @ crlf) = Inr n"
proof -
  have "wire_word (show_size n)" using digits [of n] nonempty by (auto simp: wire_word_def list_all_iff)
  moreover have "split_on ((=) CHR '';'') (show_size n) = [show_size n]"
    using digits [of n] by (intro split_on_single) (auto simp: list_all_iff)
  ultimately show ?thesis
    by (simp add: chunk_size_def trim_crlf_line size_line wire_word_trim parse_size assms)
qed

lemma read_back_size_line:
  assumes "n \<le> usize_max"
  shows "read_line_limited \<lparr>unread = show_size n @ crlf @ rest, ending = e\<rparr> =
       Some (Inr (show_size n @ crlf, \<lparr>unread = rest, ending = e\<rparr>))"
  using short [of n] assms
  by (intro read_plain_line size_line) (simp add: usize_max_def max_header_line_def)

lemma read_back_chunks:
  assumes "length body + length (concat cs) \<le> limit" "limit \<le> usize_max" "[] \<notin> set cs"
  shows "read_chunked_body_with_limit limit body
      \<lparr>unread = concat (map (chunk_with show_size) cs) @ ''0'' @ crlf @ crlf @ rest, ending = e\<rparr> =
    Some (Inr (body @ concat cs, \<lparr>unread = rest, ending = e\<rparr>))"
  using assms
proof (induction cs arbitrary: body)
  case Nil
  have "read_line_limited \<lparr>unread = ''0'' @ crlf @ crlf @ rest, ending = e\<rparr> =
      Some (Inr (''0'' @ crlf, \<lparr>unread = crlf @ rest, ending = e\<rparr>))"
    by (rule read_plain_line) (simp_all add: line_char_def max_header_line_def)
  moreover have "chunk_size (''0'' @ crlf) = Inr 0" by code_simp
  moreover have "read_trailers 0 \<lparr>unread = crlf @ rest, ending = e\<rparr> = Some (Inr ((), \<lparr>unread = rest, ending = e\<rparr>))"
    using read_plain_line [of "[]" rest e]
    by (subst read_trailers.simps) (simp add: blank_crlf max_header_line_def, simp add: crlf_def max_header_bytes_def)
  ultimately show ?case
    by (subst read_chunked_body_with_limit.simps) (simp add: and_then_def done_with_def)
next
  case (Cons c cs)
  let ?rest = "concat (map (chunk_with show_size) cs) @ ''0'' @ crlf @ crlf @ rest"
  have len: "length c \<le> usize_max" "length body + length c \<le> limit" "0 < length c" using Cons.prems by auto
  have "read_chunked_body_with_limit limit (body @ c) \<lparr>unread = ?rest, ending = e\<rparr> =
      Some (Inr ((body @ c) @ concat cs, \<lparr>unread = rest, ending = e\<rparr>))"
    using Cons.prems by (intro Cons.IH) auto
  with read_back_size_line [OF len(1), of "c @ crlf @ ?rest" e] chunk_size_read [OF len(1)]
    read_back_chunk [OF len(2) Cons.prems(2), of ?rest e] len(3)
  show ?case by (subst read_chunked_body_with_limit.simps) (simp add: chunk_with_def)
qed

end

interpretation lower: chunk_sizes hexadecimal
proof unfold_locales
  fix n :: nat
  show "list_all (\<lambda>c. is_ascii_graphic c \<and> hex_value c \<noteq> None \<and> c \<noteq> CHR ''+'' \<and> c \<noteq> CHR '';'') (hexadecimal n)"
    by (rule hexadecimal_digits)
  show "hexadecimal n \<noteq> []" by (rule hexadecimal_nonempty)
  show "hex_number 0 (hexadecimal n) = n" by (rule hex_number_hexadecimal)
  show "length (hexadecimal n) \<le> 16" if "n < 16 ^ 16" using that by (rule length_hexadecimal) simp
qed

lemma read_back_body:
  assumes "sendable f r"
  shows "read_request_body (request_headers r) \<lparr>unread = framed f (request_body r) @ rest, ending = e\<rparr> =
    Some (Inr (request_body r, \<lparr>unread = rest, ending = e\<rparr>))"
proof (cases f)
  case Plain
  have u: "max_request_body_bytes \<le> usize_max" by (simp add: max_request_body_bytes_def usize_max_def)
  from assms Plain have b: "length (request_body r) \<le> max_request_body_bytes" by (simp add: sendable_def)
  then have "parse_unsigned usize_max (decimal (length (request_body r))) = Some (length (request_body r))"
    using u by (intro parse_unsigned_decimal) simp
  with assms Plain b show ?thesis
    by (simp add: sendable_def read_request_body_def read_request_body_with_limit_def and_then_def take_bytes_def done_with_def)
next
  case (Chunked cs)
  with assms have "header_contains (request_headers r) ''transfer-encoding'' ''chunked''" "concat cs = request_body r"
    "[] \<notin> set cs" "length (request_body r) \<le> max_request_body_bytes" by (simp_all add: sendable_def)
  with lower.read_back_chunks [of "[]" cs max_request_body_bytes rest e] Chunked show ?thesis
    by (simp add: read_request_body_def read_request_body_with_limit_def max_request_body_bytes_def usize_max_def)
qed

text \<open>
  C34: Request framing is exact.  A request that is written out with printable words and trimmed
  header values, within the limits of the reader, is read back unchanged, its body framed by a length
  or in chunks; whatever follows it on the connection is left for the next request.
\<close>

theorem request_roundtrip:
  assumes "sendable f r"
  shows "read_http_request \<lparr>unread = wire_request f r @ rest, ending = e\<rparr> = Inr (r, \<lparr>unread = rest, ending = e\<rparr>)"
proof -
  let ?body = "framed f (request_body r) @ rest"
  from assms have hs: "list_all (\<lambda>h. wire_header h \<and> length (header_line h) \<le> max_header_line) (request_headers r)"
    "length (request_line r) + length (concat (map header_line (request_headers r))) + 2 \<le> max_header_bytes"
    "starts_with (http_version r) ''HTTP/''" by (simp_all add: sendable_def)
  show ?thesis
    using read_back_line [OF assms, of "concat (map header_line (request_headers r)) @ crlf @ ?body" e]
      read_back_headers [OF hs(1,2), of ?body e] read_back_body [OF assms, of rest e]
      split_request_line [OF assms] hs(3)
    by (simp add: read_http_request_def wire_request_def or_timeout_def)
qed

definition example_request :: incoming_request where
  "example_request = \<lparr>request_method = ''POST'', request_target = ''/v1/messages'', http_version = ''HTTP/1.1'',
     request_headers = [(''Host'', ''a.example''), (''Transfer-Encoding'', ''gzip, chunked'')], request_body = ''hello world''\<rparr>"

lemma example_sendable: "sendable (Chunked [''hello '', ''world'']) example_request"
  by code_simp

theorem request_roundtrip_witness:
  "read_http_request \<lparr>unread = wire_request (Chunked [''hello '', ''world'']) example_request @ ''GET'', ending = Stalled\<rparr> =
     Inr (example_request, \<lparr>unread = ''GET'', ending = Stalled\<rparr>)"
  by (rule request_roundtrip [OF example_sendable])

theorem request_is_bounded_witness:
  "\<exists>s r s'. read_http_request s = Inr (r, s') \<and> request_body r = ''hello world'' \<and>
     headers_size (request_headers r) < max_header_bytes"
proof -
  let ?s = "\<lparr>unread = wire_request (Chunked [''hello '', ''world'']) example_request, ending = Closed\<rparr>"
  have run: "(case read_http_request ?s of Inl _ \<Rightarrow> False | Inr (r, s') \<Rightarrow> request_body r = ''hello world'')" by code_simp
  then obtain r s' where r: "read_http_request ?s = Inr (r, s')" "request_body r = ''hello world''"
    by (auto split: sum.splits)
  from request_is_bounded [OF r(1)] r show ?thesis by blast
qed

end
