(* ===== verification/Proxy_Serving.thy ===== *)
theory Proxy_Serving
  imports Proxy_Connection Http_Framing
begin

text \<open>
  The handlers of \<open>local_proxy.rs\<close>: the first request of a connection, plain HTTP requests, direct tunnels,
  WebSockets, and the loop that serves the requests inside an intercepted TLS connection.  Requests are
  read from a stream that no handler changes, so the loop ends with the bytes of the client.
\<close>

section \<open>The certificate cache\<close>

record 'c managed_certificate =
  server_config :: 'c
  spki_sha256 :: string

text \<open>\<open>issue\<close> is \<open>build_leaf_server_config\<close> with the certificate authority of the installation.\<close>

definition certificate_for_host ::
  "(string \<Rightarrow> (failure, 'c managed_certificate) result) \<Rightarrow> string \<Rightarrow> (string \<times> 'c managed_certificate) list \<Rightarrow>
     (failure, 'c managed_certificate) result \<times> (string \<times> 'c managed_certificate) list" where
  "certificate_for_host issue host cache =
     (let h = canonical_host host in
      case map_of cache h of
        Some certificate \<Rightarrow> (Inr certificate, cache)
      | None \<Rightarrow>
          (case issue h of
             Inl e \<Rightarrow> (Inl e, cache)
           | Inr certificate \<Rightarrow> (Inr certificate, (h, certificate) # cache)))"

primrec spki_list ::
  "(string \<Rightarrow> (failure, 'c managed_certificate) result) \<Rightarrow> string list \<Rightarrow> (string \<times> 'c managed_certificate) list \<Rightarrow>
     (failure, string list) result \<times> (string \<times> 'c managed_certificate) list" where
  "spki_list issue [] cache = (Inr [], cache)"
| "spki_list issue (host # hosts) cache =
     (case certificate_for_host issue host cache of
        (Inl e, cache') \<Rightarrow> (Inl e, cache')
      | (Inr certificate, cache') \<Rightarrow>
          (case spki_list issue hosts cache' of
             (Inl e, cache'') \<Rightarrow> (Inl e, cache'')
           | (Inr pins, cache'') \<Rightarrow> (Inr (spki_sha256 certificate # pins), cache'')))"

definition desktop_tls_spki_list ::
  "(string \<Rightarrow> (failure, 'c managed_certificate) result) \<Rightarrow> (string \<times> 'c managed_certificate) list \<Rightarrow>
     (failure, string) result \<times> (string \<times> 'c managed_certificate) list" where
  "desktop_tls_spki_list issue cache =
     (case spki_list issue [openai_host, chatgpt_host, chat_openai_host, chatgpt_aux_host] cache of
        (r, cache') \<Rightarrow> (map_sum id (join '','') r, cache'))"

section \<open>Refusals and tunnels\<close>

definition refuse_telemetry_host :: "('k, unit) act" where
  "refuse_telemetry_host =
     then_act (ignore_act (write_all_bytes
       (''HTTP/1.1 403 Forbidden'' @ crlf @ ''Content-Length: 0'' @ crlf @ ''Connection: close'' @ crlf @ crlf)))
       (ignore_act flush)"

definition connection_established :: string where
  "connection_established = ''HTTP/1.1 200 Connection Established'' @ crlf @ crlf"

definition connect_passthrough_target :: "network \<Rightarrow> string \<Rightarrow> nat \<Rightarrow> ('k, unit) act" where
  "connect_passthrough_target N host port =
     (if is_managed_host host \<and> port = 443 then abort (bail ''managed host must use local MITM route'')
      else then_act (contact (Tunnelled host port)) (ask (\<lambda>n. connect_upstream N n True host port)))"

definition gateway_error :: "network \<Rightarrow> nat \<Rightarrow> failure \<Rightarrow> ('k, 'a) act" where
  "gateway_error N status e = then_act (ignore_act (write_plain_error (reason_phrase N) status)) (abort e)"

text \<open>\<open>copy_tunnel\<close> tells what the target sends through the tunnel and how the copying ends.\<close>

definition copy_bidirectional :: "network \<Rightarrow> ('k, unit) act" where
  "copy_bidirectional N =
     bind_act (ask (\<lambda>n. Inr (copy_tunnel N n))) (\<lambda>(bytes, ending_failure).
       then_act (write_all_bytes bytes) (case ending_failure of None \<Rightarrow> pass () | Some e \<Rightarrow> abort e))"

definition serve_direct_tunnel :: "network \<Rightarrow> string \<Rightarrow> nat \<Rightarrow> ('k, unit) act" where
  "serve_direct_tunnel N host port =
     (let place = host @ '':'' @ decimal port in
      bind_act (attempt (connect_passthrough_target N host port)) (\<lambda>r.
        case r of
          Inl e \<Rightarrow> gateway_error N 502 (in_context (''failed to open tunnel to '' @ place) e)
        | Inr _ \<Rightarrow>
            then_act (context_act ''failed to acknowledge direct CONNECT'' (write_all_bytes connection_established))
              (context_act (''direct tunnel copy failed for '' @ place) (copy_bidirectional N))))"

section \<open>Plain HTTP requests\<close>

definition plain_request :: "network \<Rightarrow> incoming_request \<Rightarrow> proxy_url \<Rightarrow> upstream_request" where
  "plain_request N request target =
     \<lparr>up_method = request_method request, up_url = url_text N target,
      up_headers = http_proxy_headers (request_headers request) (is_managed_host (target_host target)),
      up_body = request_body request\<rparr>"

definition send_plain :: "network \<Rightarrow> upstream_request \<Rightarrow> ('k, upstream_response) act" where
  "send_plain N request =
     (if list_all (header_ok N) (up_headers request)
      then then_act (contact (Relayed request)) (ask (\<lambda>n. send_request N n request))
      else abort (bail ''builder error: invalid header''))"

definition serve_http_proxy_request :: "web \<Rightarrow> network \<Rightarrow> incoming_request \<Rightarrow> ('k, unit) act" where
  "serve_http_proxy_request W N request =
     (case parse_http_proxy_target (web_url W) request of
        Inl e \<Rightarrow> gateway_error N 400 (in_context ''rejected HTTP proxy request'' e)
      | Inr target \<Rightarrow>
          if \<not> method_ok N (request_method request)
          then gateway_error N 405 (in_context (''unsupported HTTP proxy method '' @ request_method request) (bail ''invalid HTTP method''))
          else
            (let place = '' method='' @ request_method request @ '' host='' @ target_host target @ '':'' @ decimal (target_port target) in
             bind_act (attempt (ask (\<lambda>n. client_for N n (url_text N target)))) (\<lambda>r.
               case r of
                 Inl e \<Rightarrow> gateway_error N 502 e
               | Inr _ \<Rightarrow>
                   bind_act (attempt (send_plain N (plain_request N request target))) (\<lambda>r.
                     case r of
                       Inl e \<Rightarrow> gateway_error N 502 (in_context (''HTTP proxy request failed'' @ place) e)
                     | Inr response \<Rightarrow>
                         then_act (context_act (''HTTP proxy response failed'' @ place)
                           (write_upstream_response (reason_phrase N) response True)) (pass ())))))"

section \<open>WebSockets\<close>

definition socket_request ::
  "'k proof_libraries \<Rightarrow> network \<Rightarrow> route_config \<Rightarrow> proxy_url \<Rightarrow> header list \<Rightarrow> ('k, upstream_request) act" where
  "socket_request L N route u headers =
     (let build = (\<lambda>signature. build_openai_websocket_request (header_ok N) (url_text N) (url_authority N) (handshake_defaults N)
            u headers (route_api_key route) (\<lambda>_ _. signature))
      in then_act (lift_act (build None))
        (bind_act (client_proof_header L N route ''GET'' (wire_target u) (Some (route_api_key route))) (\<lambda>signature.
           lift_act (build signature))))"

definition serve_handshake :: "network \<Rightarrow> string \<Rightarrow> ws_handshake \<Rightarrow> ('k, unit) act" where
  "serve_handshake N sec_key handshake =
     (case handshake of
        HandshakeRejected status headers body \<Rightarrow>
          if relays_websocket_rejection status
          then then_act (ignore_act (write_all_bytes (build_openai_websocket_rejection (reason_phrase N) status headers body)))
              (then_act (ignore_act flush) (abort (bail (''Gateway WebSocket handshake returned '' @ decimal status))))
          else gateway_error N 502 (in_context ''failed to establish Gateway WebSocket'' (bail ''HTTP error''))
      | HandshakeFailed e \<Rightarrow> gateway_error N 502 (in_context ''failed to establish Gateway WebSocket'' e)
      | HandshakeDone status headers events \<Rightarrow>
          if status \<noteq> 101
          then gateway_error N 502 (bail (''Gateway WebSocket handshake returned '' @ decimal status))
          else then_act (context_act ''failed to acknowledge Codex WebSocket''
                (write_all_bytes (build_openai_websocket_response (accept_key N sec_key) headers)))
              (lift_act (fst (relay_openai_websocket events))))"

definition serve_openai_websocket ::
  "'k proof_libraries \<Rightarrow> web \<Rightarrow> network \<Rightarrow> proxy_state \<Rightarrow> incoming_request \<Rightarrow> ('k, unit) act" where
  "serve_openai_websocket L W N S request =
     (let route = route_for_host S chatgpt_host in
      bind_act (lift_act (ok_or (bail ''OpenAI WebSocket request did not include Sec-WebSocket-Key'')
        (header_value (request_headers request) ''sec-websocket-key''))) (\<lambda>sec_key.
      bind_act (lift_act (websocket_upstream_url (web_url W) (change_scheme N) (request_target request) route)) (\<lambda>u.
      bind_act (socket_request L N route u (request_headers request)) (\<lambda>upstream_request.
      bind_act (lift_act (ok_or (bail ''Gateway WebSocket URL has no host'') (url_host u))) (\<lambda>host.
      bind_act (lift_act (ok_or (bail ''Gateway WebSocket URL has no port'') (known_port u))) (\<lambda>port.
      bind_act (attempt (ask (\<lambda>n. connect_upstream N n (url_scheme u = ''wss'') host port))) (\<lambda>r.
        case r of
          Inl e \<Rightarrow> gateway_error N 502 (in_context ''failed to connect to the Gateway WebSocket'' e)
        | Inr _ \<Rightarrow>
            then_act (contact (SocketToGateway route upstream_request))
              (bind_act (ask (\<lambda>n. Inr (websocket_handshake N n upstream_request))) (serve_handshake N sec_key)))))))))"

section \<open>One request inside an intercepted connection\<close>

datatype after_request = KeepServing | ConnectionDone

definition answer_static :: "network \<Rightarrow> static_response \<Rightarrow> bool \<Rightarrow> ('k, unit) act" where
  "answer_static N response close_after =
     write_static_response (reason_phrase N) (static_status response) (content_type response) (static_body response) close_after []"

definition unknown_path :: "network \<Rightarrow> bool \<Rightarrow> ('k, unit) act" where
  "unknown_path N close_after = write_static_response (reason_phrase N) 204 ''text/plain'' [] close_after []"

definition after_answer :: "bool \<Rightarrow> ('k, unit) act \<Rightarrow> ('k, after_request) act" where
  "after_answer close_after m = then_act m (pass (if close_after then ConnectionDone else KeepServing))"

definition serve_anthropic ::
  "'k proof_libraries \<Rightarrow> web \<Rightarrow> network \<Rightarrow> proxy_state \<Rightarrow> string option \<Rightarrow> incoming_request \<Rightarrow> bool \<Rightarrow> ('k, unit) act" where
  "serve_anthropic L W N S preferences request close_after =
     (case local_sidecar_response (web_url W) request of
        Some response \<Rightarrow>
          answer_static N (if request_method request = ''HEAD'' then response\<lparr>static_body := []\<rparr> else response) close_after
      | None \<Rightarrow>
          bind_act (lift_act (request_path (web_url W) (request_target request))) (\<lambda>path.
            if \<not> is_forwarded_anthropic_path path then unknown_path N close_after
            else forward_to_saiai L W N S preferences request close_after False))"

datatype chatgpt_outcome =
  UseTarget string | AnswerStatic static_response | AnswerAccount account_answer | RefuseTarget failure

definition is_chatgpt_host :: "string \<Rightarrow> bool" where
  "is_chatgpt_host host \<longleftrightarrow> host = chatgpt_host \<or> host = chat_openai_host \<or> host = chatgpt_aux_host"

definition chatgpt_action :: "web \<Rightarrow> string \<Rightarrow> proxy_state \<Rightarrow> incoming_request \<Rightarrow> chatgpt_outcome" where
  "chatgpt_action W payload S request =
     (let target = request_target request in
      case normalize_chatgpt_gateway_target (web_url W) target of
        Inr t \<Rightarrow> UseTarget t
      | Inl e \<Rightarrow>
          (case (chat_passthrough S, normalize_chatgpt_chat_target (web_url W) target) of
             (True, Inr t) \<Rightarrow> UseTarget t
           | _ \<Rightarrow>
               (case (if chat_passthrough S then None else chatgpt_chat_disabled_response (web_url W) request) of
                  Some response \<Rightarrow> AnswerStatic response
                | None \<Rightarrow>
                    (case chatgpt_account_sidecar_response_with W request (browser_use S) of
                       Some answer \<Rightarrow> AnswerAccount answer
                     | None \<Rightarrow>
                         (case chatgpt_sidecar_response_with (web_url W) payload request (browser_use S) of
                            Some response \<Rightarrow> AnswerStatic response
                          | None \<Rightarrow> RefuseTarget e)))))"

definition serve_gateway_target ::
  "'k proof_libraries \<Rightarrow> web \<Rightarrow> network \<Rightarrow> proxy_state \<Rightarrow> string option \<Rightarrow> incoming_request \<Rightarrow> bool \<Rightarrow> ('k, after_request) act" where
  "serve_gateway_target L W N S preferences request close_after =
     (if is_websocket_upgrade request then then_act (serve_openai_websocket L W N S request) (pass ConnectionDone)
      else after_answer close_after
        (bind_act (lift_act (request_path (web_url W) (request_target request))) (\<lambda>path.
           if is_forwarded_openai_path path then forward_to_saiai L W N S preferences request close_after True
           else unknown_path N close_after)))"

definition serve_openai ::
  "'k proof_libraries \<Rightarrow> web \<Rightarrow> network \<Rightarrow> proxy_state \<Rightarrow> string \<Rightarrow> string option \<Rightarrow> string \<Rightarrow> incoming_request \<Rightarrow> bool \<Rightarrow>
     ('k, after_request) act" where
  "serve_openai L W N S payload preferences host request close_after =
     (case (if is_chatgpt_host host then chatgpt_action W payload S request else UseTarget (request_target request)) of
        UseTarget t \<Rightarrow> serve_gateway_target L W N S preferences (request\<lparr>request_target := t\<rparr>) close_after
      | AnswerStatic response \<Rightarrow> after_answer close_after (answer_static N response close_after)
      | AnswerAccount (status, body, reason) \<Rightarrow>
          after_answer close_after (write_static_response (reason_phrase N) status ''application/json'' body close_after [])
      | RefuseTarget e \<Rightarrow> abort e)"

definition serve_managed_request ::
  "'k proof_libraries \<Rightarrow> web \<Rightarrow> network \<Rightarrow> proxy_state \<Rightarrow> string \<Rightarrow> string option \<Rightarrow> string \<Rightarrow> incoming_request \<Rightarrow>
     ('k, after_request) act" where
  "serve_managed_request L W N S payload preferences host request =
     (let close_after = request_wants_close request in
      if host = anthropic_host then after_answer close_after (serve_anthropic L W N S preferences request close_after)
      else if host = openai_host \<or> is_chatgpt_host host
        then serve_openai L W N S payload preferences host request close_after
      else after_answer close_after (pass ()))"

section \<open>The loop\<close>

function serve_managed_requests ::
  "'k proof_libraries \<Rightarrow> web \<Rightarrow> network \<Rightarrow> proxy_state \<Rightarrow> string \<Rightarrow> string option \<Rightarrow> string \<Rightarrow> nat \<Rightarrow> stream \<Rightarrow> ('k, nat) act" where
  "serve_managed_requests L W N S payload preferences host handled s c =
     (case read_http_request s of
        Inl e \<Rightarrow>
          if is_idle_http_connection_end e then pass handled c
          else gateway_error N (request_read_error_status e)
            (in_context (''managed TLS stream ended host='' @ host @ '' requests_handled='' @ decimal handled) e) c
      | Inr (request, s') \<Rightarrow>
          (case serve_managed_request L W N S payload preferences host request c of
             (Inl e, c') \<Rightarrow> (Inl e, c')
           | (Inr ConnectionDone, c') \<Rightarrow> pass (handled + 1) c'
           | (Inr KeepServing, c') \<Rightarrow> serve_managed_requests L W N S payload preferences host (handled + 1) s' c'))"
  by pat_completeness auto
termination
  by (relation "measure (\<lambda>(L, W, N, S, payload, preferences, host, handled, s, c). length (unread s))")
    (auto dest: read_http_request_shorter)

declare serve_managed_requests.simps [simp del]

definition serve_managed_tls ::
  "'k proof_libraries \<Rightarrow> web \<Rightarrow> network \<Rightarrow> proxy_state \<Rightarrow> string \<Rightarrow> string option \<Rightarrow> string \<Rightarrow> ('k, nat) act" where
  "serve_managed_tls L W N S payload preferences host =
     bind_act (context_act (''client TLS handshake failed for '' @ host) (ask (\<lambda>n. accept_tls N n host)))
       (\<lambda>s. serve_managed_requests L W N S payload preferences host 0 s)"

section \<open>A connection\<close>

text \<open>\<open>pins\<close> is the answer of \<open>desktop_tls_spki_list\<close>, \<open>certificate\<close> that of \<open>tls_config_for_host\<close>.\<close>

definition serve_connect ::
  "'k proof_libraries \<Rightarrow> web \<Rightarrow> network \<Rightarrow> proxy_state \<Rightarrow> string \<Rightarrow> string option \<Rightarrow> (failure, string) result \<Rightarrow>
     (string \<Rightarrow> (failure, unit) result) \<Rightarrow> connect_target \<Rightarrow> ('k, unit) act" where
  "serve_connect L W N S payload preferences pins certificate target =
     (let host = connect_host target; port = connect_port target in
      if telemetry_deny_reason host \<noteq> None then refuse_telemetry_host
      else if host = certificate_control_host \<and> port = 443 then
        bind_act (lift_act pins) (\<lambda>spki.
          then_act (context_act ''failed to return managed certificate identity'' (write_all_bytes
            (''HTTP/1.1 200 Connection Established'' @ crlf @ ''x-saiai-leaf-spki-sha256: '' @ spki @ crlf @
             ''Connection: close'' @ crlf @ crlf))) flush)
      else if is_managed_host host \<and> port = 443 then
        then_act (context_act ''failed to acknowledge managed CONNECT'' (write_all_bytes connection_established))
          (then_act (lift_act (certificate host))
            (then_act (serve_managed_tls L W N S payload preferences host) (pass ())))
      else serve_direct_tunnel N host port)"

definition handle_client ::
  "'k proof_libraries \<Rightarrow> web \<Rightarrow> network \<Rightarrow> proxy_state \<Rightarrow> string \<Rightarrow> string option \<Rightarrow> (failure, string) result \<Rightarrow>
     (string \<Rightarrow> (failure, unit) result) \<Rightarrow> stream \<Rightarrow> ('k, unit) act" where
  "handle_client L W N S payload preferences pins certificate s =
     (case read_initial_proxy_request (web_url W) s of
        Inl e \<Rightarrow> gateway_error N (request_read_error_status e) e
      | Inr (InitialHttp request, _) \<Rightarrow>
          (case parse_http_proxy_target (web_url W) request of
             Inr target \<Rightarrow>
               if telemetry_deny_reason (target_host target) \<noteq> None then refuse_telemetry_host
               else serve_http_proxy_request W N request
           | Inl _ \<Rightarrow> serve_http_proxy_request W N request)
      | Inr (InitialConnect target, _) \<Rightarrow> serve_connect L W N S payload preferences pins certificate target)"

end
