(* ===== verification/Proxy_Guarantees.thy ===== *)
theory Proxy_Guarantees
  imports Proxy_Serving
begin

text \<open>
  What holds of every contact a client of the local proxy can cause, whatever it sends, however the other
  servers answer and whichever write fails.
\<close>

section \<open>The contacts of an action\<close>

text \<open>\<open>m\<close> only adds contacts with \<open>Q\<close>.\<close>

definition adds :: "(egress \<Rightarrow> bool) \<Rightarrow> ('k, 'a) act \<Rightarrow> bool" where
  "adds Q m \<longleftrightarrow> (\<forall>c. \<exists>es. contacts (snd (m c)) = contacts c @ es \<and> list_all Q es)"

named_theorems adds_intros "composition of actions by the contacts they add"

lemma addsD: "adds Q m \<Longrightarrow> m c = (r, c') \<Longrightarrow> \<exists>es. contacts c' = contacts c @ es \<and> list_all Q es"
  unfolding adds_def by (metis snd_conv)

lemma addsI: "(\<And>c r c'. m c = (r, c') \<Longrightarrow> \<exists>es. contacts c' = contacts c @ es \<and> list_all Q es) \<Longrightarrow> adds Q m"
  unfolding adds_def by (metis surjective_pairing)

lemma adds_none: "(\<And>c. contacts (snd (m c)) = contacts c) \<Longrightarrow> adds Q m"
  by (auto simp: adds_def intro: exI [of _ "[]"])

lemma adds_mono: "adds Q m \<Longrightarrow> (\<And>e. Q e \<Longrightarrow> R e) \<Longrightarrow> adds R m"
  unfolding adds_def by (meson list.pred_mono_strong)

lemma adds_basic [adds_intros]:
  "adds Q (pass x)" "adds Q (abort e)" "adds Q (lift_act r)" "adds Q (ask f)"
  by (rule adds_none; simp add: pass_def abort_def lift_act_def ask_def)+

lemma adds_contact: "Q e \<Longrightarrow> adds Q (contact e)"
  by (simp add: adds_def contact_def)

lemma adds_bind_strong:
  assumes m: "adds Q m" and f: "\<And>x c c'. m c = (Inr x, c') \<Longrightarrow> adds Q (f x)"
  shows "adds Q (bind_act m f)"
proof (rule addsI)
  fix c r c''
  assume run: "bind_act m f c = (r, c'')"
  obtain r1 c1 where m1: "m c = (r1, c1)" by fastforce
  from addsD [OF m m1] obtain es where es: "contacts c1 = contacts c @ es" "list_all Q es" by blast
  show "\<exists>es. contacts c'' = contacts c @ es \<and> list_all Q es"
  proof (cases r1)
    case (Inl e)
    with run m1 es show ?thesis by (auto simp: bind_act_def)
  next
    case (Inr x)
    with run m1 have "f x c1 = (r, c'')" by (simp add: bind_act_def)
    from addsD [OF f this] m1 Inr obtain fs where "contacts c'' = contacts c1 @ fs" "list_all Q fs" by blast
    with es show ?thesis by (intro exI [of _ "es @ fs"]) simp
  qed
qed

lemma adds_bind [adds_intros]: "adds Q m \<Longrightarrow> (\<And>x. adds Q (f x)) \<Longrightarrow> adds Q (bind_act m f)"
  by (rule adds_bind_strong)

lemma adds_bind_lift: "(\<And>x. r = Inr x \<Longrightarrow> adds Q (f x)) \<Longrightarrow> adds Q (bind_act (lift_act r) f)"
  by (rule adds_bind_strong, rule adds_basic) (simp add: lift_act_def)

lemma adds_then [adds_intros]: "adds Q m \<Longrightarrow> adds Q n \<Longrightarrow> adds Q (then_act m n)"
  unfolding then_act_def by (rule adds_bind)

lemma adds_wrappers [adds_intros]:
  assumes "adds Q m"
  shows "adds Q (context_act what m)" "adds Q (attempt m)" "adds Q (ignore_act m)"
  using assms by (auto simp: adds_def context_act_def attempt_def ignore_act_def split: prod.split) (metis snd_conv)+

lemma adds_iter [adds_intros]: "(\<And>x. adds Q (f x)) \<Longrightarrow> adds Q (iter_act f xs)"
  by (induction xs) (simp_all add: adds_intros)

lemma adds_if [adds_intros]: "(b \<Longrightarrow> adds Q m) \<Longrightarrow> (\<not> b \<Longrightarrow> adds Q n) \<Longrightarrow> adds Q (if b then m else n)"
  by simp

lemma adds_cases [adds_intros]:
  "(\<And>e. r = Inl e \<Longrightarrow> adds Q (f e)) \<Longrightarrow> (\<And>x. r = Inr x \<Longrightarrow> adds Q (g x)) \<Longrightarrow> adds Q (case r of Inl e \<Rightarrow> f e | Inr x \<Rightarrow> g x)"
  "(o' = None \<Longrightarrow> adds Q m) \<Longrightarrow> (\<And>y. o' = Some y \<Longrightarrow> adds Q (h y)) \<Longrightarrow> adds Q (case o' of None \<Rightarrow> m | Some y \<Rightarrow> h y)"
  "(\<And>a b. p = (a, b) \<Longrightarrow> adds Q (k a b)) \<Longrightarrow> adds Q (case p of (a, b) \<Rightarrow> k a b)"
  by (auto split: sum.split option.split prod.split)

lemma adds_let [adds_intros]: "(\<And>x. x = t \<Longrightarrow> adds Q (f x)) \<Longrightarrow> adds Q (let x = t in f x)"
  by simp

section \<open>Answers to the client make no contacts\<close>

lemma adds_write [adds_intros]: "adds Q (write_all_bytes bytes)" "adds Q flush"
  unfolding flush_def by (rule adds_none; simp add: write_all_bytes_def split: list.split option.split)+

lemma adds_answers [adds_intros]:
  "adds Q (write_static_response reason status kind body close_after headers)" "adds Q (write_plain_error reason status)"
  "adds Q (write_client_bytes phase m n bytes)" "adds Q (gateway_error N status e)" "adds Q refuse_telemetry_host"
  "adds Q (answer_static N response close_after)" "adds Q (unknown_path N close_after)" "adds Q (copy_bidirectional N)"
  unfolding write_static_response_def write_plain_error_def write_client_bytes_def gateway_error_def
    refuse_telemetry_host_def answer_static_def unknown_path_def copy_bidirectional_def
  by (intro adds_intros)+

lemma adds_write_body [adds_intros]: "adds Q (write_body_chunks m n chunks)"
proof (induction m n chunks rule: write_body_chunks.induct)
  case (3 m n chunk rest)
  then show ?case unfolding write_body_chunks.simps by (intro adds_intros) assumption+
qed (simp_all add: adds_intros)

lemma adds_write_response [adds_intros]:
  "adds Q (write_upstream_response reason response close_after)"
  "adds Q (write_chat_init_response reason W response close_after)"
proof -
  show r: "adds Q (write_upstream_response reason response close_after)" for response
    unfolding write_upstream_response_def by (intro adds_intros)
  show "adds Q (write_chat_init_response reason W response close_after)"
    unfolding write_chat_init_response_def by (intro adds_intros r)
qed

lemma adds_after_answer [adds_intros]: "adds Q m \<Longrightarrow> adds Q (after_answer close_after m)"
  unfolding after_answer_def by (intro adds_intros)

lemma adds_handshake [adds_intros]: "adds Q (serve_handshake N sec_key handshake)"
  unfolding serve_handshake_def by (cases handshake; simp only: ws_handshake.case; intro adds_intros)

section \<open>What is permitted\<close>

text \<open>Traffic that does not go to the gateway.\<close>

fun direct_ok :: "network \<Rightarrow> egress \<Rightarrow> bool" where
  "direct_ok N (Tunnelled host port) \<longleftrightarrow>
     telemetry_deny_reason host = None \<and> \<not> (is_managed_host host \<and> port = 443)"
| "direct_ok N (Relayed r) \<longleftrightarrow>
     (\<exists>target. up_url r = url_text N target \<and> url_scheme target = ''http'' \<and>
        telemetry_deny_reason (target_host target) = None \<and>
        list_all (\<lambda>(name, _). \<not> is_hop_by_hop_header name \<and> \<not> eq_ignore_ascii_case name proof_header_name \<and>
          (is_managed_host (target_host target) \<longrightarrow>
             \<not> eq_ignore_ascii_case name ''authorization'' \<and> \<not> eq_ignore_ascii_case name ''cookie'')) (up_headers r))"
| "direct_ok N _ \<longleftrightarrow> True"

text \<open>The credentials of a request to the gateway; \<open>key\<close> is the API key of the route.\<close>

definition credentials_ok :: "'k proof_libraries \<Rightarrow> route_config \<Rightarrow> bool \<Rightarrow> upstream_request \<Rightarrow> bool" where
  "credentials_ok L route replaced r \<longleftrightarrow>
     (let authorizations = header_values (up_headers r) ''authorization'';
          cookies = header_values (up_headers r) ''cookie'';
          proofs = header_values (up_headers r) proof_header_name
      in (replaced \<longrightarrow> authorizations = [''Bearer '' @ route_api_key route]) \<and> authorizations \<noteq> [] \<and>
         (replaced \<longrightarrow> cookies = [] \<or> (\<exists>v. cookies = [''_devicecheck='' @ v] \<and> valid_cookie_value v)) \<and>
         (proofs = [] \<or>
          (\<exists>P now nonce target bearer a v. proofs = [v] \<and> authorizations = [a] \<and>
             (a = ''Bearer '' @ bearer \<or> bearer_token a = Some bearer) \<and>
             sign_request L now nonce P (route_base_url route) (up_method r) target bearer = Some v)))"

text \<open>Only the listed paths, of the gateway of the configured route.\<close>

definition forwarded_ok :: "web \<Rightarrow> proxy_state \<Rightarrow> bool \<Rightarrow> route_config \<Rightarrow> upstream_request \<Rightarrow> bool" where
  "forwarded_ok W S replaced route r \<longleftrightarrow>
     route = gateway_route S replaced \<and>
     (\<exists>path_query. up_url r = route_base_url route @ path_query \<and>
        (if replaced then is_forwarded_openai_path (target_path path_query)
         else is_forwarded_anthropic_path (target_path path_query)))"

fun gateway_ok :: "'k proof_libraries \<Rightarrow> web \<Rightarrow> proxy_state \<Rightarrow> egress \<Rightarrow> bool" where
  "gateway_ok L W S (ForwardedToGateway route r) \<longleftrightarrow>
     (\<exists>replaced. forwarded_ok W S replaced route r \<and> credentials_ok L route replaced r)"
| "gateway_ok L W S (SocketToGateway route r) \<longleftrightarrow>
     route = route_for_host S chatgpt_host \<and>
     header_values (up_headers r) ''authorization'' = [''Bearer '' @ route_api_key route]"
| "gateway_ok L W S _ \<longleftrightarrow> True"

section \<open>Headers\<close>

lemma name_eq_trans:
  "eq_ignore_ascii_case a b \<Longrightarrow> eq_ignore_ascii_case a c = eq_ignore_ascii_case b c"
  by (simp add: eq_ignore_ascii_case_def)

lemma header_values_append [simp]: "header_values (a @ b) n = header_values a n @ header_values b n"
  by (simp add: header_values_def)

lemma header_values_single [simp]: "header_values [(m, v)] n = (if eq_ignore_ascii_case m n then [v] else [])"
  by (simp add: header_values_def)

lemma header_values_Nil [simp]: "header_values [] n = []"
  by (simp add: header_values_def)

lemma header_values_insert:
  "header_values (insert_header (m, v) hs) n = (if eq_ignore_ascii_case m n then [v] else header_values hs n)"
proof -
  have "header_values (filter (\<lambda>(name, _). \<not> eq_ignore_ascii_case name m) hs) n =
      (if eq_ignore_ascii_case m n then [] else header_values hs n)"
    by (induction hs) (auto simp: header_values_def eq_ignore_ascii_case_def)
  then show ?thesis by (simp add: insert_header_def)
qed

lemma header_values_none:
  assumes "list_all (\<lambda>(name, _). \<not> eq_ignore_ascii_case name n) hs"
  shows "header_values hs n = []"
  using assms by (induction hs) (auto simp: header_values_def)

lemma distinct_names [simp]:
  "\<not> eq_ignore_ascii_case ''authorization'' proof_header_name" "\<not> eq_ignore_ascii_case ''Cookie'' proof_header_name"
  "\<not> eq_ignore_ascii_case proof_header_name ''authorization''" "\<not> eq_ignore_ascii_case proof_header_name ''cookie''"
  "\<not> eq_ignore_ascii_case ''authorization'' ''cookie''" "\<not> eq_ignore_ascii_case ''Cookie'' ''authorization''"
  "eq_ignore_ascii_case ''Cookie'' ''cookie''" "\<not> eq_ignore_ascii_case ''host'' ''authorization''"
  by code_simp+

lemma gateway_headers_values:
  "header_values (gateway_headers hs replaced) proof_header_name = []"
  "replaced \<Longrightarrow> header_values (gateway_headers hs replaced) ''cookie'' = []"
  "substitutes hs replaced \<Longrightarrow> header_values (gateway_headers hs replaced) ''authorization'' = []"
  by (rule header_values_none; auto simp: list_all_iff gateway_headers_def substitutes_def has_authorization_def list_ex_iff
      should_forward_request_header_to_gateway_def should_forward_request_header_def)+

lemma forwarded_authorization_values:
  "forwarded_authorization hs replaced = header_values (gateway_headers hs replaced) ''authorization''"
  by (simp add: forwarded_authorization_def header_values_def)

lemma not_substituted:
  assumes "\<not> substitutes hs replaced"
  shows "forwarded_authorization hs replaced \<noteq> []"
proof -
  from assms obtain n v where "(n, v) \<in> set (not_nominated hs)" "eq_ignore_ascii_case n ''authorization''" "\<not> replaced"
    by (auto simp: substitutes_def has_authorization_def list_ex_iff)
  moreover have "should_forward_request_header n" if "eq_ignore_ascii_case n ''authorization''" for n
  proof -
    from that have "to_ascii_lowercase n = ''authorization''" by (simp add: eq_ignore_ascii_case_def) code_simp
    then show ?thesis
      by (simp add: should_forward_request_header_def is_hop_by_hop_header_def name_in_def eq_ignore_ascii_case_def
          proof_header_name_def) code_simp
  qed
  ultimately have "v \<in> set (forwarded_authorization hs replaced)"
    by (force simp: forwarded_authorization_def gateway_headers_def should_forward_request_header_to_gateway_def)
  then show ?thesis by auto
qed

lemma device_cookie_from_value:
  "device_cookie_from seen cookie parts = Inr (Some c) \<Longrightarrow>
     cookie = Some c \<or> (\<exists>v. c = ''_devicecheck='' @ v \<and> valid_cookie_value v)"
  by (induction seen cookie parts rule: device_cookie_from.induct) (auto split: if_splits)

lemma device_cookie_values:
  assumes "device_cookie_headers request replaced = Inr cookie"
  shows "header_values cookie proof_header_name = []" "header_values cookie ''authorization'' = []"
    "header_values cookie ''cookie'' = [] \<or> (\<exists>v. header_values cookie ''cookie'' = [''_devicecheck='' @ v] \<and> valid_cookie_value v)"
  using assms device_cookie_from_value [of False None "cookie_parts (request_headers request)"]
  by (auto simp: device_cookie_headers_def chatgpt_device_cookie_def split: if_splits option.splits
      simp: map_sum_def split: sum.splits)

section \<open>Requests to the gateway\<close>

lemma gateway_credentials:
  assumes "gateway_request_headers request replaced key = Inr headers"
  defines "authorizations \<equiv> header_values headers ''authorization''"
  shows "header_values headers proof_header_name = []"
    and "replaced \<longrightarrow> authorizations = [''Bearer '' @ key]" and "authorizations \<noteq> []"
    and "replaced \<longrightarrow> header_values headers ''cookie'' = [] \<or>
      (\<exists>v. header_values headers ''cookie'' = [''_devicecheck='' @ v] \<and> valid_cookie_value v)"
    and "proof_bearer (request_headers request) replaced key = Some bearer \<Longrightarrow>
      \<exists>a. authorizations = [a] \<and> (a = ''Bearer '' @ bearer \<or> bearer_token a = Some bearer)"
proof -
  let ?hs = "request_headers request"
  from assms(1) obtain cookie where c: "device_cookie_headers request replaced = Inr cookie"
    and h: "headers = gateway_headers ?hs replaced @
      (if substitutes ?hs replaced then [(''authorization'', ''Bearer '' @ key)] else []) @ cookie"
    by (auto simp: gateway_request_headers_def map_sum_def split: sum.splits)
  note v = device_cookie_values [OF c]
  have r: "replaced \<Longrightarrow> substitutes ?hs replaced" by (simp add: substitutes_def)
  have auth: "authorizations = (if substitutes ?hs replaced then [''Bearer '' @ key] else forwarded_authorization ?hs replaced)"
    using gateway_headers_values(3) [of ?hs replaced] v(2)
    by (simp add: authorizations_def h forwarded_authorization_values)
  show "header_values headers proof_header_name = []" using v(1) gateway_headers_values(1) by (simp add: h)
  show "replaced \<longrightarrow> authorizations = [''Bearer '' @ key]" using auth r by simp
  show "authorizations \<noteq> []" using auth not_substituted [of ?hs replaced] by simp
  show "replaced \<longrightarrow> header_values headers ''cookie'' = [] \<or>
      (\<exists>v. header_values headers ''cookie'' = [''_devicecheck='' @ v] \<and> valid_cookie_value v)"
    using gateway_headers_values(2) [of replaced ?hs] v(3) by (simp add: h)
  show "\<exists>a. authorizations = [a] \<and> (a = ''Bearer '' @ bearer \<or> bearer_token a = Some bearer)"
    if "proof_bearer ?hs replaced key = Some bearer"
    using that auth by (auto simp: proof_bearer_def split: if_splits list.splits)
qed

lemma client_proof_header_result:
  assumes "client_proof_header L N route verb target bearer c = (Inr (Some v), c')"
  shows "\<exists>P now nonce b. bearer = Some b \<and> sign_request L now nonce P (route_base_url route) verb target b = Some v"
  using assms by (auto simp: client_proof_header_def split: option.splits prod.splits)

lemma adds_client_proof [adds_intros]: "(\<And>g k. Q (EnrollmentStarted g k)) \<Longrightarrow> adds Q (client_proof_header L N route verb target bearer)"
  by (auto simp: adds_def client_proof_header_def split: option.split prod.split)

lemma with_proof_simps [simp]:
  "up_url (with_proof N signature r) = up_url r" "up_method (with_proof N signature r) = up_method r"
  by (simp_all add: with_proof_def split: option.split)

lemma with_proof_values:
  "header_values (up_headers (with_proof N signature r)) n =
     (if (\<exists>v. signature = Some v \<and> header_ok N (proof_header_name, v)) \<and> eq_ignore_ascii_case proof_header_name n
      then [the signature] else header_values (up_headers r) n)"
  by (auto simp: with_proof_def header_values_insert split: option.split)

lemma signed_credentials:
  assumes hs: "gateway_request_headers request replaced (route_api_key route) = Inr (up_headers r)"
    and sig: "client_proof_header L N route (up_method r) target
        (proof_bearer (request_headers request) replaced (route_api_key route)) c = (Inr signature, c')"
  shows "credentials_ok L route replaced (with_proof N signature r)"
proof -
  let ?r = "with_proof N signature r" and ?b = "proof_bearer (request_headers request) replaced (route_api_key route)"
  note g = gateway_credentials [OF hs]
  have same: "header_values (up_headers ?r) ''authorization'' = header_values (up_headers r) ''authorization''"
    "header_values (up_headers ?r) ''cookie'' = header_values (up_headers r) ''cookie''"
    by (simp_all add: with_proof_values)
  have "header_values (up_headers ?r) proof_header_name = [] \<or>
      (\<exists>P now nonce target bearer a v. header_values (up_headers ?r) proof_header_name = [v] \<and>
        header_values (up_headers r) ''authorization'' = [a] \<and> (a = ''Bearer '' @ bearer \<or> bearer_token a = Some bearer) \<and>
        sign_request L now nonce P (route_base_url route) (up_method r) target bearer = Some v)"
  proof (cases "\<exists>v. signature = Some v \<and> header_ok N (proof_header_name, v)")
    case False
    then show ?thesis using g(1) by (auto simp: with_proof_values)
  next
    case True
    then obtain v where v: "signature = Some v" "header_ok N (proof_header_name, v)" by blast
    from client_proof_header_result [of L N route "up_method r" target ?b c v c'] sig v(1)
    obtain P now nonce b where s: "?b = Some b" "sign_request L now nonce P (route_base_url route) (up_method r) target b = Some v"
      by auto
    from g(5) [OF s(1)] obtain a where "header_values (up_headers r) ''authorization'' = [a]"
      "a = ''Bearer '' @ b \<or> bearer_token a = Some b" by blast
    moreover have "header_values (up_headers ?r) proof_header_name = [v]" using v by (simp add: with_proof_values)
    ultimately show ?thesis using s(2) by blast
  qed
  then show ?thesis using g(2-4) unfolding credentials_ok_def Let_def same with_proof_simps by blast
qed

lemma adds_execute:
  assumes hs: "gateway_request_headers request replaced (route_api_key route) = Inr (up_headers r)"
    and ok: "\<And>signed. up_url signed = up_url r \<Longrightarrow> credentials_ok L route replaced signed \<Longrightarrow> Q (ForwardedToGateway route signed)"
    and started: "\<And>g k. Q (EnrollmentStarted g k)"
  shows "adds Q (execute_to_gateway L W N route
    (proof_bearer (request_headers request) replaced (route_api_key route)) r)"
  unfolding execute_to_gateway_def
proof (rule adds_bind, rule adds_basic(3), rule adds_bind_strong)
  fix u
  show "adds Q (client_proof_header L N route (up_method r) (wire_target u)
      (proof_bearer (request_headers request) replaced (route_api_key route)))"
    using started by (rule adds_client_proof)
next
  fix u :: proxy_url and signature and c c'
  assume "client_proof_header L N route (up_method r) (wire_target u)
      (proof_bearer (request_headers request) replaced (route_api_key route)) c = (Inr signature, c')"
  from signed_credentials [OF hs this] have "Q (ForwardedToGateway route (with_proof N signature r))"
    by (intro ok) simp_all
  then show "adds Q (let signed = with_proof N signature r in
      then_act (contact (ForwardedToGateway route signed)) (ask (\<lambda>n. send_request N n signed)))"
    unfolding Let_def by (intro adds_intros adds_contact)
qed

definition enrolls :: "(egress \<Rightarrow> bool) \<Rightarrow> bool" where
  "enrolls Q \<longleftrightarrow> (\<forall>g k. Q (EnrollmentStarted g k))"

definition forwards :: "'k proof_libraries \<Rightarrow> proxy_state \<Rightarrow> (egress \<Rightarrow> bool) \<Rightarrow> bool \<Rightarrow> string \<Rightarrow> bool" where
  "forwards L S Q replaced path_query \<longleftrightarrow>
     (\<forall>r. up_url r = route_base_url (gateway_route S replaced) @ path_query \<longrightarrow>
        credentials_ok L (gateway_route S replaced) replaced r \<longrightarrow> Q (ForwardedToGateway (gateway_route S replaced) r))"

lemma adds_forward:
  assumes "enrolls Q"
    and "\<And>path_query. path_query_from_target (web_url W) (request_target request) = Inr path_query \<Longrightarrow>
      forwards L S Q replaced path_query"
  shows "adds Q (forward_to_saiai L W N S preferences request close_after replaced)"
proof -
  let ?route = "gateway_route S replaced"
  have exec: "adds Q (execute_to_gateway L W N ?route
        (proof_bearer (request_headers request) replaced (route_api_key ?route))
        \<lparr>up_method = request_method request, up_url = url, up_headers = headers, up_body = request_body request\<rparr>)"
    if "upstream_url (web_url W) (request_target request) ?route = Inr url"
      and "gateway_request_headers request replaced (route_api_key ?route) = Inr headers" for url headers
  proof (rule adds_execute)
    from that(1) obtain path_query where "path_query_from_target (web_url W) (request_target request) = Inr path_query"
      "url = route_base_url ?route @ path_query"
      by (auto simp: upstream_url_def map_sum_def split: sum.splits)
    then show "Q (ForwardedToGateway ?route signed)"
      if "up_url signed = up_url \<lparr>up_method = request_method request, up_url = url, up_headers = headers, up_body = request_body request\<rparr>"
        "credentials_ok L ?route replaced signed" for signed
      using that assms(2) by (simp add: forwards_def)
    show "gateway_request_headers request replaced (route_api_key ?route) =
        Inr (up_headers \<lparr>up_method = request_method request, up_url = url, up_headers = headers, up_body = request_body request\<rparr>)"
      using that(2) by simp
  qed (use assms(1) in \<open>simp add: enrolls_def\<close>)
  show ?thesis
    unfolding forward_to_saiai_def Let_def
    by (rule adds_bind_lift, rule adds_if, rule adds_basic, rule adds_then, rule adds_basic, rule adds_bind_lift,
        rule adds_bind, rule adds_wrappers, erule (1) exec, intro adds_intros)
qed

section \<open>Every contact of a connection\<close>

definition client_ok :: "'k proof_libraries \<Rightarrow> web \<Rightarrow> network \<Rightarrow> proxy_state \<Rightarrow> egress \<Rightarrow> bool" where
  "client_ok L W N S e \<longleftrightarrow> direct_ok N e \<and> gateway_ok L W S e"

lemma client_ok_enrolls: "enrolls (client_ok L W N S)"
  by (simp add: enrolls_def client_ok_def)

lemma client_ok_started: "client_ok L W N S (EnrollmentStarted g k)"
  by (simp add: client_ok_def)

lemma client_ok_forwards:
  assumes "if replaced then is_forwarded_openai_path (target_path path_query)
    else is_forwarded_anthropic_path (target_path path_query)"
  shows "forwards L S (client_ok L W N S) replaced path_query"
  using assms by (auto simp: forwards_def client_ok_def forwarded_ok_def intro!: exI [of _ replaced])

lemma request_path_Inr:
  "request_path parse_url target = Inr path \<Longrightarrow> path_query_from_target parse_url target = Inr path_query \<Longrightarrow>
     path = target_path path_query"
  by (simp add: request_path_def target_path_def)

lemma adds_anthropic: "adds (client_ok L W N S) (serve_anthropic L W N S preferences request close_after)"
proof -
  have "adds (client_ok L W N S) (forward_to_saiai L W N S preferences request close_after False)"
    if "request_path (web_url W) (request_target request) = Inr path" "is_forwarded_anthropic_path path" for path
    using that request_path_Inr [OF that(1)]
    by (intro adds_forward client_ok_enrolls client_ok_forwards) simp
  then show ?thesis unfolding serve_anthropic_def
    by (intro adds_cases(2) adds_answers adds_bind_lift adds_if) simp
qed

lemma socket_request_authorization:
  assumes "socket_request L N route u headers c = (Inr r, c')"
  shows "header_values (up_headers r) ''authorization'' = [''Bearer '' @ route_api_key route]"
proof -
  from assms obtain signature where "build_openai_websocket_request (header_ok N) (url_text N) (url_authority N)
      (handshake_defaults N) u headers (route_api_key route) (\<lambda>_ _. signature) = Inr r"
    by (auto simp: socket_request_def Let_def then_act_def bind_act_def lift_act_def split: prod.splits sum.splits)
  then show ?thesis
    by (auto simp: build_openai_websocket_request_def Let_def bind_result_Inr_iff header_values_insert
        split: if_splits option.splits Option.bind_splits)
qed

lemma adds_websocket: "adds (client_ok L W N S) (serve_openai_websocket L W N S request)"
proof -
  have s: "adds (client_ok L W N S) (socket_request L N route u headers)" for route u headers
    unfolding socket_request_def Let_def by (intro adds_intros client_ok_started)
  have c: "adds (client_ok L W N S) (contact (SocketToGateway (route_for_host S chatgpt_host) r))"
    if "socket_request L N (route_for_host S chatgpt_host) u headers c = (Inr r, c')" for u headers r c c'
    using socket_request_authorization [OF that] by (intro adds_contact) (simp add: client_ok_def)
  show ?thesis unfolding serve_openai_websocket_def Let_def
    by (rule adds_bind, rule adds_basic, rule adds_bind, rule adds_basic, rule adds_bind_strong, rule s)
      (intro adds_intros c)
qed

lemma adds_gateway_target: "adds (client_ok L W N S) (serve_gateway_target L W N S preferences request close_after)"
proof -
  have "adds (client_ok L W N S) (forward_to_saiai L W N S preferences request close_after True)"
    if "request_path (web_url W) (request_target request) = Inr path" "is_forwarded_openai_path path" for path
    using that request_path_Inr [OF that(1)]
    by (intro adds_forward client_ok_enrolls client_ok_forwards) simp
  then show ?thesis unfolding serve_gateway_target_def
    by (intro adds_if adds_then adds_websocket adds_basic adds_after_answer adds_bind_lift adds_answers) simp
qed

lemma adds_openai: "adds (client_ok L W N S) (serve_openai L W N S payload preferences host request close_after)"
proof -
  have "adds (client_ok L W N S) (case action of
        UseTarget t \<Rightarrow> serve_gateway_target L W N S preferences (request\<lparr>request_target := t\<rparr>) close_after
      | AnswerStatic response \<Rightarrow> after_answer close_after (answer_static N response close_after)
      | AnswerAccount (status, body, reason) \<Rightarrow>
          after_answer close_after (write_static_response (reason_phrase N) status ''application/json'' body close_after [])
      | RefuseTarget e \<Rightarrow> abort e)" for action
    by (cases action; simp only: chatgpt_outcome.case; intro adds_gateway_target adds_intros)
  then show ?thesis unfolding serve_openai_def .
qed

lemma adds_managed_request: "adds (client_ok L W N S) (serve_managed_request L W N S payload preferences host request)"
  unfolding serve_managed_request_def Let_def
  by (intro adds_if adds_after_answer adds_anthropic adds_openai adds_basic)

lemma adds_managed_requests:
  "adds (client_ok L W N S) (serve_managed_requests L W N S payload preferences host handled s)"
proof -
  have "\<exists>es. contacts (snd (serve_managed_requests L W N S payload preferences host handled s c)) = contacts c @ es \<and>
      list_all (client_ok L W N S) es" for c
  proof (induction L W N S payload preferences host handled s c rule: serve_managed_requests.induct)
    case (1 L W N S payload preferences host handled s c)
    show ?case
    proof (cases "read_http_request s")
      case (Inl e)
      then show ?thesis
        by (subst serve_managed_requests.simps)
          (simp add: adds_answers(4) [unfolded adds_def, rule_format] adds_basic(1) [unfolded adds_def, rule_format])
    next
      case (Inr x)
      obtain request s' where x: "x = (request, s')" by (cases x)
      obtain r c1 where run: "serve_managed_request L W N S payload preferences host request c = (r, c1)" by fastforce
      from addsD [OF adds_managed_request run]
      obtain es where es: "contacts c1 = contacts c @ es" "list_all (client_ok L W N S) es" by blast
      have keep: "contacts (snd (serve_managed_requests L W N S payload preferences host handled s c)) =
          contacts (snd (serve_managed_requests L W N S payload preferences host (handled + 1) s' c1))"
        if "r = Inr KeepServing"
        using that Inr x run by (subst serve_managed_requests.simps) simp
      have stop: "contacts (snd (serve_managed_requests L W N S payload preferences host handled s c)) = contacts c1"
        if "r \<noteq> Inr KeepServing"
        using that Inr x run
        by (subst serve_managed_requests.simps) (auto simp: pass_def split: sum.split after_request.split)
      show ?thesis
      proof (cases "r = Inr KeepServing")
        case True
        from "1.IH" [OF Inr x [symmetric] run [symmetric] True refl] x
        obtain fs where "contacts (snd (serve_managed_requests L W N S payload preferences host (handled + 1) s' c1)) = contacts c1 @ fs"
          "list_all (client_ok L W N S) fs" by blast
        with keep [OF True] es show ?thesis by (intro exI [of _ "es @ fs"]) simp
      next
        case False
        with stop es show ?thesis by auto
      qed
    qed
  qed
  then show ?thesis by (simp add: adds_def)
qed

lemma adds_managed_tls: "adds (client_ok L W N S) (serve_managed_tls L W N S payload preferences host)"
  unfolding serve_managed_tls_def by (intro adds_intros adds_managed_requests)

lemma adds_direct_tunnel:
  assumes "telemetry_deny_reason host = None"
  shows "adds (client_ok L W N S) (serve_direct_tunnel N host port)"
  unfolding serve_direct_tunnel_def connect_passthrough_target_def Let_def
  by (intro adds_intros adds_contact) (simp_all add: client_ok_def assms)

lemma plain_headers_ok:
  assumes "h \<in> set (http_proxy_headers headers managed)"
  shows "\<not> is_hop_by_hop_header (fst h)" "\<not> eq_ignore_ascii_case (fst h) proof_header_name"
    "managed \<Longrightarrow> \<not> eq_ignore_ascii_case (fst h) ''authorization'' \<and> \<not> eq_ignore_ascii_case (fst h) ''cookie''"
  using assms by (auto simp: http_proxy_headers_def should_forward_http_proxy_header_def should_forward_request_header_def)

lemma adds_plain:
  assumes "\<And>target. parse_http_proxy_target (web_url W) request = Inr target \<Longrightarrow> telemetry_deny_reason (target_host target) = None"
  shows "adds (client_ok L W N S) (serve_http_proxy_request W N request)"
proof -
  have "client_ok L W N S (Relayed (plain_request N request target))"
    if t: "parse_http_proxy_target (web_url W) request = Inr target" for target
  proof -
    have "url_scheme target = ''http''" using t by (auto simp: parse_http_proxy_target_def split: if_splits option.splits)
    moreover have "list_all (\<lambda>(name, _). \<not> is_hop_by_hop_header name \<and> \<not> eq_ignore_ascii_case name proof_header_name \<and>
        (is_managed_host (target_host target) \<longrightarrow> \<not> eq_ignore_ascii_case name ''authorization'' \<and>
          \<not> eq_ignore_ascii_case name ''cookie''))
        (http_proxy_headers (request_headers request) (is_managed_host (target_host target)))"
      using plain_headers_ok by (simp add: list_all_iff case_prod_beta)
    ultimately show ?thesis using assms [OF t]
      unfolding client_ok_def plain_request_def by (simp, intro exI [of _ target]) simp
  qed
  then show ?thesis unfolding serve_http_proxy_request_def send_plain_def Let_def
    by (intro adds_intros adds_contact) simp
qed

lemma adds_handle_client: "adds (client_ok L W N S) (handle_client L W N S payload preferences pins certificate s)"
proof -
  have "adds (client_ok L W N S) (serve_connect L W N S payload preferences pins certificate target)" for target
    unfolding serve_connect_def Let_def by (intro adds_intros adds_managed_tls adds_direct_tunnel) simp
  moreover have "adds (client_ok L W N S) (case parse_http_proxy_target (web_url W) request of
      Inr target \<Rightarrow> if telemetry_deny_reason (target_host target) \<noteq> None then refuse_telemetry_host
        else serve_http_proxy_request W N request
    | Inl _ \<Rightarrow> serve_http_proxy_request W N request)" for request
    by (intro adds_intros adds_plain) simp_all
  ultimately show ?thesis unfolding handle_client_def
    by (intro adds_cases(1,3) adds_answers) (auto split: initial_request.split)
qed

end
