(* ===== verification/Proxy_Responses.thy ===== *)
theory Proxy_Responses
  imports Proxy_Guarantees
begin

text \<open>
  The properties of the local proxy: which contacts it makes, what a client reads back of a response,
  and how many requests a connection can have served.
\<close>

section \<open>Chunk sizes in upper case\<close>

lemma ascii_upper_hex_digit:
  assumes "d < 16"
  shows "is_ascii_graphic (ascii_upper (hex_digit d)) \<and> hex_value (ascii_upper (hex_digit d)) = Some d \<and>
    ascii_upper (hex_digit d) \<noteq> CHR ''+'' \<and> ascii_upper (hex_digit d) \<noteq> CHR '';''"
proof -
  have "\<forall>d \<in> set [0..<16]. is_ascii_graphic (ascii_upper (hex_digit d)) \<and> hex_value (ascii_upper (hex_digit d)) = Some d \<and>
    ascii_upper (hex_digit d) \<noteq> CHR ''+'' \<and> ascii_upper (hex_digit d) \<noteq> CHR '';''"
    by code_simp
  with assms show ?thesis by simp
qed

lemma upper_hexadecimal_step:
  "upper_hexadecimal n =
     (if n < 16 then [ascii_upper (hex_digit n)]
      else upper_hexadecimal (n div 16) @ [ascii_upper (hex_digit (n mod 16))])"
  unfolding upper_hexadecimal_def to_ascii_uppercase_def by (subst hexadecimal.simps) simp

lemma upper_hexadecimal_number: "hex_number 0 (upper_hexadecimal n) = n"
proof (induction n rule: hexadecimal.induct)
  case (1 n)
  then show ?case
    by (subst upper_hexadecimal_step) (simp add: hex_number_def ascii_upper_hex_digit)
qed

interpretation upper: chunk_sizes upper_hexadecimal
proof unfold_locales
  fix n :: nat
  show "list_all (\<lambda>c. is_ascii_graphic c \<and> hex_value c \<noteq> None \<and> c \<noteq> CHR ''+'' \<and> c \<noteq> CHR '';'') (upper_hexadecimal n)"
  proof (induction n rule: hexadecimal.induct)
    case (1 n)
    then show ?case
      using ascii_upper_hex_digit [of n] ascii_upper_hex_digit [of "n mod 16"] by (subst upper_hexadecimal_step) simp
  qed
  show "upper_hexadecimal n \<noteq> []" by (subst upper_hexadecimal_step) simp
  show "hex_number 0 (upper_hexadecimal n) = n" by (rule upper_hexadecimal_number)
  show "length (upper_hexadecimal n) \<le> 16" if "n < 16 ^ 16"
    using length_hexadecimal [OF that] by (simp add: upper_hexadecimal_def to_ascii_uppercase_def)
qed

section \<open>Responses\<close>

text \<open>Without faults every write appends its bytes.\<close>

lemma write_all_bytes_ok:
  assumes "write_faults c = []"
  shows "write_all_bytes bytes c = (Inr (), c\<lparr>outgoing := outgoing c @ bytes\<rparr>)"
  using assms by (simp add: write_all_bytes_def)

lemma write_client_bytes_ok:
  assumes "write_faults c = []"
  shows "write_client_bytes phase m n bytes c = (Inr (), c\<lparr>outgoing := outgoing c @ bytes\<rparr>)"
  using assms by (simp add: write_client_bytes_def context_act_def write_all_bytes_ok)

lemma iter_client_bytes_ok:
  assumes "write_faults c = []"
  shows "iter_act (write_client_bytes phase m n) pieces c = (Inr (), c\<lparr>outgoing := outgoing c @ concat pieces\<rparr>)"
  using assms
proof (induction pieces arbitrary: c)
  case (Cons p ps)
  then have "iter_act (write_client_bytes phase m n) ps (c\<lparr>outgoing := outgoing c @ p\<rparr>) =
      (Inr (), c\<lparr>outgoing := (outgoing c @ p) @ concat ps\<rparr>)" by (simp add: Cons.IH)
  with Cons.prems show ?case by (simp add: then_act_def bind_act_def write_client_bytes_ok)
qed (simp add: pass_def)

lemma flush_ok: "write_faults c = [] \<Longrightarrow> flush c = (Inr (), c)"
  unfolding flush_def by (simp add: write_all_bytes_ok)

lemma write_body_chunks_ok:
  assumes "write_faults c = []"
  shows "write_body_chunks m n (map Inr chunks) c =
    (Inr (m + length (concat chunks), n + length (filter (\<lambda>b. b \<noteq> []) chunks)),
     c\<lparr>outgoing := outgoing c @ concat (map (chunk_with upper_hexadecimal) (filter (\<lambda>b. b \<noteq> []) chunks))\<rparr>)"
  using assms
proof (induction chunks arbitrary: m n c)
  case (Cons b bs)
  let ?c = "c\<lparr>outgoing := outgoing c @ chunk_with upper_hexadecimal b\<rparr>"
  have "write_body_chunks (m + length b) (n + 1) (map Inr bs) ?c =
    (Inr (m + length b + length (concat bs), n + 1 + length (filter (\<lambda>b. b \<noteq> []) bs)),
     ?c\<lparr>outgoing := outgoing ?c @ concat (map (chunk_with upper_hexadecimal) (filter (\<lambda>b. b \<noteq> []) bs))\<rparr>)"
    using Cons.prems by (intro Cons.IH) simp
  with Cons show ?case
    by (simp add: then_act_def bind_act_def iter_client_bytes_ok context_act_def flush_ok chunk_with_def del: iter_act.simps)
qed (simp add: pass_def)

definition sent_chunks :: "string list \<Rightarrow> string" where
  "sent_chunks chunks = concat (map (chunk_with upper_hexadecimal) (filter (\<lambda>b. b \<noteq> []) chunks)) @ ''0'' @ crlf @ crlf"

lemma write_upstream_response_ok:
  assumes "write_faults c = []" "has_body (response_status response)" "response_body response = map Inr chunks"
  shows "write_upstream_response reason response close_after c =
    (Inr \<lparr>outcome_status = response_status response, outcome_bytes = length (concat chunks),
       outcome_chunks = length (filter (\<lambda>b. b \<noteq> []) chunks)\<rparr>,
     c\<lparr>outgoing := outgoing c @ concat (response_head reason response close_after) @ sent_chunks chunks\<rparr>)"
  using assms
  by (simp add: write_upstream_response_def then_act_def bind_act_def iter_client_bytes_ok write_body_chunks_ok
      write_client_bytes_ok context_act_def flush_ok pass_def sent_chunks_def)

lemma sent_chunks_read_back:
  assumes "length (concat chunks) \<le> limit" "limit \<le> usize_max"
  shows "read_chunked_body_with_limit limit [] \<lparr>unread = sent_chunks chunks @ rest, ending = e\<rparr> =
    Some (Inr (concat chunks, \<lparr>unread = rest, ending = e\<rparr>))"
proof -
  have "concat (filter (\<lambda>b. b \<noteq> []) chunks) = concat chunks" by (induction chunks) auto
  with upper.read_back_chunks [of "[]" "filter (\<lambda>b. b \<noteq> []) chunks" limit rest e] assms show ?thesis
    by (simp add: sent_chunks_def)
qed

text \<open>
  C39: a response relayed without a write error reaches the client whole: after the head the client can
  read back exactly the body of the upstream response by the chunked format, whatever the boundaries of
  its chunks, and what the proxy counts is the size of that body.
\<close>

theorem relayed_response_reads_back:
  assumes "write_faults c = []" "has_body (response_status response)" "response_body response = map Inr chunks"
    and "length (concat chunks) \<le> limit" "limit \<le> usize_max"
  shows "\<exists>outcome sent. write_upstream_response reason response close_after c =
      (Inr outcome, c\<lparr>outgoing := outgoing c @ concat (response_head reason response close_after) @ sent\<rparr>) \<and>
    outcome_bytes outcome = length (concat chunks) \<and>
    (\<forall>rest e. read_chunked_body_with_limit limit [] \<lparr>unread = sent @ rest, ending = e\<rparr> =
       Some (Inr (concat chunks, \<lparr>unread = rest, ending = e\<rparr>)))"
  using write_upstream_response_ok [OF assms(1-3)] sent_chunks_read_back [OF assms(4,5)]
  by (intro exI [of _ "sent_chunks chunks"] exI conjI allI) (assumption | simp)+

definition sample_response :: upstream_response where
  "sample_response = \<lparr>response_status = 200, response_headers = [(''Content-Type'', ''text/plain'')],
     response_body = map Inr [''hello '', [], ''world'']\<rparr>"

definition sample_conn :: "unit conn" where
  "sample_conn = \<lparr>outgoing = [], write_faults = [], moment = 0, contacts = [], device_proof = None\<rparr>"

lemma relayed_response_reads_back_witness:
  "\<exists>outcome sent. write_upstream_response (\<lambda>_. Some ''OK'') sample_response True sample_conn =
      (Inr outcome, sample_conn\<lparr>outgoing :=
         outgoing sample_conn @ concat (response_head (\<lambda>_. Some ''OK'') sample_response True) @ sent\<rparr>) \<and>
    outcome_bytes outcome = length (concat [''hello '', [], ''world'']) \<and>
    (\<forall>rest e. read_chunked_body_with_limit 64 [] \<lparr>unread = sent @ rest, ending = e\<rparr> =
       Some (Inr (concat [''hello '', [], ''world''], \<lparr>unread = rest, ending = e\<rparr>)))"
  by (rule relayed_response_reads_back)
    (simp_all add: sample_conn_def sample_response_def has_body_def usize_max_def)

section \<open>Contacts\<close>



section \<open>Targets\<close>

lemma replace_first_front: "replace_first old new (old @ t) = new @ t"
proof (cases "old @ t")
  case (Cons a l)
  have "starts_with (a # l) old" "drop (length old) (a # l) = t" by (simp_all flip: Cons)
  then show ?thesis by (simp add: Cons)
qed simp

lemma target_path_parts: "\<exists>r. target = target_path target @ r"
  using hd_split_on_decompose [of target "CHR ''?''"] unfolding target_path_def by blast

lemma target_path_append:
  assumes "CHR ''?'' \<notin> set p"
  shows "target_path (p @ t) = p @ target_path t"
  using assms unfolding target_path_def
  by (induction p) (auto split: list.splits)

lemma target_path_query: "CHR ''?'' \<notin> set p \<Longrightarrow> target_path (p @ CHR ''?'' # q) = p"
  using target_path_append [of p "CHR ''?'' # q"] by (simp add: target_path_def)

lemma target_path_plain: "CHR ''?'' \<notin> set p \<Longrightarrow> target_path p = p"
  using target_path_append [of p "[]"] by (simp add: target_path_def)

lemma target_path_no_query: "CHR ''?'' \<notin> set (target_path t)"
  using split_on_no_sep [of "target_path t" "(=) CHR ''?''" t] by (auto simp: target_path_def)

lemma replaced_path:
  assumes "starts_with (target_path t) old" "CHR ''?'' \<notin> set new"
  shows "target_path (replace_first old new t) = new @ drop (length old) (target_path t)"
proof -
  obtain r where p: "target_path t = old @ r" using assms(1) by (auto simp: starts_with_iff)
  then have q: "CHR ''?'' \<notin> set old" using target_path_no_query [of t] by auto
  obtain u where t: "t = old @ u" using target_path_parts [of t] p by auto
  have "target_path u = r" using target_path_append [OF q, of u] p t by simp
  then show ?thesis using target_path_append [OF assms(2), of u] unfolding p by (simp add: t replace_first_front)
qed

lemma codex_target_forwarded:
  assumes "codex_target (target_path t) t = Inr u"
  shows "is_forwarded_openai_path (target_path u)"
proof -
  have exact: "is_forwarded_openai_path (target_path
      (case map_option snd (split_once CHR ''?'' t) of Some q \<Rightarrow> if q \<noteq> [] then p @ ''?'' @ q else p | None \<Rightarrow> p))"
    if "CHR ''?'' \<notin> set p" "is_forwarded_openai_path p" for p
    using that by (auto simp: target_path_plain target_path_query split: option.split)
  have replaced: "is_forwarded_openai_path (target_path (replace_first old new t))"
    if "starts_with (target_path t) (old @ ''/'')" "new \<in> {''/v1/responses'', ''/v1/models''}" for old new
  proof -
    from that(1) have o: "starts_with (target_path t) old" by (auto simp: starts_with_iff)
    have "drop (length old) (target_path t) = ''/'' @ drop (length old + 1) (target_path t)"
      using that(1) by (auto simp: starts_with_iff)
    moreover have "CHR ''?'' \<notin> set new" using that(2) by auto
    ultimately have "target_path (replace_first old new t) = (new @ ''/'') @ drop (length old + 1) (target_path t)"
      using replaced_path [OF o] by simp
    moreover have "starts_with ((new @ ''/'') @ r) (new @ ''/'')" for r by (rule starts_with_append)
    ultimately show ?thesis using that(2) unfolding is_forwarded_openai_path_def by auto
  qed
  show ?thesis
    using assms exact [of "''/v1/responses''"] exact [of "''/v1/models''"] exact [of "''/v1/codex/images/generations''"]
      exact [of "''/v1/codex/images/edits''"] replaced [of "''/backend-api/codex/responses''" "''/v1/responses''"]
      replaced [of "''/backend-api/codex/models''" "''/v1/models''"]
    unfolding codex_target_def Let_def
    by (auto simp: is_forwarded_openai_path_def split: if_splits)
qed

lemma without_chatgpt_prefixed: "without_chatgpt (''/chatgpt'' @ path) = path"
  unfolding without_chatgpt_def strip_prefix_append by simp

lemma chat_path_forwarded:
  assumes "is_chat_path path"
  shows "starts_with path ''/backend-api/''" "is_forwarded_chatgpt_path (''/chatgpt'' @ path)"
proof -
  have wide: "starts_with path ''/backend-api/''" if "starts_with path (''/backend-api/'' @ x)" for x
    using that by (auto simp: starts_with_iff)
  have owned: "starts_with path ''/backend-api/''" if "is_chatgpt_owned_conversation_path path"
    using that wide [of "''conversation/''"] wide [of "''conversations/''"]
    by (auto simp: is_chatgpt_owned_conversation_path_def strip_prefix_def split: option.splits if_splits)
  show "starts_with path ''/backend-api/''"
    using assms owned wide [of "''f/conversation/''"] wide [of "''files/download/''"] unfolding is_chat_path_def
    by (auto simp: starts_with_def)
  have "starts_with (''/chatgpt'' @ path) (''/chatgpt'' @ x) = starts_with path x" for x
    by (simp add: starts_with_def)
  from this [of "''/backend-api/f/conversation/''"] this [of "''/backend-api/files/download/''"]
    without_chatgpt_prefixed [of path]
  show "is_forwarded_chatgpt_path (''/chatgpt'' @ path)"
    using assms unfolding is_chat_path_def is_forwarded_chatgpt_path_def by auto
qed

lemma chat_target_forwarded:
  assumes "request_path parse_url t = Inr (target_path t)" "normalize_chatgpt_chat_target parse_url t = Inr u"
  shows "is_forwarded_openai_path (target_path u)"
proof -
  let ?p = "target_path t"
  have f: "is_forwarded_openai_path (''/chatgpt'' @ ?p)" if "is_chat_path ?p"
    using chat_path_forwarded(2) [OF that] by (simp add: is_forwarded_openai_path_def)
  have r: "target_path (replace_first ''/backend-api/'' ''/chatgpt/backend-api/'' t) = ''/chatgpt'' @ ?p" if "is_chat_path ?p"
    using replaced_path [OF chat_path_forwarded(1) [OF that], of "''/chatgpt/backend-api/''"]
      chat_path_forwarded(1) [OF that] by (auto simp: starts_with_iff)
  have c: "target_path (replace_first ''/celsius/ws/user'' ''/chatgpt/backend-api/celsius/ws/user'' t) =
      ''/chatgpt/backend-api/celsius/ws/user''" if "?p = ''/celsius/ws/user''"
    using replaced_path [of t "''/celsius/ws/user''" "''/chatgpt/backend-api/celsius/ws/user''"] that by simp
  have e: "target_path (''/chatgpt'' @ t) = ''/chatgpt'' @ ?p" using target_path_append [of "''/chatgpt''" t] by simp
  from assms consider "?p = ''/api/estuary/upload_content_bytes''" "u = ''/chatgpt'' @ t"
    | "?p = ''/celsius/ws/user''" "u = replace_first ''/celsius/ws/user'' ''/chatgpt/backend-api/celsius/ws/user'' t"
    | "is_chat_path ?p" "u = replace_first ''/backend-api/'' ''/chatgpt/backend-api/'' t"
    by (auto simp: normalize_chatgpt_chat_target_def bind_result_Inr_iff split: if_splits)
  then show ?thesis
  proof cases
    case 1
    then show ?thesis using e by (simp add: is_forwarded_openai_path_def is_forwarded_chatgpt_path_def)
  next
    case 2
    then show ?thesis using c by (simp add: is_forwarded_openai_path_def is_forwarded_chatgpt_path_def)
  next
    case 3
    then show ?thesis using f r by simp
  qed
qed

text \<open>
  A request on a ChatGPT host whose target the proxy rewrites for the gateway goes there: the path of
  every rewritten target is one that is forwarded, so none of them ends as an unknown path.
\<close>

theorem rewritten_targets_are_forwarded:
  assumes "starts_with (request_target request) ''/''" "chatgpt_action W payload S request = UseTarget t"
  shows "request_path (web_url W) t = Inr (target_path t) \<and> is_forwarded_openai_path (target_path t)"
proof -
  let ?t = "request_target request"
  have p: "request_path (web_url W) x = Inr (target_path x)" if "starts_with x ''/''" for x
    using that by (simp add: request_path_def path_query_from_target_def target_path_def)
  from assms(2) have "normalize_chatgpt_gateway_target (web_url W) ?t = Inr t \<or> normalize_chatgpt_chat_target (web_url W) ?t = Inr t"
    by (auto simp: chatgpt_action_def Let_def split: sum.splits option.splits bool.splits prod.splits)
  then have f: "is_forwarded_openai_path (target_path t)"
    using codex_target_forwarded [of ?t t] chat_target_forwarded [OF p [OF assms(1)], of t] p [OF assms(1)]
    by (auto simp: normalize_chatgpt_gateway_target_def bind_result_Inr_iff)
  then have "starts_with (target_path t) ''/''"
    by (auto simp: is_forwarded_openai_path_def is_forwarded_chatgpt_path_def starts_with_iff without_chatgpt_def
        is_chatgpt_owned_conversation_path_def strip_prefix_Some_iff split: option.splits)
  then have "starts_with t ''/''" using target_path_parts [of t] by (auto simp: starts_with_iff)
  with p f show ?thesis by blast
qed

section \<open>The loop\<close>


end
