(* ===== verification/Proxy_Examples.thy ===== *)
theory Proxy_Examples
  imports Proxy_Responses
begin

text \<open>
  Runs of the local proxy on concrete connections, and the instances of its properties.  The network of the
  examples accepts every method and header, answers every request with one chunk, and hands out one
  intercepted request.
\<close>

definition sample_url :: proxy_url where
  "sample_url = \<lparr>url_scheme = ''https'', url_username = [], url_password = None, url_host = Some ''gw.example'', url_port = None,
     url_path = ''/v1/messages'', url_query = None, url_fragment = None, parsed_host = None, known_port = Some 443\<rparr>"

definition sample_web :: web where
  "sample_web = \<lparr>web_url = (\<lambda>_. Some sample_url), from_slice = (\<lambda>_. None), to_vec = (\<lambda>_. None), base64_text = (\<lambda>_. None),
     base64_url_text = (\<lambda>_. None), query_pairs = (\<lambda>_. []), env_variable = (\<lambda>_. None), read_text = (\<lambda>_. None)\<rparr>"

definition sample_state :: proxy_state where
  "sample_state = \<lparr>listen = ''127.0.0.1:8787'',
     default_route = \<lparr>route_base_url = ''https://gw.example'', route_api_key = ''key''\<rparr>, claude_route = None, codex_route = None,
     state_ca_cert = [], state_ca_key = [], verbose = False, chat_passthrough = True, browser_use = False, state_proof_dir = None\<rparr>"

definition sample_network :: "string \<Rightarrow> network" where
  "sample_network inside = \<lparr>reason_phrase = (\<lambda>_. Some ''OK''), method_ok = (\<lambda>_. True), header_ok = (\<lambda>_. True),
     url_text = (\<lambda>_. ''https://gw.example/v1/messages''), change_scheme = (\<lambda>_ _. None), url_authority = (\<lambda>_. ''gw.example''),
     handshake_defaults = (\<lambda>_. Inr []), accept_key = (\<lambda>k. k), client_for = (\<lambda>_ _. Inr ()),
     send_request = (\<lambda>_ _. Inr \<lparr>response_status = 200, response_headers = [], response_body = [Inr ''hello'']\<rparr>),
     connect_upstream = (\<lambda>_ _ _ _. Inr ()), copy_tunnel = (\<lambda>_. (''bytes'', None)),
     websocket_handshake = (\<lambda>_ _. HandshakeRejected 401 [] None), accept_tls = (\<lambda>_ _. Inr \<lparr>unread = inside, ending = Closed\<rparr>),
     clock = (\<lambda>_. 0), random_nonce = (\<lambda>_. None)\<rparr>"

lemma rewritten_targets_are_forwarded_witness:
  "request_path (web_url sample_web) ''/v1/responses?x=1'' = Inr (target_path ''/v1/responses?x=1'') \<and>
     is_forwarded_openai_path (target_path ''/v1/responses?x=1'')"
  by (rule rewritten_targets_are_forwarded [where S = sample_state and payload = "[]" and
      request = "\<lparr>request_method = ''GET'', request_target = ''/backend-api/codex/responses?x=1'', http_version = ''HTTP/1.1'', request_headers = [], request_body = []\<rparr>"])
    code_simp+

text \<open>A tunnel to another host is opened and its bytes arrive.\<close>

lemma tunnel_run:
  "handle_client L sample_web (sample_network []) sample_state [] None (Inr []) (\<lambda>_. Inr ())
     \<lparr>unread = ''CONNECT example.org:443 HTTP/1.1'' @ crlf @ crlf, ending = Closed\<rparr> sample_conn =
   (Inr (), sample_conn\<lparr>moment := 2, contacts := [Tunnelled ''example.org'' 443],
      outgoing := connection_established @ ''bytes''\<rparr>)"
  by code_simp

text \<open>An intercepted request to the gateway goes out with its headers and comes back in chunks.\<close>

lemma intercepted_run:
  "contacts (snd (handle_client L sample_web
      (sample_network (''POST /v1/messages HTTP/1.1'' @ crlf @ ''Authorization: Bearer t'' @ crlf @ ''Connection: close'' @ crlf @ crlf))
      sample_state [] None (Inr []) (\<lambda>_. Inr ())
     \<lparr>unread = ''CONNECT api.anthropic.com:443 HTTP/1.1'' @ crlf @ crlf, ending = Closed\<rparr> sample_conn)) =
   [ForwardedToGateway (default_route sample_state)
     \<lparr>up_method = ''POST'', up_url = ''https://gw.example/v1/messages'', up_headers = [(''Authorization'', ''Bearer t'')], up_body = []\<rparr>]"
  by code_simp

end
