(* ===== verification/Client_Runs.thy ===== *)
theory Client_Runs
  imports Client_Enrollment "HOL-Library.Code_Target_Nat"
begin

text \<open>
  One process of the client over time: it claims enrollments and records the answers of gateways, and
  before each of its steps the shared files are in whatever state other processes and failures left them.
\<close>

section \<open>Events\<close>

datatype proof_event = Claim string string bool | Activation string string string | Revocation string string

record 'k proof_setting =
  proof_env :: env
  proof_process :: string
  proof_libs :: "'k proof_libraries"
  parse_devices :: "string \<Rightarrow> (string, device_file) result"
  print_devices :: "device_file \<Rightarrow> (string, string) result"

definition state_of :: "(string, (string, unit) result \<times> 'k client_proof) io \<Rightarrow> world \<Rightarrow> 'k client_proof \<Rightarrow> 'k client_proof" where
  "state_of m w P = (case fst (m w) of Inr (_, P') \<Rightarrow> P' | Inl _ \<Rightarrow> P)"

fun proof_step :: "'k proof_setting \<Rightarrow> proof_event \<times> world \<Rightarrow> 'k client_proof \<Rightarrow> 'k client_proof" where
  "proof_step S (Claim gateway api_key on_demand, w) P = snd (claim_enrollment (proof_libs S) gateway api_key on_demand P)"
| "proof_step S (Activation gateway api_key i, w) P =
     state_of (record_device (proof_env S) (proof_process S) (proof_libs S) (parse_devices S) (print_devices S)
       gateway api_key i P) w P"
| "proof_step S (Revocation gateway api_key, w) P =
     state_of (record_revoked (proof_env S) (proof_process S) (proof_libs S) (parse_devices S) (print_devices S)
       gateway api_key P) w P"

definition proof_run :: "'k proof_setting \<Rightarrow> (proof_event \<times> world) list \<Rightarrow> 'k client_proof \<Rightarrow> 'k client_proof" where
  "proof_run S evs P = fold (proof_step S) evs P"

section \<open>What an update does to the records\<close>

lemma device_of_update:
  "device_of (AList.update g rs m) g' c = (if g' = g then map_of rs c else device_of m g' c)"
  by (simp add: device_of_def update_conv')

lemma device_of_records: "device_of m g c = map_of (records_of m g) c"
  by (simp add: device_of_def records_of_def split: option.split)

lemma merge_record_keeps:
  "is_revoked (map_of rs c) \<Longrightarrow> is_revoked (map_of (merge_record x rs) c)"
  by (cases x) (auto simp: merge_record_def update_conv' is_revoked_def merge_device_def split: option.splits)

lemma merge_records_keep: "is_revoked (map_of rs c) \<Longrightarrow> is_revoked (map_of (fold merge_record xs rs) c)"
  by (induction xs arbitrary: rs) (simp_all add: merge_record_keeps)

lemma merge_devices_keep: "is_revoked (device_of m g c) \<Longrightarrow> is_revoked (device_of (merge_devices other m) g c)"
  unfolding merge_devices_def
proof (induction other arbitrary: m)
  case (Cons x other)
  have "is_revoked (map_of (records_of m g) c)" using Cons.prems by (simp add: device_of_records)
  with Cons.prems have "is_revoked (device_of (merge_gateway x m) g c)"
    by (cases x) (auto simp: merge_gateway_def device_of_update merge_records_keep)
  with Cons.IH show ?case by simp
qed simp

lemma revoke_record_revokes: "is_revoked (map_of (revoke_record c rs) c)"
  by (auto simp: revoke_record_def Let_def update_conv' is_revoked_def map_of_map revoke_device_def split: option.split)

lemma revoke_record_keeps: "is_revoked (map_of rs c') \<Longrightarrow> is_revoked (map_of (revoke_record c rs) c')"
  by (auto simp: revoke_record_def Let_def update_conv' is_revoked_def map_of_map revoke_device_def split: option.splits)

lemma revoke_record_same_device:
  assumes "map_of (revoke_record c rs) c = Some d" and "map_of (revoke_record c rs) c' = Some d'"
    and "device_id d' = device_id d" and "device_id d \<noteq> None"
  shows "revoked d'"
proof (cases "c' = c")
  case True
  with assms revoke_record_revokes [of c rs] show ?thesis by (simp add: is_revoked_def)
next
  case False
  define old where "old = (case map_of rs c of Some d \<Rightarrow> d | None \<Rightarrow> no_device)"
  show ?thesis
  proof (cases "device_id old")
    case None
    with assms(1,4) show ?thesis
      by (auto simp: revoke_record_def Let_def update_conv' old_def [symmetric])
  next
    case (Some i)
    then have "d = revoke_device i (old\<lparr>revoked := True\<rparr>)"
      using assms(1) by (simp add: revoke_record_def Let_def update_conv' old_def [symmetric] map_of_map)
    then have "device_id d = Some i" using Some by (simp add: revoke_device_def)
    moreover obtain e where "map_of rs c' = Some e" "d' = revoke_device i e"
      using assms(2) False Some by (auto simp: revoke_record_def Let_def update_conv' old_def [symmetric] map_of_map)
    ultimately show ?thesis using assms(3) by (auto simp: revoke_device_def split: if_splits)
  qed
qed

lemma update_devices_state:
  "\<exists>on_disk. state_of (update_devices E process parse print gateway change P) w P =
     P\<lparr>devices := with_change gateway change (merge_devices on_disk (devices P))\<rparr>"
  by (simp add: state_of_def update_devices_def bind_io_def try_io_def ret_def Let_def split: prod.split sum.split)
    (metis surj_pair)


lemma state_of_record_device:
  "state_of (record_device E process L parse print gateway api_key i P) w P = P \<or>
   (\<exists>on_disk. state_of (record_device E process L parse print gateway api_key i P) w P =
     P\<lparr>devices := with_change gateway (record_active (sha256_hex L api_key) i) (merge_devices on_disk (devices P))\<rparr>)"
  using update_devices_state [of E process parse print gateway "record_active (sha256_hex L api_key) i" P w]
  by (cases "valid_device_id i") (simp_all add: record_device_def, simp add: state_of_def ret_def)

text \<open>What a step keeps: a revoked credential that is not activated again.\<close>

fun activates :: "'k proof_setting \<Rightarrow> string \<Rightarrow> string \<Rightarrow> proof_event \<times> world \<Rightarrow> bool" where
  "activates S gateway credential (Activation g k i, w) \<longleftrightarrow> g = gateway \<and> sha256_hex (proof_libs S) k = credential"
| "activates S gateway credential _ \<longleftrightarrow> False"

lemma with_change_keeps:
  assumes "is_revoked (device_of m g c)" and "g' = g \<Longrightarrow> is_revoked (map_of (change (records_of m g)) c)"
  shows "is_revoked (device_of (with_change g' change m) g c)"
  using assms by (auto simp: with_change_def device_of_update)

lemma claim_keeps_devices [simp]: "devices (snd (claim_enrollment L gateway api_key on_demand P)) = devices P"
  by (simp add: claim_enrollment_def Let_def)

lemma record_active_keeps: "is_revoked (map_of rs c) \<Longrightarrow> c' \<noteq> c \<Longrightarrow> is_revoked (map_of (record_active c' i rs) c)"
  by (simp add: record_active_def update_conv')

lemma changed_keeps:
  assumes "is_revoked (device_of (devices P) g c)"
    and "\<And>rs. g' = g \<Longrightarrow> is_revoked (map_of rs c) \<Longrightarrow> is_revoked (map_of (change rs) c)"
  shows "is_revoked (device_of (with_change g' change (merge_devices on_disk (devices P))) g c)"
proof (rule with_change_keeps)
  show m: "is_revoked (device_of (merge_devices on_disk (devices P)) g c)" using assms(1) by (rule merge_devices_keep)
  then show "is_revoked (map_of (change (records_of (merge_devices on_disk (devices P)) g)) c)" if "g' = g"
    using assms(2) [OF that] by (simp add: device_of_records)
qed

lemma proof_step_keeps_revoked:
  assumes "is_revoked (device_of (devices P) g c)" and "\<not> activates S g c x"
  shows "is_revoked (device_of (devices (proof_step S x P)) g c)"
proof -
  obtain ev w where x: "x = (ev, w)" by (cases x)
  show ?thesis
  proof (cases ev)
    case (Claim g' k b)
    with x assms show ?thesis by simp
  next
    case (Activation g' k i)
    have keep: "is_revoked (device_of (with_change g' (record_active (sha256_hex (proof_libs S) k) i)
        (merge_devices on_disk (devices P))) g c)" for on_disk
      using assms x Activation by (intro changed_keeps record_active_keeps) auto
    show ?thesis
      using state_of_record_device [of "proof_env S" "proof_process S" "proof_libs S" "parse_devices S" "print_devices S" g' k i P w]
        keep assms(1) x Activation by auto
  next
    case (Revocation g' k)
    have keep: "is_revoked (device_of (with_change g' (revoke_record (sha256_hex (proof_libs S) k))
        (merge_devices on_disk (devices P))) g c)" for on_disk
      using assms(1) by (intro changed_keeps revoke_record_keeps) auto
    show ?thesis
      using update_devices_state [of "proof_env S" "proof_process S" "parse_devices S" "print_devices S" g'
          "revoke_record (sha256_hex (proof_libs S) k)" P w] keep x Revocation
      by (auto simp: record_revoked_def)
  qed
qed

lemma proof_run_keeps_revoked:
  "is_revoked (device_of (devices P) g c) \<Longrightarrow> list_all (\<lambda>x. \<not> activates S g c x) evs \<Longrightarrow>
     is_revoked (device_of (devices (proof_run S evs P)) g c)"
  unfolding proof_run_def
  by (induction evs arbitrary: P) (simp_all add: proof_step_keeps_revoked)

lemma revoked_is_unsigned: "is_revoked (device L P gateway api_key) \<Longrightarrow> sign_request L now nonce P gateway verb target api_key = None"
  by (simp add: sign_request_def is_revoked_def split: option.splits)

text \<open>
  C36: Revocation lasts.  After the answer that a device is revoked, the process signs no request with
  that credential, nor with any credential it knows for the same device, through any further claims and
  answers, whatever other processes and failures do to the files in between, until the gateway activates
  that very credential again.
\<close>

theorem revocation_lasts:
  assumes "P' = proof_step S (Revocation gateway api_key, w) P"
    and "device (proof_libs S) P' gateway api_key = Some d"
    and "device (proof_libs S) P' gateway other_key = Some d'"
    and "other_key = api_key \<or> (device_id d \<noteq> None \<and> device_id d' = device_id d)"
    and "list_all (\<lambda>x. \<not> activates S gateway (sha256_hex (proof_libs S) other_key) x) evs"
  shows "sign_request (proof_libs S) now nonce (proof_run S evs P') gateway verb target other_key = None"
proof -
  let ?c = "sha256_hex (proof_libs S) api_key" and ?c' = "sha256_hex (proof_libs S) other_key"
  obtain on_disk where "devices P' = with_change gateway (revoke_record ?c) (merge_devices on_disk (devices P))"
    using update_devices_state [of "proof_env S" "proof_process S" "parse_devices S" "print_devices S" gateway
        "revoke_record ?c" P w] assms(1) by (auto simp: record_revoked_def)
  then obtain rs where dev: "device_of (devices P') gateway c = map_of (revoke_record ?c rs) c" for c
    by (simp add: with_change_def device_of_update)
  have "is_revoked (device_of (devices P') gateway ?c')"
    using assms(2-4) revoke_record_revokes [of ?c rs] revoke_record_same_device [of ?c rs d ?c' d']
    by (auto simp: device_def dev is_revoked_def)
  from proof_run_keeps_revoked [OF this assms(5)] show ?thesis
    by (intro revoked_is_unsigned) (simp add: device_def)
qed

text \<open>A recorded device counts at once, also when the lock or the file could not be had.\<close>

lemma recorded_device_counts:
  assumes "valid_device_id i"
  shows "device L (state_of (record_device E process L parse print gateway api_key i P) w P) gateway api_key =
    Some \<lparr>device_id = Some i, revoked = False\<rparr>"
proof -
  obtain on_disk where "state_of (record_device E process L parse print gateway api_key i P) w P =
      P\<lparr>devices := with_change gateway (record_active (sha256_hex L api_key) i) (merge_devices on_disk (devices P))\<rparr>"
    using update_devices_state [of E process parse print gateway "record_active (sha256_hex L api_key) i" P w] assms
    by (auto simp: record_device_def)
  then show ?thesis by (simp add: device_def with_change_def device_of_update record_active_def update_conv')
qed

section \<open>Claims\<close>

text \<open>The claims a run accepts, with whether they were made on demand.\<close>

fun accepted :: "'k proof_setting \<Rightarrow> (proof_event \<times> world) list \<Rightarrow> 'k client_proof \<Rightarrow> ((string \<times> string) \<times> bool) list" where
  "accepted S [] P = []"
| "accepted S (x # evs) P =
     (case x of
        (Claim g k b, w) \<Rightarrow>
          (if fst (claim_enrollment (proof_libs S) g k b P) then [((g, sha256_hex (proof_libs S) k), b)] else [])
      | _ \<Rightarrow> []) @ accepted S evs (proof_step S x P)"

lemma state_of_claims:
  "claimed (state_of (record_device E process L parse print gateway api_key i P) w P) = claimed P"
  "on_demand_claims (state_of (record_device E process L parse print gateway api_key i P) w P) = on_demand_claims P"
  "claimed (state_of (record_revoked E process L parse print gateway api_key P) w P) = claimed P"
  "on_demand_claims (state_of (record_revoked E process L parse print gateway api_key P) w P) = on_demand_claims P"
proof -
  obtain m where "state_of (record_revoked E process L parse print gateway api_key P) w P = P\<lparr>devices := m\<rparr>"
    using update_devices_state [of E process parse print gateway "revoke_record (sha256_hex L api_key)" P w]
    unfolding record_revoked_def by blast
  then show "claimed (state_of (record_revoked E process L parse print gateway api_key P) w P) = claimed P"
    "on_demand_claims (state_of (record_revoked E process L parse print gateway api_key P) w P) = on_demand_claims P"
    by simp_all
qed (use state_of_record_device [of E process L parse print gateway api_key i P w] in auto)

lemma accepted_claims:
  assumes "on_demand_claims P \<le> max_on_demand_enrollments"
  shows "distinct (map fst (accepted S evs P)) \<and> set (map fst (accepted S evs P)) \<inter> set (claimed P) = {} \<and>
    on_demand_claims P + length (filter snd (accepted S evs P)) \<le> max_on_demand_enrollments"
  using assms
proof (induction evs arbitrary: P)
  case (Cons x evs)
  obtain ev w where x: "x = (ev, w)" by (cases x)
  show ?case
  proof (cases ev)
    case (Claim g k b)
    show ?thesis
    proof (cases "fst (claim_enrollment (proof_libs S) g k b P)")
      case False
      then have "proof_step S x P = P" by (auto simp: x Claim claim_enrollment_def Let_def split: if_splits)
      with False Cons show ?thesis by (simp add: x Claim)
    next
      case True
      let ?c = "(g, sha256_hex (proof_libs S) k)"
      from True have step: "claimed (proof_step S x P) = ?c # claimed P" "?c \<notin> set (claimed P)"
        "on_demand_claims (proof_step S x P) = on_demand_claims P + (if b then 1 else 0)"
        "b \<longrightarrow> on_demand_claims P < max_on_demand_enrollments"
        by (auto simp: x Claim claim_enrollment_def Let_def split: if_splits)
      then have "on_demand_claims (proof_step S x P) \<le> max_on_demand_enrollments" using Cons.prems by auto
      from Cons.IH [OF this] step True show ?thesis by (auto simp: x Claim)
    qed
  next
    case (Activation g k i)
    with x have "claimed (proof_step S x P) = claimed P" "on_demand_claims (proof_step S x P) = on_demand_claims P"
      by (simp_all add: state_of_claims)
    with Cons.IH [of "proof_step S x P"] Cons.prems x Activation show ?thesis by simp
  next
    case (Revocation g k)
    with x have "claimed (proof_step S x P) = claimed P" "on_demand_claims (proof_step S x P) = on_demand_claims P"
      by (simp_all add: state_of_claims)
    with Cons.IH [of "proof_step S x P"] Cons.prems x Revocation show ?thesis by simp
  qed
qed simp


section \<open>Examples\<close>

definition example_libraries :: "unit proof_libraries" where
  "example_libraries = \<lparr>sha256_hex = id, ecdsa_sign = (\<lambda>_. id), public_point = (\<lambda>_. ''p''), base64_url = id,
     base64_standard = id, base64_decode = Some, key_from_seed = (\<lambda>_. Some ()), key_to_pkcs8 = (\<lambda>_. Some ''k''),
     key_from_pkcs8 = (\<lambda>_. Some ()), json_parse = (\<lambda>_. None)\<rparr>"

definition example_setting :: "unit proof_setting" where
  "example_setting = \<lparr>proof_env = calm_env, proof_process = ''1'', proof_libs = example_libraries,
     parse_devices = (\<lambda>_. Inl ''''), print_devices = (\<lambda>_. Inr [])\<rparr>"

definition example_device :: gateway_device where
  "example_device = \<lparr>device_id = Some ''cd_0123456789012345678901'', revoked = False\<rparr>"

definition example_proof :: "unit client_proof" where
  "example_proof = \<lparr>proof_dir = [''d''], device_key = (), public_key = ''p'', public_key_sha256 = ''p'',
     devices = [(''g'', [(''one'', example_device), (''two'', example_device)])], claimed = [], on_demand_claims = 0\<rparr>"

definition example_proof_world :: world where
  "example_proof_world = world_of [([''d''], private_dir 1)]"

theorem revocation_lasts_witness:
  "sign_request example_libraries 5 (Some ''n'') example_proof ''g'' ''GET'' ''/'' ''two'' \<noteq> None \<and>
   sign_request example_libraries 5 (Some ''n'')
     (proof_run example_setting [(Claim ''g'' ''two'' True, example_proof_world)]
       (proof_step example_setting (Revocation ''g'' ''one'', example_proof_world) example_proof)) ''g'' ''GET'' ''/'' ''two'' = None"
proof
  show "sign_request example_libraries 5 (Some ''n'') example_proof ''g'' ''GET'' ''/'' ''two'' \<noteq> None" by code_simp
  let ?P = "proof_step example_setting (Revocation ''g'' ''one'', example_proof_world) example_proof"
  have libs: "proof_libs example_setting = example_libraries" by (simp add: example_setting_def)
  have d: "device (proof_libs example_setting) ?P ''g'' ''one'' = Some (example_device\<lparr>revoked := True\<rparr>)"
    "device (proof_libs example_setting) ?P ''g'' ''two'' = Some (example_device\<lparr>revoked := True\<rparr>)" by code_simp+
  have "list_all (\<lambda>x. \<not> activates example_setting ''g'' (sha256_hex (proof_libs example_setting) ''two'') x)
      [(Claim ''g'' ''two'' True, example_proof_world)]" by simp
  from revocation_lasts [OF refl d _ this] libs
  show "sign_request example_libraries 5 (Some ''n'')
      (proof_run example_setting [(Claim ''g'' ''two'' True, example_proof_world)] ?P) ''g'' ''GET'' ''/'' ''two'' = None"
    by (simp add: example_device_def)
qed

definition example_claims :: "(proof_event \<times> world) list" where
  "example_claims = [(Claim ''g'' ''one'' True, example_proof_world), (Claim ''g'' ''one'' False, example_proof_world)]"


theorem enrollment_returns_witness:
  "enroll calm_env ''1'' example_libraries (\<lambda>_. Inl '''') (\<lambda>_. Inr []) (\<lambda>n. if n < 2 then SendError ''x'' else EnrollReply 429 [])
     enroll_backoff ''g'' ''three'' example_proof example_proof_world \<noteq> None"
proof -
  have "\<not> is_retry (enroll_once (json_parse example_libraries) (EnrollReply 429 []))" by code_simp
  then have "\<exists>n :: nat. \<not> is_retry (enroll_once (json_parse example_libraries)
      (if n < 2 then SendError ''x'' else EnrollReply 429 []))"
    by (intro exI [of _ 2]) simp
  moreover have "enroll_backoff \<noteq> []" by (simp add: enroll_backoff_def)
  ultimately show ?thesis using enrollment_returns by blast
qed

theorem proof_message_identifies_request_witness:
  "proof_message id ''get'' ''/a'' 5 ''n'' ''k'' = proof_message id ''GET'' ''/a'' 5 ''n'' ''k'' \<and>
     to_ascii_uppercase ''get'' = to_ascii_uppercase ''GET''"
proof
  show m: "proof_message id ''get'' ''/a'' 5 ''n'' ''k'' = proof_message id ''GET'' ''/a'' 5 ''n'' ''k''" by code_simp
  show "to_ascii_uppercase ''get'' = to_ascii_uppercase ''GET''"
    using proof_message_identifies_request [OF m] by simp
qed

end
