(* ===== verification/Spec2Isabelle.thy ===== *)
theory Spec2Isabelle
  imports Provisioning_Examples Core_Examples Cli_Examples Proxy_Clients Proxy_Examples Client_Runs
begin

text \<open>
  A model of the SaiAI client: the core library \<open>src/tools/saiai-core/src\<close>, and of the command line client
  \<open>src/tools/saiai-cli/src\<close> the local proxy (\<open>local_proxy.rs\<close>), the upstream proxy (\<open>upstream_proxy.rs\<close>) and the
  client proof (\<open>client_proof.rs\<close>).  File and function names below are under these two directories.

  \<^bold>\<open>The program.\<close>  The core keeps an installation: three directories (configuration, data, state) in which a
  transaction installs, replaces and revokes the setup of a product (Claude or Codex), with credentials,
  generated client files and leases that keep a generation alive while a launcher uses it.  The local proxy
  stands between the clients and the network: it intercepts the hosts of the managed products, answers
  some requests itself, forwards the others to the gateway with the credential of the installation and
  tunnels the rest.  Every outgoing connection asks the upstream proxy whether to go directly or through the
  proxy of the user, and every request to the gateway may carry a client proof signed by the device.

  \<^bold>\<open>Theories of the core.\<close>
  \<^item> \<open>Prelude\<close>: strings as lists of UTF-8 bytes, trimming, splitting, numbers, results and the \<open>keyed_store\<close>
    interface, which \<open>Filesystem\<close> and \<open>Configuration\<close> interpret.
  \<^item> \<open>Core_Model\<close> (\<open>model.rs\<close>, \<open>error.rs\<close>), \<open>References\<close> (\<open>GenerationRef\<close>, \<open>CredentialRef\<close>, \<open>SecretString\<close>),
    \<open>Gateway\<close> (\<open>GatewayUrl\<close>) and \<open>Configuration\<close> (\<open>config.rs\<close>).
  \<^item> \<open>Filesystem\<close>: a world of nodes, locks and draws of the random generator; every system call may fail when
    the fault list says so.  \<open>Fs_Util\<close> (\<open>fsutil.rs\<close>), \<open>App_Paths\<close> (\<open>paths.rs\<close>), \<open>Rooted_Trees\<close> (what such an
    operation leaves of the tree).
  \<^item> \<open>Credential_Store\<close> (\<open>credentials.rs\<close>) with the interface \<open>credential_storage\<close>, \<open>Leases\<close> (\<open>lease.rs\<close>),
    \<open>Artifacts\<close> (\<open>artifacts.rs\<close>).
  \<^item> \<open>Setup_State\<close>, \<open>Transaction_Lock\<close>, \<open>Transaction\<close>, \<open>Revocation\<close> (\<open>setup.rs\<close>): what an installation holds,
    the lock, a setup and a revocation with every step that can fail; \<open>Setup_Success\<close>, \<open>Setup_Safety\<close>,
    \<open>Revocation_Safety\<close>, \<open>Revocation_Full\<close> prove what they guarantee, \<open>Setup_Examples\<close> and
    \<open>Revocation_Examples\<close> run them on concrete machines.

  \<^bold>\<open>Theories of the client.\<close>
  \<^item> \<open>Ip_Address\<close>, \<open>Proxy_Endpoint\<close>, \<open>Proxy_Bypass\<close>, \<open>Proxy_Policy\<close>, \<open>Proxy_Resolver\<close>, \<open>Proxy_Tunnel\<close>, \<open>Proxy_Clients\<close>
    (\<open>upstream_proxy.rs\<close>): from the settings of the environment, Windows and macOS to a policy, from the policy
    to a route, and the tunnel through the proxy that was found.
  \<^item> \<open>Http_Message\<close>, \<open>Http_Framing\<close>: the request reader of \<open>local_proxy.rs\<close> on a stream that ends, stalls or breaks;
    the interface \<open>chunk_sizes\<close> of the chunked format, interpreted by lower and by upper case sizes.
  \<^item> \<open>Proxy_Hosts\<close>, \<open>Proxy_Headers\<close>, \<open>Proxy_Paths\<close>, \<open>Proxy_Identity\<close>, \<open>Proxy_Websocket\<close>, \<open>Proxy_Connection\<close>,
    \<open>Proxy_Serving\<close>: the handlers of \<open>local_proxy.rs\<close> from \<open>handle_client\<close> down.  The state of a handler (\<open>conn\<close>) is
    the bytes written to the client, the contacts made with other servers and the device proof; the
    configuration is \<open>proxy_state\<close> (\<open>State\<close>).  \<open>Proxy_Guarantees\<close> shows of every handler which contacts it can
    add, \<open>Proxy_Responses\<close> draws the properties from it, \<open>Proxy_Examples\<close> runs it.
  \<^item> \<open>Json\<close>, \<open>Cli_Files\<close>, \<open>Client_Proof\<close>, \<open>Client_Enrollment\<close>, \<open>Client_Runs\<close> (\<open>client_proof.rs\<close>): key and device
    files, claims, signing and enrollment, and one process over time beside others.

  \<^bold>\<open>What is shown.\<close>  A setup that succeeds commits, one that fails is undone or leaves a reported journal; a
  revocation that fails loses no file and a full one leaves nothing; an atomic write is all or nothing;
  credentials behave as a map; leases exclude each other; what is parsed is well formed and round trips;
  the client is never its own upstream proxy and a broken proxy setting never means a direct connection;
  the local proxy contacts no telemetry host, sends managed traffic only to the gateway with the right
  credential and relays bodies unchanged; a revoked device proof stays revoked.

  \<^bold>\<open>Parameters.\<close>  Code that is not part of the repository is an argument: the \<open>url\<close> crate (\<open>parse_url\<close>), \<open>serde_json\<close>
  and the TOML and X.509 crates, base64, the hash and signature functions, \<open>reqwest\<close>, \<open>rustls\<close> and \<open>tungstenite\<close>
  (the record \<open>network\<close>, asked at consecutive moments so that its answers are arbitrary).  Texts of errors of
  the standard library are shortened; nothing depends on them but where the code looks into them.

  \<^bold>\<open>Bounds.\<close>  Recursion is structural or has a measure, with these exceptions: a request is read from a stream
  that may stall, so a reading is an option; the glob matcher is a partial function proved total on every
  input; acquiring the transaction lock retries in rounds, eight in the model, and reports the lock as
  busy after them; a new device key is drawn at most sixteen times and at most sixteen enrollments start on
  demand, as in the code; the enrollment loop is a function of the list of answers, and returns exactly when
  one of them is definite.

  \<^bold>\<open>Not modelled.\<close>  The builds for Windows where they differ (\<open>windows_acl.rs\<close>, \<open>windows_background.rs\<close>,
  \<open>windows_desktop_runtime.rs\<close>), since their calls go to the operating system; starting and stopping processes
  and services (\<open>claude_launcher.rs\<close>, \<open>codex_daemon.rs\<close>, \<open>client_program.rs\<close>, most of \<open>main.rs\<close>); TLS (\<open>upstream_tls.rs\<close>,
  signing of leaf certificates); interleavings inside one connection, since a handler awaits each step;
  logging, tracing and timing.
\<close>

end
